(* ===== verification/Prelude.thy ===== *)
theory Prelude
  imports Complex_Main "HOL-Library.Multiset" "HOL-Library.Word"
begin

text \<open>
  What every component of the model shares: the JavaScript values the code computes with
  (strings, numbers, JSON), the parts of the language's library it calls (trimming,
  splitting, padding, URI encoding, number parsing, stable sorting), results that carry a
  thrown error, and generic lemmas about them.

  Strings are character lists, one character per UTF-16 code unit; the model covers the
  code units below 256. The three characters of the modelled texts outside that range are
  stood for by code units the texts do not use: \<open>ellipsis\<close>, \<open>at_most_sign\<close> and \<open>em_dash\<close>.
  Numbers are reals with the three non-finite values of \<open>jsnum\<close>; rounding of doubles is
  not modelled.
\<close>

named_theorems js_string \<open>definitions of the string library\<close>
named_theorems js_value \<open>readers of JSON values\<close>

subsection \<open>Results\<close>

text \<open>A thrown \<open>Error\<close> is its message; anything else that is thrown has none.\<close>

datatype js_error = Error string | Thrown

type_synonym 'a result = "js_error + 'a"

fun err_message :: "string \<Rightarrow> js_error \<Rightarrow> string" where
  "err_message dflt (Error m) = m"
| "err_message dflt Thrown = dflt"

subsection \<open>Numbers and JSON values\<close>

datatype jsnum = Fin real | PInf | NInf | NaN

fun is_finite :: "jsnum \<Rightarrow> bool" where
  "is_finite (Fin _) = True"
| "is_finite _ = False"

datatype json =
    JNull
  | JBool bool
  | JNum jsnum
  | JStr string
  | JArr "json list"
  | JObj "(string \<times> json) list"

text \<open>Property lookup on a value already known not to be \<open>null\<close>; \<open>None\<close> is
  \<open>undefined\<close>. A repeated key of JSON text keeps its last value, which the parsed
  object holds first.\<close>

fun jget :: "json \<Rightarrow> string \<Rightarrow> json option" where
  "jget (JObj kvs) k = map_of kvs k"
| "jget _ k = None"

definition is_object :: "json \<Rightarrow> bool" where
  \<comment> \<open>\<open>v \<and> typeof v === 'object'\<close>: arrays are objects, \<open>null\<close> is falsy.\<close>
  "is_object v = (case v of JArr _ \<Rightarrow> True | JObj _ \<Rightarrow> True | _ \<Rightarrow> False)"

fun as_str :: "json option \<Rightarrow> string option" where
  "as_str (Some (JStr s)) = Some s"
| "as_str _ = None"

fun as_num :: "json option \<Rightarrow> jsnum option" where
  "as_num (Some (JNum x)) = Some x"
| "as_num _ = None"

lemma as_str_Some [js_value]: "as_str j = Some s \<longleftrightarrow> j = Some (JStr s)"
  by (cases "(j)" rule: as_str.cases) auto

lemma as_num_Some [js_value]: "as_num j = Some x \<longleftrightarrow> j = Some (JNum x)"
  by (cases "(j)" rule: as_num.cases) auto

text \<open>\<open>s || undefined\<close>: the empty string is falsy.\<close>

fun truthy :: "string option \<Rightarrow> bool" where
  "truthy None = False"
| "truthy (Some s) = (s \<noteq> [])"

lemma truthy_iff: "truthy s \<longleftrightarrow> (\<exists>x. s = Some x \<and> x \<noteq> [])"
  by (cases s) auto

fun truthy_json :: "json option \<Rightarrow> bool" where
  "truthy_json None = False"
| "truthy_json (Some JNull) = False"
| "truthy_json (Some (JBool b)) = b"
| "truthy_json (Some (JNum x)) = (x \<noteq> Fin 0 \<and> x \<noteq> NaN)"
| "truthy_json (Some (JStr s)) = (s \<noteq> [])"
| "truthy_json (Some _) = True"

definition or_default :: "'a option \<Rightarrow> 'a \<Rightarrow> 'a" where
  \<comment> \<open>\<open>x ?? d\<close>\<close>
  "or_default x d = (case x of None \<Rightarrow> d | Some y \<Rightarrow> y)"

lemma or_default_simps [simp]:
  "or_default None d = d" "or_default (Some y) d = y"
  by (simp_all add: or_default_def)

subsection \<open>Characters and strings\<close>

definition ellipsis :: char where
  "ellipsis = CHR 0x85"

definition at_most_sign :: char where
  "at_most_sign = CHR 0x86"

definition em_dash :: char where
  "em_dash = CHR 0x97"

definition code :: "char \<Rightarrow> nat" where
  "code c = of_char c"

definition is_ws :: "char \<Rightarrow> bool" where
  \<comment> \<open>white space and line terminators below code unit 256\<close>
  "is_ws c = (let n = code c in 9 \<le> n \<and> n \<le> 13 \<or> n = 32 \<or> n = 160)"

definition trim :: "string \<Rightarrow> string" where
  "trim s = rev (dropWhile is_ws (rev (dropWhile is_ws s)))"

definition lower_char :: "char \<Rightarrow> char" where
  "lower_char c = (let n = code c in
     if 65 \<le> n \<and> n \<le> 90 \<or> 192 \<le> n \<and> n \<le> 222 \<and> n \<noteq> 215 then char_of (n + 32) else c)"

definition to_lower :: "string \<Rightarrow> string" where
  "to_lower s = map lower_char s"

definition is_digit :: "char \<Rightarrow> bool" where
  "is_digit c = (48 \<le> code c \<and> code c \<le> 57)"

definition is_hex :: "char \<Rightarrow> bool" where
  "is_hex c = (let n = code c in
     48 \<le> n \<and> n \<le> 57 \<or> 65 \<le> n \<and> n \<le> 70 \<or> 97 \<le> n \<and> n \<le> 102)"

definition is_lower_hex :: "char \<Rightarrow> bool" where
  "is_lower_hex c = (let n = code c in 48 \<le> n \<and> n \<le> 57 \<or> 97 \<le> n \<and> n \<le> 102)"

definition hex0x :: "nat \<Rightarrow> string \<Rightarrow> bool" where
  \<comment> \<open>\<open>/^0x[0-9a-fA-F]{n}$/\<close>\<close>
  "hex0x n s = (take 2 s = ''0x'' \<and> length s = n + 2 \<and> list_all is_hex (drop 2 s))"

definition lower_hex0x :: "nat \<Rightarrow> string \<Rightarrow> bool" where
  \<comment> \<open>\<open>/^0x[0-9a-f]{n}$/\<close>\<close>
  "lower_hex0x n s = (take 2 s = ''0x'' \<and> length s = n + 2 \<and> list_all is_lower_hex (drop 2 s))"

definition strip_slashes :: "string \<Rightarrow> string" where
  \<comment> \<open>\<open>s.replace(/\/+$/, '')\<close>\<close>
  "strip_slashes s = rev (dropWhile ((=) CHR ''/'') (rev s))"

definition starts_with :: "string \<Rightarrow> string \<Rightarrow> bool" where
  "starts_with p s = (take (length p) s = p)"

fun contains :: "string \<Rightarrow> string \<Rightarrow> bool" where
  \<comment> \<open>\<open>s.includes(p)\<close>\<close>
  "contains p [] = (p = [])"
| "contains p (c # s) = (starts_with p (c # s) \<or> contains p s)"

definition slice_end :: "nat \<Rightarrow> string \<Rightarrow> string" where
  \<comment> \<open>\<open>s.slice(-n)\<close> for \<open>n > 0\<close>\<close>
  "slice_end n s = drop (length s - n) s"

definition pad_start :: "nat \<Rightarrow> char \<Rightarrow> string \<Rightarrow> string" where
  "pad_start n c s = replicate (n - length s) c @ s"

definition pad_end :: "nat \<Rightarrow> char \<Rightarrow> string \<Rightarrow> string" where
  "pad_end n c s = s @ replicate (n - length s) c"

fun split_on :: "char \<Rightarrow> string \<Rightarrow> string list" where
  "split_on c [] = [[]]"
| "split_on c (x # xs) =
     (if x = c then [] # split_on c xs
      else (case split_on c xs of [] \<Rightarrow> [[x]] | p # ps \<Rightarrow> (x # p) # ps))"

fun join_with :: "string \<Rightarrow> string list \<Rightarrow> string" where
  "join_with sep [] = []"
| "join_with sep [x] = x"
| "join_with sep (x # y # zs) = x @ sep @ join_with sep (y # zs)"

lemmas [js_string] = trim_def to_lower_def strip_slashes_def starts_with_def slice_end_def
  pad_start_def pad_end_def

lemma split_on_ne [simp]: "split_on c s \<noteq> []"
  by (induction s) (auto split: list.splits)

lemma join_split_on: "join_with [c] (split_on c s) = s"
proof (induction s)
  case (Cons x xs)
  obtain p ps where "split_on c xs = p # ps" by (cases "split_on c xs") auto
  with Cons show ?case by (cases ps) auto
qed simp

lemma split_on_no_sep: "p \<in> set (split_on c s) \<Longrightarrow> c \<notin> set p"
  by (induction s arbitrary: p) (auto split: list.splits if_splits)

lemma split_on_single: "c \<notin> set s \<Longrightarrow> split_on c s = [s]"
  by (induction s) auto

lemma split_on_append: "c \<notin> set a \<Longrightarrow> split_on c (a @ c # s) = a # split_on c s"
  by (induction a) auto

lemma split_join:
  assumes "xs \<noteq> []" "\<And>x. x \<in> set xs \<Longrightarrow> c \<notin> set x"
  shows "split_on c (join_with [c] xs) = xs"
  using assms
proof (induction "[c]" xs rule: join_with.induct)
  case (2 x)
  then show ?case by (simp add: split_on_single)
next
  case (3 x y zs)
  then show ?case by (simp add: split_on_append)
qed simp

lemma set_join: "set (join_with sep xs) \<subseteq> set sep \<union> (\<Union>x \<in> set xs. set x)"
  by (induction sep xs rule: join_with.induct) auto

lemma dropWhile_none: "(\<And>x. x \<in> set xs \<Longrightarrow> \<not> P x) \<Longrightarrow> dropWhile P xs = xs"
  by (cases xs) auto

lemma trim_id:
  assumes "\<And>c. c \<in> set s \<Longrightarrow> \<not> is_ws c"
  shows "trim s = s"
proof -
  have "dropWhile is_ws s = s" and "dropWhile is_ws (rev s) = rev s"
    by (auto intro!: dropWhile_none dest: assms)
  then show ?thesis by (simp add: trim_def)
qed

lemma strip_slashes_idem [simp]: "strip_slashes (strip_slashes s) = strip_slashes s"
  by (simp add: strip_slashes_def dropWhile_idem)

lemma strip_slashes_no_slash: "strip_slashes s = [] \<or> last (strip_slashes s) \<noteq> CHR ''/''"
proof (cases "dropWhile ((=) CHR ''/'') (rev s)")
  case (Cons x xs)
  then have "x \<noteq> CHR ''/''" by (metis (full_types) dropWhile_eq_Cons_conv)
  with Cons show ?thesis by (simp add: strip_slashes_def)
qed (simp add: strip_slashes_def)

lemma strip_slashes_snoc [simp]: "strip_slashes (s @ ''/'') = strip_slashes s"
  by (simp add: strip_slashes_def)

lemma strip_slashes_id: "s = [] \<or> last s \<noteq> CHR ''/'' \<Longrightarrow> strip_slashes s = s"
  by (cases s rule: rev_cases) (auto simp: strip_slashes_def)

lemma length_pad_end: "length (pad_end n c s) = max n (length s)"
  by (simp add: pad_end_def)

lemma length_pad_start: "length (pad_start n c s) = max n (length s)"
  by (simp add: pad_start_def)

end
