(* ===== verification/JsSort.thy ===== *)
theory JsSort
  imports Prelude
begin

text \<open>
  \<open>Array.prototype.sort\<close> with a comparison function. The language fixes only that the
  sort is stable and reads the sign of the comparison, so the sign is what a comparison
  returns here; stable insertion gives the one result the language allows for a
  consistent comparison (\<open>sort_unique\<close>). The locale \<open>js_comparator\<close> is what a consistent
  comparison promises; the ranking and probing components interpret it.
\<close>

datatype sign = Neg | Zero | Pos

definition num_cmp :: "'a::linorder \<Rightarrow> 'a \<Rightarrow> sign" where
  \<comment> \<open>the sign of \<open>a - b\<close>\<close>
  "num_cmp a b = (if a < b then Neg else if a = b then Zero else Pos)"

fun flip_sign :: "sign \<Rightarrow> sign" where
  "flip_sign Neg = Pos"
| "flip_sign Zero = Zero"
| "flip_sign Pos = Neg"

fun or_else :: "sign \<Rightarrow> sign \<Rightarrow> sign" where
  \<comment> \<open>\<open>if (c \<noteq> 0) return c; return d;\<close>\<close>
  "or_else Zero d = d"
| "or_else c d = c"

fun js_insert :: "('a \<Rightarrow> 'a \<Rightarrow> sign) \<Rightarrow> 'a \<Rightarrow> 'a list \<Rightarrow> 'a list" where
  "js_insert cmp x [] = [x]"
| "js_insert cmp x (y # ys) = (if cmp x y = Pos then y # js_insert cmp x ys else x # y # ys)"

fun js_sort :: "('a \<Rightarrow> 'a \<Rightarrow> sign) \<Rightarrow> 'a list \<Rightarrow> 'a list" where
  "js_sort cmp [] = []"
| "js_sort cmp (x # xs) = js_insert cmp x (js_sort cmp xs)"

lemma mset_js_insert [simp]: "mset (js_insert cmp x xs) = add_mset x (mset xs)"
  by (induction xs) auto

lemma mset_js_sort [simp]: "mset (js_sort cmp xs) = mset xs"
  by (induction xs) auto

lemma set_js_insert [simp]: "set (js_insert cmp x xs) = insert x (set xs)"
  by (metis mset_js_insert set_mset_add_mset_insert set_mset_mset)

lemma set_js_sort [simp]: "set (js_sort cmp xs) = set xs"
  by (metis mset_js_sort set_mset_mset)

lemma length_js_sort [simp]: "length (js_sort cmp xs) = length xs"
  by (metis mset_js_sort size_mset)

lemma js_sort_Nil_iff [simp]: "js_sort cmp xs = [] \<longleftrightarrow> xs = []"
  by (metis length_0_conv length_js_sort)

lemma js_insert_cong: "(\<And>y. y \<in> set ys \<Longrightarrow> c x y = d x y) \<Longrightarrow> js_insert c x ys = js_insert d x ys"
  by (induction ys) auto

lemma js_sort_cong:
  "(\<And>x y. x \<in> set xs \<Longrightarrow> y \<in> set xs \<Longrightarrow> c x y = d x y) \<Longrightarrow> js_sort c xs = js_sort d xs"
proof (induction xs)
  case (Cons x xs)
  then have "js_sort c xs = js_sort d xs" by simp
  moreover have "js_insert c x ys = js_insert d x ys" if "set ys = set xs" for ys
    using Cons.prems that by (intro js_insert_cong) auto
  ultimately show ?case by simp
qed simp

lemma js_insert_map: "map f (js_insert (\<lambda>a b. cmp (f a) (f b)) x xs) = js_insert cmp (f x) (map f xs)"
  by (induction xs) auto

lemma js_sort_map: "map f (js_sort (\<lambda>a b. cmp (f a) (f b)) xs) = js_sort cmp (map f xs)"
  by (induction xs) (simp_all add: js_insert_map)

lemma num_cmp_simps [simp]:
  "num_cmp a b = Neg \<longleftrightarrow> a < b" "num_cmp a b = Zero \<longleftrightarrow> a = b" "num_cmp a b = Pos \<longleftrightarrow> b < a"
  by (auto simp: num_cmp_def)

lemma num_cmp_flip: "num_cmp a b = flip_sign (num_cmp b a)"
  by (auto simp: num_cmp_def)

lemma or_else_Zero [simp]: "or_else c d = Zero \<longleftrightarrow> c = Zero \<and> d = Zero"
  by (cases c) auto

lemma or_else_Pos [simp]: "or_else c d = Pos \<longleftrightarrow> c = Pos \<or> c = Zero \<and> d = Pos"
  by (cases c) auto

lemma or_else_assoc: "or_else (or_else c d) e = or_else c (or_else d e)"
  by (cases c) auto

text \<open>
  Breaking ties by the position in the input adds nothing to a stable sort: the components
  that carry an index for it sort as if they did not.
\<close>

lemma js_insert_index:
  assumes "\<And>y. y \<in> set ys \<Longrightarrow> idx x < (idx y :: nat)"
  shows "js_insert (\<lambda>s t. or_else (cmp s t) (num_cmp (idx s) (idx t))) x ys = js_insert cmp x ys"
  using assms
proof (induction ys)
  case (Cons y ys)
  then have "idx x < idx y" by simp
  then have "or_else (cmp x y) (num_cmp (idx x) (idx y)) = Pos \<longleftrightarrow> cmp x y = Pos" by auto
  with Cons show ?case by simp
qed simp

lemma js_sort_index:
  assumes "sorted_wrt (\<lambda>s t. idx s < (idx t :: nat)) ss"
  shows "js_sort (\<lambda>s t. or_else (cmp s t) (num_cmp (idx s) (idx t))) ss = js_sort cmp ss"
  using assms
proof (induction ss)
  case (Cons a ss)
  have "js_insert (\<lambda>s t. or_else (cmp s t) (num_cmp (idx s) (idx t))) a (js_sort cmp ss) =
      js_insert cmp a (js_sort cmp ss)"
    by (rule js_insert_index) (use Cons.prems in simp)
  with Cons show ?case by simp
qed simp

lemma flip_or_else: "flip_sign (or_else c d) = or_else (flip_sign c) (flip_sign d)"
  by (cases c) auto

locale js_comparator =
  fixes cmp :: "'a \<Rightarrow> 'a \<Rightarrow> sign"
  assumes cmp_flip: "cmp x y = flip_sign (cmp y x)"
    and cmp_trans: "cmp x y \<noteq> Pos \<Longrightarrow> cmp y z \<noteq> Pos \<Longrightarrow> cmp x z \<noteq> Pos"
begin

lemma cmp_self: "cmp x x = Zero"
  using cmp_flip [of x x] by (cases "cmp x x") auto

lemma cmp_pos: "cmp x y = Pos \<Longrightarrow> cmp y x = Neg"
  using cmp_flip [of y x] by simp

lemma cmp_zero_sym: "cmp x y = Zero \<Longrightarrow> cmp y x = Zero"
  using cmp_flip [of y x] by simp

lemma cmp_zero_trans: "cmp x y = Zero \<Longrightarrow> cmp y z = Zero \<Longrightarrow> cmp x z = Zero"
proof -
  assume xy: "cmp x y = Zero" and yz: "cmp y z = Zero"
  then have "cmp x z \<noteq> Pos" using cmp_trans [of x y z] by simp
  moreover from xy yz have "cmp z x \<noteq> Pos"
    using cmp_trans [of z y x] by (simp add: cmp_zero_sym)
  ultimately show ?thesis using cmp_flip [of z x] by (cases "cmp x z") auto
qed

abbreviation le where
  "le x y \<equiv> cmp x y \<noteq> Pos"

lemma insert_sorted: "sorted_wrt le xs \<Longrightarrow> sorted_wrt le (js_insert cmp x xs)"
proof (induction xs)
  case (Cons y ys)
  show ?case
  proof (cases "cmp x y = Pos")
    case True
    with Cons cmp_pos [OF True] show ?thesis by auto
  next
    case False
    with Cons.prems have "\<forall>z \<in> set ys. le x z" using cmp_trans [of x y] by auto
    with False Cons.prems show ?thesis by auto
  qed
qed simp

lemma sort_sorted: "sorted_wrt le (js_sort cmp xs)"
  by (induction xs) (auto intro: insert_sorted)

text \<open>Elements that compare equal keep their order.\<close>

lemma insert_class:
  "filter (\<lambda>y. cmp k y = Zero) (js_insert cmp x xs) = filter (\<lambda>y. cmp k y = Zero) (x # xs)"
proof (induction xs)
  case (Cons y ys)
  show ?case
  proof (cases "cmp x y = Pos \<and> cmp k x = Zero")
    case True
    then have "cmp k y \<noteq> Zero"
      using cmp_zero_trans [of x k y] cmp_zero_sym [of k x] by auto
    with True Cons show ?thesis by simp
  qed (use Cons in auto)
qed simp

lemma sort_stable: "filter (\<lambda>y. cmp k y = Zero) (js_sort cmp xs) = filter (\<lambda>y. cmp k y = Zero) xs"
  by (induction xs) (simp_all add: insert_class)

text \<open>A sorted list is determined by its classes of equal elements, each in its order.\<close>

lemma sorted_head_min: "sorted_wrt le (x # xs) \<Longrightarrow> y \<in> set (x # xs) \<Longrightarrow> le x y"
  using cmp_self by auto

lemma class_head_mem:
  assumes "\<And>k. filter (\<lambda>y. cmp k y = Zero) xs = filter (\<lambda>y. cmp k y = Zero) ys" and "x \<in> set xs"
  shows "x \<in> set ys"
proof -
  have "x \<in> set (filter (\<lambda>y. cmp x y = Zero) xs)" using assms(2) cmp_self by simp
  with assms(1) [of x] show ?thesis by simp
qed

lemma sorted_classes_unique:
  assumes "sorted_wrt le xs" "sorted_wrt le ys"
    and "\<And>k. filter (\<lambda>y. cmp k y = Zero) xs = filter (\<lambda>y. cmp k y = Zero) ys"
  shows "xs = ys"
  using assms
proof (induction xs arbitrary: ys)
  case Nil
  then show ?case using class_head_mem [of ys "[]"] by (cases ys) auto
next
  case (Cons x xs)
  from class_head_mem [OF Cons.prems(3)] have x: "x \<in> set ys" by simp
  then obtain y zs where ys: "ys = y # zs" by (cases ys) auto
  have "le y x" using sorted_head_min [of y zs x] Cons.prems(2) x unfolding ys by blast
  moreover have "y \<in> set (x # xs)"
    using class_head_mem [of ys "x # xs" y] Cons.prems(3) ys by simp
  then have "le x y" using sorted_head_min [OF Cons.prems(1)] by blast
  ultimately have eq: "cmp x y = Zero" using cmp_flip [of y x] by (cases "cmp x y") auto
  with Cons.prems(3) [of x] have "x # filter (\<lambda>y. cmp x y = Zero) xs = y # filter (\<lambda>y. cmp x y = Zero) zs"
    by (auto simp: ys cmp_self)
  then have xy: "x = y" by simp
  have "filter (\<lambda>y. cmp k y = Zero) xs = filter (\<lambda>y. cmp k y = Zero) zs" for k
    using Cons.prems(3) [of k] by (auto simp: ys xy split: if_splits)
  then have "xs = zs" using Cons.IH Cons.prems(1,2) ys by simp
  then show ?case by (simp add: ys xy)
qed

lemma sort_unique:
  assumes "sorted_wrt le ys"
    and "\<And>k. filter (\<lambda>y. cmp k y = Zero) ys = filter (\<lambda>y. cmp k y = Zero) xs"
  shows "ys = js_sort cmp xs"
  by (rule sorted_classes_unique) (auto simp: assms sort_sorted sort_stable)

lemma sort_idem: "sorted_wrt le xs \<Longrightarrow> js_sort cmp xs = xs"
  using sort_unique [of xs xs] by simp

end

text \<open>Comparisons are built by comparing keys, by falling through to a second comparison on a
  tie, and by swapping the arguments; each keeps the contract.\<close>

lemma comparator_key: "js_comparator c \<Longrightarrow> js_comparator (\<lambda>x y. c (f x) (f y))"
  unfolding js_comparator_def by blast

lemma comparator_rev: "js_comparator c \<Longrightarrow> js_comparator (\<lambda>x y. c y x)"
  unfolding js_comparator_def by blast

lemma comparator_or_else:
  assumes "js_comparator c" "js_comparator d"
  shows "js_comparator (\<lambda>x y. or_else (c x y) (d x y))"
proof (rule js_comparator.intro)
  show "or_else (c x y) (d x y) = flip_sign (or_else (c y x) (d y x))" for x y
    by (simp add: flip_or_else flip: js_comparator.cmp_flip [OF assms(1)]
        js_comparator.cmp_flip [OF assms(2)])
next
  fix x y z
  assume xy: "or_else (c x y) (d x y) \<noteq> Pos" and yz: "or_else (c y z) (d y z) \<noteq> Pos"
  then have le: "c x y \<noteq> Pos" "c y z \<noteq> Pos" by auto
  then have xz: "c x z \<noteq> Pos" by (rule js_comparator.cmp_trans [OF assms(1)])
  show "or_else (c x z) (d x z) \<noteq> Pos"
  proof (cases "c x z = Zero")
    case True
    have zx: "c z x = Zero" using js_comparator.cmp_zero_sym [OF assms(1) True] .
    have "c y x \<noteq> Pos" using js_comparator.cmp_trans [OF assms(1) le(2)] zx by simp
    then have "c x y = Zero"
      using le(1) js_comparator.cmp_flip [OF assms(1), of x y] by (cases "c y x") auto
    moreover have "c z y \<noteq> Pos" using js_comparator.cmp_trans [OF assms(1) _ le(1), of z] zx by simp
    then have "c y z = Zero"
      using le(2) js_comparator.cmp_flip [OF assms(1), of y z] by (cases "c z y") auto
    ultimately show ?thesis
      using xy yz True js_comparator.cmp_trans [OF assms(2), of x y z] by auto
  qed (use xz in auto)
qed

text \<open>The comparison \<open>(a, b) => a - b\<close> of finite numbers.\<close>

lemma num_cmp_comparator: "js_comparator (num_cmp :: 'a::linorder \<Rightarrow> 'a \<Rightarrow> sign)"
  by (rule js_comparator.intro, rule num_cmp_flip) simp

interpretation num: js_comparator "num_cmp :: 'a::linorder \<Rightarrow> 'a \<Rightarrow> sign"
  by (rule num_cmp_comparator)

lemma sorted_num_sort: "sorted (js_sort num_cmp xs)"
  using num.sort_sorted [of xs] by (simp add: not_less)

end
