(* ===== verification/MeshLatency.thy ===== *)
theory MeshLatency
  imports JsSort
begin

text \<open>
  \<open>apps/video/src/lib/mesh/latency.ts\<close>: the round-trip statistics of a provider. The
  network is the parameter of \<open>probeOnce\<close>: what the \<open>HEAD /latency-probe\<close> request did and
  when the clock was read. A percentile of \<open>None\<close> is \<open>NaN\<close>.
\<close>

subsection \<open>Data\<close>

record round_trip_options =
  rt_samples :: "int option"
  rt_timeoutMs :: "int option"

record round_trip_result =
  rr_httpsBase :: string
  rr_okCount :: nat
  rr_errorCount :: nat
  rr_samples :: "real list"
  rr_p50 :: "real option"
  rr_p95 :: "real option"
  rr_p99 :: "real option"
  rr_min :: "real option"
  rr_max :: "real option"

text \<open>What the fetch of one probe did: it rejected (a network error or the abort of the
  timer or the caller), or answered with a status, at a time.\<close>

datatype probe_reply = ProbeRejected | ProbeStatus nat

record probe_event =
  pe_started :: real
  pe_reply :: probe_reply
  pe_ended :: real

definition status_ok :: "nat \<Rightarrow> bool" where
  \<comment> \<open>\<open>res.ok\<close>\<close>
  "status_ok st = (200 \<le> st \<and> st < 300)"

definition probeOnce :: "probe_event \<Rightarrow> real option" where
  "probeOnce ev =
     (case pe_reply ev of
        ProbeRejected \<Rightarrow> None
      | ProbeStatus st \<Rightarrow>
          if \<not> status_ok st \<and> st \<noteq> 204 then None else Some (pe_ended ev - pe_started ev))"

definition percentile :: "real list \<Rightarrow> real \<Rightarrow> real option" where
  "percentile xs q =
     (if length xs = 0 then None
      else if length xs = 1 then Some (xs ! 0)
      else let n = int (length xs); idx = min (n - 1) (\<lceil>q * of_int n\<rceil> - 1)
           in Some (xs ! nat (max 0 idx)))"

text \<open>The loop of \<open>measureRoundTrip\<close>: the request of round \<open>i\<close> is made only when the loop
  reaches it, and its event is \<open>net i\<close>.\<close>

function probe_loop ::
  "(nat \<Rightarrow> probe_event) \<Rightarrow> nat \<Rightarrow> nat \<Rightarrow> real list \<Rightarrow> nat \<Rightarrow> real list \<times> nat" where
  "probe_loop net samplesCount i samples errorCount =
     (if i < samplesCount then
        (case probeOnce (net i) of
           None \<Rightarrow> probe_loop net samplesCount (Suc i) samples (Suc errorCount)
         | Some rtt \<Rightarrow>
             if i = 0 \<and> 1 < samplesCount then probe_loop net samplesCount (Suc i) samples errorCount
             else probe_loop net samplesCount (Suc i) (samples @ [rtt]) errorCount)
      else (samples, errorCount))"
  by pat_completeness auto
termination
  by (relation "measure (\<lambda>(net, n, i, ss, e). n - i)") auto

declare probe_loop.simps [simp del]

definition samples_count :: "round_trip_options \<Rightarrow> nat" where
  "samples_count opts = nat (max 1 (or_default (rt_samples opts) 5))"

definition measureRoundTrip ::
  "string \<Rightarrow> round_trip_options \<Rightarrow> (nat \<Rightarrow> probe_event) \<Rightarrow> round_trip_result" where
  "measureRoundTrip httpsBase opts net =
     (let base = strip_slashes httpsBase;
          (collected, errorCount) = probe_loop net (samples_count opts) 0 [] 0;
          samples = js_sort num_cmp collected;
          okCount = length samples
      in \<lparr>rr_httpsBase = base, rr_okCount = okCount, rr_errorCount = errorCount,
          rr_samples = samples,
          rr_p50 = percentile samples (1 / 2),
          rr_p95 = percentile samples (95 / 100),
          rr_p99 = percentile samples (99 / 100),
          rr_min = (if 0 < okCount then Some (samples ! 0) else None),
          rr_max = (if 0 < okCount then Some (samples ! (okCount - 1)) else None)\<rparr>)"

subsection \<open>Percentiles\<close>

definition rank_index :: "nat \<Rightarrow> real \<Rightarrow> nat" where
  "rank_index n q = nat (max 0 (min (int n - 1) (\<lceil>q * of_nat n\<rceil> - 1)))"

lemma percentile_nth: "xs \<noteq> [] \<Longrightarrow> percentile xs q = Some (xs ! rank_index (length xs) q)"
  by (cases xs; cases "tl xs") (auto simp: percentile_def rank_index_def Let_def)

lemma rank_index_lt: "0 < n \<Longrightarrow> rank_index n q < n"
  by (auto simp: rank_index_def)

lemma rank_index_mono: "q \<le> r \<Longrightarrow> rank_index n q \<le> rank_index n r"
proof -
  assume "q \<le> r"
  then have "\<lceil>q * of_nat n\<rceil> \<le> \<lceil>r * of_nat n\<rceil>" by (intro ceiling_mono mult_right_mono) auto
  then show ?thesis unfolding rank_index_def by (intro nat_mono) auto
qed

lemma rank_index_last:
  assumes "(1 - q) * of_nat n < 1" "q \<le> 1"
  shows "rank_index n q = n - 1"
proof -
  have "of_nat n - 1 < q * of_nat n" using assms(1) by (simp add: algebra_simps)
  moreover have "q * of_nat n \<le> of_nat n" using assms(2) using mult_right_mono [OF assms(2), of "of_nat n"] by simp
  ultimately have "\<lceil>q * of_nat n\<rceil> = int n" by (intro ceiling_unique) auto
  then show ?thesis by (auto simp: rank_index_def)
qed

subsection \<open>The probe loop\<close>

definition kept :: "(nat \<Rightarrow> probe_event) \<Rightarrow> nat \<Rightarrow> nat list \<Rightarrow> real list" where
  \<comment> \<open>the round trips of the rounds \<open>js\<close> that count: not failed, not the warm-up\<close>
  "kept net n js = concat (map (\<lambda>j. if j = 0 \<and> 1 < n then [] else
     (case probeOnce (net j) of None \<Rightarrow> [] | Some rtt \<Rightarrow> [rtt])) js)"

definition failed :: "(nat \<Rightarrow> probe_event) \<Rightarrow> nat list \<Rightarrow> nat" where
  "failed net js = length (filter (\<lambda>j. probeOnce (net j) = None) js)"

lemma probe_loop_eq:
  "probe_loop net n i ss e = (ss @ kept net n [i..<n], e + failed net [i..<n])"
proof (induction net n i ss e rule: probe_loop.induct)
  case (1 net n i ss e)
  show ?case
  proof (cases "i < n")
    case True
    then have up: "[i..<n] = i # [Suc i..<n]" by (simp add: upt_rec)
    from True 1 show ?thesis
      by (subst probe_loop.simps) (auto simp: up kept_def failed_def split: option.splits)
  next
    case False
    then show ?thesis by (subst probe_loop.simps) (simp add: kept_def failed_def)
  qed
qed

lemma kept_failed:
  "length (kept net n js) + failed net js =
   length js - length (filter (\<lambda>j. j = 0 \<and> 1 < n \<and> probeOnce (net j) \<noteq> None) js)"
proof -
  have "length (kept net n js) + failed net js +
      length (filter (\<lambda>j. j = 0 \<and> 1 < n \<and> probeOnce (net j) \<noteq> None) js) = length js"
    by (induction js) (auto simp: kept_def failed_def split: option.splits)
  then show ?thesis by simp
qed

lemma filter_first: "0 < n \<Longrightarrow> length (filter (\<lambda>j. j = 0 \<and> P j) [0..<n]) = (if P 0 then 1 else 0)"
proof -
  assume "0 < n"
  then have "[0..<n] = 0 # [1..<n]" by (simp add: upt_conv_Cons)
  then show ?thesis by (simp add: filter_False)
qed

lemma samples_count_pos [simp]: "0 < samples_count opts"
  by (simp add: samples_count_def)

lemma measure_fields:
  "rr_samples (measureRoundTrip base opts net) = js_sort num_cmp (kept net (samples_count opts) [0..<samples_count opts])"
  "rr_errorCount (measureRoundTrip base opts net) = failed net [0..<samples_count opts]"
  "rr_okCount (measureRoundTrip base opts net) = length (rr_samples (measureRoundTrip base opts net))"
  "rr_httpsBase (measureRoundTrip base opts net) = strip_slashes base"
  by (simp_all add: measureRoundTrip_def probe_loop_eq Let_def)

lemma measure_stats:
  "rr_p50 (measureRoundTrip base opts net) = percentile (rr_samples (measureRoundTrip base opts net)) (1 / 2)"
  "rr_p95 (measureRoundTrip base opts net) = percentile (rr_samples (measureRoundTrip base opts net)) (95 / 100)"
  "rr_p99 (measureRoundTrip base opts net) = percentile (rr_samples (measureRoundTrip base opts net)) (99 / 100)"
  "rr_min (measureRoundTrip base opts net) =
     (if 0 < rr_okCount (measureRoundTrip base opts net) then Some (rr_samples (measureRoundTrip base opts net) ! 0) else None)"
  "rr_max (measureRoundTrip base opts net) =
     (if 0 < rr_okCount (measureRoundTrip base opts net)
      then Some (rr_samples (measureRoundTrip base opts net) ! (rr_okCount (measureRoundTrip base opts net) - 1)) else None)"
  by (simp_all add: measureRoundTrip_def probe_loop_eq Let_def)

subsection \<open>Properties\<close>

text \<open>
  Every round of \<open>measureRoundTrip\<close> is counted once: as an error, as a sample, or (the
  first one, when it succeeds and more than one was asked for) as the discarded warm-up.
  The samples are the round trips of the rounds that count, in ascending order.
\<close>

lemma round_trip_counts:
  "rr_okCount (measureRoundTrip base opts net) + rr_errorCount (measureRoundTrip base opts net) =
     samples_count opts -
       (if 1 < samples_count opts \<and> probeOnce (net 0) \<noteq> None then 1 else 0) \<and>
   sorted (rr_samples (measureRoundTrip base opts net)) \<and>
   mset (rr_samples (measureRoundTrip base opts net)) =
     mset (kept net (samples_count opts) [0..<samples_count opts])"
  using kept_failed [of net "samples_count opts" "[0..<samples_count opts]"]
    filter_first [of "samples_count opts" "\<lambda>j. 1 < samples_count opts \<and> probeOnce (net j) \<noteq> None"]
  by (simp add: measure_fields sorted_num_sort)

text \<open>
  With at least one sample the statistics are samples, in order
  \<open>min \<le> p50 \<le> p95 \<le> p99 \<le> max\<close>; below twenty samples p95 and p99 are the maximum; with
  exactly two, p50 is the smaller and p95 the larger (the field's comment says the two are
  equal below three samples). With no sample all five are \<open>NaN\<close>.
\<close>

lemma percentile_order:
  "let r = measureRoundTrip base opts net in
    if rr_okCount r = 0
    then rr_p50 r = None \<and> rr_p95 r = None \<and> rr_p99 r = None \<and> rr_min r = None \<and> rr_max r = None
    else \<exists>mi p50 p95 p99 ma.
      rr_min r = Some mi \<and> rr_p50 r = Some p50 \<and> rr_p95 r = Some p95 \<and> rr_p99 r = Some p99 \<and>
      rr_max r = Some ma \<and> mi \<le> p50 \<and> p50 \<le> p95 \<and> p95 \<le> p99 \<and> p99 \<le> ma \<and>
      {mi, p50, p95, p99, ma} \<subseteq> set (rr_samples r) \<and>
      (rr_okCount r < 20 \<longrightarrow> p95 = ma \<and> p99 = ma) \<and> (rr_okCount r = 2 \<longrightarrow> p50 = mi)"
proof -
  define r where "r = measureRoundTrip base opts net"
  let ?s = "rr_samples r"
  have n: "rr_okCount r = length ?s" by (simp add: r_def measure_fields)
  note stats = measure_stats [of base opts net, folded r_def]
  show ?thesis
  proof (cases "?s = []")
    case True
    then show ?thesis by (simp add: n stats percentile_def flip: r_def)
  next
    case False
    let ?n = "length ?s"
    have pos: "0 < ?n" using False by simp
    have sorted: "?s ! i \<le> ?s ! j" if "i \<le> j" "j < ?n" for i j
      using that by (simp add: r_def measure_fields sorted_num_sort sorted_nth_mono)
    have last: "?n - 1 < ?n" using pos by simp
    have mono: "rank_index ?n (1/2) \<le> rank_index ?n (95/100)" "rank_index ?n (95/100) \<le> rank_index ?n (99/100)"
      by (auto intro: rank_index_mono)
    have le: "rank_index ?n q \<le> ?n - 1" for q using rank_index_lt [OF pos, of q] by simp
    have top: "rank_index ?n (95/100) = ?n - 1 \<and> rank_index ?n (99/100) = ?n - 1" if "?n < 20"
      by (intro conjI rank_index_last) (use that in simp_all)
    have two: "rank_index 2 (1/2) = 0" by (simp add: rank_index_def)
    show ?thesis
      using pos sorted [OF mono(1)] sorted [OF mono(2)] sorted [OF le last] sorted [OF le0] mono le top two
        rank_index_lt [OF pos] last
      by (simp add: n stats percentile_nth False nth_mem flip: r_def)
  qed
qed

definition demo_probe_net :: "nat \<Rightarrow> probe_event" where
  "demo_probe_net i = \<lparr>pe_started = 5, pe_reply = ProbeStatus 204, pe_ended = 35 - 10 * of_nat i\<rparr>"

theorem percentile_order_witness:
  "let r = measureRoundTrip ''https://p/'' \<lparr>rt_samples = Some 3, rt_timeoutMs = None\<rparr> demo_probe_net in
    rr_okCount r = 2 \<and> rr_p50 r = rr_min r \<and> rr_p95 r = rr_max r \<and> rr_p99 r = rr_max r"
proof -
  let ?o = "\<lparr>rt_samples = Some 3, rt_timeoutMs = None\<rparr>"
  let ?r = "measureRoundTrip ''https://p/'' ?o demo_probe_net"
  have "rr_samples ?r = [10, 20]"
    by (simp add: measure_fields samples_count_def kept_def upt_rec probeOnce_def demo_probe_net_def
        status_ok_def num_cmp_def)
  then have "rr_okCount ?r = 2" by (simp add: measure_fields)
  with percentile_order [of "''https://p/''" ?o demo_probe_net] show ?thesis
    by (auto simp: Let_def)
qed

end
