(* ===== verification/MeshHealth.thy ===== *)
theory MeshHealth
  imports MeshLatency
begin

text \<open>
  \<open>apps/video/src/lib/mesh/health.ts\<close>: what one \<open>GET /healthz\<close> says about a provider and
  the state of the whole registry. The network is a parameter: what the request to a URL
  did, and when. Every failure becomes a value, so callers never see a throw.
\<close>

subsection \<open>Data\<close>

record provider_health_ok =
  ok_httpsBase :: string
  ok_peerId :: string
  ok_region :: "string option"
  ok_lat :: "jsnum option"
  ok_lng :: "jsnum option"
  ok_rttMs :: real

datatype unreachable_reason = Timeout | Network | BadJson | BadShape | Non2xx

record provider_health_unreachable =
  un_httpsBase :: string
  un_peerId :: "string option"
  un_reason :: unreachable_reason

datatype provider_health =
    HealthOk provider_health_ok
  | HealthUnreachable provider_health_unreachable

record health_options =
  ho_timeoutMs :: "int option"
  ho_peerId :: "string option"

text \<open>The fetch rejected (with the \<open>name\<close> of an \<open>Error\<close>, if it was one), or answered with a
  status and a body that parsed as JSON or did not.\<close>

datatype health_reply = HealthRejected "string option" | HealthResponse nat "json option"

record health_event =
  he_started :: real
  he_reply :: health_reply
  he_ended :: real

subsection \<open>Operations\<close>

fun opt_string :: "json option \<Rightarrow> bool" where
  "opt_string None = True"
| "opt_string (Some (JStr _)) = True"
| "opt_string _ = False"

fun opt_number :: "json option \<Rightarrow> bool" where
  "opt_number None = True"
| "opt_number (Some (JNum _)) = True"
| "opt_number _ = False"

definition isHealthShape :: "json \<Rightarrow> bool" where
  "isHealthShape v =
     (is_object v \<and>
      as_str (jget v ''status'') \<noteq> None \<and>
      as_str (jget v ''peer_id'') \<noteq> None \<and>
      opt_string (jget v ''region'') \<and>
      opt_number (jget v ''lat'') \<and>
      opt_number (jget v ''lng''))"

definition fetchProviderHealth ::
  "string \<Rightarrow> health_options \<Rightarrow> (string \<Rightarrow> health_event) \<Rightarrow> provider_health" where
  "fetchProviderHealth httpsBase opts net =
     (let base = strip_slashes httpsBase;
          ev = net (base @ ''/healthz'');
          unreachable = (\<lambda>r. HealthUnreachable
            \<lparr>un_httpsBase = base, un_peerId = ho_peerId opts, un_reason = r\<rparr>)
      in case he_reply ev of
           HealthRejected name \<Rightarrow> unreachable (if name = Some ''AbortError'' then Timeout else Network)
         | HealthResponse st body \<Rightarrow>
             if \<not> status_ok st then unreachable Non2xx
             else (case body of
                 None \<Rightarrow> unreachable BadJson
               | Some b \<Rightarrow>
                   if \<not> isHealthShape b then unreachable BadShape
                   else HealthOk
                     \<lparr>ok_httpsBase = base,
                      ok_peerId = the (as_str (jget b ''peer_id'')),
                      ok_region = as_str (jget b ''region''),
                      ok_lat = as_num (jget b ''lat''),
                      ok_lng = as_num (jget b ''lng''),
                      ok_rttMs = he_ended ev - he_started ev\<rparr>))"

text \<open>\<open>Promise.allSettled\<close> over the entries; the network of entry \<open>i\<close> is \<open>nets i\<close>.\<close>

datatype 'a settled = Fulfilled 'a | Rejected

fun settle_health ::
  "(nat \<Rightarrow> string \<Rightarrow> health_event) \<Rightarrow> health_options \<Rightarrow> nat \<Rightarrow> (string \<times> string) list \<Rightarrow>
   provider_health settled list" where
  "settle_health nets opts i [] = []"
| "settle_health nets opts i ((peerId, httpsBase) # es) =
     Fulfilled (fetchProviderHealth httpsBase (opts\<lparr>ho_peerId := Some peerId\<rparr>) (nets i)) #
     settle_health nets opts (Suc i) es"

fun settled_value :: "string \<times> string \<Rightarrow> provider_health settled \<Rightarrow> provider_health" where
  "settled_value _ (Fulfilled h) = h"
| "settled_value (peerId, httpsBase) Rejected =
     HealthUnreachable \<lparr>un_httpsBase = strip_slashes httpsBase, un_peerId = Some peerId, un_reason = Network\<rparr>"

definition fetchMeshHealth ::
  "(string \<times> string) list \<Rightarrow> health_options \<Rightarrow> (nat \<Rightarrow> string \<Rightarrow> health_event) \<Rightarrow> provider_health list" where
  "fetchMeshHealth peerRegistry opts nets =
     (if peerRegistry = [] then []
      else map2 settled_value peerRegistry (settle_health nets opts 0 peerRegistry))"

definition shortPeerId :: "string \<Rightarrow> string" where
  "shortPeerId peerId =
     (if length peerId \<le> 12 then peerId
      else take 8 peerId @ [ellipsis] @ slice_end 4 peerId)"

subsection \<open>Facts\<close>

fun health_base :: "provider_health \<Rightarrow> string" where
  "health_base (HealthOk h) = ok_httpsBase h"
| "health_base (HealthUnreachable h) = un_httpsBase h"

fun health_reason :: "provider_health \<Rightarrow> unreachable_reason option" where
  "health_reason (HealthOk h) = None"
| "health_reason (HealthUnreachable h) = Some (un_reason h)"

lemma health_base_fetch [simp]: "health_base (fetchProviderHealth b opts net) = strip_slashes b"
  by (auto simp: fetchProviderHealth_def Let_def split: health_reply.splits option.splits)

lemma fetchProviderHealth_ok_iff:
  "fetchProviderHealth b opts net = HealthOk h \<longleftrightarrow>
   (let ev = net (strip_slashes b @ ''/healthz'') in
    \<exists>st body. he_reply ev = HealthResponse st (Some body) \<and> status_ok st \<and> isHealthShape body \<and>
      h = \<lparr>ok_httpsBase = strip_slashes b, ok_peerId = the (as_str (jget body ''peer_id'')),
           ok_region = as_str (jget body ''region''), ok_lat = as_num (jget body ''lat''),
           ok_lng = as_num (jget body ''lng''), ok_rttMs = he_ended ev - he_started ev\<rparr>)"
  by (auto simp: fetchProviderHealth_def Let_def split: health_reply.splits option.splits)

lemma settle_health_nth:
  "n < length es \<Longrightarrow> settle_health nets opts i es ! n =
     Fulfilled (fetchProviderHealth (snd (es ! n)) (opts\<lparr>ho_peerId := Some (fst (es ! n))\<rparr>) (nets (i + n)))"
  by (induction nets opts i es arbitrary: n rule: settle_health.induct) (auto simp: nth_Cons')

lemma length_settle_health [simp]: "length (settle_health nets opts i es) = length es"
  by (induction nets opts i es rule: settle_health.induct) auto

lemma length_fetchMeshHealth [simp]: "length (fetchMeshHealth es opts nets) = length es"
  by (simp add: fetchMeshHealth_def)

lemma fetchMeshHealth_nth:
  "n < length es \<Longrightarrow> fetchMeshHealth es opts nets ! n =
     fetchProviderHealth (snd (es ! n)) (opts\<lparr>ho_peerId := Some (fst (es ! n))\<rparr>) (nets n)"
  by (auto simp: fetchMeshHealth_def settle_health_nth)

subsection \<open>Properties\<close>

text \<open>
  \<open>fetchMeshHealth\<close> answers one value per registry entry, in the registry's order: the
  entry's base URL without trailing slashes, healthy exactly when the provider answered
  \<open>/healthz\<close> with a 2xx status and a body of the right shape, and otherwise the reason of
  the first check that failed.
\<close>

lemma mesh_health_classifies:
  "length (fetchMeshHealth es opts nets) = length es \<and>
   (\<forall>n. n < length es \<longrightarrow>
     (let h = fetchMeshHealth es opts nets ! n;
          reply = he_reply (nets n (strip_slashes (snd (es ! n)) @ ''/healthz''))
      in health_base h = strip_slashes (snd (es ! n)) \<and>
         health_reason h =
           (case reply of
              HealthRejected name \<Rightarrow> Some (if name = Some ''AbortError'' then Timeout else Network)
            | HealthResponse st body \<Rightarrow>
                if \<not> status_ok st then Some Non2xx
                else (case body of None \<Rightarrow> Some BadJson
                      | Some b \<Rightarrow> if isHealthShape b then None else Some BadShape))))"
  by (auto simp: fetchMeshHealth_nth Let_def)
    (auto simp: fetchProviderHealth_def Let_def split: health_reply.splits option.splits)

theorem mesh_health_classifies_witness:
  "(0::nat) < 1 \<and>
   health_reason (fetchMeshHealth [(''p'', ''https://a/'')] \<lparr>ho_timeoutMs = None, ho_peerId = None\<rparr>
     (\<lambda>_ _. \<lparr>he_started = 0, he_reply = HealthRejected (Some ''AbortError''), he_ended = 1\<rparr>) ! 0) = Some Timeout"
  using mesh_health_classifies [of "[(''p'', ''https://a/'')]" "\<lparr>ho_timeoutMs = None, ho_peerId = None\<rparr>"
      "\<lambda>_ _. \<lparr>he_started = 0, he_reply = HealthRejected (Some ''AbortError''), he_ended = 1\<rparr>"]
  by (simp add: Let_def)

end
