(* ===== verification/MeshRank.thy ===== *)
theory MeshRank
  imports JsSort
begin

text \<open>
  \<open>apps/video/src/lib/mesh/rank.ts\<close>: the order in which a viewer tries the providers,
  by region tier, then by great-circle distance, then by the order given. A distance of
  \<open>None\<close> is \<open>Infinity\<close> (either side lacks coordinates).
\<close>

subsection \<open>Data\<close>

record provider_meta =
  pm_peerId :: string
  pm_httpsBase :: string
  pm_region :: "string option"
  pm_lat :: "real option"
  pm_lng :: "real option"

record viewer_geo =
  vg_region :: "string option"
  vg_lat :: "real option"
  vg_lng :: "real option"

record scored =
  sc_provider :: provider_meta
  sc_score :: nat
  sc_distance :: "real option"
  sc_originalIdx :: nat

subsection \<open>Scoring\<close>

definition topLevelRegion :: "string option \<Rightarrow> string option" where
  "topLevelRegion region =
     (if truthy region then Some (takeWhile (\<lambda>c. c \<noteq> CHR ''-'') (the region)) else None)"

definition scoreMatch :: "provider_meta \<Rightarrow> viewer_geo \<Rightarrow> string option \<Rightarrow> nat" where
  "scoreMatch p v viewerTop =
     (if \<not> truthy (pm_region p) \<or> \<not> truthy (vg_region v) then 0
      else if pm_region p = vg_region v then 3
      else if viewerTop \<noteq> None \<and> topLevelRegion (pm_region p) = viewerTop then 2
      else 1)"

definition toRad :: "real \<Rightarrow> real" where
  "toRad deg = deg * pi / 180"

definition atan2 :: "real \<Rightarrow> real \<Rightarrow> real" where
  "atan2 y x =
     (if 0 < x then arctan (y / x)
      else if x < 0 then (if 0 \<le> y then arctan (y / x) + pi else arctan (y / x) - pi)
      else if 0 < y then pi / 2 else if y < 0 then - (pi / 2) else 0)"

definition earth_radius :: real where
  "earth_radius = 6371"

definition hav :: "real \<Rightarrow> real \<Rightarrow> real \<Rightarrow> real \<Rightarrow> real" where
  "hav vlat vlng plat plng =
     (let dLat = toRad (plat - vlat); dLng = toRad (plng - vlng); lat1 = toRad vlat; lat2 = toRad plat
      in (sin (dLat / 2))\<^sup>2 + cos lat1 * cos lat2 * (sin (dLng / 2))\<^sup>2)"

definition haversineKm :: "viewer_geo \<Rightarrow> provider_meta \<Rightarrow> real option" where
  "haversineKm v p =
     (case (vg_lat v, vg_lng v, pm_lat p, pm_lng p) of
        (Some vlat, Some vlng, Some plat, Some plng) \<Rightarrow>
          (let a = hav vlat vlng plat plng; c = 2 * atan2 (sqrt a) (sqrt (1 - a))
           in Some (earth_radius * c))
      | _ \<Rightarrow> None)"

subsection \<open>Ranking\<close>

fun dist_cmp :: "real option \<Rightarrow> real option \<Rightarrow> sign" where
  "dist_cmp None None = Zero"
| "dist_cmp None (Some _) = Pos"
| "dist_cmp (Some _) None = Neg"
| "dist_cmp (Some a) (Some b) = num_cmp a b"

definition scored_cmp :: "scored \<Rightarrow> scored \<Rightarrow> sign" where
  "scored_cmp a b = or_else (num_cmp (sc_score b) (sc_score a))
     (or_else (dist_cmp (sc_distance a) (sc_distance b))
        (num_cmp (sc_originalIdx a) (sc_originalIdx b)))"

definition score_provider :: "viewer_geo \<Rightarrow> nat \<Rightarrow> provider_meta \<Rightarrow> scored" where
  "score_provider viewer originalIdx p =
     \<lparr>sc_provider = p, sc_score = scoreMatch p viewer (topLevelRegion (vg_region viewer)),
      sc_distance = haversineKm viewer p, sc_originalIdx = originalIdx\<rparr>"

fun score_from :: "viewer_geo \<Rightarrow> nat \<Rightarrow> provider_meta list \<Rightarrow> scored list" where
  \<comment> \<open>\<open>providers.map((p, originalIdx) => ...)\<close>\<close>
  "score_from viewer i [] = []"
| "score_from viewer i (p # ps) = score_provider viewer i p # score_from viewer (Suc i) ps"

definition rankProvidersByRegion :: "provider_meta list \<Rightarrow> viewer_geo \<Rightarrow> provider_meta list" where
  "rankProvidersByRegion providers viewer =
     (if length providers \<le> 1 then providers
      else map sc_provider (js_sort scored_cmp (score_from viewer 0 providers)))"

subsection \<open>The comparison is consistent\<close>

lemma dist_cmp_comparator: "js_comparator dist_cmp"
proof (rule js_comparator.intro)
  show "dist_cmp a b = flip_sign (dist_cmp b a)" for a b
    by (cases a; cases b) (simp_all add: num_cmp_def)
  show "dist_cmp a b \<noteq> Pos \<Longrightarrow> dist_cmp b c \<noteq> Pos \<Longrightarrow> dist_cmp a c \<noteq> Pos" for a b c
    by (cases a; cases b; cases c) auto
qed

lemma dist_cmp_Zero [simp]: "dist_cmp a b = Zero \<longleftrightarrow> a = b"
  by (cases a; cases b) auto

lemma scored_cmp_comparator: "js_comparator scored_cmp"
  using comparator_or_else [OF comparator_rev [OF comparator_key [OF num_cmp_comparator, of sc_score]]
      comparator_or_else [OF comparator_key [OF dist_cmp_comparator, of sc_distance]
        comparator_key [OF num_cmp_comparator, of sc_originalIdx]]]
  by (simp add: scored_cmp_def [abs_def])

interpretation scored: js_comparator scored_cmp
  by (rule scored_cmp_comparator)

subsection \<open>Ranking facts\<close>

lemma length_score_from [simp]: "length (score_from v i ps) = length ps"
  by (induction ps arbitrary: i) auto

lemma map_score_from [simp]: "map sc_provider (score_from v i ps) = ps"
  by (induction ps arbitrary: i) (auto simp: score_provider_def)

lemma score_from_nth: "n < length ps \<Longrightarrow> score_from v i ps ! n = score_provider v (i + n) (ps ! n)"
  by (induction ps arbitrary: i n) (auto simp: nth_Cons')

lemma score_from_mem: "s \<in> set (score_from v i ps) \<Longrightarrow>
    i \<le> sc_originalIdx s \<and> s = score_provider v (sc_originalIdx s) (sc_provider s)"
  by (induction ps arbitrary: i) (fastforce simp: score_provider_def)+

definition provider_cmp :: "viewer_geo \<Rightarrow> provider_meta \<Rightarrow> provider_meta \<Rightarrow> sign" where
  \<comment> \<open>the abstract preference: tier, then distance\<close>
  "provider_cmp v p q =
     or_else (num_cmp (scoreMatch q v (topLevelRegion (vg_region v)))
                      (scoreMatch p v (topLevelRegion (vg_region v))))
       (dist_cmp (haversineKm v p) (haversineKm v q))"

lemma provider_cmp_comparator: "js_comparator (provider_cmp v)"
  using comparator_or_else [OF comparator_rev [OF comparator_key [OF num_cmp_comparator,
          of "\<lambda>p. scoreMatch p v (topLevelRegion (vg_region v))"]]
      comparator_key [OF dist_cmp_comparator, of "haversineKm v"]]
  by (simp add: provider_cmp_def [abs_def])

interpretation pref: js_comparator "provider_cmp v" for v
  by (rule provider_cmp_comparator)

lemma score_from_indices: "sorted_wrt (\<lambda>s t. sc_originalIdx s < sc_originalIdx t) (score_from v i ps)"
proof (induction ps arbitrary: i)
  case (Cons p ps)
  then show ?case by (auto simp: score_provider_def dest: score_from_mem)
qed simp

lemma rank_sort: "rankProvidersByRegion ps v = js_sort (provider_cmp v) ps"
proof (cases "length ps \<le> 1")
  case True
  then show ?thesis by (cases ps) (auto simp: rankProvidersByRegion_def)
next
  case False
  let ?ss = "score_from v 0 ps"
  have "js_sort scored_cmp ?ss = js_sort (\<lambda>s t. or_else (provider_cmp v (sc_provider s) (sc_provider t))
      (num_cmp (sc_originalIdx s) (sc_originalIdx t))) ?ss"
    by (rule js_sort_cong)
      (simp add: scored_cmp_def provider_cmp_def or_else_assoc,
        metis score_from_mem score_provider_def scored.select_convs(2,3))
  also have "\<dots> = js_sort (\<lambda>s t. provider_cmp v (sc_provider s) (sc_provider t)) ?ss"
    by (rule js_sort_index) (rule score_from_indices)
  finally show ?thesis using False
    by (simp add: rankProvidersByRegion_def js_sort_map)
qed

subsection \<open>Great-circle distances\<close>

lemma hav_comm: "hav a b c d = hav c d a b"
proof -
  have "toRad (c - a) / 2 = - (toRad (a - c) / 2)" for a c
    by (simp add: toRad_def field_simps)
  then have "sin (toRad (c - a) / 2) = - sin (toRad (a - c) / 2)" for a c
    by (metis sin_minus)
  then have sq: "(sin (toRad (c - a) / 2))\<^sup>2 = (sin (toRad (a - c) / 2))\<^sup>2" for a c
    by (metis power2_minus)
  show ?thesis using sq [of c a] sq [of d b] by (simp add: hav_def Let_def mult.commute)
qed

lemma cos_lat_nonneg: "\<bar>lat\<bar> \<le> 90 \<Longrightarrow> 0 \<le> cos (toRad lat)"
proof -
  assume "\<bar>lat\<bar> \<le> 90"
  then have "\<bar>lat\<bar> * pi \<le> 90 * pi" by (intro mult_right_mono) auto
  then have "\<bar>toRad lat\<bar> \<le> pi / 2" by (simp add: toRad_def abs_mult)
  then show ?thesis by (intro cos_ge_zero) auto
qed

lemma hav_bounds:
  assumes "\<bar>vlat\<bar> \<le> 90" "\<bar>plat\<bar> \<le> 90"
  shows "0 \<le> hav vlat vlng plat plng" "hav vlat vlng plat plng \<le> 1"
proof -
  let ?v = "toRad vlat" and ?p = "toRad plat" and ?s = "sin (toRad (plng - vlng) / 2)"
  have c: "0 \<le> cos ?v * cos ?p" using assms by (simp add: cos_lat_nonneg)
  have s: "?s\<^sup>2 \<le> 1" by (simp add: abs_square_le_1)
  have d: "toRad (plat - vlat) = ?p - ?v" by (simp add: toRad_def algebra_simps diff_divide_distrib)
  have half: "(sin (x / 2))\<^sup>2 = (1 - cos x) / 2" for x :: real
    using cos_double_sin [of "x / 2"] by simp
  show "0 \<le> hav vlat vlng plat plng" using c by (simp add: hav_def Let_def)
  have "hav vlat vlng plat plng \<le> (sin (toRad (plat - vlat) / 2))\<^sup>2 + cos ?v * cos ?p"
    using mult_left_mono [OF s c] by (simp add: hav_def Let_def)
  also have "\<dots> = (1 + cos (?p + ?v)) / 2"
    by (simp add: half d cos_add cos_diff field_simps)
  also have "\<dots> \<le> 1" using cos_le_one [of "?p + ?v"] by simp
  finally show "hav vlat vlng plat plng \<le> 1" .
qed

lemma atan2_quadrant: "0 \<le> y \<Longrightarrow> 0 \<le> x \<Longrightarrow> 0 \<le> atan2 y x \<and> atan2 y x \<le> pi / 2"
  using arctan_ubound [of "y / x"] by (auto simp: atan2_def zero_le_arctan_iff)

lemma haversineKm_cases:
  assumes "haversineKm v p = Some d"
  obtains vlat vlng plat plng where "vg_lat v = Some vlat" "vg_lng v = Some vlng"
    "pm_lat p = Some plat" "pm_lng p = Some plng"
    "d = earth_radius * (2 * atan2 (sqrt (hav vlat vlng plat plng)) (sqrt (1 - hav vlat vlng plat plng)))"
  using assms by (auto simp: haversineKm_def Let_def split: option.splits)

subsection \<open>Properties\<close>

text \<open>
  C1. \<open>rankProvidersByRegion\<close> returns the providers it was given, in order of region tier,
  within a tier by great-circle distance (unknown distances last), and within equal
  distance in the order they came in; the stated clauses determine the result.
\<close>

theorem rank_correct:
  "mset (rankProvidersByRegion ps v) = mset ps \<and>
   sorted_wrt (\<lambda>p q.
     let s = (\<lambda>x. scoreMatch x v (topLevelRegion (vg_region v))) in
     s q < s p \<or> s p = s q \<and> dist_cmp (haversineKm v p) (haversineKm v q) \<noteq> Pos)
     (rankProvidersByRegion ps v) \<and>
   (\<forall>k. filter (\<lambda>p. provider_cmp v k p = Zero) (rankProvidersByRegion ps v) =
        filter (\<lambda>p. provider_cmp v k p = Zero) ps)"
proof -
  have "sorted_wrt (\<lambda>p q. provider_cmp v p q \<noteq> Pos) (rankProvidersByRegion ps v)"
    using pref.sort_sorted by (simp add: rank_sort)
  then have "sorted_wrt (\<lambda>p q.
     let s = (\<lambda>x. scoreMatch x v (topLevelRegion (vg_region v))) in
     s q < s p \<or> s p = s q \<and> dist_cmp (haversineKm v p) (haversineKm v q) \<noteq> Pos)
     (rankProvidersByRegion ps v)"
    by (rule sorted_wrt_mono_rel [rotated]) (auto simp: provider_cmp_def Let_def)
  then show ?thesis by (simp add: rank_sort pref.sort_stable)
qed

text \<open>
  The distance is symmetric, at least zero and at most half the circumference of the
  Earth, for latitudes in range.
\<close>

lemma haversine_bounds:
  assumes "haversineKm v p = Some d"
    and "\<bar>the (vg_lat v)\<bar> \<le> 90" and "\<bar>the (pm_lat p)\<bar> \<le> 90"
  shows "0 \<le> d \<and> d \<le> 6371 * pi \<and>
    haversineKm \<lparr>vg_region = r, vg_lat = pm_lat p, vg_lng = pm_lng p\<rparr>
      (p\<lparr>pm_lat := vg_lat v, pm_lng := vg_lng v\<rparr>) = Some d"
  using assms(1)
proof (rule haversineKm_cases)
  fix vlat vlng plat plng
  let ?a = "hav vlat vlng plat plng"
  assume eqs: "vg_lat v = Some vlat" "vg_lng v = Some vlng" "pm_lat p = Some plat"
    "pm_lng p = Some plng" and d: "d = earth_radius * (2 * atan2 (sqrt ?a) (sqrt (1 - ?a)))"
  have "0 \<le> ?a" "?a \<le> 1" using assms(2,3) eqs by (auto intro: hav_bounds)
  then have "0 \<le> atan2 (sqrt ?a) (sqrt (1 - ?a)) \<and> atan2 (sqrt ?a) (sqrt (1 - ?a)) \<le> pi / 2"
    by (intro atan2_quadrant) auto
  then show ?thesis
    using eqs by (auto simp: d earth_radius_def haversineKm_def Let_def hav_comm [of plat])
qed

theorem haversine_bounds_witness:
  "0 \<le> (0::real) \<and> (0::real) \<le> 6371 * pi \<and>
   haversineKm \<lparr>vg_region = None, vg_lat = Some 10, vg_lng = Some 20\<rparr>
     \<lparr>pm_peerId = ''p'', pm_httpsBase = ''h'', pm_region = None, pm_lat = Some 10, pm_lng = Some 20\<rparr> =
   Some 0"
proof -
  let ?v = "\<lparr>vg_region = None, vg_lat = Some 10, vg_lng = Some 20\<rparr>"
  let ?p = "\<lparr>pm_peerId = ''p'', pm_httpsBase = ''h'', pm_region = None, pm_lat = Some 10, pm_lng = Some 20\<rparr>"
  have "haversineKm ?v ?p = Some 0"
    by (simp add: haversineKm_def hav_def toRad_def atan2_def)
  from haversine_bounds [OF this, of None] show ?thesis by simp
qed

text \<open>
  For a viewer with a region, a provider of another top-level region never ranks after
  a provider with no region, whatever the distances and the rest of the list. (The comment
  at the head of the file says providers without a region come first of the two.)
\<close>

lemma unknown_region_after_mismatch:
  assumes "truthy (vg_region v)" and "truthy (pm_region p)" and "\<not> truthy (pm_region q)"
    and "topLevelRegion (pm_region p) \<noteq> topLevelRegion (vg_region v)"
    and "rankProvidersByRegion ps v = xs @ q # ys"
  shows "p \<notin> set ys"
proof
  assume p: "p \<in> set ys"
  have "pm_region p \<noteq> vg_region v" using assms(4) by auto
  then have "scoreMatch p v (topLevelRegion (vg_region v)) = 1"
    using assms(1,2,4) by (simp add: scoreMatch_def)
  moreover have "scoreMatch q v (topLevelRegion (vg_region v)) = 0"
    using assms(3) by (simp add: scoreMatch_def)
  ultimately have "provider_cmp v q p = Pos" by (simp add: provider_cmp_def)
  moreover have "sorted_wrt (\<lambda>p q. provider_cmp v p q \<noteq> Pos) (xs @ q # ys)"
    using pref.sort_sorted [of v ps] assms(5) by (simp add: rank_sort)
  ultimately show False using p by (simp add: sorted_wrt_append)
qed

theorem unknown_region_after_mismatch_witness:
  "let p = \<lparr>pm_peerId = ''p'', pm_httpsBase = ''w'', pm_region = Some ''US-VA'', pm_lat = None, pm_lng = None\<rparr>;
       q = \<lparr>pm_peerId = ''q'', pm_httpsBase = ''u'', pm_region = None, pm_lat = None, pm_lng = None\<rparr>;
       v = \<lparr>vg_region = Some ''BR-SP'', vg_lat = None, vg_lng = None\<rparr>
   in rankProvidersByRegion [q, p] v = [p] @ q # [] \<and> p \<notin> set []"
proof -
  let ?p = "\<lparr>pm_peerId = ''p'', pm_httpsBase = ''w'', pm_region = Some ''US-VA'', pm_lat = None, pm_lng = None\<rparr>"
  let ?q = "\<lparr>pm_peerId = ''q'', pm_httpsBase = ''u'', pm_region = None, pm_lat = None, pm_lng = None\<rparr>"
  let ?v = "\<lparr>vg_region = Some ''BR-SP'', vg_lat = None, vg_lng = None\<rparr>"
  have r: "rankProvidersByRegion [?q, ?p] ?v = [?p] @ ?q # []"
    by (simp add: rank_sort provider_cmp_def scoreMatch_def topLevelRegion_def num_cmp_def)
  from unknown_region_after_mismatch [OF _ _ _ _ r, of ?p] show ?thesis
    using r by (simp add: topLevelRegion_def Let_def)
qed

end
