(* ===== verification/MeshProbe.thy ===== *)
theory MeshProbe
  imports MeshHealth MeshRank
begin

text \<open>
  \<open>apps/video/src/lib/mesh/probe.ts\<close>: the reachable providers of a short list, fastest
  first. It calls \<open>MeshHealth\<close> for each provider and sorts by the measured round trip.
\<close>

record rtt_probe_result =
  pr_provider :: provider_meta
  pr_rttMs :: real
  pr_health :: provider_health_ok

record indexed_result =
  ix_result :: rtt_probe_result
  ix_originalIdx :: nat

record probe_options =
  po_timeoutMs :: "int option"

fun isReachable :: "provider_health \<Rightarrow> bool" where
  "isReachable (HealthOk _) = True"
| "isReachable (HealthUnreachable _) = False"

definition probe_fetch_options :: "probe_options \<Rightarrow> provider_meta \<Rightarrow> health_options" where
  "probe_fetch_options opts p =
     \<lparr>ho_timeoutMs = Some (or_default (po_timeoutMs opts) 1500), ho_peerId = Some (pm_peerId p)\<rparr>"

fun collect_reachable ::
  "(nat \<Rightarrow> string \<Rightarrow> health_event) \<Rightarrow> probe_options \<Rightarrow> nat \<Rightarrow> provider_meta list \<Rightarrow> indexed_result list" where
  "collect_reachable nets opts idx [] = []"
| "collect_reachable nets opts idx (p # ps) =
     (case fetchProviderHealth (pm_httpsBase p) (probe_fetch_options opts p) (nets idx) of
        HealthOk h \<Rightarrow>
          \<lparr>ix_result = \<lparr>pr_provider = p, pr_rttMs = ok_rttMs h, pr_health = h\<rparr>, ix_originalIdx = idx\<rparr> #
          collect_reachable nets opts (Suc idx) ps
      | HealthUnreachable _ \<Rightarrow> collect_reachable nets opts (Suc idx) ps)"

definition probe_cmp :: "indexed_result \<Rightarrow> indexed_result \<Rightarrow> sign" where
  "probe_cmp a b = or_else (num_cmp (pr_rttMs (ix_result a)) (pr_rttMs (ix_result b)))
     (num_cmp (ix_originalIdx a) (ix_originalIdx b))"

definition probeProvidersRTT ::
  "provider_meta list \<Rightarrow> probe_options \<Rightarrow> (nat \<Rightarrow> string \<Rightarrow> health_event) \<Rightarrow> rtt_probe_result list" where
  "probeProvidersRTT providers opts nets =
     (if providers = [] then []
      else map ix_result (js_sort probe_cmp (collect_reachable nets opts 0 providers)))"

definition pickBestProviderByRTT ::
  "provider_meta list \<Rightarrow> probe_options \<Rightarrow> (nat \<Rightarrow> string \<Rightarrow> health_event) \<Rightarrow> rtt_probe_result option" where
  "pickBestProviderByRTT providers opts nets =
     (case probeProvidersRTT providers opts nets of [] \<Rightarrow> None | r # _ \<Rightarrow> Some r)"

subsection \<open>Facts\<close>

lemma collect_indices:
  "sorted_wrt (\<lambda>s t. ix_originalIdx s < ix_originalIdx t) (collect_reachable nets opts i ps) \<and>
   (\<forall>s \<in> set (collect_reachable nets opts i ps). i \<le> ix_originalIdx s)"
  by (induction nets opts i ps rule: collect_reachable.induct) (force split: provider_health.splits)+

definition rtt_cmp :: "rtt_probe_result \<Rightarrow> rtt_probe_result \<Rightarrow> sign" where
  "rtt_cmp a b = num_cmp (pr_rttMs a) (pr_rttMs b)"

lemma rtt_cmp_comparator: "js_comparator rtt_cmp"
  using comparator_key [OF num_cmp_comparator, of pr_rttMs] by (simp add: rtt_cmp_def [abs_def])

interpretation rtt: js_comparator rtt_cmp
  by (rule rtt_cmp_comparator)

definition reachable_results where
  "reachable_results nets opts ps = map ix_result (collect_reachable nets opts 0 ps)"

lemma probe_sort: "probeProvidersRTT ps opts nets = js_sort rtt_cmp (reachable_results nets opts ps)"
proof -
  have "js_sort probe_cmp (collect_reachable nets opts 0 ps) =
      js_sort (\<lambda>s t. rtt_cmp (ix_result s) (ix_result t)) (collect_reachable nets opts 0 ps)"
    using js_sort_index [of ix_originalIdx "collect_reachable nets opts 0 ps"
        "\<lambda>s t. rtt_cmp (ix_result s) (ix_result t)"] collect_indices [of nets opts 0 ps]
    by (simp add: probe_cmp_def [abs_def] rtt_cmp_def)
  then show ?thesis by (auto simp: probeProvidersRTT_def reachable_results_def js_sort_map)
qed

lemma reachable_mem:
  "r \<in> set (map ix_result (collect_reachable nets opts i ps)) \<longleftrightarrow>
   (\<exists>n < length ps. \<exists>h. fetchProviderHealth (pm_httpsBase (ps ! n)) (probe_fetch_options opts (ps ! n))
        (nets (i + n)) = HealthOk h \<and>
      r = \<lparr>pr_provider = ps ! n, pr_rttMs = ok_rttMs h, pr_health = h\<rparr>)"
proof (induction nets opts i ps rule: collect_reachable.induct)
  case (2 nets opts i p ps)
  have ex: "(\<exists>n < Suc k. P n) \<longleftrightarrow> P 0 \<or> (\<exists>n < k. P (Suc n))" for k :: nat and P
    by (metis less_Suc_eq_0_disj)
  show ?case
    by (simp only: list.size add_0_right One_nat_def add_Suc_right ex nth_Cons_0 nth_Cons_Suc)
      (use 2 in \<open>auto split: provider_health.splits\<close>)
qed simp

subsection \<open>Properties\<close>

text \<open>
  C2. \<open>pickBestProviderByRTT\<close> is \<open>null\<close> exactly when no provider of the short list is
  reachable; otherwise it is the result of a reachable provider whose round trip no other
  reachable provider beats, the earliest in the list among equals.
\<close>

theorem pick_best_fastest:
  "case pickBestProviderByRTT ps opts nets of
     None \<Rightarrow> \<forall>n < length ps. \<not> isReachable
       (fetchProviderHealth (pm_httpsBase (ps ! n)) (probe_fetch_options opts (ps ! n)) (nets n))
   | Some r \<Rightarrow>
       r \<in> set (reachable_results nets opts ps) \<and>
       (\<forall>s \<in> set (reachable_results nets opts ps). pr_rttMs r \<le> pr_rttMs s) \<and>
       hd (filter (\<lambda>s. pr_rttMs s = pr_rttMs r) (reachable_results nets opts ps)) = r"
proof (cases "probeProvidersRTT ps opts nets")
  case Nil
  then have none: "reachable_results nets opts ps = []" by (simp add: probe_sort)
  have "\<not> isReachable (fetchProviderHealth (pm_httpsBase (ps ! n)) (probe_fetch_options opts (ps ! n)) (nets n))"
    if "n < length ps" for n
    using that none reachable_mem [of _ nets opts 0 ps] unfolding reachable_results_def
    by (cases "fetchProviderHealth (pm_httpsBase (ps ! n)) (probe_fetch_options opts (ps ! n)) (nets n)") auto
  then show ?thesis by (simp add: pickBestProviderByRTT_def Nil)
next
  case (Cons r rs)
  let ?R = "reachable_results nets opts ps"
  have srt: "js_sort rtt_cmp ?R = r # rs" using Cons by (simp add: probe_sort)
  have mem: "set ?R = set (r # rs)" by (metis srt set_js_sort)
  have "\<forall>s \<in> set ?R. pr_rttMs r \<le> pr_rttMs s"
    using rtt.sort_sorted [of ?R] by (auto simp: srt mem rtt_cmp_def not_less)
  moreover have "hd (filter (\<lambda>s. pr_rttMs s = pr_rttMs r) ?R) = r"
  proof -
    have "filter (\<lambda>s. rtt_cmp r s = Zero) ?R = r # filter (\<lambda>s. rtt_cmp r s = Zero) rs"
      using rtt.sort_stable [of r ?R] rtt.cmp_self [of r] by (simp add: srt)
    moreover have "(\<lambda>s. rtt_cmp r s = Zero) = (\<lambda>s. pr_rttMs s = pr_rttMs r)"
      by (auto simp: rtt_cmp_def fun_eq_iff)
    ultimately show ?thesis by simp
  qed
  ultimately show ?thesis using mem by (simp add: pickBestProviderByRTT_def Cons)
qed

definition demo_provider :: "string \<Rightarrow> provider_meta" where
  "demo_provider base =
     \<lparr>pm_peerId = base, pm_httpsBase = base, pm_region = None, pm_lat = None, pm_lng = None\<rparr>"

definition demo_health_net :: "nat \<Rightarrow> string \<Rightarrow> health_event" where
  \<comment> \<open>entry 0 times out, entry 1 answers in 5 ms\<close>
  "demo_health_net i url =
     (if i = 0 then \<lparr>he_started = 0, he_reply = HealthRejected (Some ''AbortError''), he_ended = 1500\<rparr>
      else \<lparr>he_started = 0,
        he_reply = HealthResponse 200 (Some (JObj [(''status'', JStr ''ok''), (''peer_id'', JStr ''b'')])),
        he_ended = 5\<rparr>)"

theorem pick_best_fastest_witness:
  "\<exists>r. pickBestProviderByRTT [demo_provider ''a'', demo_provider ''b''] \<lparr>po_timeoutMs = None\<rparr> demo_health_net =
       Some r \<and> pr_provider r = demo_provider ''b'' \<and>
       (\<forall>s \<in> set (reachable_results demo_health_net \<lparr>po_timeoutMs = None\<rparr>
             [demo_provider ''a'', demo_provider ''b'']). pr_rttMs r \<le> pr_rttMs s)"
  using pick_best_fastest [of "[demo_provider ''a'', demo_provider ''b'']" "\<lparr>po_timeoutMs = None\<rparr>" demo_health_net]
  by (simp add: pickBestProviderByRTT_def probeProvidersRTT_def fetchProviderHealth_def demo_provider_def
      demo_health_net_def isHealthShape_def is_object_def status_ok_def Let_def)

end
