(* ===== verification/MeshResolve.thy ===== *)
theory MeshResolve
  imports MeshLatency "HOL-Library.AList"
begin

text \<open>
  \<open>apps/video/src/lib/mesh/resolve.ts\<close>: which providers serve a session, by asking the
  DHT relays one after another, and the two environment formats it is configured with.
  Parameters: the CID of a session id (\<open>multiformats\<close>), the relays' answers to
  \<open>POST /dht/resolve\<close> (by URL, CID and limit), and \<open>JSON.parse\<close> of a registry object.
\<close>

subsection \<open>Data\<close>

type_synonym registry = "(string \<times> string) list"

record resolved_provider =
  rp_peerId :: string
  rp_httpsBase :: string
  rp_multiaddrs :: "string list"
  rp_resolvedVia :: string

record resolve_options =
  ro_relayUrls :: "string list"
  ro_peerRegistry :: registry
  ro_fallbackHttpsBase :: string
  ro_timeoutMs :: "int option"

record dht_provider =
  dp_peer_id :: string
  dp_multiaddrs :: "string list option"

text \<open>A relay's fetch rejected or its body was no JSON object; or it answered with a status
  and the \<open>providers\<close> of its body, if any.\<close>

datatype relay_reply = RelayThrows | RelayAnswer nat "dht_provider list option"

type_synonym relay_net = "string \<Rightarrow> string \<Rightarrow> nat \<Rightarrow> relay_reply"

subsection \<open>Resolution\<close>

definition sessionIdToCid :: "(string \<Rightarrow> string) \<Rightarrow> string \<Rightarrow> string result" where
  "sessionIdToCid cid_of sessionId =
     (if sessionId = [] then Inl (Error ''sessionIdToCid: empty sessionId'')
      else Inr (cid_of sessionId))"

definition registered :: "registry \<Rightarrow> string \<Rightarrow> string option" where
  \<comment> \<open>\<open>opts.peerRegistry[p.peer_id]\<close> unless falsy\<close>
  "registered reg peer = (if truthy (map_of reg peer) then map_of reg peer else None)"

definition resolved :: "string \<Rightarrow> string \<Rightarrow> dht_provider \<Rightarrow> resolved_provider" where
  "resolved relay httpsBase p =
     \<lparr>rp_peerId = dp_peer_id p, rp_httpsBase = httpsBase,
      rp_multiaddrs = or_default (dp_multiaddrs p) [], rp_resolvedVia = relay\<rparr>"

fun first_registered :: "registry \<Rightarrow> string \<Rightarrow> dht_provider list \<Rightarrow> resolved_provider option" where
  "first_registered reg relay [] = None"
| "first_registered reg relay (p # ps) =
     (case registered reg (dp_peer_id p) of
        None \<Rightarrow> first_registered reg relay ps
      | Some httpsBase \<Rightarrow> Some (resolved relay httpsBase p))"

fun resolve_one :: "relay_net \<Rightarrow> registry \<Rightarrow> string \<Rightarrow> string list \<Rightarrow> resolved_provider option" where
  "resolve_one net reg cid [] = None"
| "resolve_one net reg cid (relay # relays) =
     (case net (strip_slashes relay @ ''/dht/resolve'') cid 5 of
        RelayThrows \<Rightarrow> resolve_one net reg cid relays
      | RelayAnswer st providers \<Rightarrow>
          if \<not> status_ok st then resolve_one net reg cid relays
          else if providers = None \<or> providers = Some [] then resolve_one net reg cid relays
          else (case first_registered reg relay (the providers) of
              None \<Rightarrow> resolve_one net reg cid relays
            | Some r \<Rightarrow> Some r))"

definition resolveSessionProvider ::
  "(string \<Rightarrow> string) \<Rightarrow> relay_net \<Rightarrow> string \<Rightarrow> resolve_options \<Rightarrow> resolved_provider option result" where
  "resolveSessionProvider cid_of net sessionId opts =
     (if length (ro_relayUrls opts) = 0 then Inr None
      else (case sessionIdToCid cid_of sessionId of
          Inl e \<Rightarrow> Inl e
        | Inr cid \<Rightarrow> Inr (resolve_one net (ro_peerRegistry opts) cid (ro_relayUrls opts))))"

fun push_registered ::
  "registry \<Rightarrow> string \<Rightarrow> dht_provider list \<Rightarrow> string set \<times> resolved_provider list \<Rightarrow>
   string set \<times> resolved_provider list" where
  "push_registered reg relay [] (seen, out) = (seen, out)"
| "push_registered reg relay (p # ps) (seen, out) =
     (if dp_peer_id p \<in> seen then push_registered reg relay ps (seen, out)
      else (case registered reg (dp_peer_id p) of
          None \<Rightarrow> push_registered reg relay ps (seen, out)
        | Some httpsBase \<Rightarrow>
            push_registered reg relay ps (insert (dp_peer_id p) seen, out @ [resolved relay httpsBase p])))"

fun resolve_all ::
  "relay_net \<Rightarrow> registry \<Rightarrow> string \<Rightarrow> string list \<Rightarrow> string set \<times> resolved_provider list \<Rightarrow>
   resolved_provider list" where
  "resolve_all net reg cid [] (seen, out) = out"
| "resolve_all net reg cid (relay # relays) (seen, out) =
     (case net (strip_slashes relay @ ''/dht/resolve'') cid 10 of
        RelayThrows \<Rightarrow> resolve_all net reg cid relays (seen, out)
      | RelayAnswer st providers \<Rightarrow>
          if \<not> status_ok st then resolve_all net reg cid relays (seen, out)
          else if providers = None then resolve_all net reg cid relays (seen, out)
          else let (seen', out') = push_registered reg relay (the providers) (seen, out)
               in if 0 < length out' then out' else resolve_all net reg cid relays (seen', out'))"

definition resolveSessionProviders ::
  "(string \<Rightarrow> string) \<Rightarrow> relay_net \<Rightarrow> string \<Rightarrow> resolve_options \<Rightarrow> resolved_provider list result" where
  "resolveSessionProviders cid_of net sessionId opts =
     (if length (ro_relayUrls opts) = 0 then Inr []
      else (case sessionIdToCid cid_of sessionId of
          Inl e \<Rightarrow> Inl e
        | Inr cid \<Rightarrow> Inr (resolve_all net (ro_peerRegistry opts) cid (ro_relayUrls opts) ({}, []))))"

subsection \<open>Configuration\<close>

fun registry_pairs :: "string list \<Rightarrow> registry \<Rightarrow> registry" where
  "registry_pairs [] out = out"
| "registry_pairs (pair # pairs) out =
     (let parts = map trim (split_on CHR ''='' pair);
          peerId = (case parts of p # _ \<Rightarrow> Some p | [] \<Rightarrow> None);
          url = (case parts of _ # u # _ \<Rightarrow> Some u | _ \<Rightarrow> None)
      in registry_pairs pairs
           (if truthy peerId \<and> truthy url then AList.update (the peerId) (the url) out else out))"

definition parseProviderRegistry ::
  "(string \<Rightarrow> registry option) \<Rightarrow> string \<Rightarrow> registry" where
  "parseProviderRegistry JSON_parse str =
     (let trimmed = trim str in
      if trimmed = [] then []
      else if starts_with ''{'' trimmed then or_default (JSON_parse trimmed) []
      else registry_pairs (split_on CHR '','' trimmed) [])"

definition parseRelayList :: "string \<Rightarrow> string list" where
  "parseRelayList str = filter (\<lambda>s. s \<noteq> []) (map trim (split_on CHR '','' str))"

subsection \<open>Facts\<close>

definition known :: "registry \<Rightarrow> string \<Rightarrow> dht_provider list \<Rightarrow> resolved_provider list" where
  \<comment> \<open>the registered providers of one answer\<close>
  "known reg relay ps =
     map (\<lambda>p. resolved relay (the (registered reg (dp_peer_id p))) p)
       (filter (\<lambda>p. registered reg (dp_peer_id p) \<noteq> None) ps)"

fun uniq_peers :: "string set \<Rightarrow> resolved_provider list \<Rightarrow> resolved_provider list" where
  \<comment> \<open>the first entry of each peer\<close>
  "uniq_peers seen [] = []"
| "uniq_peers seen (r # rs) =
     (if rp_peerId r \<in> seen then uniq_peers seen rs else r # uniq_peers (insert (rp_peerId r) seen) rs)"

definition answer :: "nat \<Rightarrow> relay_net \<Rightarrow> registry \<Rightarrow> string \<Rightarrow> string \<Rightarrow> resolved_provider list" where
  \<comment> \<open>what one relay contributes\<close>
  "answer limit net reg cid relay =
     (case net (strip_slashes relay @ ''/dht/resolve'') cid limit of
        RelayThrows \<Rightarrow> []
      | RelayAnswer st providers \<Rightarrow>
          if status_ok st then known reg relay (or_default providers []) else [])"

lemma first_registered_known:
  "first_registered reg relay ps = (case known reg relay ps of [] \<Rightarrow> None | r # _ \<Rightarrow> Some r)"
  by (induction ps) (auto simp: known_def split: option.splits)

lemma push_registered_uniq:
  "snd (push_registered reg relay ps (seen, out)) = out @ uniq_peers seen (known reg relay ps)"
  by (induction reg relay ps "(seen, out)" arbitrary: seen out rule: push_registered.induct)
    (auto simp: known_def resolved_def split: option.splits)

lemma push_registered_none:
  "snd (push_registered reg relay ps (seen, out)) = out \<Longrightarrow> fst (push_registered reg relay ps (seen, out)) = seen"
proof (induction reg relay ps "(seen, out)" arbitrary: seen out rule: push_registered.induct)
  case (2 reg relay p ps seen out)
  then show ?case
    by (auto simp: push_registered_uniq split: option.splits if_splits)
qed simp

lemma uniq_peers_Nil [simp]: "uniq_peers {} rs = [] \<longleftrightarrow> rs = []"
  by (cases rs) auto

lemma known_Nil [simp]: "known reg relay [] = []"
  by (simp add: known_def)

lemma resolve_one_step:
  "resolve_one net reg cid (relay # relays) =
   (case answer 5 net reg cid relay of [] \<Rightarrow> resolve_one net reg cid relays | r # _ \<Rightarrow> Some r)"
  by (auto simp: answer_def first_registered_known split: relay_reply.splits list.splits)

lemma resolve_one_answer:
  "resolve_one net reg cid relays =
   (case concat (map (answer 5 net reg cid) relays) of [] \<Rightarrow> None | r # _ \<Rightarrow> Some r)"
proof (induction relays)
  case (Cons relay relays)
  show ?case
    by (simp only: resolve_one_step Cons.IH list.map concat.simps)
      (cases "answer 5 net reg cid relay"; simp)
qed simp

lemma resolve_all_answer:
  "resolve_all net reg cid relays ({}, []) =
   (case filter (\<lambda>relay. answer 10 net reg cid relay \<noteq> []) relays of
      [] \<Rightarrow> [] | relay # _ \<Rightarrow> uniq_peers {} (answer 10 net reg cid relay))"
proof (induction relays)
  case (Cons relay relays)
  show ?case
  proof (cases "net (strip_slashes relay @ ''/dht/resolve'') cid 10")
    case (RelayAnswer st providers)
    show ?thesis
    proof (cases "status_ok st \<and> providers \<noteq> None")
      case True
      then obtain ps where p: "providers = Some ps" by auto
      let ?r = "push_registered reg relay ps ({}, [])"
      have out: "snd ?r = uniq_peers {} (known reg relay ps)" by (simp add: push_registered_uniq)
      show ?thesis
      proof (cases "known reg relay ps = []")
        case True
        with out have "?r = ({}, [])"
          using push_registered_none [of reg relay ps "{}" "[]"] by (cases ?r) simp
        with True Cons \<open>status_ok st \<and> _\<close> show ?thesis by (simp add: RelayAnswer p answer_def)
      next
        case False
        with out \<open>status_ok st \<and> _\<close> show ?thesis
          by (cases ?r) (auto simp: RelayAnswer p answer_def)
      qed
    qed (use Cons in \<open>auto simp: RelayAnswer answer_def known_def\<close>)
  qed (use Cons in \<open>simp add: answer_def\<close>)
qed simp

lemma uniq_peers_distinct: "distinct (map rp_peerId (uniq_peers seen rs)) \<and>
    set (map rp_peerId (uniq_peers seen rs)) = set (map rp_peerId rs) - seen \<and>
    set (uniq_peers seen rs) \<subseteq> set rs"
  by (induction seen rs rule: uniq_peers.induct) auto

lemma known_mem: "r \<in> set (known reg relay ps) \<Longrightarrow>
    map_of reg (rp_peerId r) = Some (rp_httpsBase r) \<and> rp_httpsBase r \<noteq> [] \<and> rp_resolvedVia r = relay"
  by (auto simp: known_def resolved_def registered_def truthy_iff split: if_splits)

lemma answer_mem: "r \<in> set (answer limit net reg cid relay) \<Longrightarrow>
    map_of reg (rp_peerId r) = Some (rp_httpsBase r) \<and> rp_httpsBase r \<noteq> [] \<and> rp_resolvedVia r = relay"
  by (auto simp: answer_def dest: known_mem split: relay_reply.splits if_splits)

subsection \<open>Properties\<close>


definition demo_relay_net :: relay_net where
  "demo_relay_net url cid limit =
     (if url = ''https://r1/dht/resolve'' then RelayThrows
      else RelayAnswer 200 (Some [\<lparr>dp_peer_id = ''x'', dp_multiaddrs = None\<rparr>,
        \<lparr>dp_peer_id = ''a'', dp_multiaddrs = None\<rparr>, \<lparr>dp_peer_id = ''a'', dp_multiaddrs = Some []\<rparr>]))"

definition demo_resolve_options :: resolve_options where
  "demo_resolve_options =
     \<lparr>ro_relayUrls = [''https://r1/'', ''https://r2''], ro_peerRegistry = [(''a'', ''https://a'')],
      ro_fallbackHttpsBase = [], ro_timeoutMs = None\<rparr>"


text \<open>
  When the relays answer the same list whatever the limit, the single-result helper is
  the head of the plural one. (It is not the thin wrapper its comment announces: it asks
  with limit 5 rather than 10, so the two can differ on a relay with more providers.)
\<close>

lemma resolve_single_is_head:
  assumes "\<And>url cid. net url cid 5 = net url cid 10"
  shows "resolveSessionProvider cid_of net sessionId opts =
    (case resolveSessionProviders cid_of net sessionId opts of
       Inl e \<Rightarrow> Inl e
     | Inr out \<Rightarrow> Inr (case out of [] \<Rightarrow> None | r # _ \<Rightarrow> Some r))"
proof -
  let ?reg = "ro_peerRegistry opts" and ?cid = "cid_of sessionId"
  have same: "answer 5 net ?reg ?cid = answer 10 net ?reg ?cid"
    by (rule ext) (simp add: answer_def assms)
  have head: "(case concat (map f relays) of [] \<Rightarrow> None | r # _ \<Rightarrow> Some r) =
      (case (case filter (\<lambda>x. f x \<noteq> []) relays of [] \<Rightarrow> [] | x # _ \<Rightarrow> uniq_peers {} (f x))
       of [] \<Rightarrow> None | r # _ \<Rightarrow> Some r)" for f :: "string \<Rightarrow> resolved_provider list" and relays
  proof (induction relays)
    case (Cons x xs)
    then show ?case by (cases "f x") auto
  qed simp
  show ?thesis
    by (simp add: resolveSessionProvider_def resolveSessionProviders_def sessionIdToCid_def
        resolve_one_answer resolve_all_answer same head)
qed

theorem resolve_single_is_head_witness:
  "resolveSessionProvider id demo_relay_net ''s'' demo_resolve_options =
    (case resolveSessionProviders id demo_relay_net ''s'' demo_resolve_options of
       Inl e \<Rightarrow> Inl e
     | Inr out \<Rightarrow> Inr (case out of [] \<Rightarrow> None | r # _ \<Rightarrow> Some r))"
  by (rule resolve_single_is_head) (simp add: demo_relay_net_def)

subsection \<open>The registry format\<close>

definition csv_pair :: "string \<times> string \<Rightarrow> string" where
  "csv_pair e = fst e @ ''='' @ snd e"

definition plain_text :: "string \<Rightarrow> bool" where
  \<comment> \<open>what a key or value of the CSV form may be\<close>
  "plain_text s = (s \<noteq> [] \<and> list_all (\<lambda>c. c \<noteq> CHR '','' \<and> c \<noteq> CHR ''='' \<and> \<not> is_ws c) s)"

lemma plain_trim: "plain_text s \<Longrightarrow> trim s = s"
  by (intro trim_id) (auto simp: plain_text_def list_all_iff)

lemma AList_update_new: "k \<notin> fst ` set es \<Longrightarrow> AList.update k v es = es @ [(k, v)]"
  by (induction es) auto

lemma csv_pair_split:
  "plain_text k \<Longrightarrow> plain_text v \<Longrightarrow> map trim (split_on CHR ''='' (csv_pair (k, v))) = [k, v]"
  by (subgoal_tac "CHR ''='' \<notin> set k \<and> CHR ''='' \<notin> set v")
    (auto simp: csv_pair_def split_on_append split_on_single plain_trim, auto simp: plain_text_def list_all_iff)

lemma registry_pairs_csv:
  assumes "\<forall>(k, v) \<in> set es. plain_text k \<and> plain_text v" "distinct (map fst (out @ es))"
  shows "registry_pairs (map csv_pair es) out = out @ es"
  using assms
proof (induction es arbitrary: out)
  case (Cons e es)
  obtain k v where e: "e = (k, v)" by (cases e)
  have "registry_pairs (map csv_pair es) (out @ [(k, v)]) = (out @ [(k, v)]) @ es"
    using Cons.prems by (intro Cons.IH) (auto simp: e)
  moreover have "k \<noteq> []" "v \<noteq> []" using Cons.prems(1) by (auto simp: e plain_text_def)
  moreover have "k \<notin> fst ` set out" using Cons.prems(2) by (auto simp: e)
  ultimately show ?case
    using Cons.prems(1) csv_pair_split [of k v] by (simp add: e Let_def AList_update_new)
qed simp

text \<open>
  A registry written in the CSV form (\<open>peer=url\<close> pairs separated by commas) parses back
  to the same entries in the same order.
\<close>

lemma registry_csv_roundtrip:
  assumes "\<forall>(k, v) \<in> set es. plain_text k \<and> plain_text v" and "distinct (map fst es)"
    and "\<not> starts_with ''{'' (join_with '','' (map csv_pair es))"
  shows "parseProviderRegistry JSON_parse (join_with '','' (map csv_pair es)) = es"
proof (cases "es = []")
  case True
  then show ?thesis by (simp add: parseProviderRegistry_def trim_def)
next
  case False
  let ?t = "join_with '','' (map csv_pair es)"
  have "\<not> is_ws c" if c: "c \<in> set ?t" for c
  proof -
    from c set_join [of "'',''" "map csv_pair es"]
    consider "c = CHR '',''" | e where "e \<in> set es" "c \<in> set (csv_pair e)" by auto
    then show ?thesis
    proof cases
      case 2
      have "plain_text (fst e)" "plain_text (snd e)" using assms(1) 2(1) by auto
      then have plain: "c \<in> set (fst e) \<or> c \<in> set (snd e) \<Longrightarrow> \<not> is_ws c"
        by (auto simp: plain_text_def list_all_iff)
      have "c = CHR ''='' \<or> c \<in> set (fst e) \<or> c \<in> set (snd e)"
        using 2(2) by (simp add: csv_pair_def)
      then show ?thesis using plain by (elim disjE) (simp_all add: is_ws_def code_def)
    qed (simp add: is_ws_def code_def)
  qed
  then have t: "trim ?t = ?t" by (rule trim_id)
  have ne: "?t \<noteq> []" using False
    by (cases es; cases "tl es") (auto simp: csv_pair_def)
  have "split_on CHR '','' ?t = map csv_pair es"
    using False assms(1) by (intro split_join) (fastforce simp: csv_pair_def plain_text_def list_all_iff)+
  then show ?thesis
    using ne assms registry_pairs_csv [of es "[]"] by (simp add: parseProviderRegistry_def Let_def t)
qed

theorem registry_csv_roundtrip_witness:
  "parseProviderRegistry (\<lambda>_. None) ''12D3=https://a,12D4=https://b'' =
     [(''12D3'', ''https://a''), (''12D4'', ''https://b'')]"
  using registry_csv_roundtrip [of "[(''12D3'', ''https://a''), (''12D4'', ''https://b'')]" "\<lambda>_. None"]
  by (simp add: csv_pair_def plain_text_def is_ws_def code_def starts_with_def)

end
