(* ===== verification/JsText.thy ===== *)
theory JsText
  imports Prelude
begin

text \<open>
  Numbers as text and text as numbers (\<open>String\<close>, \<open>Number\<close>, \<open>toString(16)\<close>), and
  \<open>encodeURIComponent\<close>, as far as the components use them, with the round trips the
  properties rest on.
\<close>

subsection \<open>Printing integers\<close>

fun show_nat :: "nat \<Rightarrow> string" where
  "show_nat n = (if n < 10 then [char_of (48 + n)]
                 else show_nat (n div 10) @ [char_of (48 + n mod 10)])"

declare show_nat.simps [simp del]

definition hex_char :: "nat \<Rightarrow> char" where
  "hex_char d = (if d < 10 then char_of (48 + d) else char_of (87 + d))"

fun show_hex :: "nat \<Rightarrow> string" where
  \<comment> \<open>\<open>n.toString(16)\<close>\<close>
  "show_hex n = (if n < 16 then [hex_char n]
                 else show_hex (n div 16) @ [hex_char (n mod 16)])"

declare show_hex.simps [simp del]

text \<open>\<open>String(x)\<close> of a finite number. Whole numbers below \<open>10 ^ 21\<close> print in decimal; the
  shortest round-trip text of any other double is the parameter \<open>num_text\<close>.\<close>

definition js_String :: "(real \<Rightarrow> string) \<Rightarrow> real \<Rightarrow> string" where
  "js_String num_text x =
     (if 0 \<le> x \<and> x < 10 ^ 21 \<and> x = of_int \<lfloor>x\<rfloor> then show_nat (nat \<lfloor>x\<rfloor>) else num_text x)"

subsection \<open>Reading numbers\<close>

definition digit_val :: "char \<Rightarrow> nat" where
  "digit_val c = code c - 48"

definition read_nat :: "string \<Rightarrow> nat" where
  "read_nat s = foldl (\<lambda>n c. 10 * n + digit_val c) 0 s"

definition hex_val :: "char \<Rightarrow> nat" where
  "hex_val c = (let n = code c in if n \<le> 57 then n - 48 else if n \<le> 70 then n - 55 else n - 87)"

definition read_radix :: "nat \<Rightarrow> string \<Rightarrow> jsnum" where
  "read_radix b s = (if s \<noteq> [] \<and> list_all (\<lambda>c. is_hex c \<and> hex_val c < b) s
     then Fin (of_nat (foldl (\<lambda>n c. b * n + hex_val c) 0 s)) else NaN)"

definition read_exponent :: "real \<Rightarrow> string \<Rightarrow> jsnum" where
  \<comment> \<open>what follows the \<open>e\<close> of a decimal literal with mantissa \<open>m\<close>\<close>
  "read_exponent m s =
     (let ds = (if take 1 s = ''-'' \<or> take 1 s = ''+'' then drop 1 s else s) in
      if ds = [] \<or> \<not> list_all is_digit ds then NaN
      else Fin (if take 1 s = ''-'' then m / 10 ^ read_nat ds else m * 10 ^ read_nat ds))"

definition read_decimal :: "string \<Rightarrow> jsnum" where
  \<comment> \<open>\<open>StrUnsignedDecimalLiteral\<close>\<close>
  "read_decimal s =
     (if s = ''Infinity'' then PInf else
      let ip = takeWhile is_digit s; r = dropWhile is_digit s;
          fp = (if take 1 r = ''.'' then takeWhile is_digit (drop 1 r) else []);
          r2 = (if take 1 r = ''.'' then dropWhile is_digit (drop 1 r) else r);
          m = of_nat (read_nat (ip @ fp)) / 10 ^ length fp
      in if ip = [] \<and> fp = [] then NaN
         else if r2 = [] then Fin m
         else if take 1 r2 = ''e'' \<or> take 1 r2 = ''E'' then read_exponent m (drop 1 r2)
         else NaN)"

fun neg_num :: "jsnum \<Rightarrow> jsnum" where
  "neg_num (Fin x) = Fin (- x)"
| "neg_num PInf = NInf"
| "neg_num NInf = PInf"
| "neg_num NaN = NaN"

definition js_Number :: "string \<Rightarrow> jsnum" where
  \<comment> \<open>\<open>Number(s)\<close>; the empty string is 0\<close>
  "js_Number str =
     (let s = trim str in
      if s = [] then Fin 0
      else if take 2 s = ''0x'' \<or> take 2 s = ''0X'' then read_radix 16 (drop 2 s)
      else if take 2 s = ''0o'' \<or> take 2 s = ''0O'' then read_radix 8 (drop 2 s)
      else if take 2 s = ''0b'' \<or> take 2 s = ''0B'' then read_radix 2 (drop 2 s)
      else if take 1 s = ''-'' then neg_num (read_decimal (drop 1 s))
      else if take 1 s = ''+'' then read_decimal (drop 1 s)
      else read_decimal s)"

lemma code_char_of: "n < 256 \<Longrightarrow> code (char_of n) = n"
  by (simp add: code_def)

lemma digit_chars [simp]:
  "char_of (48 :: nat) = CHR ''0''" "char_of (49 :: nat) = CHR ''1''"
  "char_of (50 :: nat) = CHR ''2''" "char_of (51 :: nat) = CHR ''3''"
  "char_of (52 :: nat) = CHR ''4''" "char_of (53 :: nat) = CHR ''5''"
  "char_of (54 :: nat) = CHR ''6''" "char_of (55 :: nat) = CHR ''7''"
  "char_of (56 :: nat) = CHR ''8''" "char_of (57 :: nat) = CHR ''9''"
  by (simp_all add: char_of_def bit_0)

lemma char_eq_iff_code: "c = d \<longleftrightarrow> code c = code d"
  by (simp add: code_def)

lemma show_nat_digits: "list_all is_digit (show_nat n)"
proof (induction n rule: show_nat.induct)
  case (1 n)
  have dig: "is_digit (char_of (48 + k))" if "k < 10" for k :: nat
    using that by (simp add: is_digit_def code_char_of)
  show ?case by (subst show_nat.simps) (use 1 in \<open>simp add: dig\<close>)
qed

lemma show_nat_ne [simp]: "show_nat n \<noteq> []"
  by (subst show_nat.simps) simp

lemma read_nat_snoc: "read_nat (s @ [c]) = 10 * read_nat s + digit_val c"
  by (simp add: read_nat_def)

lemma read_show_nat [simp]: "read_nat (show_nat n) = n"
proof (induction n rule: show_nat.induct)
  case (1 n)
  show ?case
  proof (cases "n < 10")
    case True
    then show ?thesis
      by (subst show_nat.simps) (simp add: read_nat_def digit_val_def code_char_of)
  next
    case False
    then have "show_nat n = show_nat (n div 10) @ [char_of (48 + n mod 10)]"
      by (subst show_nat.simps) simp
    with False 1 show ?thesis by (simp add: read_nat_snoc digit_val_def code_char_of)
  qed
qed

lemma show_nat_inj: "show_nat m = show_nat n \<longleftrightarrow> m = n"
  by (metis read_show_nat)

lemma digit_not: "is_digit c \<Longrightarrow> \<not> is_ws c \<and> c \<noteq> CHR ''x'' \<and> c \<noteq> CHR ''X'' \<and> c \<noteq> CHR ''o'' \<and>
    c \<noteq> CHR ''O'' \<and> c \<noteq> CHR ''b'' \<and> c \<noteq> CHR ''B'' \<and> c \<noteq> CHR ''-'' \<and> c \<noteq> CHR ''+'' \<and> c \<noteq> CHR '':'' \<and>
    c \<noteq> CHR ''I''"
  by (auto simp: is_digit_def is_ws_def char_eq_iff_code) (auto simp: code_def)

lemma js_Number_digits:
  assumes "list_all is_digit s" "s \<noteq> []"
  shows "js_Number s = Fin (of_nat (read_nat s))"
proof -
  from assms(1) have d: "is_digit c" if "c \<in> set s" for c using that by (simp add: list_all_iff)
  then have t: "trim s = s" by (intro trim_id) (use digit_not in blast)
  obtain a r where s: "s = a # r" using assms(2) by (cases s) auto
  have a: "is_digit a" using d s by simp
  have b: "take 2 s \<noteq> [CHR ''0'', x]" if "\<not> is_digit x" for x
    using d that s by (cases r) auto
  have "takeWhile is_digit s = s" "dropWhile is_digit s = []"
    using assms(1) by (auto simp: list_all_iff)
  then have "read_decimal s = Fin (of_nat (read_nat s))"
    using assms(2) digit_not [OF a] s by (auto simp: read_decimal_def Let_def)
  moreover have "take 2 s \<noteq> ''0x''" "take 2 s \<noteq> ''0X''" "take 2 s \<noteq> ''0o''"
    "take 2 s \<noteq> ''0O''" "take 2 s \<noteq> ''0b''" "take 2 s \<noteq> ''0B''"
    using b digit_not by blast+
  moreover have "take 1 s \<noteq> ''-''" "take 1 s \<noteq> ''+''" using digit_not [OF a] s by auto
  ultimately show ?thesis using assms(2) by (simp add: js_Number_def Let_def t)
qed

lemma js_Number_show_nat [simp]: "js_Number (show_nat n) = Fin (of_nat n)"
  by (simp add: js_Number_digits show_nat_digits)

lemma js_String_nat [simp]: "n < 10 ^ 21 \<Longrightarrow> js_String nt (of_nat n) = show_nat n"
  by (simp add: js_String_def)

subsection \<open>Hexadecimal\<close>

definition read_hex :: "string \<Rightarrow> nat" where
  "read_hex s = foldl (\<lambda>n c. 16 * n + hex_val c) 0 s"

lemma hex_char_code: "d < 16 \<Longrightarrow> code (hex_char d) = (if d < 10 then 48 + d else 87 + d)"
  by (simp add: hex_char_def code_char_of)

lemma hex_char_lower: "d < 16 \<Longrightarrow> is_lower_hex (hex_char d)"
  by (simp add: is_lower_hex_def hex_char_code)

lemma hex_val_char: "d < 16 \<Longrightarrow> hex_val (hex_char d) = d"
  by (simp add: hex_val_def hex_char_code)

lemma show_hex_lower: "list_all is_lower_hex (show_hex n)"
proof (induction n rule: show_hex.induct)
  case (1 n)
  then show ?case by (subst show_hex.simps) (simp add: hex_char_lower)
qed

lemma read_show_hex [simp]: "read_hex (show_hex n) = n"
proof (induction n rule: show_hex.induct)
  case (1 n)
  then show ?case by (subst show_hex.simps) (auto simp: read_hex_def hex_val_char)
qed

lemma length_show_hex: "n < 16 ^ Suc k \<Longrightarrow> length (show_hex n) \<le> Suc k"
proof (induction k arbitrary: n)
  case 0
  then show ?case by (subst show_hex.simps) simp
next
  case (Suc k)
  then have "n div 16 < 16 ^ Suc k" by (intro less_mult_imp_div_less) (simp add: mult.commute)
  with Suc.IH show ?case by (subst show_hex.simps) simp
qed

lemma read_hex_pad [simp]: "read_hex (pad_start k CHR ''0'' s) = read_hex s"
proof -
  have "foldl (\<lambda>n c. 16 * n + hex_val c) 0 (replicate m CHR ''0'' @ s) = read_hex s" for m
    by (induction m) (simp_all add: read_hex_def hex_val_def code_def)
  then show ?thesis by (simp add: read_hex_def pad_start_def)
qed

lemma pad_lower_hex: "list_all is_lower_hex s \<Longrightarrow> list_all is_lower_hex (pad_start k CHR ''0'' s)"
  "list_all is_lower_hex s \<Longrightarrow> list_all is_lower_hex (pad_end k CHR ''0'' s)"
  by (auto simp: pad_start_def pad_end_def list_all_iff is_lower_hex_def code_def)

subsection \<open>\<open>encodeURIComponent\<close>\<close>

definition unreserved :: "char \<Rightarrow> bool" where
  "unreserved c = (let n = code c in
     48 \<le> n \<and> n \<le> 57 \<or> 65 \<le> n \<and> n \<le> 90 \<or> 97 \<le> n \<and> n \<le> 122 \<or>
     n = 45 \<or> n = 95 \<or> n = 46 \<or> n = 33 \<or> n = 126 \<or> n = 42 \<or> n = 39 \<or> n = 40 \<or> n = 41)"

definition hex_upper :: "nat \<Rightarrow> char" where
  "hex_upper d = (if d < 10 then char_of (48 + d) else char_of (55 + d))"

definition pct :: "nat \<Rightarrow> string" where
  "pct n = [CHR ''%'', hex_upper (n div 16), hex_upper (n mod 16)]"

definition encode_char :: "char \<Rightarrow> string" where
  \<comment> \<open>the UTF-8 bytes of the code unit, percent-encoded\<close>
  "encode_char c = (let n = code c in
     if unreserved c then [c] else if n < 128 then pct n else pct (192 + n div 64) @ pct (128 + n mod 64))"

definition encodeURIComponent :: "string \<Rightarrow> string" where
  "encodeURIComponent s = concat (map encode_char s)"

lemma code_lt: "code c < 256"
  by (simp add: code_def)

lemma hex_upper_unreserved: "d < 16 \<Longrightarrow> unreserved (hex_upper d)"
  by (auto simp: unreserved_def hex_upper_def code_char_of Let_def)

lemma pct_safe: "n < 256 \<Longrightarrow> c \<in> set (pct n) \<Longrightarrow> unreserved c \<or> c = CHR ''%''"
  by (auto simp: pct_def intro!: hex_upper_unreserved)

lemma encode_char_safe: "c \<in> set (encode_char d) \<Longrightarrow> unreserved c \<or> c = CHR ''%''"
proof -
  assume c: "c \<in> set (encode_char d)"
  have "192 + code d div 64 < 256" "128 + code d mod 64 < 256" using code_lt [of d] by auto
  then show ?thesis
    using c pct_safe [of "code d" c] pct_safe [of "192 + code d div 64" c]
      pct_safe [of "128 + code d mod 64" c] code_lt [of d]
    by (auto simp: encode_char_def Let_def split: if_splits)
qed

lemma encode_safe: "c \<in> set (encodeURIComponent s) \<Longrightarrow> unreserved c \<or> c = CHR ''%''"
  by (auto simp: encodeURIComponent_def dest: encode_char_safe)

lemma encode_no_slash: "CHR ''/'' \<notin> set (encodeURIComponent s)"
  using encode_safe [of "CHR ''/''" s] by (auto simp: unreserved_def code_def)

lemma encode_id: "(\<And>c. c \<in> set s \<Longrightarrow> unreserved c) \<Longrightarrow> encodeURIComponent s = s"
  by (induction s) (auto simp: encodeURIComponent_def encode_char_def Let_def)

end
