(* ===== verification/MeshVod.thy ===== *)
theory MeshVod
  imports MeshLatency JsText
begin

text \<open>
  \<open>apps/video/src/lib/mesh/vod.ts\<close>: the manifest of a closed session, as a viewer fetches
  and checks it. The network is the parameter: what the request to a URL did. The manifest is
  the parsed JSON value itself, as the code returns the value it checked.
\<close>

subsection \<open>Operations\<close>

record fetch_vod_options =
  fv_httpsBase :: string
  fv_sessionId :: string
  fv_timeoutMs :: "int option"

text \<open>The fetch rejected (also when the timer or the caller aborted it), or answered with a
  status and a body that parses as JSON or whose parsing rejects.\<close>

datatype vod_reply = VodRejected js_error | VodResponse nat "json result"

definition required_fields :: "string list" where
  "required_fields = [''version'', ''session_id'', ''cid'', ''merkle_root'', ''segment_count'',
     ''segment_duration_secs'', ''segment_cids'', ''started_at_iso'', ''ended_at_iso'']"

fun first_missing :: "json \<Rightarrow> string list \<Rightarrow> string option" where
  "first_missing m [] = None"
| "first_missing m (k # ks) = (if jget m k = None then Some k else first_missing m ks)"

definition merkle_hex :: "string \<Rightarrow> bool" where
  "merkle_hex s = (length s = 64 \<and> list_all is_lower_hex s)"

definition assertVODManifestShape :: "json \<Rightarrow> json result" where
  "assertVODManifestShape v =
     (if \<not> is_object v then Inl (Error ''VOD manifest: not an object'')
      else case first_missing v required_fields of
        Some k \<Rightarrow> Inl (Error (''VOD manifest: missing field '' @ k))
      | None \<Rightarrow>
          if \<not> (case as_str (jget v ''merkle_root'') of None \<Rightarrow> False | Some r \<Rightarrow> merkle_hex r)
          then Inl (Error ''VOD manifest: merkle_root must be 32-byte hex'')
          else (case jget v ''segment_cids'' of
              Some (JArr cids) \<Rightarrow>
                if as_num (jget v ''segment_count'') \<noteq> Some (Fin (of_nat (length cids)))
                then Inl (Error ''VOD manifest: segment_cids length != segment_count'')
                else Inr v
            | _ \<Rightarrow> Inl (Error ''VOD manifest: segment_cids must be an array'')))"

definition vod_url :: "fetch_vod_options \<Rightarrow> string" where
  "vod_url opts = strip_slashes (fv_httpsBase opts) @ ''/live/'' @
     encodeURIComponent (fv_sessionId opts) @ ''/manifest.json''"

definition fetchVODManifest :: "fetch_vod_options \<Rightarrow> (string \<Rightarrow> vod_reply) \<Rightarrow> json option result" where
  "fetchVODManifest opts net =
     (let url = vod_url opts
      in case net url of
           VodRejected e \<Rightarrow> Inl e
         | VodResponse st body \<Rightarrow>
             if st = 404 then Inr None
             else if \<not> status_ok st
               then Inl (Error (''VOD manifest '' @ show_nat st @ '' from '' @ url))
             else (case body of
                 Inl e \<Rightarrow> Inl e
               | Inr b \<Rightarrow> (case assertVODManifestShape b of Inl e \<Rightarrow> Inl e | Inr m \<Rightarrow> Inr (Some m))))"

text \<open>JavaScript's product of two numbers.\<close>

fun num_sign :: "jsnum \<Rightarrow> real" where
  "num_sign (Fin x) = sgn x"
| "num_sign PInf = 1"
| "num_sign NInf = - 1"
| "num_sign NaN = 0"

definition num_mult :: "jsnum \<Rightarrow> jsnum \<Rightarrow> jsnum" where
  "num_mult a b = (case (a, b) of
      (Fin x, Fin y) \<Rightarrow> Fin (x * y)
    | _ \<Rightarrow> if a = NaN \<or> b = NaN \<or> num_sign a * num_sign b = 0 then NaN
          else if 0 < num_sign a * num_sign b then PInf else NInf)"

definition vodDurationSecs :: "json \<Rightarrow> jsnum option" where
  \<comment> \<open>\<open>None\<close> when one of the two fields is not a number, against the declared type\<close>
  "vodDurationSecs m =
     (case (as_num (jget m ''segment_count''), as_num (jget m ''segment_duration_secs'')) of
        (Some n, Some d) \<Rightarrow> Some (num_mult n d)
      | _ \<Rightarrow> None)"

subsection \<open>What a manifest promises\<close>

definition valid_manifest :: "json \<Rightarrow> bool" where
  "valid_manifest m =
     ((\<forall>k \<in> set required_fields. jget m k \<noteq> None) \<and>
      (\<exists>root cids. jget m ''merkle_root'' = Some (JStr root) \<and> merkle_hex root \<and>
         jget m ''segment_cids'' = Some (JArr cids) \<and>
         jget m ''segment_count'' = Some (JNum (Fin (of_nat (length cids))))))"

lemma first_missing_None: "first_missing m ks = None \<longleftrightarrow> (\<forall>k \<in> set ks. jget m k \<noteq> None)"
  by (induction ks) auto

lemma jget_object: "jget m k \<noteq> None \<Longrightarrow> is_object m"
  by (cases m) (auto simp: is_object_def)

lemma assert_shape_ok: "assertVODManifestShape v = Inr m \<longleftrightarrow> m = v \<and> valid_manifest v"
proof (cases "first_missing v required_fields")
  case None
  then have all: "\<forall>k \<in> set required_fields. jget v k \<noteq> None" by (simp add: first_missing_None)
  then have "is_object v" using jget_object [of v "''version''"] by (simp add: required_fields_def)
  with None all show ?thesis
    by (auto simp: assertVODManifestShape_def valid_manifest_def as_num_Some as_str_Some
        split: option.splits json.splits)
next
  case (Some k)
  then have "\<not> valid_manifest v" using first_missing_None [of v required_fields]
    by (simp add: valid_manifest_def)
  with Some show ?thesis by (simp add: assertVODManifestShape_def)
qed

lemma vod_duration:
  assumes "valid_manifest m" "jget m ''segment_cids'' = Some (JArr cids)"
    "jget m ''segment_duration_secs'' = Some (JNum (Fin d))"
  shows "vodDurationSecs m = Some (Fin (of_nat (length cids) * d))"
  using assms by (auto simp: valid_manifest_def vodDurationSecs_def num_mult_def)

subsection \<open>Properties\<close>

text \<open>
  \<open>fetchVODManifest\<close> yields nothing exactly for a 404, and a manifest exactly for a
  success whose body is an object with all nine fields, a Merkle root of 64 lower-case hex
  digits and as many segment CIDs as it counts; everything else throws. The manifest is the
  body itself, and the session id cannot leave its segment of the URL's path.
\<close>

lemma vod_manifest_accepts:
  "(fetchVODManifest opts net = Inr None \<longleftrightarrow> (\<exists>b. net (vod_url opts) = VodResponse 404 b)) \<and>
   (fetchVODManifest opts net = Inr (Some m) \<longleftrightarrow>
      (\<exists>st. net (vod_url opts) = VodResponse st (Inr m) \<and> status_ok st \<and> valid_manifest m)) \<and>
   split_on CHR ''/'' (drop (length (strip_slashes (fv_httpsBase opts))) (vod_url opts)) =
     [[], ''live'', encodeURIComponent (fv_sessionId opts), ''manifest.json'']"
proof -
  have path: "split_on CHR ''/'' (drop (length (strip_slashes (fv_httpsBase opts))) (vod_url opts)) =
     [[], ''live'', encodeURIComponent (fv_sessionId opts), ''manifest.json'']"
    using split_on_append [OF encode_no_slash, of "fv_sessionId opts" "''manifest.json''"]
    by (simp add: vod_url_def)
  have "\<not> status_ok 404" by (simp add: status_ok_def)
  moreover have "assertVODManifestShape m = Inl e \<Longrightarrow> \<not> valid_manifest m" for e
    using assert_shape_ok [of m m] by auto
  ultimately show ?thesis unfolding path
    by (auto simp: fetchVODManifest_def Let_def assert_shape_ok split: vod_reply.splits sum.splits if_splits)
qed

end
