(* ===== verification/MeshP2p.thy ===== *)
theory MeshP2p
  imports JsText
begin

text \<open>
  \<open>apps/video/src/lib/mesh/p2p.ts\<close>: the browser's libp2p node of one live session. libp2p
  itself is outside: creating and starting it (with its peer id, or a rejection), whether a
  dial succeeds, and the events it fires. What the code publishes, delivers and logs is kept
  in the state. Handlers are named by numbers; the ones the application registers do not throw.
\<close>

subsection \<open>State\<close>

record init_mesh_options =
  im_sessionId :: string
  im_bootstraps :: "string list"
  im_heartbeatIntervalMs :: "int option"

record mesh_node =
  mn_topic :: string
  mn_selfPeerId :: string
  mn_heartbeat :: string
  mn_heartbeatTimer :: bool
  mn_messageHandlers :: "nat list"
  mn_published :: "(string \<times> string) list"
  mn_delivered :: "(nat \<times> string \<times> string) list"
  mn_warnings :: "string list"
  mn_stops :: nat

record mesh_status =
  connectedPeerCount :: nat
  topicPeerCount :: nat
  selfPeerId :: string

datatype mesh_event =
    OnMessage nat
  | Unsubscribe nat
  | PubsubMessage string "string option" string
  | HeartbeatTick
  | Publish string
  | Stop

subsection \<open>Operations\<close>

definition hello_json :: "string \<Rightarrow> nat \<Rightarrow> string" where
  \<comment> \<open>\<open>JSON.stringify({ t: 'hello', peer, ts })\<close>; a peer id needs no escapes\<close>
  "hello_json peer ts =
     ''{\"t\":\"hello\",\"peer\":\"'' @ peer @ ''\",\"ts\":'' @ show_nat ts @ ''}''"

definition dial_all :: "(string \<Rightarrow> bool) \<Rightarrow> string list \<Rightarrow> string list" where
  \<comment> \<open>the warnings of the failed dials\<close>
  "dial_all dial addrs =
     map (\<lambda>addr. ''[p2p] dial bootstrap failed: '' @ addr) (filter (\<lambda>addr. \<not> dial addr) addrs)"

definition initMesh ::
  "init_mesh_options \<Rightarrow> string result \<Rightarrow> (string \<Rightarrow> bool) \<Rightarrow> nat \<Rightarrow> mesh_node result" where
  "initMesh opts node dial now =
     (if im_sessionId opts = [] then Inl (Error ''initMesh: sessionId is required'')
      else if length (im_bootstraps opts) = 0
        then Inl (Error ''initMesh: at least one bootstrap multiaddr is required'')
      else let topic = ''aevia-live-'' @ im_sessionId opts;
               heartbeatInterval = or_default (im_heartbeatIntervalMs opts) 5000
           in (case node of
               Inl e \<Rightarrow> Inl e
             | Inr peerId \<Rightarrow> Inr
                 \<lparr>mn_topic = topic, mn_selfPeerId = peerId,
                  mn_heartbeat = hello_json peerId now,
                  mn_heartbeatTimer = (0 < heartbeatInterval),
                  mn_messageHandlers = [], mn_published = [], mn_delivered = [],
                  mn_warnings = dial_all dial (im_bootstraps opts), mn_stops = 0\<rparr>))"

definition deliver_message :: "string \<Rightarrow> string option \<Rightarrow> string \<Rightarrow> mesh_node \<Rightarrow> mesh_node" where
  "deliver_message topic from payload n =
     (if topic \<noteq> mn_topic n then n
      else n\<lparr>mn_delivered := mn_delivered n @
        map (\<lambda>h. (h, or_default from [], payload)) (mn_messageHandlers n)\<rparr>)"

definition heartbeat_tick :: "mesh_node \<Rightarrow> mesh_node" where
  \<comment> \<open>the interval calls back only while it is set; a rejected publish is swallowed\<close>
  "heartbeat_tick n =
     (if mn_heartbeatTimer n
      then n\<lparr>mn_published := mn_published n @ [(mn_topic n, mn_heartbeat n)]\<rparr> else n)"

definition mesh_publish :: "string \<Rightarrow> mesh_node \<Rightarrow> mesh_node" where
  "mesh_publish payload n = n\<lparr>mn_published := mn_published n @ [(mn_topic n, payload)]\<rparr>"

definition mesh_onMessage :: "nat \<Rightarrow> mesh_node \<Rightarrow> mesh_node" where
  \<comment> \<open>\<open>Set.add\<close> keeps the insertion order and ignores what it has\<close>
  "mesh_onMessage h n =
     (if h \<in> set (mn_messageHandlers n) then n
      else n\<lparr>mn_messageHandlers := mn_messageHandlers n @ [h]\<rparr>)"

definition mesh_unsubscribe :: "nat \<Rightarrow> mesh_node \<Rightarrow> mesh_node" where
  "mesh_unsubscribe h n = n\<lparr>mn_messageHandlers := remove1 h (mn_messageHandlers n)\<rparr>"

definition mesh_stop :: "mesh_node \<Rightarrow> mesh_node" where
  "mesh_stop n =
     (let n1 = (if mn_heartbeatTimer n then n\<lparr>mn_heartbeatTimer := False\<rparr> else n)
      in n1\<lparr>mn_stops := mn_stops n1 + 1\<rparr>)"

definition mesh_status_of :: "nat \<Rightarrow> nat \<Rightarrow> mesh_node \<Rightarrow> mesh_status" where
  "mesh_status_of connections subscribers n =
     \<lparr>connectedPeerCount = connections, topicPeerCount = subscribers, selfPeerId = mn_selfPeerId n\<rparr>"

fun mesh_step :: "mesh_event \<Rightarrow> mesh_node \<Rightarrow> mesh_node" where
  "mesh_step (OnMessage h) = mesh_onMessage h"
| "mesh_step (Unsubscribe h) = mesh_unsubscribe h"
| "mesh_step (PubsubMessage topic from payload) = deliver_message topic from payload"
| "mesh_step HeartbeatTick = heartbeat_tick"
| "mesh_step (Publish payload) = mesh_publish payload"
| "mesh_step Stop = mesh_stop"

definition mesh_run :: "mesh_event list \<Rightarrow> mesh_node \<Rightarrow> mesh_node" where
  "mesh_run es n = fold mesh_step es n"

definition parseLibp2pBootstraps :: "string \<Rightarrow> string list" where
  "parseLibp2pBootstraps str = filter (\<lambda>s. s \<noteq> []) (map trim (split_on CHR '','' str))"

subsection \<open>What one handler receives\<close>

fun inbox :: "string \<Rightarrow> nat \<Rightarrow> bool \<Rightarrow> mesh_event list \<Rightarrow> (nat \<times> string \<times> string) list" where
  \<comment> \<open>the messages of \<open>topic\<close> between the registration of \<open>h\<close> and its removal\<close>
  "inbox topic h on [] = []"
| "inbox topic h on (e # es) =
     (case e of
        OnMessage h' \<Rightarrow> inbox topic h (h = h' \<or> on) es
      | Unsubscribe h' \<Rightarrow> inbox topic h (on \<and> h \<noteq> h') es
      | PubsubMessage t from p \<Rightarrow>
          (if on \<and> t = topic then [(h, or_default from [], p)] else []) @ inbox topic h on es
      | _ \<Rightarrow> inbox topic h on es)"

fun outbox :: "string \<Rightarrow> bool \<Rightarrow> mesh_event list \<Rightarrow> string list" where
  \<comment> \<open>what goes out: explicit publishes, and the heartbeat of each tick until the stop\<close>
  "outbox beat on [] = []"
| "outbox beat on (e # es) =
     (case e of
        Publish p \<Rightarrow> p # outbox beat on es
      | HeartbeatTick \<Rightarrow> (if on then [beat] else []) @ outbox beat on es
      | Stop \<Rightarrow> outbox beat False es
      | _ \<Rightarrow> outbox beat on es)"

lemmas mesh_ops = mesh_onMessage_def mesh_unsubscribe_def deliver_message_def heartbeat_tick_def
  mesh_publish_def mesh_stop_def Let_def

lemma mesh_run_simps [simp]:
  "mesh_run [] n = n" "mesh_run (e # es) n = mesh_run es (mesh_step e n)"
  by (simp_all add: mesh_run_def)

lemma mesh_step_topic [simp]:
  "mn_topic (mesh_step e n) = mn_topic n" "mn_heartbeat (mesh_step e n) = mn_heartbeat n"
  by (cases e; simp add: mesh_ops)+

lemma mesh_step_handlers: "distinct (mn_messageHandlers n) \<Longrightarrow> distinct (mn_messageHandlers (mesh_step e n))"
  by (cases e) (auto simp: mesh_ops)

lemma filter_one_handler:
  "distinct hs \<Longrightarrow> filter (\<lambda>d. fst d = h) (map (\<lambda>h. (h, x)) hs) = (if h \<in> set hs then [(h, x)] else [])"
  by (induction hs) (auto simp: filter_empty_conv)

lemma delivered_inbox:
  assumes "distinct (mn_messageHandlers n)"
  shows "filter (\<lambda>d. fst d = h) (mn_delivered (mesh_run es n)) =
    filter (\<lambda>d. fst d = h) (mn_delivered n) @ inbox (mn_topic n) h (h \<in> set (mn_messageHandlers n)) es"
  using assms
proof (induction es arbitrary: n)
  case (Cons e es)
  show ?case using Cons.prems Cons.IH [OF mesh_step_handlers [OF Cons.prems], of e]
    by (cases e; cases "e = OnMessage h") (auto simp: mesh_ops filter_one_handler)
qed simp

lemma published_outbox:
  "mn_published (mesh_run es n) =
   mn_published n @ map (Pair (mn_topic n)) (outbox (mn_heartbeat n) (mn_heartbeatTimer n) es)"
proof (induction es arbitrary: n)
  case (Cons e es)
  show ?case by (cases e) (auto simp: Cons.IH mesh_ops)
qed simp

lemma outbox_stopped: "outbox beat False es = concat (map (\<lambda>e. case e of Publish p \<Rightarrow> [p] | _ \<Rightarrow> []) es)"
  by (induction es) (auto split: mesh_event.splits)

lemma outbox_append:
  "outbox beat on (es @ fs) = outbox beat on es @ outbox beat (on \<and> Stop \<notin> set es) fs"
  by (induction es arbitrary: on) (auto split: mesh_event.splits)

lemma initMesh_ok: "initMesh opts node dial now = Inr n \<Longrightarrow>
   mn_topic n = ''aevia-live-'' @ im_sessionId opts \<and> mn_messageHandlers n = [] \<and>
   mn_delivered n = [] \<and> mn_published n = []"
  by (auto simp: initMesh_def Let_def split: if_splits sum.splits)

subsection \<open>Properties\<close>

text \<open>
  C10. Over any sequence of events of a started node: a handler gets exactly the messages of
  the session's own topic that arrive while it is registered, each once and in order; and
  after the node is stopped no heartbeat leaves it, only what is explicitly published.
\<close>

theorem mesh_isolation:
  assumes "initMesh opts node dial now = Inr n"
  shows "filter (\<lambda>d. fst d = h) (mn_delivered (mesh_run es n)) =
      inbox (''aevia-live-'' @ im_sessionId opts) h False es \<and>
    mn_published (mesh_run (es @ Stop # fs) n) = mn_published (mesh_run es n) @
      map (Pair (''aevia-live-'' @ im_sessionId opts))
        (concat (map (\<lambda>e. case e of Publish p \<Rightarrow> [p] | _ \<Rightarrow> []) fs))"
  using initMesh_ok [OF assms] delivered_inbox [of n h es]
  by (simp_all add: published_outbox outbox_append outbox_stopped)

theorem mesh_isolation_witness:
  "\<exists>n. initMesh \<lparr>im_sessionId = ''s1'', im_bootstraps = [''/dns4/a''], im_heartbeatIntervalMs = None\<rparr>
      (Inr ''12D3'') (\<lambda>_. True) 7 = Inr n \<and>
    filter (\<lambda>d. fst d = 1) (mn_delivered (mesh_run
      [OnMessage 1, PubsubMessage ''aevia-live-s1'' None ''a'', PubsubMessage ''other'' None ''b''] n)) =
      [(1, '''', ''a'')] \<and>
    mn_published (mesh_run ([] @ Stop # [HeartbeatTick, Publish ''x'']) n) = [(''aevia-live-s1'', ''x'')]"
proof -
  let ?o = "\<lparr>im_sessionId = ''s1'', im_bootstraps = [''/dns4/a''], im_heartbeatIntervalMs = None\<rparr>"
  obtain n where n: "initMesh ?o (Inr ''12D3'') (\<lambda>_. True) 7 = Inr n"
    by (simp add: initMesh_def Let_def)
  then have "mn_published n = []" using initMesh_ok by blast
  with n mesh_isolation [OF n, of 1 "[OnMessage 1, PubsubMessage ''aevia-live-s1'' None ''a'',
      PubsubMessage ''other'' None ''b'']" "[]"] mesh_isolation [OF n, of 1 "[]" "[HeartbeatTick, Publish ''x'']"]
  show ?thesis by simp
qed

end
