(* ===== verification/ChunkRelay.thy ===== *)
theory ChunkRelay
  imports Prelude
begin

text \<open>
  \<open>apps/video/src/lib/p2p/chunk-relay.ts\<close>: the configuration of the swarm and the counters
  the four event handlers keep. The engine (\<open>p2p-media-loader\<close>) is outside: it is the
  sequence of the events it fires. The snapshots given to \<open>onStats\<close> are a list.
\<close>

subsection \<open>State\<close>

record chunk_relay_stats =
  bytesFromPeers :: nat
  bytesFromHttp :: nat
  bytesUploaded :: nat
  ratio :: real
  peerCount :: nat

record swarm_config =
  swarmId :: string
  announceTrackers :: "string list"
  simultaneousHttpDownloads :: nat
  simultaneousP2PDownloads :: nat
  httpNotReceivingBytesTimeoutMs :: nat

record chunk_relay =
  cr_config :: swarm_config
  cr_counters :: chunk_relay_stats
  cr_onStats :: "chunk_relay_stats list"

datatype download_source = P2p | Http

datatype relay_event =
    ChunkDownloaded nat download_source
  | ChunkUploaded nat
  | PeerConnect
  | PeerClose

subsection \<open>Operations\<close>

definition public_trackers :: "string list" where
  "public_trackers = [''wss://tracker.webtorrent.dev'', ''wss://tracker.openwebtorrent.com'']"

definition zero_stats :: chunk_relay_stats where
  "zero_stats = \<lparr>bytesFromPeers = 0, bytesFromHttp = 0, bytesUploaded = 0, ratio = 0, peerCount = 0\<rparr>"

definition wireChunkRelay :: "string \<Rightarrow> chunk_relay" where
  "wireChunkRelay sessionId =
     \<lparr>cr_config = \<lparr>swarmId = ''aevia-'' @ sessionId, announceTrackers = public_trackers,
        simultaneousHttpDownloads = 3, simultaneousP2PDownloads = 3,
        httpNotReceivingBytesTimeoutMs = 6000\<rparr>,
      cr_counters = zero_stats, cr_onStats = []\<rparr>"

definition onChunkDownloaded :: "nat \<Rightarrow> download_source \<Rightarrow> chunk_relay_stats \<Rightarrow> chunk_relay_stats" where
  "onChunkDownloaded bytesLength src c =
     (let c1 = (case src of
            P2p \<Rightarrow> c\<lparr>bytesFromPeers := bytesFromPeers c + bytesLength\<rparr>
          | Http \<Rightarrow> c\<lparr>bytesFromHttp := bytesFromHttp c + bytesLength\<rparr>);
          total = bytesFromPeers c1 + bytesFromHttp c1
      in c1\<lparr>ratio := (if 0 < total then of_nat (bytesFromPeers c1) / of_nat total else 0)\<rparr>)"

definition onChunkUploaded :: "nat \<Rightarrow> chunk_relay_stats \<Rightarrow> chunk_relay_stats" where
  "onChunkUploaded bytesLength c = c\<lparr>bytesUploaded := bytesUploaded c + bytesLength\<rparr>"

definition onPeerConnect :: "chunk_relay_stats \<Rightarrow> chunk_relay_stats" where
  "onPeerConnect c = c\<lparr>peerCount := peerCount c + 1\<rparr>"

definition onPeerClose :: "chunk_relay_stats \<Rightarrow> chunk_relay_stats" where
  "onPeerClose c = c\<lparr>peerCount := nat (max 0 (int (peerCount c) - 1))\<rparr>"

fun relay_handler :: "relay_event \<Rightarrow> chunk_relay_stats \<Rightarrow> chunk_relay_stats" where
  "relay_handler (ChunkDownloaded n src) = onChunkDownloaded n src"
| "relay_handler (ChunkUploaded n) = onChunkUploaded n"
| "relay_handler PeerConnect = onPeerConnect"
| "relay_handler PeerClose = onPeerClose"

definition relay_step :: "chunk_relay \<Rightarrow> relay_event \<Rightarrow> chunk_relay" where
  \<comment> \<open>the handler, then \<open>opts.onStats?.({ ...counters })\<close>\<close>
  "relay_step r e =
     (let c = relay_handler e (cr_counters r)
      in r\<lparr>cr_counters := c, cr_onStats := cr_onStats r @ [c]\<rparr>)"

definition relay_run :: "string \<Rightarrow> relay_event list \<Rightarrow> chunk_relay" where
  "relay_run sessionId es = foldl relay_step (wireChunkRelay sessionId) es"

subsection \<open>What the counters promise\<close>

definition downloaded :: "download_source \<Rightarrow> relay_event list \<Rightarrow> nat" where
  "downloaded src es = sum_list (map (\<lambda>e. case e of ChunkDownloaded n s \<Rightarrow> if s = src then n else 0 | _ \<Rightarrow> 0) es)"

definition uploaded :: "relay_event list \<Rightarrow> nat" where
  "uploaded es = sum_list (map (\<lambda>e. case e of ChunkUploaded n \<Rightarrow> n | _ \<Rightarrow> 0) es)"

definition balance :: "relay_event list \<Rightarrow> int" where
  \<comment> \<open>connects minus closes\<close>
  "balance es = sum_list (map (\<lambda>e. case e of PeerConnect \<Rightarrow> 1 | PeerClose \<Rightarrow> - 1 | _ \<Rightarrow> 0) es)"

definition ratio_of :: "nat \<Rightarrow> nat \<Rightarrow> real" where
  "ratio_of p h = (if p + h = 0 then 0 else of_nat p / of_nat (p + h))"

lemma relay_run_snoc: "relay_run s (es @ [e]) = relay_step (relay_run s es) e"
  by (simp add: relay_run_def)

lemma relay_run_Nil: "relay_run s [] = wireChunkRelay s"
  by (simp add: relay_run_def)

lemmas relay_handlers = onChunkDownloaded_def onChunkUploaded_def onPeerConnect_def
  onPeerClose_def relay_step_def Let_def

lemma relay_totals:
  "bytesFromPeers (cr_counters (relay_run s es)) = downloaded P2p es \<and>
   bytesFromHttp (cr_counters (relay_run s es)) = downloaded Http es \<and>
   bytesUploaded (cr_counters (relay_run s es)) = uploaded es"
proof (induction es rule: rev_induct)
  case (snoc e es)
  then show ?case
    by (cases e; cases "(case e of ChunkDownloaded _ s \<Rightarrow> s | _ \<Rightarrow> P2p)")
      (auto simp: relay_run_snoc relay_handlers downloaded_def uploaded_def)
qed (simp add: relay_run_Nil wireChunkRelay_def zero_stats_def downloaded_def uploaded_def)

lemma relay_ratio:
  "ratio (cr_counters (relay_run s es)) = ratio_of (downloaded P2p es) (downloaded Http es)"
proof (induction es rule: rev_induct)
  case (snoc e es)
  then show ?case using relay_totals [of s es]
    by (cases e; cases "(case e of ChunkDownloaded _ s \<Rightarrow> s | _ \<Rightarrow> P2p)")
      (auto simp: relay_run_snoc relay_handlers downloaded_def ratio_of_def)
qed (simp add: relay_run_Nil wireChunkRelay_def zero_stats_def downloaded_def ratio_of_def)

definition suffix_balances :: "relay_event list \<Rightarrow> int set" where
  "suffix_balances es = (\<lambda>i. balance (drop i es)) ` {..length es}"

lemma suffixes_snoc:
  "suffix_balances (es @ [e]) = insert 0 ((\<lambda>b. b + balance [e]) ` suffix_balances es)"
proof -
  have "(\<lambda>i. balance (drop i (es @ [e]))) ` {..length es} =
      (\<lambda>i. balance (drop i es) + balance [e]) ` {..length es}"
    by (intro image_cong) (simp_all add: balance_def)
  then show ?thesis by (simp add: suffix_balances_def atMost_Suc image_image balance_def)
qed

lemma suffix_balances_finite [simp]: "finite (suffix_balances es)" "suffix_balances es \<noteq> {}"
  by (simp_all add: suffix_balances_def)

lemma Max_suffixes_snoc:
  "Max (suffix_balances (es @ [e])) = max 0 (Max (suffix_balances es) + balance [e])"
proof -
  have "Max ((\<lambda>b. b + balance [e]) ` suffix_balances es) = Max (suffix_balances es) + balance [e]"
    by (subst mono_Max_commute [symmetric]) (auto simp: mono_def)
  then show ?thesis by (simp add: suffixes_snoc)
qed

lemma relay_peers: "int (peerCount (cr_counters (relay_run s es))) = Max (suffix_balances es)"
proof (induction es rule: rev_induct)
  case Nil
  then show ?case
    by (simp add: relay_run_Nil wireChunkRelay_def zero_stats_def suffix_balances_def balance_def)
next
  case (snoc e es)
  have "peerCount (relay_handler e c) = nat (max 0 (int (peerCount c) + balance [e]))" for c
    by (cases e) (auto simp: relay_handlers balance_def split: download_source.splits)
  then show ?case using snoc
    by (simp add: relay_run_snoc relay_step_def Let_def Max_suffixes_snoc)
qed

lemma relay_snapshots:
  "cr_onStats (relay_run s es) = map (\<lambda>i. cr_counters (relay_run s (take (Suc i) es))) [0..<length es]"
proof (induction es rule: rev_induct)
  case (snoc e es)
  have "map (\<lambda>i. cr_counters (relay_run s (take (Suc i) (es @ [e])))) [0..<length es] =
      map (\<lambda>i. cr_counters (relay_run s (take (Suc i) es))) [0..<length es]"
    by (intro map_cong) auto
  then show ?case using snoc by (simp add: relay_run_snoc relay_step_def Let_def)
qed (simp add: relay_run_Nil wireChunkRelay_def)

lemma ratio_of_bounds: "0 \<le> ratio_of p h \<and> ratio_of p h \<le> 1"
  by (simp add: ratio_of_def)

subsection \<open>Properties\<close>

text \<open>
  C11. After any sequence of engine events the counters are the totals of those events: bytes
  by source, bytes uploaded, the peer share of what was downloaded (a number from 0 to 1, and
  0 before the first byte), and the peers connected, where a close with nobody connected
  counts for nothing (so the count is the largest connects-minus-closes of any suffix). Every
  event gives \<open>onStats\<close> exactly one snapshot, the counters right after it.
\<close>

theorem chunk_relay_counters:
  "let c = cr_counters (relay_run s es) in
     bytesFromPeers c = downloaded P2p es \<and>
     bytesFromHttp c = downloaded Http es \<and>
     bytesUploaded c = uploaded es \<and>
     ratio c = ratio_of (downloaded P2p es) (downloaded Http es) \<and>
     0 \<le> ratio c \<and> ratio c \<le> 1 \<and>
     int (peerCount c) = Max (suffix_balances es) \<and>
     cr_onStats (relay_run s es) =
       map (\<lambda>i. cr_counters (relay_run s (take (Suc i) es))) [0..<length es]"
  by (simp add: relay_totals relay_ratio relay_peers relay_snapshots ratio_of_bounds)

end
