(* ===== verification/WebrtcIce.thy ===== *)
theory WebrtcIce
  imports MeshLatency
begin

text \<open>
  \<open>apps/video/src/lib/webrtc/ice.ts\<close>: waiting for ICE gathering, the ICE servers of a
  session and the relay telemetry. The peer connection and \<open>/api/webrtc/ice-servers\<close> are
  outside: they are the events, the reply and the statistics report given to the operations.
\<close>

subsection \<open>Waiting for ICE gathering\<close>

datatype gather_event = GatheringState string | GatherTimeout

text \<open>The promise of \<open>waitForIceGatheringComplete\<close> with its timer and its listener.\<close>

record gather_wait =
  gw_resolved :: bool
  gw_timer :: bool
  gw_listener :: bool

definition wait_begin :: "string \<Rightarrow> gather_wait" where
  "wait_begin iceGatheringState =
     (if iceGatheringState = ''complete''
      then \<lparr>gw_resolved = True, gw_timer = False, gw_listener = False\<rparr>
      else \<lparr>gw_resolved = False, gw_timer = True, gw_listener = True\<rparr>)"

fun wait_step :: "gather_event \<Rightarrow> gather_wait \<Rightarrow> gather_wait" where
  "wait_step GatherTimeout w =
     (if gw_timer w then w\<lparr>gw_timer := False, gw_listener := False, gw_resolved := True\<rparr> else w)"
| "wait_step (GatheringState st) w =
     (if gw_listener w \<and> st = ''complete''
      then w\<lparr>gw_timer := False, gw_listener := False, gw_resolved := True\<rparr> else w)"

definition waitForIceGatheringComplete :: "string \<Rightarrow> gather_event list \<Rightarrow> gather_wait" where
  "waitForIceGatheringComplete st es = fold wait_step es (wait_begin st)"

subsection \<open>ICE servers\<close>

record ice_server =
  is_urls :: "string list"
  is_username :: "string option"
  is_credential :: "string option"

definition stun_server :: "string \<Rightarrow> ice_server" where
  "stun_server url = \<lparr>is_urls = [url], is_username = None, is_credential = None\<rparr>"

definition default_ice_servers :: "ice_server list" where
  "default_ice_servers =
     [stun_server ''stun:stun.cloudflare.com:3478'', stun_server ''stun:stun.l.google.com:19302'']"

text \<open>The request rejected, or its body did not parse to an object; or a status and the
  \<open>iceServers\<close> of the body.\<close>

datatype ice_reply = IceThrows | IceAnswer nat "ice_server list option"

definition fetchIceServers :: "ice_reply \<Rightarrow> ice_server list" where
  "fetchIceServers reply =
     (case reply of
        IceThrows \<Rightarrow> default_ice_servers
      | IceAnswer st iceServers \<Rightarrow>
          if \<not> status_ok st then default_ice_servers
          else if iceServers = None \<or> iceServers = Some [] then default_ice_servers
          else the iceServers)"

subsection \<open>Relay telemetry\<close>

datatype stats_report =
    CandidatePair string bool string string
      \<comment> \<open>state, nominated, localCandidateId, remoteCandidateId\<close>
  | Candidate "string option"
      \<comment> \<open>candidateType\<close>
  | InboundRtp string "nat option"
      \<comment> \<open>kind, framesDecoded\<close>
  | OtherReport

type_synonym stats = "(string \<times> stats_report) list"

datatype ice_log =
    IcePath string string string bool
      \<comment> \<open>tag, localType, remoteType, usedTurn\<close>
  | TurnUsed string

fun nominated_pair :: "stats \<Rightarrow> (string \<times> string) option" where
  "nominated_pair [] = None"
| "nominated_pair ((k, report) # rs) =
     (case report of
        CandidatePair st nominated localId remoteId \<Rightarrow>
          if st = ''succeeded'' \<and> nominated then Some (localId, remoteId) else nominated_pair rs
      | _ \<Rightarrow> nominated_pair rs)"

definition candidate_type :: "stats \<Rightarrow> string \<Rightarrow> string" where
  "candidate_type stats cid =
     (case map_of stats cid of Some (Candidate (Some t)) \<Rightarrow> t | _ \<Rightarrow> ''unknown'')"

definition inspectCandidatePair :: "stats option \<Rightarrow> string \<Rightarrow> ice_log list" where
  \<comment> \<open>\<open>None\<close>: \<open>getStats\<close> rejected\<close>
  "inspectCandidatePair report tag =
     (case report of
        None \<Rightarrow> []
      | Some stats \<Rightarrow>
          (case nominated_pair stats of
             None \<Rightarrow> []
           | Some (localId, remoteId) \<Rightarrow>
               let localType = candidate_type stats localId;
                   remoteType = candidate_type stats remoteId;
                   usedTurn = (localType = ''relay'' \<or> remoteType = ''relay'')
               in IcePath tag localType remoteType usedTurn # (if usedTurn then [TurnUsed tag] else [])))"

subsection \<open>Facts\<close>

definition settled_wait :: "gather_wait \<Rightarrow> bool" where
  \<comment> \<open>the timer and the listener exist exactly until the promise resolves\<close>
  "settled_wait w = (gw_timer w = (\<not> gw_resolved w) \<and> gw_listener w = (\<not> gw_resolved w))"

lemma settled_wait_step: "settled_wait w \<Longrightarrow> settled_wait (wait_step e w)"
  by (cases e) (auto simp: settled_wait_def)

lemma resolved_wait_step: "settled_wait w \<Longrightarrow> gw_resolved w \<Longrightarrow> wait_step e w = w"
  by (cases e) (auto simp: settled_wait_def)

lemma resolved_wait_run: "settled_wait w \<Longrightarrow> gw_resolved w \<Longrightarrow> fold wait_step es w = w"
  by (induction es) (auto simp: resolved_wait_step)

lemma settled_wait_begin [simp]: "settled_wait (wait_begin st)"
  by (simp add: settled_wait_def wait_begin_def)

lemma wait_run:
  "settled_wait w \<Longrightarrow> settled_wait (fold wait_step es w) \<and>
   (gw_resolved (fold wait_step es w) \<longleftrightarrow>
      gw_resolved w \<or> GatherTimeout \<in> set es \<or> GatheringState ''complete'' \<in> set es)"
proof (induction es arbitrary: w)
  case (Cons e es)
  show ?case
  proof (cases "gw_resolved w")
    case True
    with Cons.prems show ?thesis by (simp add: resolved_wait_step resolved_wait_run)
  next
    case False
    with Cons.prems have "gw_timer w" "gw_listener w" by (simp_all add: settled_wait_def)
    with False Cons.IH [OF settled_wait_step [OF Cons.prems], of e] show ?thesis
      by (cases e) auto
  qed
qed simp

lemma wait_resolves:
  "gw_resolved (waitForIceGatheringComplete st es) \<longleftrightarrow>
     st = ''complete'' \<or> GatherTimeout \<in> set es \<or> GatheringState ''complete'' \<in> set es"
  using wait_run [OF settled_wait_begin, of es st] by (auto simp: waitForIceGatheringComplete_def wait_begin_def)

lemma wait_settled: "settled_wait (waitForIceGatheringComplete st es)"
  using wait_run [OF settled_wait_begin, of es st] by (simp add: waitForIceGatheringComplete_def)

lemma nominated_pair_Some:
  "nominated_pair rs = Some (l, r) \<Longrightarrow> \<exists>k. (k, CandidatePair ''succeeded'' True l r) \<in> set rs"
  by (induction rs rule: nominated_pair.induct) (auto split: stats_report.splits if_splits)

lemma turn_logged: "TurnUsed tag \<in> set (inspectCandidatePair (Some stats) tag) \<longleftrightarrow>
   (\<exists>l r. nominated_pair stats = Some (l, r) \<and>
      (candidate_type stats l = ''relay'' \<or> candidate_type stats r = ''relay''))"
  by (cases "nominated_pair stats") (auto simp: inspectCandidatePair_def Let_def)

text \<open>
  ICE never blocks a session: the wait for gathering ends exactly when gathering completes
  or its timer fires, and then keeps neither timer nor listener; \<open>fetchIceServers\<close> always gives
  at least one server, the relay's own list exactly when a success carries a non-empty one; and
  the TURN line is logged exactly when a nominated, succeeded pair has a relay end.
\<close>

lemma ice_never_blocks:
  "(let w = waitForIceGatheringComplete st es in
      (gw_resolved w \<longleftrightarrow> st = ''complete'' \<or> GatherTimeout \<in> set es \<or> GatheringState ''complete'' \<in> set es) \<and>
      gw_timer w = (\<not> gw_resolved w) \<and> gw_listener w = (\<not> gw_resolved w)) \<and>
   fetchIceServers reply \<noteq> [] \<and>
   fetchIceServers reply = (case reply of
      IceAnswer status (Some (s # ss)) \<Rightarrow> if status_ok status then s # ss else default_ice_servers
    | _ \<Rightarrow> default_ice_servers) \<and>
   (TurnUsed tag \<in> set (inspectCandidatePair (Some stats) tag) \<longleftrightarrow>
     (\<exists>l r. nominated_pair stats = Some (l, r) \<and>
        (candidate_type stats l = ''relay'' \<or> candidate_type stats r = ''relay'')))"
  using wait_settled [of st es]
  by (auto simp: wait_resolves turn_logged settled_wait_def Let_def fetchIceServers_def
      default_ice_servers_def split: ice_reply.splits option.splits list.splits)

subsection \<open>Ending a session\<close>

text \<open>
  What WHIP and WHEP sessions share: stopping closes the peer connection whatever happens to
  the \<open>DELETE\<close> of the server's resource, which is sent once per stop when there is one to
  delete.
\<close>

locale resource_session =
  fixes stop :: "'s \<Rightarrow> 's"
    and closed :: "'s \<Rightarrow> bool"
    and deletes :: "'s \<Rightarrow> string list"
    and resource :: "string option"
  assumes stop_closed: "closed (stop s)"
    and stop_deletes: "deletes (stop s) = deletes s @ (case resource of None \<Rightarrow> [] | Some url \<Rightarrow> [url])"
begin

lemma stops_deletes:
  "deletes ((stop ^^ n) s) = deletes s @ (case resource of None \<Rightarrow> [] | Some url \<Rightarrow> replicate n url)"
  by (induction n) (simp_all add: stop_deletes replicate_append_same split: option.splits)

lemma stops_closed: "0 < n \<Longrightarrow> closed ((stop ^^ n) s)"
  by (cases n) (simp_all add: stop_closed)

lemma no_resource_no_delete: "resource = None \<Longrightarrow> deletes ((stop ^^ n) s) = deletes s"
  by (simp add: stops_deletes)

end

end
