(* ===== verification/Whep.thy ===== *)
theory Whep
  imports WebrtcIce JsText
begin

text \<open>
  \<open>apps/video/src/lib/webrtc/whep.ts\<close>: one viewer session. The state is the one
  \<open>playWhep\<close> closes over; an event is what its awaited calls, its listeners and its polling
  interval see, with \<open>performance.now()\<close> where the code reads it. Given to the caller's
  callbacks is the list of outputs. The timings handed to \<open>onMetrics\<close> are the live object,
  so an output carries the budget computed from them only. \<open>new URL\<close> is the parameter
  \<open>resolve\<close>.
\<close>

subsection \<open>Timings\<close>

record whep_timings =
  tStart :: real
  tOfferReady :: real
  tIceGathered :: real
  tSdpAnswerReceived :: real
  tSdpAnswerApplied :: real
  tIceConnected :: "real option"
  tFirstTrack :: "real option"
  tFirstFrameDecoded :: "real option"

record whep_budget =
  sdpHandshakeMs :: "real option"
  iceGatheringMs :: "real option"
  iceConnectivityMs :: "real option"
  trackArrivalMs :: "real option"
  decodeStartMs :: "real option"
  totalTimeToFirstFrameMs :: "real option"

fun since :: "real option \<Rightarrow> real option \<Rightarrow> real option" where
  \<comment> \<open>\<open>a !== undefined \<and> b !== undefined ? a - b : undefined\<close>\<close>
  "since (Some a) (Some b) = Some (a - b)"
| "since _ _ = None"

definition computeBudget :: "whep_timings \<Rightarrow> whep_budget" where
  "computeBudget t =
     \<lparr>sdpHandshakeMs = (if 0 < tSdpAnswerReceived t then Some (tSdpAnswerReceived t - tStart t) else None),
      iceGatheringMs = (if 0 < tIceGathered t then Some (tIceGathered t - tOfferReady t) else None),
      iceConnectivityMs = since (tIceConnected t) (Some (tSdpAnswerApplied t)),
      trackArrivalMs = since (tFirstTrack t) (tIceConnected t),
      decodeStartMs = since (tFirstFrameDecoded t) (tFirstTrack t),
      totalTimeToFirstFrameMs = since (tFirstFrameDecoded t) (Some (tStart t))\<rparr>"

definition round_ms :: "real option \<Rightarrow> int option" where
  \<comment> \<open>\<open>Math.round\<close> rounds halves up\<close>
  "round_ms v = map_option (\<lambda>x. \<lfloor>x + 1 / 2\<rfloor>) v"

record budget_log =
  bl_tag :: string
  bl_budget :: "int option list"
  bl_rawTimings :: "int option list"

definition logBudget :: "whep_timings \<Rightarrow> whep_budget \<Rightarrow> bool \<Rightarrow> budget_log" where
  "logBudget t b final =
     \<lparr>bl_tag = (if final then ''whep:first-frame'' else ''whep:connected''),
      bl_budget = map round_ms [sdpHandshakeMs b, iceGatheringMs b, iceConnectivityMs b,
        trackArrivalMs b, decodeStartMs b, totalTimeToFirstFrameMs b],
      bl_rawTimings = map round_ms [Some (tStart t), Some (tOfferReady t), Some (tIceGathered t),
        Some (tSdpAnswerReceived t), Some (tSdpAnswerApplied t), tIceConnected t, tFirstTrack t,
        tFirstFrameDecoded t]\<rparr>"

subsection \<open>State\<close>

record whep_options =
  wo_whepUrl :: string
  wo_iceServers :: "ice_server list option"
  wo_iceTransportPolicy :: "string option"
  wo_debugLog :: bool
  wo_skipResourceDelete :: bool

datatype whep_output =
    Metrics whep_budget
  | BudgetLog budget_log
  | IceLog ice_log
  | TrackCallback nat
  | StateCallback string

datatype whep_stage =
    Offering
  | Gathering
  | Posting
  | Applying "string option"
  | Live "string option"
  | PlayFailed js_error

text \<open>The polling interval: its deadline, whether it is still set, and how many of its
  callbacks are waiting for \<open>getStats\<close>.\<close>

record frame_probe =
  fp_deadline :: real
  fp_active :: bool
  fp_pending :: nat

record whep_state =
  ws_iceServers :: "ice_server list"
  ws_policy :: string
  ws_stage :: whep_stage
  ws_timings :: whep_timings
  ws_firstTrack :: bool
  ws_tracks :: "nat list"
  ws_firstFrameDecodedAt :: "real option"
  ws_probe :: "frame_probe option"
  ws_connectionState :: string
  ws_deleted :: "string list"
  ws_out :: "whep_output list"

text \<open>The answer to the POST: a status, the text of the body (or its rejection), and the
  \<open>Location\<close> header.\<close>

datatype whep_reply = WhepResponse nat "string result" "string option"

datatype whep_event =
    OfferReady real
  | GatheringDone real
  | Posted whep_reply real
  | AnswerApplied real
  | AwaitRejected js_error
  | Track nat "nat list option" real
  | ConnectionState string "stats option" real
  | ProbeTick real
  | ProbeStats "stats option" real
  | WhepStop

subsection \<open>Operations\<close>

definition playWhep :: "whep_options \<Rightarrow> real \<Rightarrow> whep_state" where
  \<comment> \<open>up to the first \<open>await\<close>\<close>
  "playWhep opts now =
     \<lparr>ws_iceServers = or_default (wo_iceServers opts) default_ice_servers,
      ws_policy = or_default (wo_iceTransportPolicy opts) ''all'',
      ws_stage = Offering,
      ws_timings = \<lparr>tStart = now, tOfferReady = 0, tIceGathered = 0, tSdpAnswerReceived = 0,
        tSdpAnswerApplied = 0, tIceConnected = None, tFirstTrack = None, tFirstFrameDecoded = None\<rparr>,
      ws_firstTrack = False, ws_tracks = [], ws_firstFrameDecodedAt = None, ws_probe = None,
      ws_connectionState = ''new'', ws_deleted = [], ws_out = []\<rparr>"

definition whep_emit :: "whep_options \<Rightarrow> real option \<Rightarrow> whep_state \<Rightarrow> whep_state" where
  "whep_emit opts firstFrameAt s =
     (let budget = computeBudget (ws_timings s)
      in s\<lparr>ws_out := ws_out s @ [Metrics budget] @
        (if wo_debugLog opts
         then [BudgetLog (logBudget (ws_timings s) budget (firstFrameAt \<noteq> None))] else [])\<rparr>)"

definition close_pc :: "whep_state \<Rightarrow> whep_state" where
  "close_pc s = s\<lparr>ws_connectionState := ''closed''\<rparr>"

fun add_tracks :: "nat list \<Rightarrow> nat list \<Rightarrow> nat list" where
  \<comment> \<open>\<open>MediaStream.addTrack\<close> ignores a track it has\<close>
  "add_tracks ts [] = ts"
| "add_tracks ts (n # ns) = add_tracks (if n \<in> set ts then ts else ts @ [n]) ns"

definition on_track :: "nat \<Rightarrow> nat list option \<Rightarrow> real \<Rightarrow> whep_state \<Rightarrow> whep_state" where
  "on_track track streams now s =
     (let s1 = (if \<not> ws_firstTrack s
            then s\<lparr>ws_firstTrack := True, ws_timings := (ws_timings s)\<lparr>tFirstTrack := Some now\<rparr>\<rparr>
            else s)
      in s1\<lparr>ws_tracks := add_tracks (ws_tracks s1) (or_default streams [track]),
            ws_out := ws_out s1 @ [TrackCallback track]\<rparr>)"

definition on_connection_state ::
  "whep_options \<Rightarrow> string \<Rightarrow> stats option \<Rightarrow> real \<Rightarrow> whep_state \<Rightarrow> whep_state" where
  "on_connection_state opts st report now s0 =
     (let s = s0\<lparr>ws_connectionState := st\<rparr>
      in if st = ''connected'' \<and> tIceConnected (ws_timings s) = None then
           let s1 = s\<lparr>ws_timings := (ws_timings s)\<lparr>tIceConnected := Some now\<rparr>\<rparr>;
               s2 = whep_emit opts (ws_firstFrameDecodedAt s1) s1;
               s3 = s2\<lparr>ws_probe := Some \<lparr>fp_deadline = now + 30000, fp_active = True, fp_pending = 0\<rparr>\<rparr>
           in s3\<lparr>ws_out := ws_out s3 @ [StateCallback st] @
                map IceLog (inspectCandidatePair report ''whep'')\<rparr>
         else s\<lparr>ws_out := ws_out s @ [StateCallback st]\<rparr>)"

definition on_posted :: "whep_reply \<Rightarrow> real \<Rightarrow> whep_state \<Rightarrow> whep_state" where
  "on_posted reply now s =
     (case reply of WhepResponse st body location \<Rightarrow>
        if \<not> status_ok st then
          (close_pc s)\<lparr>ws_stage := PlayFailed (case body of Inl e \<Rightarrow> e
             | Inr t \<Rightarrow> Error (''WHEP play failed: '' @ show_nat st @ '' '' @ t))\<rparr>
        else (case body of
            Inl e \<Rightarrow> s\<lparr>ws_stage := PlayFailed e\<rparr>
          | Inr answerSdp \<Rightarrow> s\<lparr>ws_timings := (ws_timings s)\<lparr>tSdpAnswerReceived := now\<rparr>,
              ws_stage := Applying location\<rparr>))"

definition on_applied ::
  "(string \<Rightarrow> string \<Rightarrow> string option) \<Rightarrow> whep_options \<Rightarrow> string option \<Rightarrow> real \<Rightarrow> whep_state \<Rightarrow> whep_state" where
  "on_applied resolve opts resourceUrl now s0 =
     (let s = s0\<lparr>ws_timings := (ws_timings s0)\<lparr>tSdpAnswerApplied := now\<rparr>\<rparr>
      in if truthy resourceUrl
         then (case resolve (the resourceUrl) (wo_whepUrl opts) of
             None \<Rightarrow> s\<lparr>ws_stage := PlayFailed Thrown\<rparr>
           | Some url \<Rightarrow> s\<lparr>ws_stage := Live (Some url)\<rparr>)
         else s\<lparr>ws_stage := Live None\<rparr>)"

definition probe_tick :: "real \<Rightarrow> frame_probe \<Rightarrow> whep_state \<Rightarrow> whep_state" where
  "probe_tick now p s =
     (if \<not> fp_active p then s
      else if fp_deadline p < now \<or> ws_connectionState s = ''closed''
        then s\<lparr>ws_probe := Some (p\<lparr>fp_active := False\<rparr>)\<rparr>
      else s\<lparr>ws_probe := Some (p\<lparr>fp_pending := fp_pending p + 1\<rparr>)\<rparr>)"

fun decoded_video :: "stats \<Rightarrow> bool" where
  "decoded_video [] = False"
| "decoded_video ((k, report) # rs) =
     (case report of
        InboundRtp kind (Some framesDecoded) \<Rightarrow>
          kind = ''video'' \<and> 0 < framesDecoded \<or> decoded_video rs
      | _ \<Rightarrow> decoded_video rs)"

definition probe_stats ::
  "whep_options \<Rightarrow> stats option \<Rightarrow> real \<Rightarrow> frame_probe \<Rightarrow> whep_state \<Rightarrow> whep_state" where
  \<comment> \<open>\<open>getStats\<close> of one callback came back, or rejected\<close>
  "probe_stats opts report now p s =
     (if fp_pending p = 0 then s
      else let s1 = s\<lparr>ws_probe := Some (p\<lparr>fp_pending := fp_pending p - 1\<rparr>)\<rparr>
           in if report \<noteq> None \<and> decoded_video (the report) then
                let s2 = s1\<lparr>ws_timings := (ws_timings s1)\<lparr>tFirstFrameDecoded := Some now\<rparr>,
                      ws_firstFrameDecodedAt := Some now\<rparr>;
                    s3 = whep_emit opts (Some now) s2
                in s3\<lparr>ws_probe := Some (p\<lparr>fp_pending := fp_pending p - 1, fp_active := False\<rparr>)\<rparr>
              else s1)"

definition whep_stop :: "whep_options \<Rightarrow> string option \<Rightarrow> whep_state \<Rightarrow> whep_state" where
  \<comment> \<open>the polling handle is never set, so there is no interval to clear; a failed \<open>DELETE\<close>
    is swallowed\<close>
  "whep_stop opts resourceUrl s =
     (let s1 = (if resourceUrl \<noteq> None \<and> \<not> wo_skipResourceDelete opts
            then s\<lparr>ws_deleted := ws_deleted s @ [the resourceUrl]\<rparr> else s)
      in close_pc s1)"

fun awaiting :: "whep_stage \<Rightarrow> bool" where
  "awaiting (Live _) = False"
| "awaiting (PlayFailed _) = False"
| "awaiting _ = True"

fun whep_step ::
  "(string \<Rightarrow> string \<Rightarrow> string option) \<Rightarrow> whep_options \<Rightarrow> whep_event \<Rightarrow> whep_state \<Rightarrow> whep_state" where
  "whep_step resolve opts (OfferReady now) s =
     (if ws_stage s = Offering
      then s\<lparr>ws_timings := (ws_timings s)\<lparr>tOfferReady := now\<rparr>, ws_stage := Gathering\<rparr> else s)"
| "whep_step resolve opts (GatheringDone now) s =
     (if ws_stage s = Gathering
      then s\<lparr>ws_timings := (ws_timings s)\<lparr>tIceGathered := now\<rparr>, ws_stage := Posting\<rparr> else s)"
| "whep_step resolve opts (Posted reply now) s =
     (if ws_stage s = Posting then on_posted reply now s else s)"
| "whep_step resolve opts (AnswerApplied now) s =
     (case ws_stage s of Applying loc \<Rightarrow> on_applied resolve opts loc now s | _ \<Rightarrow> s)"
| "whep_step resolve opts (AwaitRejected e) s =
     (if awaiting (ws_stage s) then s\<lparr>ws_stage := PlayFailed e\<rparr> else s)"
| "whep_step resolve opts (Track track streams now) s =
     (if ws_connectionState s = ''closed'' then s else on_track track streams now s)"
| "whep_step resolve opts (ConnectionState st report now) s =
     (if ws_connectionState s = ''closed'' then s else on_connection_state opts st report now s)"
| "whep_step resolve opts (ProbeTick now) s =
     (case ws_probe s of None \<Rightarrow> s | Some p \<Rightarrow> probe_tick now p s)"
| "whep_step resolve opts (ProbeStats report now) s =
     (case ws_probe s of None \<Rightarrow> s | Some p \<Rightarrow> probe_stats opts report now p s)"
| "whep_step resolve opts WhepStop s =
     (case ws_stage s of Live url \<Rightarrow> whep_stop opts url s | _ \<Rightarrow> s)"

definition whep_run ::
  "(string \<Rightarrow> string \<Rightarrow> string option) \<Rightarrow> whep_options \<Rightarrow> real \<Rightarrow> whep_event list \<Rightarrow> whep_state" where
  "whep_run resolve opts now es = fold (whep_step resolve opts) es (playWhep opts now)"

subsection \<open>Clocked runs\<close>

fun event_time :: "whep_event \<Rightarrow> real option" where
  "event_time (OfferReady now) = Some now"
| "event_time (GatheringDone now) = Some now"
| "event_time (Posted reply now) = Some now"
| "event_time (AnswerApplied now) = Some now"
| "event_time (Track track streams now) = Some now"
| "event_time (ConnectionState st report now) = Some now"
| "event_time (ProbeTick now) = Some now"
| "event_time (ProbeStats report now) = Some now"
| "event_time _ = None"

fun clocked :: "real \<Rightarrow> whep_event list \<Rightarrow> bool" where
  \<comment> \<open>the clock never runs backwards\<close>
  "clocked now [] = True"
| "clocked now (e # es) = (now \<le> or_default (event_time e) now \<and> clocked (or_default (event_time e) now) es)"

definition metrics_of :: "whep_output list \<Rightarrow> whep_budget list" where
  "metrics_of out = concat (map (\<lambda>w. case w of Metrics b \<Rightarrow> [b] | _ \<Rightarrow> []) out)"

definition handshake_ok :: "whep_budget \<Rightarrow> bool" where
  "handshake_ok b = (pred_option ((\<le>) 0) (sdpHandshakeMs b) \<and> pred_option ((\<le>) 0) (iceGatheringMs b))"

definition connect_budget_ok :: "whep_budget \<Rightarrow> bool" where
  \<comment> \<open>the report on connecting: no frame yet, and a track only from before\<close>
  "connect_budget_ok b = (handshake_ok b \<and> pred_option (\<lambda>x. x \<le> 0) (trackArrivalMs b) \<and>
     decodeStartMs b = None \<and> totalTimeToFirstFrameMs b = None)"

definition frame_budget_ok :: "whep_budget \<Rightarrow> bool" where
  \<comment> \<open>the report of a decoded frame\<close>
  "frame_budget_ok b = (handshake_ok b \<and> pred_option ((\<le>) 0) (decodeStartMs b) \<and>
     totalTimeToFirstFrameMs b \<noteq> None \<and> 0 \<le> the (totalTimeToFirstFrameMs b))"

definition stamps_ok :: "real \<Rightarrow> whep_state \<Rightarrow> bool" where
  "stamps_ok now s = (let t = ws_timings s in
     tStart t \<le> now \<and>
     (ws_stage s = Offering \<longrightarrow> tIceGathered t = 0) \<and>
     (ws_stage s = Gathering \<longrightarrow> tIceGathered t = 0 \<and> tOfferReady t \<le> now) \<and>
     (tIceGathered t = 0 \<or> tOfferReady t \<le> tIceGathered t) \<and>
     (tSdpAnswerReceived t = 0 \<or> tStart t \<le> tSdpAnswerReceived t) \<and>
     pred_option (\<lambda>x. x \<le> now) (tFirstTrack t) \<and>
     (ws_probe s = None \<longleftrightarrow> tIceConnected t = None) \<and>
     (ws_probe s = None \<longrightarrow> tFirstFrameDecoded t = None))"

definition metrics_ok :: "whep_state \<Rightarrow> bool" where
  "metrics_ok s = (case metrics_of (ws_out s) of
      [] \<Rightarrow> ws_probe s = None
    | b # bs \<Rightarrow> ws_probe s \<noteq> None \<and> connect_budget_ok b \<and> list_all frame_budget_ok bs)"

lemma metrics_of_append [simp]: "metrics_of (out @ out') = metrics_of out @ metrics_of out'"
  by (simp add: metrics_of_def)

lemma metrics_of_simps [simp]:
  "metrics_of [] = []" "metrics_of (Metrics b # out) = b # metrics_of out"
  "metrics_of (BudgetLog l # out) = metrics_of out" "metrics_of (TrackCallback n # out) = metrics_of out"
  "metrics_of (StateCallback st # out) = metrics_of out"
  by (simp_all add: metrics_of_def)

lemma metrics_of_ice [simp]: "metrics_of (map IceLog ls) = []"
  by (induction ls) (simp_all add: metrics_of_def)

lemma metrics_of_emit [simp]:
  "metrics_of (ws_out (whep_emit opts fa s)) = metrics_of (ws_out s) @ [computeBudget (ws_timings s)]"
  by (simp add: whep_emit_def Let_def)

lemma whep_emit_fields [simp]:
  "ws_timings (whep_emit opts fa s) = ws_timings s" "ws_stage (whep_emit opts fa s) = ws_stage s"
  "ws_probe (whep_emit opts fa s) = ws_probe s"
  by (simp_all add: whep_emit_def Let_def)

lemma handshake_budget: "stamps_ok now s \<Longrightarrow> handshake_ok (computeBudget (ws_timings s))"
  by (auto simp: stamps_ok_def handshake_ok_def computeBudget_def Let_def)

lemmas whep_ops = on_track_def on_connection_state_def on_posted_def on_applied_def probe_tick_def
  probe_stats_def whep_stop_def close_pc_def Let_def

lemma pred_option_mono_le: "pred_option (\<lambda>x. x \<le> (a::real)) x \<Longrightarrow> a \<le> b \<Longrightarrow> pred_option (\<lambda>x. x \<le> b) x"
  by (cases x) auto

lemma stamps_ok_later: "stamps_ok now s \<Longrightarrow> now \<le> later \<Longrightarrow> stamps_ok later s"
  by (auto simp: stamps_ok_def Let_def intro: pred_option_mono_le)

lemma stamps_track: "stamps_ok now s \<Longrightarrow> stamps_ok now (on_track track streams now s)"
  by (simp add: stamps_ok_def on_track_def Let_def)

lemma stamps_connection: "stamps_ok now s \<Longrightarrow> stamps_ok now (on_connection_state opts st report now s)"
  by (simp add: stamps_ok_def on_connection_state_def Let_def)

lemma stamps_posted: "stamps_ok now s \<Longrightarrow> ws_stage s = Posting \<Longrightarrow> stamps_ok now (on_posted reply now s)"
  by (simp add: stamps_ok_def on_posted_def close_pc_def Let_def split: whep_reply.splits sum.splits)

lemma stamps_applied:
  "stamps_ok now s \<Longrightarrow> ws_stage s = Applying loc \<Longrightarrow> stamps_ok now (on_applied resolve opts url now s)"
  by (simp add: stamps_ok_def on_applied_def Let_def split: option.splits)

lemma stamps_tick:
  "stamps_ok now s \<Longrightarrow> ws_probe s = Some p \<Longrightarrow> stamps_ok now (probe_tick now p s)"
  by (simp add: stamps_ok_def probe_tick_def Let_def)

lemma stamps_stats:
  "stamps_ok now s \<Longrightarrow> ws_probe s = Some p \<Longrightarrow> stamps_ok now (probe_stats opts report now p s)"
  by (simp add: stamps_ok_def probe_stats_def Let_def)

lemma stamps_stop: "stamps_ok now s \<Longrightarrow> stamps_ok now (whep_stop opts url s)"
  by (simp add: stamps_ok_def whep_stop_def close_pc_def Let_def)

lemma stamps_awaits:
  "stamps_ok now s \<Longrightarrow> ws_stage s = Offering \<Longrightarrow>
     stamps_ok now (s\<lparr>ws_timings := (ws_timings s)\<lparr>tOfferReady := now\<rparr>, ws_stage := Gathering\<rparr>)"
  "stamps_ok now s \<Longrightarrow> ws_stage s = Gathering \<Longrightarrow>
     stamps_ok now (s\<lparr>ws_timings := (ws_timings s)\<lparr>tIceGathered := now\<rparr>, ws_stage := Posting\<rparr>)"
  "stamps_ok now s \<Longrightarrow> stamps_ok now (s\<lparr>ws_stage := PlayFailed err\<rparr>)"
  by (simp_all add: stamps_ok_def Let_def)

lemma stamps_step:
  assumes "stamps_ok now s" "or_default (event_time e) now = now"
  shows "stamps_ok now (whep_step resolve opts e s)"
  using assms
  by (cases e)
    (auto split: whep_stage.splits option.splits intro: stamps_awaits
      stamps_track stamps_connection stamps_posted stamps_applied stamps_tick stamps_stats stamps_stop)

lemma connect_budget:
  "stamps_ok now s \<Longrightarrow> ws_probe s = None \<Longrightarrow>
   connect_budget_ok (computeBudget ((ws_timings s)\<lparr>tIceConnected := Some now\<rparr>))"
  using handshake_budget [of now s]
  by (cases "tFirstTrack (ws_timings s)")
    (auto simp: connect_budget_ok_def stamps_ok_def handshake_ok_def computeBudget_def Let_def)

lemma frame_budget:
  "stamps_ok now s \<Longrightarrow> frame_budget_ok (computeBudget ((ws_timings s)\<lparr>tFirstFrameDecoded := Some now\<rparr>))"
  using handshake_budget [of now s]
  by (cases "tFirstTrack (ws_timings s)")
    (auto simp: frame_budget_ok_def stamps_ok_def handshake_ok_def computeBudget_def Let_def)

lemma metrics_unchanged:
  "metrics_ok s \<Longrightarrow> metrics_of (ws_out t) = metrics_of (ws_out s) \<Longrightarrow>
   (ws_probe t = None \<longleftrightarrow> ws_probe s = None) \<Longrightarrow> metrics_ok t"
  by (simp add: metrics_ok_def split: list.splits)

lemma metrics_connection:
  assumes "stamps_ok now s" "metrics_ok s"
  shows "metrics_ok (on_connection_state opts st report now s)"
proof (cases "st = ''connected'' \<and> tIceConnected (ws_timings s) = None")
  case True
  with assms(1) have "ws_probe s = None" by (simp add: stamps_ok_def Let_def)
  moreover from this assms(2) have "metrics_of (ws_out s) = []"
    by (simp add: metrics_ok_def split: list.splits)
  ultimately show ?thesis using True connect_budget [OF assms(1)]
    by (simp add: on_connection_state_def metrics_ok_def Let_def)
next
  case False
  then show ?thesis using assms(2)
    by (intro metrics_unchanged [OF assms(2)]) (auto simp: on_connection_state_def Let_def)
qed

lemma metrics_stats:
  assumes "stamps_ok now s" "metrics_ok s" "ws_probe s = Some p"
  shows "metrics_ok (probe_stats opts report now p s)"
proof (cases "fp_pending p \<noteq> 0 \<and> report \<noteq> None \<and> decoded_video (the report)")
  case True
  then show ?thesis using assms(2,3) frame_budget [OF assms(1)]
    by (auto simp: probe_stats_def metrics_ok_def Let_def split: list.splits)
next
  case False
  then show ?thesis using assms(3)
    by (intro metrics_unchanged [OF assms(2)]) (auto simp: probe_stats_def Let_def)
qed

lemma metrics_step:
  assumes "stamps_ok now s" "metrics_ok s" "or_default (event_time e) now = now"
  shows "metrics_ok (whep_step resolve opts e s)"
proof (cases e)
  case (ConnectionState st report n)
  then show ?thesis using assms by (simp add: metrics_connection)
next
  case (ProbeStats report n)
  then show ?thesis using assms by (simp add: metrics_stats split: option.splits)
qed (use assms in \<open>auto intro!: metrics_unchanged [OF assms(2)]
      simp: on_track_def on_posted_def on_applied_def probe_tick_def whep_stop_def close_pc_def Let_def
      split: whep_stage.splits option.splits whep_reply.splits sum.splits\<close>)

lemma whep_clocked:
  "clocked now es \<Longrightarrow> stamps_ok now s \<Longrightarrow> metrics_ok s \<Longrightarrow> metrics_ok (fold (whep_step resolve opts) es s)"
proof (induction es arbitrary: now s)
  case (Cons e es)
  let ?t = "or_default (event_time e) now"
  have le: "now \<le> ?t" and cl: "clocked ?t es" using Cons.prems(1) by simp_all
  have t: "or_default (event_time e) ?t = ?t" by (cases "event_time e") auto
  note st = stamps_ok_later [OF Cons.prems(2) le]
  show ?case
    using Cons.IH [OF cl stamps_step [OF st t] metrics_step [OF st Cons.prems(3) t]] by simp
qed simp

subsection \<open>The end of a session\<close>

interpretation whep_end: resource_session "whep_stop opts url"
    "\<lambda>s. ws_connectionState s = ''closed''" ws_deleted "if wo_skipResourceDelete opts then None else url"
  for opts url
  by unfold_locales (auto simp: whep_stop_def close_pc_def Let_def split: option.splits)

definition callbacks_of :: "whep_output list \<Rightarrow> whep_output list" where
  \<comment> \<open>the caller's \<open>onTrack\<close> and \<open>onConnectionStateChange\<close>\<close>
  "callbacks_of out = filter (\<lambda>w. case w of TrackCallback _ \<Rightarrow> True | StateCallback _ \<Rightarrow> True | _ \<Rightarrow> False) out"

lemma callbacks_emit [simp]: "callbacks_of (ws_out (whep_emit opts fa s)) = callbacks_of (ws_out s)"
  by (simp add: callbacks_of_def whep_emit_def Let_def)

fun finished :: "whep_stage \<Rightarrow> bool" where
  "finished (Live _) = True"
| "finished (PlayFailed _) = True"
| "finished _ = False"

lemma session_finished_step: "finished (ws_stage s) \<Longrightarrow> ws_stage (whep_step resolve opts e s) = ws_stage s"
  by (cases e; cases "ws_stage s")
    (auto simp: on_track_def on_connection_state_def probe_tick_def probe_stats_def whep_stop_def
      close_pc_def Let_def split: option.splits)

lemma closed_step:
  assumes "ws_connectionState s = ''closed''" "finished (ws_stage s)"
  shows "ws_connectionState (whep_step resolve opts e s) = ''closed'' \<and>
    callbacks_of (ws_out (whep_step resolve opts e s)) = callbacks_of (ws_out s)"
  using assms
  by (cases e; cases "ws_stage s")
    (auto simp: probe_tick_def probe_stats_def whep_stop_def close_pc_def whep_emit_def callbacks_of_def
      Let_def split: option.splits)

lemma deleted_step:
  "finished (ws_stage s) \<Longrightarrow> ws_deleted (whep_step resolve opts e s) = ws_deleted s @
    (case (e, ws_stage s) of
       (WhepStop, Live (Some url)) \<Rightarrow> if wo_skipResourceDelete opts then [] else [url]
     | _ \<Rightarrow> [])"
  by (cases e; cases "ws_stage s")
    (auto simp: on_track_def on_connection_state_def probe_tick_def probe_stats_def whep_stop_def
      close_pc_def whep_emit_def Let_def split: option.splits)

definition stops :: "whep_event list \<Rightarrow> nat" where
  "stops es = length (filter (\<lambda>e. e = WhepStop) es)"

lemma closed_run:
  assumes "ws_connectionState s = ''closed''" "finished (ws_stage s)"
  shows "let t = fold (whep_step resolve opts) es s in
    ws_stage t = ws_stage s \<and> ws_connectionState t = ''closed'' \<and>
    callbacks_of (ws_out t) = callbacks_of (ws_out s) \<and>
    ws_deleted t = ws_deleted s @ (case ws_stage s of
        Live (Some url) \<Rightarrow> if wo_skipResourceDelete opts then [] else replicate (stops es) url
      | _ \<Rightarrow> [])"
  using assms
proof (induction es arbitrary: s)
  case Nil
  then show ?case by (auto simp: stops_def split: whep_stage.splits option.splits)
next
  case (Cons e es)
  let ?s = "whep_step resolve opts e s"
  have "ws_connectionState ?s = ''closed''" "finished (ws_stage ?s)"
    using Cons.prems closed_step [of s resolve opts e] session_finished_step [of s resolve opts e] by simp_all
  from Cons.IH [OF this] show ?case
    using Cons.prems closed_step [of s resolve opts e] session_finished_step [of s resolve opts e]
      deleted_step [of s resolve opts e]
    by (auto simp: Let_def stops_def split: whep_stage.splits option.splits whep_event.splits)
qed

subsection \<open>Properties\<close>



definition demo_whep_options :: whep_options where
  "demo_whep_options = \<lparr>wo_whepUrl = ''https://p/whep/s'', wo_iceServers = None,
     wo_iceTransportPolicy = None, wo_debugLog = False, wo_skipResourceDelete = False\<rparr>"

definition demo_play :: "whep_event list" where
  "demo_play = [OfferReady 1, GatheringDone 2, Posted (WhepResponse 201 (Inr ''sdp'') (Some ''/r'')) 3,
     AnswerApplied 4, Track 7 None 4, ConnectionState ''connected'' None 6, ProbeTick 7,
     ProbeStats (Some [(''v'', InboundRtp ''video'' (Some 1))]) 8]"

lemmas demo_whep = whep_run_def playWhep_def demo_whep_options_def demo_play_def on_posted_def
  on_applied_def on_track_def on_connection_state_def inspectCandidatePair_def probe_tick_def
  probe_stats_def whep_emit_def status_ok_def Let_def



end
