(* ===== verification/Whip.thy ===== *)
theory Whip
  imports WebrtcIce JsText
begin

text \<open>
  \<open>apps/video/src/lib/webrtc/whip.ts\<close>: publishing a stream. The browser is a record of what
  its calls answered (whether simulcast is accepted, the sender's encodings, the offer), the
  server's reply a function of the request; \<open>new URL\<close> is the parameter \<open>resolve\<close>. The outcome
  keeps what the code set up, sent and logged beside what it returns or throws.
\<close>

subsection \<open>Data\<close>

record simulcast_layer =
  sl_rid :: string
  sl_maxBitrate :: int
  sl_scaleResolutionDownBy :: int

record media_track =
  mt_kind :: string
  mt_label :: string

record whip_options =
  wp_whipUrl :: string
  wp_stream :: "media_track list"
  wp_iceServers :: "ice_server list option"
  wp_did :: "string option"
  wp_sign :: "(string \<Rightarrow> string result) option"
  wp_maxVideoBitrate :: "int option"
  wp_simulcastLayers :: "simulcast_layer list option"
  wp_skipResourceDelete :: bool

record rtp_encoding =
  en_rid :: "string option"
  en_maxBitrate :: "int option"
  en_scaleResolutionDownBy :: "int option"

record transceiver =
  tr_track :: media_track
  tr_encodings :: "rtp_encoding list"

record whip_browser =
  wb_userAgent :: "string option"
  wb_acceptsSimulcast :: "media_track \<Rightarrow> bool"
  wb_senderEncodings :: "media_track \<Rightarrow> rtp_encoding list option"
  wb_acceptsParameters :: "media_track \<Rightarrow> bool"
  wb_offer :: "js_error option"
  wb_localSdp :: "string option"
  wb_setRemote :: "js_error option"

type_synonym headers = "(string \<times> string) list"

record whip_request =
  rq_url :: string
  rq_headers :: headers
  rq_body :: string

text \<open>The fetch rejected, or answered with a status, the text of its body, and the
  \<open>Location\<close> and \<open>X-Aevia-Session-ID\<close> headers.\<close>

datatype whip_reply =
    WhipRejected js_error
  | WhipResponse nat "string result" "string option" "string option"

record whip_session =
  wh_resourceUrl :: "string option"
  wh_sessionId :: "string option"

record whip_outcome =
  wr_iceServers :: "ice_server list"
  wr_transceivers :: "transceiver list"
  wr_warnings :: nat
  wr_request :: "whip_request option"
  wr_closed :: bool
  wr_deleted :: "string list"
  wr_result :: "whip_session result"

subsection \<open>Simulcast layers\<close>

definition layer :: "string \<Rightarrow> int \<Rightarrow> int \<Rightarrow> simulcast_layer" where
  "layer rid rate scale = \<lparr>sl_rid = rid, sl_maxBitrate = rate, sl_scaleResolutionDownBy = scale\<rparr>"

definition desktop_layers :: "simulcast_layer list" where
  "desktop_layers = [layer ''q'' 300000 4, layer ''h'' 800000 2, layer ''f'' 2000000 1]"

definition mobile_layers :: "simulcast_layer list" where
  "mobile_layers = [layer ''q'' 250000 4, layer ''h'' 750000 2, layer ''f'' 1500000 1]"

definition default_max_video_bitrate :: int where
  "default_max_video_bitrate = 1500000"

definition is_mobile :: "string \<Rightarrow> bool" where
  \<comment> \<open>\<open>/Mobi|Android|iPhone|iPad|iPod/i.test(ua)\<close>\<close>
  "is_mobile ua = list_ex (\<lambda>p. contains (to_lower p) (to_lower ua))
     [''Mobi'', ''Android'', ''iPhone'', ''iPad'', ''iPod'']"

definition defaultSimulcastLayers :: "string option \<Rightarrow> simulcast_layer list" where
  "defaultSimulcastLayers userAgent =
     (case userAgent of
        None \<Rightarrow> desktop_layers
      | Some ua \<Rightarrow> if is_mobile ua then mobile_layers else desktop_layers)"

subsection \<open>Tracks\<close>

definition layer_encoding :: "simulcast_layer \<Rightarrow> rtp_encoding" where
  "layer_encoding l = \<lparr>en_rid = Some (sl_rid l), en_maxBitrate = Some (sl_maxBitrate l),
     en_scaleResolutionDownBy = Some (sl_scaleResolutionDownBy l)\<rparr>"

definition empty_encoding :: rtp_encoding where
  "empty_encoding = \<lparr>en_rid = None, en_maxBitrate = None, en_scaleResolutionDownBy = None\<rparr>"

definition capped :: "int \<Rightarrow> rtp_encoding list option \<Rightarrow> rtp_encoding list" where
  "capped cap params =
     (let encodings = (if params \<noteq> None \<and> 0 < length (the params) then the params else [empty_encoding])
      in encodings[0 := (encodings ! 0)\<lparr>en_maxBitrate := Some cap\<rparr>])"

definition add_track :: "whip_browser \<Rightarrow> simulcast_layer list \<Rightarrow> int \<Rightarrow> media_track \<Rightarrow> transceiver \<times> nat" where
  \<comment> \<open>the transceiver and how many warnings were logged\<close>
  "add_track b layers fallbackCap track =
     (let simulcast = (mt_kind track = ''video'' \<and> 0 < length layers);
          params = wb_senderEncodings b track
      in if simulcast \<and> wb_acceptsSimulcast b track
         then (\<lparr>tr_track = track, tr_encodings = map layer_encoding layers\<rparr>, 0)
         else (\<lparr>tr_track = track, tr_encodings =
                  (if 0 < fallbackCap \<and> mt_kind track = ''video'' \<and> wb_acceptsParameters b track
                   then capped fallbackCap params else or_default params [])\<rparr>,
               if simulcast then 1 else 0))"

subsection \<open>The offer\<close>

definition hex_prefixed :: "string \<Rightarrow> string" where
  "hex_prefixed sig = (if starts_with ''0x'' sig then sig else ''0x'' @ sig)"

definition whip_headers :: "whip_options \<Rightarrow> string \<Rightarrow> headers \<times> nat" where
  \<comment> \<open>with the number of warnings\<close>
  "whip_headers opts offerSdp =
     (let h0 = [(''Content-Type'', ''application/sdp'')];
          h1 = (if truthy (wp_did opts) then h0 @ [(''X-Aevia-DID'', the (wp_did opts))] else h0)
      in case wp_sign opts of
           None \<Rightarrow> (h1, 0)
         | Some sign \<Rightarrow>
             if offerSdp = [] then (h1, 0)
             else (case sign offerSdp of
                 Inr sig \<Rightarrow> (h1 @ [(''X-Aevia-Signature'', hex_prefixed sig)], 0)
               | Inl e \<Rightarrow> (h1, 1)))"

definition whip_answer ::
  "(string \<Rightarrow> string \<Rightarrow> string option) \<Rightarrow> whip_options \<Rightarrow> whip_browser \<Rightarrow> whip_reply \<Rightarrow>
   bool \<times> whip_session result" where
  \<comment> \<open>whether the connection was closed, and what is returned or thrown\<close>
  "whip_answer resolve opts b reply =
     (case reply of
        WhipRejected e \<Rightarrow> (False, Inl e)
      | WhipResponse st body location sessionId \<Rightarrow>
          if \<not> status_ok st
          then (True, Inl (case body of Inl e \<Rightarrow> e
              | Inr t \<Rightarrow> Error (''WHIP publish failed: '' @ show_nat st @ '' '' @ t)))
          else (case (body, wb_setRemote b) of
              (Inl e, _) \<Rightarrow> (False, Inl e)
            | (Inr answerSdp, Some e) \<Rightarrow> (False, Inl e)
            | (Inr answerSdp, None) \<Rightarrow> (False,
                if truthy location then (case resolve (the location) (wp_whipUrl opts) of
                    None \<Rightarrow> Inl Thrown
                  | Some url \<Rightarrow> Inr \<lparr>wh_resourceUrl = Some url, wh_sessionId = sessionId\<rparr>)
                else Inr \<lparr>wh_resourceUrl = None, wh_sessionId = sessionId\<rparr>)))"

definition publishWhip ::
  "(string \<Rightarrow> string \<Rightarrow> string option) \<Rightarrow> (whip_request \<Rightarrow> whip_reply) \<Rightarrow> whip_browser \<Rightarrow> whip_options \<Rightarrow>
   whip_outcome" where
  "publishWhip resolve net b opts =
     (let layers = or_default (wp_simulcastLayers opts) (defaultSimulcastLayers (wb_userAgent b));
          fallbackCap = or_default (wp_maxVideoBitrate opts) default_max_video_bitrate;
          added = map (add_track b layers fallbackCap) (wp_stream opts);
          out = \<lparr>wr_iceServers = or_default (wp_iceServers opts) default_ice_servers,
            wr_transceivers = map fst added, wr_warnings = sum_list (map snd added),
            wr_request = None, wr_closed = False, wr_deleted = [], wr_result = Inl Thrown\<rparr>
      in case wb_offer b of
           Some e \<Rightarrow> out\<lparr>wr_result := Inl e\<rparr>
         | None \<Rightarrow>
             let offerSdp = or_default (wb_localSdp b) [];
                 (hs, warned) = whip_headers opts offerSdp;
                 req = \<lparr>rq_url = wp_whipUrl opts, rq_headers = hs, rq_body = offerSdp\<rparr>;
                 (shut, res) = whip_answer resolve opts b (net req)
             in out\<lparr>wr_warnings := wr_warnings out + warned, wr_request := Some req,
                  wr_closed := shut, wr_result := res\<rparr>)"

definition whip_stop :: "whip_options \<Rightarrow> string option \<Rightarrow> whip_outcome \<Rightarrow> whip_outcome" where
  "whip_stop opts resourceUrl s =
     (let s1 = (if resourceUrl \<noteq> None \<and> \<not> wp_skipResourceDelete opts
            then s\<lparr>wr_deleted := wr_deleted s @ [the resourceUrl]\<rparr> else s)
      in s1\<lparr>wr_closed := True\<rparr>)"

interpretation whip_end: resource_session "whip_stop opts url" wr_closed wr_deleted
    "if wp_skipResourceDelete opts then None else url"
  for opts url
  by unfold_locales (auto simp: whip_stop_def Let_def split: option.splits)

subsection \<open>Connection telemetry\<close>

record whip_watch =
  ww_inspected :: bool
  ww_states :: "string list"
  ww_logs :: "ice_log list"

definition whip_on_state :: "string \<times> stats option \<Rightarrow> whip_watch \<Rightarrow> whip_watch" where
  "whip_on_state ev w =
     (let w1 = (if fst ev = ''connected'' \<and> \<not> ww_inspected w
            then w\<lparr>ww_inspected := True, ww_logs := ww_logs w @ inspectCandidatePair (snd ev) ''whip''\<rparr>
            else w)
      in w1\<lparr>ww_states := ww_states w1 @ [fst ev]\<rparr>)"

definition whip_watch_run :: "(string \<times> stats option) list \<Rightarrow> whip_watch" where
  "whip_watch_run es = fold whip_on_state es \<lparr>ww_inspected = False, ww_states = [], ww_logs = []\<rparr>"

subsection \<open>Facts\<close>

lemma whip_watch_inspected: "ww_inspected w \<Longrightarrow>
   ww_logs (fold whip_on_state es w) = ww_logs w \<and> ww_inspected (fold whip_on_state es w)"
  by (induction es arbitrary: w) (auto simp: whip_on_state_def)

lemma whip_inspects_once:
  "ww_logs (whip_watch_run es) = (case filter (\<lambda>e. fst e = ''connected'') es of
      [] \<Rightarrow> [] | e # _ \<Rightarrow> inspectCandidatePair (snd e) ''whip'')"
proof -
  have "ww_logs (fold whip_on_state es w) = ww_logs w @
      (case filter (\<lambda>e. fst e = ''connected'') es of [] \<Rightarrow> [] | e # _ \<Rightarrow> inspectCandidatePair (snd e) ''whip'')"
    if "\<not> ww_inspected w" for w
    using that by (induction es arbitrary: w) (auto simp: whip_on_state_def whip_watch_inspected)
  then show ?thesis by (simp add: whip_watch_run_def)
qed

lemma hex_prefixed_if: "hex_prefixed sig = (if take 2 sig = ''0x'' then sig else ''0x'' @ sig)"
  by (simp add: hex_prefixed_def starts_with_def numeral_2_eq_2)

lemma whip_headers_of:
  "map_of (fst (whip_headers opts sdp)) ''Content-Type'' = Some ''application/sdp''"
  "map_of (fst (whip_headers opts sdp)) ''X-Aevia-DID'' =
     (if truthy (wp_did opts) then wp_did opts else None)"
  "map_of (fst (whip_headers opts sdp)) ''X-Aevia-Signature'' = (case wp_sign opts of
      None \<Rightarrow> None
    | Some sign \<Rightarrow> if sdp = [] then None else (case sign sdp of Inl e \<Rightarrow> None | Inr sig \<Rightarrow> Some (hex_prefixed sig)))"
  by (auto simp: whip_headers_def Let_def truthy_iff split: option.splits sum.splits)

lemma publish_fields:
  "wr_request (publishWhip resolve net b opts) = (if wb_offer b = None
     then Some \<lparr>rq_url = wp_whipUrl opts, rq_headers = fst (whip_headers opts (or_default (wb_localSdp b) [])),
       rq_body = or_default (wb_localSdp b) []\<rparr> else None)"
  "wr_transceivers (publishWhip resolve net b opts) = map (fst \<circ> add_track b
     (or_default (wp_simulcastLayers opts) (defaultSimulcastLayers (wb_userAgent b)))
     (or_default (wp_maxVideoBitrate opts) default_max_video_bitrate)) (wp_stream opts)"
  by (auto simp: publishWhip_def Let_def split: option.splits prod.splits)

lemma publish_result:
  "wr_request (publishWhip resolve net b opts) = Some req \<Longrightarrow>
   (wr_closed (publishWhip resolve net b opts), wr_result (publishWhip resolve net b opts)) =
     whip_answer resolve opts b (net req)"
  by (auto simp: publishWhip_def Let_def split: option.splits prod.splits)

lemma whip_answer_session:
  "snd (whip_answer resolve opts b reply) = Inr ses \<longleftrightarrow>
   (\<exists>st sdp loc. reply = WhipResponse st (Inr sdp) loc (wh_sessionId ses) \<and> status_ok st \<and>
      wb_setRemote b = None \<and>
      (if truthy loc then wh_resourceUrl ses \<noteq> None \<and> wh_resourceUrl ses = resolve (the loc) (wp_whipUrl opts)
       else wh_resourceUrl ses = None))"
proof (cases reply)
  case (WhipResponse st body loc sid)
  then show ?thesis
    by (cases ses; cases body; cases "wb_setRemote b"; cases "status_ok st"; cases "truthy loc")
      (auto simp: whip_answer_def split: option.splits)
qed (simp add: whip_answer_def)

subsection \<open>Properties\<close>

text \<open>
  C8. A publish posts the local description once the offer is ready, always as
  \<open>application/sdp\<close>, with the DID exactly when one is given and a signature exactly when the
  signer answered for a non-empty offer, always with a single \<open>0x\<close> in front; a signer that
  fails does not stop the publish. A session comes back exactly when a success answer is
  applied and its resource URL resolves, and carries the server's session id.
\<close>

theorem whip_publish:
  assumes "wb_offer b = None"
  shows "let out = publishWhip resolve net b opts; sdp = or_default (wb_localSdp b) [] in
    \<exists>req. wr_request out = Some req \<and> rq_url req = wp_whipUrl opts \<and> rq_body req = sdp \<and>
      map_of (rq_headers req) ''Content-Type'' = Some ''application/sdp'' \<and>
      map_of (rq_headers req) ''X-Aevia-DID'' = (if truthy (wp_did opts) then wp_did opts else None) \<and>
      (\<forall>v. map_of (rq_headers req) ''X-Aevia-Signature'' = Some v \<longleftrightarrow>
         (\<exists>sign sig. wp_sign opts = Some sign \<and> sdp \<noteq> [] \<and> sign sdp = Inr sig \<and>
            v = (if take 2 sig = ''0x'' then sig else ''0x'' @ sig))) \<and>
      (\<forall>ses. wr_result out = Inr ses \<longleftrightarrow>
         (\<exists>st ans loc. net req = WhipResponse st (Inr ans) loc (wh_sessionId ses) \<and> status_ok st \<and>
            wb_setRemote b = None \<and>
            (if truthy loc
             then wh_resourceUrl ses \<noteq> None \<and> wh_resourceUrl ses = resolve (the loc) (wp_whipUrl opts)
             else wh_resourceUrl ses = None)))"
proof -
  let ?out = "publishWhip resolve net b opts"
  let ?sdp = "or_default (wb_localSdp b) []"
  let ?req = "\<lparr>rq_url = wp_whipUrl opts, rq_headers = fst (whip_headers opts ?sdp), rq_body = ?sdp\<rparr>"
  have req: "wr_request ?out = Some ?req" using assms by (simp add: publish_fields)
  have "wr_result ?out = snd (whip_answer resolve opts b (net ?req))"
    using publish_result [OF req] by (metis snd_conv)
  moreover have "(\<forall>v. map_of (rq_headers ?req) ''X-Aevia-Signature'' = Some v \<longleftrightarrow>
         (\<exists>sign sig. wp_sign opts = Some sign \<and> ?sdp \<noteq> [] \<and> sign ?sdp = Inr sig \<and>
            v = (if take 2 sig = ''0x'' then sig else ''0x'' @ sig)))"
    unfolding hex_prefixed_if [symmetric] by (auto simp: whip_headers_of split: option.splits sum.splits)
  ultimately show ?thesis using req by (simp add: whip_headers_of whip_answer_session Let_def)
qed

definition demo_browser :: whip_browser where
  "demo_browser = \<lparr>wb_userAgent = Some ''Mozilla/5.0 (iPhone; CPU iPhone OS 17)'',
     wb_acceptsSimulcast = (\<lambda>t. mt_label t = ''camera''), wb_senderEncodings = (\<lambda>_. Some [empty_encoding]),
     wb_acceptsParameters = (\<lambda>_. True), wb_offer = None, wb_localSdp = Some ''v=0'', wb_setRemote = None\<rparr>"

definition demo_whip_options :: whip_options where
  "demo_whip_options = \<lparr>wp_whipUrl = ''https://w'',
     wp_stream = [\<lparr>mt_kind = ''video'', mt_label = ''camera''\<rparr>, \<lparr>mt_kind = ''video'', mt_label = ''screen''\<rparr>],
     wp_iceServers = None, wp_did = Some ''did:pkh:eip155:1:0xab'', wp_sign = Some (\<lambda>m. Inr ''ff''),
     wp_maxVideoBitrate = None, wp_simulcastLayers = None, wp_skipResourceDelete = False\<rparr>"

theorem whip_publish_witness:
  "\<exists>req. wr_request (publishWhip (\<lambda>l u. Some l) (\<lambda>_. WhipResponse 201 (Inr ''sdp'') None (Some ''s9''))
       demo_browser demo_whip_options) = Some req \<and>
     map_of (rq_headers req) ''X-Aevia-Signature'' = Some ''0xff'' \<and>
     map_of (rq_headers req) ''X-Aevia-DID'' = Some ''did:pkh:eip155:1:0xab''"
proof -
  have offer: "wb_offer demo_browser = None" by (simp add: demo_browser_def)
  have opts: "truthy (wp_did demo_whip_options)" "wp_did demo_whip_options = Some ''did:pkh:eip155:1:0xab''"
    "wp_sign demo_whip_options = Some (\<lambda>m. Inr ''ff'')" "or_default (wb_localSdp demo_browser) [] = ''v=0''"
    by (simp_all add: demo_whip_options_def demo_browser_def)
  show ?thesis
    using whip_publish [OF offer, of "\<lambda>l u. Some l" "\<lambda>_. WhipResponse 201 (Inr ''sdp'') None (Some ''s9'')"
        demo_whip_options]
    by (auto simp: opts Let_def)
qed

text \<open>
  Left to its defaults, a publish sends every video track either as three layers (the
  mobile profile for a mobile user agent, the desktop one otherwise) or, where simulcast is
  refused, as a single encoding; no encoding exceeds 1.5 Mbps on mobile and 2 Mbps elsewhere.
  (Two comments of the file promise mobile two layers up to 800 Kbps.)
\<close>

lemma whip_bitrate_cap:
  assumes "wp_simulcastLayers opts = None" and "wp_maxVideoBitrate opts = None"
    and "\<And>t. wb_acceptsParameters b t" and "\<And>t. length (or_default (wb_senderEncodings b t) []) \<le> 1"
  shows "length (wr_transceivers (publishWhip resolve net b opts)) = length (wp_stream opts) \<and>
    (\<forall>t \<in> set (wr_transceivers (publishWhip resolve net b opts)). mt_kind (tr_track t) = ''video'' \<longrightarrow>
      (tr_encodings t = map layer_encoding (defaultSimulcastLayers (wb_userAgent b)) \<and> length (tr_encodings t) = 3 \<or>
       length (tr_encodings t) = 1) \<and>
      (\<forall>e \<in> set (tr_encodings t). \<exists>rate. en_maxBitrate e = Some rate \<and>
         rate \<le> (if \<exists>ua. wb_userAgent b = Some ua \<and> is_mobile ua then 1500000 else 2000000)))"
proof -
  have one: "length (capped cap (wb_senderEncodings b t)) = 1 \<and>
      (\<forall>e \<in> set (capped cap (wb_senderEncodings b t)). en_maxBitrate e = Some cap)" for cap t
    using assms(4) [of t] by (cases "wb_senderEncodings b t"; cases "the (wb_senderEncodings b t)")
      (auto simp: capped_def)
  have layers: "length (defaultSimulcastLayers ua) = 3 \<and> (\<forall>l \<in> set (defaultSimulcastLayers ua).
      sl_maxBitrate l \<le> (if \<exists>u. ua = Some u \<and> is_mobile u then 1500000 else 2000000))" for ua
    by (auto simp: defaultSimulcastLayers_def desktop_layers_def mobile_layers_def layer_def split: option.splits)
  let ?cap = "if \<exists>ua. wb_userAgent b = Some ua \<and> is_mobile ua then 1500000 else 2000000 :: int"
  let ?layers = "defaultSimulcastLayers (wb_userAgent b)"
  have track: "(tr_encodings t = map layer_encoding ?layers \<and> length (tr_encodings t) = 3 \<or>
       length (tr_encodings t) = 1) \<and>
      (\<forall>e \<in> set (tr_encodings t). \<exists>rate. en_maxBitrate e = Some rate \<and> rate \<le> ?cap)"
    if t: "t = fst (add_track b ?layers default_max_video_bitrate tr)" "mt_kind (tr_track t) = ''video''" for t tr
  proof (cases "wb_acceptsSimulcast b tr")
    case True
    have "mt_kind tr = ''video''" using t by (simp add: add_track_def Let_def split: if_splits)
    with True t(1) layers [of "wb_userAgent b"] have "tr_encodings t = map layer_encoding ?layers"
      by (simp add: add_track_def Let_def)
    with layers [of "wb_userAgent b"] show ?thesis by (auto simp: layer_encoding_def)
  next
    case False
    have "mt_kind tr = ''video''" using t by (simp add: add_track_def Let_def split: if_splits)
    with False t(1) assms(3) have "tr_encodings t = capped 1500000 (wb_senderEncodings b tr)"
      by (simp add: add_track_def Let_def default_max_video_bitrate_def)
    with one [of 1500000 tr] show ?thesis by auto
  qed
  show ?thesis using track assms(1,2) by (auto simp: publish_fields)
qed

theorem whip_bitrate_cap_witness:
  "map (\<lambda>t. length (tr_encodings t)) (wr_transceivers (publishWhip (\<lambda>l u. Some l)
      (\<lambda>_. WhipRejected Thrown) demo_browser demo_whip_options)) = [3, 1] \<and>
   list_all (\<lambda>t. list_all (\<lambda>e. \<exists>rate. en_maxBitrate e = Some rate \<and> rate \<le> 1500000) (tr_encodings t))
     (wr_transceivers (publishWhip (\<lambda>l u. Some l) (\<lambda>_. WhipRejected Thrown) demo_browser demo_whip_options))"
proof -
  let ?ts = "wr_transceivers (publishWhip (\<lambda>l u. Some l) (\<lambda>_. WhipRejected Thrown) demo_browser demo_whip_options)"
  have mobile: "\<exists>ua. wb_userAgent demo_browser = Some ua \<and> is_mobile ua"
    by (simp add: demo_browser_def is_mobile_def) (simp add: to_lower_def lower_char_def code_def starts_with_def)
  have kinds: "\<forall>t \<in> set ?ts. mt_kind (tr_track t) = ''video''" and "map (\<lambda>t. length (tr_encodings t)) ?ts = [3, 1]"
    using mobile by (auto simp: publish_fields demo_whip_options_def add_track_def demo_browser_def
        defaultSimulcastLayers_def mobile_layers_def capped_def default_max_video_bitrate_def Let_def)
  moreover have "wp_simulcastLayers demo_whip_options = None" "wp_maxVideoBitrate demo_whip_options = None"
    "\<And>t. wb_acceptsParameters demo_browser t" "\<And>t. length (or_default (wb_senderEncodings demo_browser t) []) \<le> 1"
    by (simp_all add: demo_whip_options_def demo_browser_def)
  note whip_bitrate_cap [OF this, of "\<lambda>l u. Some l" "\<lambda>_. WhipRejected Thrown"]
  ultimately show ?thesis using mobile by (auto simp: list_all_iff)
qed

end
