(* ===== verification/WhepFailover.thy ===== *)
theory WhepFailover
  imports Prelude JsText
begin

text \<open>
  \<open>apps/video/src/lib/webrtc/whep-failover.ts\<close>: walking the candidate providers of a session.
  The asynchronous loop is a step relation. Between two \<open>await\<close>s the code runs without
  interruption, so a state records at which \<open>await\<close> the loop stands, the variables it closes
  over (those of an attempt are sets of attempt numbers, since the callbacks of an old attempt
  still see their own), and what was given to the callbacks. Outside are \<open>playWhep\<close> (it
  returns or throws, sooner or later or never), the peer connections, the timers and the
  caller's \<open>stop\<close>: each is an event.
\<close>

subsection \<open>State\<close>

record failover_candidate =
  fc_peerId :: string
  fc_httpsBase :: string

record failover_options =
  fo_sessionId :: string
  fo_candidates :: "failover_candidate list"

datatype failover_state = Idle | Connecting | Connected | FailingOver | FailedAll

record failover_context =
  cx_candidate :: "failover_candidate option"
  cx_attempt :: nat
  cx_totalAttempts :: nat

datatype failover_output =
    StateChange failover_state failover_context
  | StreamOut failover_candidate

datatype outcome = OConnected | OBroken | OTimeout

text \<open>What the loop does once \<open>cleanupActive\<close> is done: return, or go on at an index.\<close>

datatype continuation = Return | Next nat

datatype position =
    Playing nat \<comment> \<open>\<open>await playWhep(...)\<close> of the candidate at an index\<close>
  | Waiting nat \<comment> \<open>\<open>await waitPromise\<close>\<close>
  | Watching nat \<comment> \<open>\<open>await waitUntilBrokenOrSilent(...)\<close>\<close>
  | Cleaning continuation \<comment> \<open>\<open>await activeSession.stop()\<close>\<close>
  | Finished

record failover =
  fo_position :: position
  fo_stopped :: bool
  fo_activeSession :: "nat option"
  fo_activeCand :: "failover_candidate option"
  fo_attempt :: nat
  fo_connected :: "nat set"
  fo_broken :: "nat set"
  fo_outcomes :: "(nat \<times> outcome) list"
  fo_timers :: "nat set"
  fo_polls :: "nat set"
  fo_open :: "nat set" \<comment> \<open>the attempts whose peer connection is open\<close>
  fo_stopping :: nat \<comment> \<open>calls of \<open>stop\<close> awaiting the session's end\<close>
  fo_log :: "failover_output list"

subsection \<open>The code between the awaits\<close>

definition whep_url :: "failover_options \<Rightarrow> failover_candidate \<Rightarrow> string" where
  "whep_url opts c = strip_slashes (fc_httpsBase c) @ ''/whep/'' @ encodeURIComponent (fo_sessionId opts)"

definition fo_emit :: "failover_options \<Rightarrow> failover_state \<Rightarrow> failover \<Rightarrow> failover" where
  "fo_emit opts st s =
     (if fo_stopped s then s
      else s\<lparr>fo_log := fo_log s @ [StateChange st
        \<lparr>cx_candidate = fo_activeCand s, cx_attempt = fo_attempt s,
         cx_totalAttempts = length (fo_candidates opts)\<rparr>]\<rparr>)"

definition loop_at :: "failover_options \<Rightarrow> nat \<Rightarrow> failover \<Rightarrow> failover" where
  \<comment> \<open>from the loop's head at index \<open>i\<close> to its next \<open>await\<close>\<close>
  "loop_at opts i s =
     (if i < length (fo_candidates opts) \<and> \<not> fo_stopped s then
        let s1 = fo_emit opts Connecting
              (s\<lparr>fo_attempt := i + 1, fo_activeCand := Some (fo_candidates opts ! i)\<rparr>)
        in s1\<lparr>fo_timers := insert i (fo_timers s1), fo_polls := insert i (fo_polls s1),
             fo_open := insert i (fo_open s1), fo_position := Playing i\<rparr>
      else (fo_emit opts FailedAll s)\<lparr>fo_position := Finished\<rparr>)"

definition playWhepWithFailover :: "failover_options \<Rightarrow> failover" where
  "playWhepWithFailover opts =
     (let s = \<lparr>fo_position = Finished, fo_stopped = False, fo_activeSession = None,
        fo_activeCand = None, fo_attempt = 0, fo_connected = {}, fo_broken = {}, fo_outcomes = [],
        fo_timers = {}, fo_polls = {}, fo_open = {}, fo_stopping = 0, fo_log = []\<rparr>
      in if length (fo_candidates opts) = 0 then fo_emit opts FailedAll s else loop_at opts 0 s)"

fun proceed :: "failover_options \<Rightarrow> continuation \<Rightarrow> failover \<Rightarrow> failover" where
  "proceed opts Return s = s\<lparr>fo_position := Finished\<rparr>"
| "proceed opts (Next i) s = loop_at opts i s"

definition cleanup :: "failover_options \<Rightarrow> continuation \<Rightarrow> failover \<Rightarrow> failover" where
  \<comment> \<open>\<open>await cleanupActive()\<close> of the loop: at once when there is no session\<close>
  "cleanup opts k s =
     (case fo_activeSession s of
        None \<Rightarrow> proceed opts k (s\<lparr>fo_activeCand := None\<rparr>)
      | Some _ \<Rightarrow> s\<lparr>fo_position := Cleaning k\<rparr>)"

definition end_session :: "failover \<Rightarrow> failover" where
  \<comment> \<open>\<open>activeSession.stop()\<close> came back: its connection is closed\<close>
  "end_session s = s\<lparr>fo_open := fo_open s - set_option (fo_activeSession s),
     fo_activeSession := None, fo_activeCand := None\<rparr>"

definition settle :: "nat \<Rightarrow> outcome \<Rightarrow> failover \<Rightarrow> failover" where
  \<comment> \<open>\<open>resolve\<close> of the attempt's promise: the first call counts\<close>
  "settle i r s = s\<lparr>fo_outcomes := (if map_of (fo_outcomes s) i = None
     then (i, r) # fo_outcomes s else fo_outcomes s)\<rparr>"

definition played :: "failover_options \<Rightarrow> nat \<Rightarrow> bool \<Rightarrow> failover \<Rightarrow> failover" where
  \<comment> \<open>\<open>playWhep\<close> returned a session\<close>
  "played opts i stream s = s\<lparr>fo_activeSession := Some i, fo_position := Waiting i,
     fo_log := fo_log s @ (if stream then [StreamOut (fo_candidates opts ! i)] else [])\<rparr>"

definition pc_state :: "failover_options \<Rightarrow> nat \<Rightarrow> string \<Rightarrow> failover \<Rightarrow> failover" where
  \<comment> \<open>\<open>onConnectionStateChange\<close> of attempt \<open>i\<close>\<close>
  "pc_state opts i st s =
     (if fo_stopped s then s
      else let s1 = (if st = ''connected'' \<and> i \<notin> fo_connected s
             then fo_emit opts Connected (s\<lparr>fo_connected := insert i (fo_connected s)\<rparr>) else s)
           in if st = ''failed'' \<or> st = ''closed'' then s1\<lparr>fo_broken := insert i (fo_broken s1)\<rparr> else s1)"

definition connect_timer :: "nat \<Rightarrow> failover \<Rightarrow> failover" where
  "connect_timer i s =
     (let s1 = s\<lparr>fo_timers := fo_timers s - {i}\<rparr>
      in if i \<notin> fo_connected s1
         then settle i OTimeout (s1\<lparr>fo_broken := insert i (fo_broken s1)\<rparr>) else s1)"

definition poll_tick :: "nat \<Rightarrow> failover \<Rightarrow> failover" where
  "poll_tick i s =
     (let done = s\<lparr>fo_polls := fo_polls s - {i}, fo_timers := fo_timers s - {i}\<rparr>
      in if fo_stopped s then settle i OBroken done
         else if i \<in> fo_connected s then settle i OConnected done
         else if i \<in> fo_broken s then settle i OBroken done
         else s)"

definition waited :: "failover_options \<Rightarrow> nat \<Rightarrow> outcome \<Rightarrow> failover \<Rightarrow> failover" where
  "waited opts i r s =
     (if fo_stopped s then cleanup opts Return s
      else if r = OConnected then s\<lparr>fo_position := Watching i\<rparr>
      else cleanup opts (Next (i + 1)) s)"

definition watched :: "failover_options \<Rightarrow> nat \<Rightarrow> failover \<Rightarrow> failover" where
  "watched opts i s =
     (if fo_stopped s then cleanup opts Return s
      else cleanup opts (Next (i + 1)) (fo_emit opts FailingOver s))"

definition stop_call :: "failover \<Rightarrow> failover" where
  \<comment> \<open>\<open>handle.stop()\<close>, up to the \<open>await\<close> of its own cleanup\<close>
  "stop_call s =
     (let s1 = s\<lparr>fo_stopped := True\<rparr>
      in case fo_activeSession s1 of
           None \<Rightarrow> s1\<lparr>fo_activeCand := None\<rparr>
         | Some _ \<Rightarrow> s1\<lparr>fo_stopping := fo_stopping s1 + 1\<rparr>)"

subsection \<open>Steps\<close>

datatype failover_event =
    PlayReturns bool
  | PlayThrows
  | PcState nat string
  | ConnectTimer nat
  | PollTick nat
  | Resume
  | WatchTick
  | CleanupDone
  | StopCall
  | StopDone

inductive failover_step :: "failover_options \<Rightarrow> failover \<Rightarrow> failover_event \<Rightarrow> failover \<Rightarrow> bool"
  for opts :: failover_options where
  play_returns: "fo_position s = Playing i \<Longrightarrow>
    failover_step opts s (PlayReturns stream) (played opts i stream s)"
| play_throws: "fo_position s = Playing i \<Longrightarrow>
    failover_step opts s PlayThrows (cleanup opts (Next (i + 1)) (s\<lparr>fo_open := fo_open s - {i}\<rparr>))"
| pc_state: "i \<in> fo_open s \<Longrightarrow> failover_step opts s (PcState i st) (pc_state opts i st s)"
| connect_timer: "i \<in> fo_timers s \<Longrightarrow> failover_step opts s (ConnectTimer i) (connect_timer i s)"
| poll_tick: "i \<in> fo_polls s \<Longrightarrow> failover_step opts s (PollTick i) (poll_tick i s)"
| resume: "fo_position s = Waiting i \<Longrightarrow> map_of (fo_outcomes s) i = Some r \<Longrightarrow>
    failover_step opts s Resume (waited opts i r s)"
| watch_tick: "fo_position s = Watching i \<Longrightarrow> fo_stopped s \<or> i \<in> fo_broken s \<Longrightarrow>
    failover_step opts s WatchTick (watched opts i s)"
| cleanup_done: "fo_position s = Cleaning k \<Longrightarrow>
    failover_step opts s CleanupDone (proceed opts k (end_session s))"
| stop_call: "failover_step opts s StopCall (stop_call s)"
| stop_done: "0 < fo_stopping s \<Longrightarrow>
    failover_step opts s StopDone ((end_session s)\<lparr>fo_stopping := fo_stopping s - 1\<rparr>)"

inductive failover_run :: "failover_options \<Rightarrow> failover \<Rightarrow> failover_event list \<Rightarrow> failover \<Rightarrow> bool"
  for opts :: failover_options where
  run_nil: "failover_run opts s [] s"
| run_cons: "failover_step opts s e t \<Longrightarrow> failover_run opts t es u \<Longrightarrow> failover_run opts s (e # es) u"

definition reachable :: "failover_options \<Rightarrow> failover \<Rightarrow> bool" where
  "reachable opts s = (\<exists>es. failover_run opts (playWhepWithFailover opts) es s)"

inductive_cases failover_stepE: "failover_step opts s e t"
inductive_simps failover_run_Nil: "failover_run opts s [] t"
inductive_simps failover_run_Cons: "failover_run opts s (e # es) t"

subsection \<open>The invariant\<close>

definition contexts :: "failover_state \<Rightarrow> failover_output list \<Rightarrow> failover_context list" where
  "contexts st out = concat (map (\<lambda>w. case w of
     StateChange st' cx \<Rightarrow> if st' = st then [cx] else [] | StreamOut c \<Rightarrow> []) out)"

definition try_context :: "failover_options \<Rightarrow> nat \<Rightarrow> failover_context" where
  "try_context opts i = \<lparr>cx_candidate = Some (fo_candidates opts ! i), cx_attempt = i + 1,
     cx_totalAttempts = length (fo_candidates opts)\<rparr>"

definition end_context :: "failover_options \<Rightarrow> failover_context" where
  "end_context opts = \<lparr>cx_candidate = None, cx_attempt = length (fo_candidates opts),
     cx_totalAttempts = length (fo_candidates opts)\<rparr>"

definition log_ok :: "failover_options \<Rightarrow> failover \<Rightarrow> bool" where
  \<comment> \<open>the candidates in order, each announced once\<close>
  "log_ok opts s = (fo_attempt s \<le> length (fo_candidates opts) \<and>
     contexts Connecting (fo_log s) = map (try_context opts) [0..<fo_attempt s])"

definition closed_log :: "failover_options \<Rightarrow> failover \<Rightarrow> bool" where
  "closed_log opts s = (\<exists>out. fo_log s = out @ [StateChange FailedAll (end_context opts)] \<and>
     contexts FailedAll out = [])"

fun position_ok :: "failover_options \<Rightarrow> failover \<Rightarrow> position \<Rightarrow> bool" where
  "position_ok opts s (Playing i) =
     (Suc i = fo_attempt s \<and> fo_activeSession s = None \<and> fo_open s \<subseteq> {i})"
| "position_ok opts s (Waiting i) =
     (Suc i = fo_attempt s \<and> fo_open s \<subseteq> set_option (fo_activeSession s) \<and>
      (fo_stopped s \<or> fo_activeSession s = Some i))"
| "position_ok opts s (Watching i) =
     (Suc i = fo_attempt s \<and> fo_open s \<subseteq> set_option (fo_activeSession s) \<and>
      (fo_stopped s \<or> fo_activeSession s = Some i))"
| "position_ok opts s (Cleaning k) =
     (fo_open s \<subseteq> set_option (fo_activeSession s) \<and>
      (case k of Return \<Rightarrow> fo_stopped s | Next j \<Rightarrow> j = fo_attempt s))"
| "position_ok opts s Finished =
     (fo_activeSession s = None \<and> fo_open s = {} \<and>
      (fo_stopped s \<or> fo_attempt s = length (fo_candidates opts) \<and> closed_log opts s))"

definition failover_inv :: "failover_options \<Rightarrow> failover \<Rightarrow> bool" where
  "failover_inv opts s = (log_ok opts s \<and> position_ok opts s (fo_position s) \<and>
     (contexts FailedAll (fo_log s) = [] \<or>
      fo_position s = Finished \<and> fo_attempt s = length (fo_candidates opts) \<and> closed_log opts s))"

definition between :: "failover_options \<Rightarrow> failover \<Rightarrow> bool" where
  \<comment> \<open>the torn-down state in which the loop goes on\<close>
  "between opts s = (log_ok opts s \<and> fo_activeSession s = None \<and> fo_open s = {} \<and>
     fo_activeCand s = None \<and> contexts FailedAll (fo_log s) = [])"

lemma contexts_append [simp]: "contexts st (xs @ ys) = contexts st xs @ contexts st ys"
  by (simp add: contexts_def)

lemma contexts_simps [simp]:
  "contexts st [] = []" "contexts st (StreamOut c # xs) = contexts st xs"
  "contexts st (StateChange st' cx # xs) = (if st' = st then cx # contexts st xs else contexts st xs)"
  by (simp_all add: contexts_def)

lemma fo_emit_fields [simp]:
  "fo_position (fo_emit opts st s) = fo_position s" "fo_stopped (fo_emit opts st s) = fo_stopped s"
  "fo_activeSession (fo_emit opts st s) = fo_activeSession s" "fo_activeCand (fo_emit opts st s) = fo_activeCand s"
  "fo_attempt (fo_emit opts st s) = fo_attempt s" "fo_connected (fo_emit opts st s) = fo_connected s"
  "fo_broken (fo_emit opts st s) = fo_broken s" "fo_outcomes (fo_emit opts st s) = fo_outcomes s"
  "fo_timers (fo_emit opts st s) = fo_timers s" "fo_polls (fo_emit opts st s) = fo_polls s"
  "fo_open (fo_emit opts st s) = fo_open s" "fo_stopping (fo_emit opts st s) = fo_stopping s"
  by (simp_all add: fo_emit_def)

lemma fo_emit_log: "fo_log (fo_emit opts st s) = fo_log s @ (if fo_stopped s then [] else
   [StateChange st \<lparr>cx_candidate = fo_activeCand s, cx_attempt = fo_attempt s,
      cx_totalAttempts = length (fo_candidates opts)\<rparr>])"
  by (simp add: fo_emit_def)

lemma loop_at_inv: "between opts s \<Longrightarrow> fo_attempt s = i \<Longrightarrow> failover_inv opts (loop_at opts i s)"
  by (auto simp: between_def failover_inv_def log_ok_def loop_at_def fo_emit_log closed_log_def
      end_context_def try_context_def Let_def)

lemma proceed_inv:
  "between opts s \<Longrightarrow> k = Return \<Longrightarrow> fo_stopped s \<Longrightarrow> failover_inv opts (proceed opts k s)"
  "between opts s \<Longrightarrow> k = Next (fo_attempt s) \<Longrightarrow> failover_inv opts (proceed opts k s)"
  by (simp_all add: loop_at_inv) (simp add: between_def failover_inv_def log_ok_def)

lemma cleanup_inv:
  assumes "log_ok opts s" "fo_open s \<subseteq> set_option (fo_activeSession s)" "contexts FailedAll (fo_log s) = []"
    "case k of Return \<Rightarrow> fo_stopped s | Next j \<Rightarrow> j = fo_attempt s"
  shows "failover_inv opts (cleanup opts k s)"
proof (cases "fo_activeSession s")
  case None
  with assms have "between opts (s\<lparr>fo_activeCand := None\<rparr>)" by (simp add: between_def log_ok_def)
  with assms(4) None show ?thesis
    by (cases k) (auto simp: cleanup_def simp del: proceed.simps intro: proceed_inv)
next
  case (Some i)
  with assms show ?thesis
    by (cases k) (auto simp: cleanup_def failover_inv_def log_ok_def)
qed

lemma failover_inv_start: "failover_inv opts (playWhepWithFailover opts)"
proof (cases "fo_candidates opts = []")
  case True
  then show ?thesis
    by (simp add: playWhepWithFailover_def fo_emit_def failover_inv_def log_ok_def closed_log_def end_context_def)
next
  case False
  then show ?thesis
    by (simp add: playWhepWithFailover_def) (intro loop_at_inv, simp_all add: between_def log_ok_def)
qed

lemma quiet_inv:
  assumes "failover_inv opts s" "fo_position t = fo_position s" "fo_activeSession t = fo_activeSession s"
    "fo_attempt t = fo_attempt s" "fo_open t = fo_open s" "fo_log t = fo_log s"
    "fo_stopped t = (fo_stopped s \<or> stop)"
  shows "failover_inv opts t"
  using assms by (cases "fo_position s") (auto simp: failover_inv_def log_ok_def closed_log_def split: continuation.splits)

lemma emit_inv:
  assumes "failover_inv opts s" "fo_position s \<noteq> Finished" "st \<notin> {Connecting, FailedAll}"
  shows "failover_inv opts (fo_emit opts st s)"
  using assms
  by (cases "fo_position s") (auto simp: failover_inv_def log_ok_def fo_emit_log split: continuation.splits)

lemma inv_open: "failover_inv opts s \<Longrightarrow> i \<in> fo_open s \<Longrightarrow> fo_position s \<noteq> Finished"
  by (auto simp: failover_inv_def)

lemma pc_state_inv:
  assumes "failover_inv opts s" "i \<in> fo_open s"
  shows "failover_inv opts (pc_state opts i st s)"
proof -
  have "failover_inv opts (s\<lparr>fo_connected := insert i (fo_connected s)\<rparr>)"
    by (rule quiet_inv [OF assms(1), where stop = False]) simp_all
  then have "failover_inv opts (fo_emit opts Connected (s\<lparr>fo_connected := insert i (fo_connected s)\<rparr>))"
    using inv_open [OF assms] by (intro emit_inv) auto
  moreover have "failover_inv opts (t\<lparr>fo_broken := b\<rparr>)" if "failover_inv opts t" for t b
    by (rule quiet_inv [OF that, where stop = False]) simp_all
  ultimately show ?thesis using assms(1) by (auto simp: pc_state_def Let_def)
qed

lemma settle_inv: "failover_inv opts s \<Longrightarrow> failover_inv opts (settle i r s)"
  by (erule quiet_inv [where stop = False]) (simp_all add: settle_def)

lemma timers_inv: "failover_inv opts s \<Longrightarrow> failover_inv opts (s\<lparr>fo_timers := a, fo_broken := b\<rparr>)"
  "failover_inv opts s \<Longrightarrow> failover_inv opts (s\<lparr>fo_timers := a\<rparr>)"
  "failover_inv opts s \<Longrightarrow> failover_inv opts (s\<lparr>fo_polls := c, fo_timers := a\<rparr>)"
  by (erule quiet_inv [where stop = False]; simp)+

lemma inv_at_await:
  assumes "failover_inv opts s" "fo_position s = Waiting i \<or> fo_position s = Watching i"
  shows "log_ok opts s" "fo_open s \<subseteq> set_option (fo_activeSession s)"
    "contexts FailedAll (fo_log s) = []" "fo_attempt s = Suc i"
  using assms by (auto simp: failover_inv_def)

lemma loop_at_stopped [simp]:
  "fo_stopped (loop_at opts i s) = fo_stopped s" "fo_stopping (loop_at opts i s) = fo_stopping s"
  by (simp_all add: loop_at_def Let_def)

lemma proceed_stopped [simp]:
  "fo_stopped (proceed opts k s) = fo_stopped s" "fo_stopping (proceed opts k s) = fo_stopping s"
  by (cases k; simp)+

lemma cleanup_stopped [simp]:
  "fo_stopped (cleanup opts k s) = fo_stopped s" "fo_stopping (cleanup opts k s) = fo_stopping s"
  by (simp_all add: cleanup_def split: option.splits)

lemma end_session_fields [simp]:
  "fo_stopped (end_session s) = fo_stopped s" "fo_stopping (end_session s) = fo_stopping s"
  "fo_attempt (end_session s) = fo_attempt s" "fo_log (end_session s) = fo_log s"
  "fo_position (end_session s) = fo_position s"
  by (simp_all add: end_session_def)

lemmas failover_ops = played_def pc_state_def connect_timer_def poll_tick_def settle_def waited_def
  watched_def stop_call_def Let_def

lemma stopped_step:
  assumes "failover_step opts s e t"
  shows "fo_stopped t = (fo_stopped s \<or> e = StopCall)"
    and "fo_stopping s = 0 \<or> fo_stopped s \<Longrightarrow> fo_stopping t = 0 \<or> fo_stopped t"
  using assms by (cases; auto simp: failover_ops split: option.splits)+

lemma play_throws_inv:
  assumes "failover_inv opts s" "fo_position s = Playing i"
  shows "failover_inv opts (cleanup opts (Next (i + 1)) (s\<lparr>fo_open := fo_open s - {i}\<rparr>))"
proof -
  let ?s = "s\<lparr>fo_open := fo_open s - {i}\<rparr>"
  have "log_ok opts ?s" "fo_open ?s \<subseteq> set_option (fo_activeSession ?s)"
    "contexts FailedAll (fo_log ?s) = []" "Suc i = fo_attempt ?s"
    using assms by (auto simp: failover_inv_def log_ok_def)
  then show ?thesis by (intro cleanup_inv) auto
qed

lemma waited_inv:
  assumes "failover_inv opts s" "fo_position s = Waiting i"
  shows "failover_inv opts (waited opts i r s)"
proof (cases "\<not> fo_stopped s \<and> r = OConnected")
  case True
  then show ?thesis using assms by (auto simp: waited_def failover_inv_def log_ok_def)
next
  case False
  then show ?thesis using inv_at_await [OF assms(1), of i] assms(2) by (auto simp: waited_def intro!: cleanup_inv)
qed

lemma cleanup_done_inv:
  assumes "failover_inv opts s" "fo_position s = Cleaning k"
  shows "failover_inv opts (proceed opts k (end_session s))"
proof -
  have "between opts (end_session s)" using assms
    by (auto simp: between_def failover_inv_def end_session_def log_ok_def)
  moreover have "fo_stopped (end_session s) = fo_stopped s" "fo_attempt (end_session s) = fo_attempt s"
    by (simp_all add: end_session_def)
  moreover have "k = Return \<and> fo_stopped s \<or> k = Next (fo_attempt s)"
    using assms by (cases k) (auto simp: failover_inv_def)
  ultimately show ?thesis by (metis proceed_inv)
qed

lemma failover_inv_step:
  assumes "failover_step opts s e t" "failover_inv opts s" "fo_stopping s = 0 \<or> fo_stopped s"
  shows "failover_inv opts t"
  using assms(1)
proof cases
  case (play_returns i stream)
  then show ?thesis using assms(2) by (auto simp: failover_inv_def log_ok_def played_def)
next
  case (connect_timer i)
  then show ?thesis using assms(2) by (auto simp: connect_timer_def Let_def intro!: settle_inv timers_inv)
next
  case (poll_tick i)
  then show ?thesis using assms(2) by (auto simp: poll_tick_def Let_def intro!: settle_inv timers_inv)
next
  case (watch_tick i)
  with inv_at_await [OF assms(2), of i] show ?thesis
    by (auto simp: watched_def fo_emit_log log_ok_def intro!: cleanup_inv)
next
  case stop_call
  then show ?thesis
    by (auto simp: stop_call_def Let_def split: option.splits
        intro!: quiet_inv [OF assms(2), where stop = True])
next
  case stop_done
  then show ?thesis using assms(2,3)
    by (cases "fo_position s") (auto simp: failover_inv_def log_ok_def end_session_def closed_log_def split: continuation.splits)
qed (simp_all add: assms(2) pc_state_inv play_throws_inv waited_inv cleanup_done_inv del: One_nat_def add_Suc_right)

lemma failover_inv_run: "failover_run opts s es t \<Longrightarrow> failover_inv opts s \<Longrightarrow>
   fo_stopping s = 0 \<or> fo_stopped s \<Longrightarrow> failover_inv opts t \<and> (fo_stopping t = 0 \<or> fo_stopped t)"
  by (induction rule: failover_run.induct) (auto dest: failover_inv_step stopped_step(2))

lemma start_fields [simp]:
  "fo_stopped (playWhepWithFailover opts) = False" "fo_stopping (playWhepWithFailover opts) = 0"
  by (simp_all add: playWhepWithFailover_def Let_def)

lemma reachable_inv: "reachable opts s \<Longrightarrow> failover_inv opts s"
  by (auto simp: reachable_def dest!: failover_inv_run [OF _ failover_inv_start])

subsection \<open>After the end and after a stop\<close>

lemma finished_step:
  assumes "failover_step opts s e t" "fo_position s = Finished" "fo_open s = {}"
  shows "fo_position t = Finished \<and> fo_open t = {} \<and> fo_log t = fo_log s"
  using assms by cases (auto simp: failover_ops end_session_def split: option.splits)

lemma finished_run:
  "failover_run opts s es t \<Longrightarrow> fo_position s = Finished \<Longrightarrow> fo_open s = {} \<Longrightarrow>
   fo_position t = Finished \<and> fo_log t = fo_log s"
  by (induction rule: failover_run.induct) (auto dest: finished_step)

definition states_of :: "failover_output list \<Rightarrow> failover_output list" where
  "states_of out = filter (\<lambda>w. case w of StateChange _ _ \<Rightarrow> True | StreamOut _ \<Rightarrow> False) out"

definition streams_of :: "failover_output list \<Rightarrow> nat" where
  "streams_of out = length (filter (\<lambda>w. case w of StateChange _ _ \<Rightarrow> False | StreamOut _ \<Rightarrow> True) out)"

fun playing :: "position \<Rightarrow> bool" where
  "playing (Playing _) = True"
| "playing _ = False"

lemma loop_at_stopped_log: "fo_stopped s \<Longrightarrow> fo_log (loop_at opts i s) = fo_log s \<and> fo_position (loop_at opts i s) = Finished"
  by (simp add: loop_at_def fo_emit_log)

lemma proceed_stopped_log:
  "fo_stopped s \<Longrightarrow> fo_log (proceed opts k s) = fo_log s \<and> \<not> playing (fo_position (proceed opts k s))"
  by (cases k) (simp_all add: loop_at_stopped_log)

lemma cleanup_stopped_log:
  "fo_stopped s \<Longrightarrow> fo_log (cleanup opts k s) = fo_log s \<and> \<not> playing (fo_position (cleanup opts k s))"
  by (simp add: cleanup_def proceed_stopped_log split: option.split)

lemma stop_silent_step:
  assumes "failover_step opts s e t" "fo_stopped s"
  shows "states_of (fo_log t) = states_of (fo_log s) \<and>
    streams_of (fo_log t) + (if playing (fo_position t) then 1 else 0) \<le>
    streams_of (fo_log s) + (if playing (fo_position s) then 1 else 0)"
  using assms
  by cases (auto simp: failover_ops fo_emit_def cleanup_stopped_log proceed_stopped_log
      states_of_def streams_of_def split: option.splits)

lemma stop_silent_run:
  "failover_run opts s es t \<Longrightarrow> fo_stopped s \<Longrightarrow>
   fo_stopped t \<and> states_of (fo_log t) = states_of (fo_log s) \<and>
   streams_of (fo_log t) + (if playing (fo_position t) then 1 else 0) \<le>
   streams_of (fo_log s) + (if playing (fo_position s) then 1 else 0)"
proof (induction rule: failover_run.induct)
  case (run_cons s e t es u)
  have t: "fo_stopped t" using run_cons.hyps(1) run_cons.prems stopped_step(1) by blast
  from stop_silent_step [OF run_cons.hyps(1) run_cons.prems] run_cons.IH [OF t] t
  show ?case by auto
qed simp

subsection \<open>Going on\<close>

lemma play_steps:
  assumes "failover_step opts s e t" "fo_position s = Playing i" "e \<noteq> PlayThrows" "\<And>b. e \<noteq> PlayReturns b"
  shows "fo_position t = Playing i"
  using assms by cases (auto simp: failover_ops fo_emit_def end_session_def split: option.splits)

definition next_output :: "failover_options \<Rightarrow> nat \<Rightarrow> failover_output" where
  "next_output opts i = (if i < length (fo_candidates opts)
     then StateChange Connecting (try_context opts i) else StateChange FailedAll (end_context opts))"

lemma loop_at_next:
  "\<not> fo_stopped s \<Longrightarrow> fo_activeCand s = None \<Longrightarrow> fo_attempt s = i \<Longrightarrow> i \<le> length (fo_candidates opts) \<Longrightarrow>
   fo_log (loop_at opts i s) = fo_log s @ [next_output opts i] \<and>
   fo_position (loop_at opts i s) = (if i < length (fo_candidates opts) then Playing i else Finished)"
  by (auto simp: loop_at_def fo_emit_log next_output_def try_context_def end_context_def Let_def)

lemma watching_breaks:
  assumes "failover_inv opts s" "fo_position s = Watching i" "\<not> fo_stopped s" "fo_open s = {i}"
  shows "\<exists>t. failover_run opts s [PcState i ''failed'', WatchTick, CleanupDone] t \<and>
     (\<exists>cx. fo_log t = fo_log s @ [StateChange FailingOver cx, next_output opts (i + 1)])"
proof -
  let ?a = "pc_state opts i ''failed'' s"
  let ?b = "watched opts i ?a"
  have sess: "fo_activeSession s = Some i" and att: "fo_attempt s = Suc i" "Suc i \<le> length (fo_candidates opts)"
    using assms by (auto simp: failover_inv_def log_ok_def)
  have a: "failover_step opts s (PcState i ''failed'') ?a" using assms(4) by (intro failover_step.pc_state) simp
  have fa: "fo_position ?a = Watching i" "i \<in> fo_broken ?a" "\<not> fo_stopped ?a"
    "fo_activeSession ?a = Some i" "fo_attempt ?a = Suc i" "fo_log ?a = fo_log s"
    using assms sess att by (simp_all add: pc_state_def)
  have b: "failover_step opts ?a WatchTick ?b" using fa by (intro failover_step.watch_tick) auto
  have fb: "fo_position ?b = Cleaning (Next (i + 1))" "\<not> fo_stopped ?b" "fo_attempt ?b = Suc i"
    "\<exists>cx. fo_log ?b = fo_log s @ [StateChange FailingOver cx]"
    using fa by (simp_all add: watched_def cleanup_def fo_emit_log)
  have c: "failover_step opts ?b CleanupDone (proceed opts (Next (i + 1)) (end_session ?b))"
    using fb(1) by (rule failover_step.cleanup_done)
  have "fo_activeCand (end_session ?b) = None" by (simp add: end_session_def)
  then have "\<exists>cx. fo_log (proceed opts (Next (i + 1)) (end_session ?b)) =
      fo_log s @ [StateChange FailingOver cx, next_output opts (i + 1)]"
    using loop_at_next [of "end_session ?b" "i + 1" opts] fb att by auto
  then show ?thesis using a b c by (meson run_cons run_nil)
qed

subsection \<open>Properties\<close>


text \<open>
  C5. Once \<open>stop\<close> was called, no later event changes the state the caller sees, whatever the
  network still does; but a session whose \<open>playWhep\<close> was under way may still hand its stream
  to \<open>onStream\<close>, once.
\<close>

theorem failover_stop_silent:
  assumes "failover_run opts (stop_call s) es t"
  shows "states_of (fo_log t) = states_of (fo_log s) \<and>
    streams_of (fo_log t) \<le> streams_of (fo_log s) + (if playing (fo_position s) then 1 else 0)"
proof -
  have "fo_stopped (stop_call s)" "fo_log (stop_call s) = fo_log s" "fo_position (stop_call s) = fo_position s"
    by (auto simp: stop_call_def Let_def split: option.splits)
  with stop_silent_run [OF assms] show ?thesis by (auto split: if_splits)
qed

text \<open>
  When the peer connection of the session being watched fails, the loop announces
  \<open>failing-over\<close>, ends the session and goes on with the next candidate, or announces
  \<open>failed-all\<close> after the last.
\<close>

lemma failover_advances:
  assumes "reachable opts s" "fo_position s = Watching i" "\<not> fo_stopped s" "fo_open s = {i}"
  shows "\<exists>t cx. failover_run opts s [PcState i ''failed'', WatchTick, CleanupDone] t \<and>
    fo_log t = fo_log s @ [StateChange FailingOver cx, next_output opts (i + 1)]"
  using watching_breaks [OF reachable_inv [OF assms(1)] assms(2,3,4)] by blast

text \<open>
  While \<open>playWhep\<close> neither returns nor throws the loop stays with its candidate: no timer,
  poll or connection event moves it on, although the connect timeout is documented to bound
  the attempt's SDP exchange and ICE.
\<close>

lemma failover_waits_for_play:
  assumes "failover_run opts s es t" "fo_position s = Playing i"
    and "PlayThrows \<notin> set es" "PlayReturns True \<notin> set es" "PlayReturns False \<notin> set es"
  shows "fo_position t = Playing i"
  using assms
proof (induction rule: failover_run.induct)
  case (run_cons s e t es u)
  have "e \<noteq> PlayReturns b" for b using run_cons.prems(3,4) by (cases b) auto
  then show ?case using run_cons play_steps [OF run_cons.hyps(1)] by auto
qed

lemma exhaust_from:
  assumes "fo_activeSession s = None" "fo_activeCand s = None" "\<not> fo_stopped s" "fo_attempt s = i"
    "i + k = length (fo_candidates opts)"
  shows "\<exists>t. failover_run opts (loop_at opts i s) (replicate k PlayThrows) t \<and> fo_position t = Finished \<and>
    fo_log t = fo_log s @ map (next_output opts) [i..<Suc (i + k)]"
  using assms
proof (induction k arbitrary: i s)
  case 0
  then show ?case using loop_at_next [of s i opts] by (auto intro: run_nil)
next
  case (Suc k)
  let ?s = "loop_at opts i s"
  let ?u = "(?s\<lparr>fo_open := fo_open ?s - {i}\<rparr>)\<lparr>fo_activeCand := None\<rparr>"
  have at: "fo_position ?s = Playing i" "fo_log ?s = fo_log s @ [next_output opts i]"
    using loop_at_next [of s i opts] Suc.prems by auto
  have fields: "fo_activeSession ?s = None" "fo_attempt ?s = Suc i" "\<not> fo_stopped ?s"
    using Suc.prems by (simp_all add: loop_at_def Let_def)
  have step: "failover_step opts ?s PlayThrows (loop_at opts (Suc i) ?u)"
    using failover_step.play_throws [OF at(1), of opts] fields(1) by (simp add: cleanup_def)
  from Suc.IH [of ?u "Suc i"] fields Suc.prems(5) obtain t where
    t: "failover_run opts (loop_at opts (Suc i) ?u) (replicate k PlayThrows) t" "fo_position t = Finished"
      "fo_log t = fo_log ?u @ map (next_output opts) [Suc i..<Suc (Suc i + k)]" by auto
  have "[i..<Suc (i + Suc k)] = i # [Suc i..<Suc (Suc i + k)]" by (simp add: upt_conv_Cons)
  with t at(2) have "fo_log t = fo_log s @ map (next_output opts) [i..<Suc (i + Suc k)]" by simp
  then show ?case using run_cons [OF step t(1)] t(2) by auto
qed

text \<open>
  When \<open>playWhep\<close> throws for every candidate the loop ends: it has announced each
  candidate in order, each once, and then \<open>failed-all\<close>.
\<close>

lemma failover_exhausts:
  "\<exists>t. failover_run opts (playWhepWithFailover opts) (replicate (length (fo_candidates opts)) PlayThrows) t \<and>
     fo_position t = Finished \<and>
     fo_log t = map (\<lambda>i. StateChange Connecting (try_context opts i)) [0..<length (fo_candidates opts)] @
       [StateChange FailedAll (end_context opts)]"
proof (cases "fo_candidates opts = []")
  case True
  then show ?thesis
    by (intro exI [of _ "playWhepWithFailover opts"])
      (simp add: playWhepWithFailover_def fo_emit_def end_context_def run_nil)
next
  case False
  let ?n = "length (fo_candidates opts)"
  have maps: "map (\<lambda>i. StateChange Connecting (try_context opts i)) [0..<?n] = map (next_output opts) [0..<?n]"
    and last: "next_output opts ?n = StateChange FailedAll (end_context opts)"
    by (simp_all add: next_output_def)
  from False show ?thesis unfolding maps
    using exhaust_from [of "\<lparr>fo_position = Finished, fo_stopped = False, fo_activeSession = None,
        fo_activeCand = None, fo_attempt = 0, fo_connected = {}, fo_broken = {}, fo_outcomes = [],
        fo_timers = {}, fo_polls = {}, fo_open = {}, fo_stopping = 0, fo_log = []\<rparr>" 0 ?n opts]
    by (simp add: playWhepWithFailover_def Let_def last)
qed

subsection \<open>Examples\<close>

definition demo_failover :: failover_options where
  "demo_failover = \<lparr>fo_sessionId = ''s'', fo_candidates =
     [\<lparr>fc_peerId = ''p1'', fc_httpsBase = ''https://a''\<rparr>, \<lparr>fc_peerId = ''p2'', fc_httpsBase = ''https://b''\<rparr>]\<rparr>"

lemma demo_run:
  "\<exists>s. failover_run demo_failover (playWhepWithFailover demo_failover)
      [PlayReturns True, PcState 0 ''connected'', PollTick 0, Resume] s \<and>
    fo_position s = Watching 0 \<and> \<not> fo_stopped s \<and> fo_open s = {0} \<and> fo_attempt s = 1"
proof -
  let ?s0 = "playWhepWithFailover demo_failover"
  let ?s1 = "played demo_failover 0 True ?s0"
  let ?s2 = "pc_state demo_failover 0 ''connected'' ?s1"
  let ?s3 = "poll_tick 0 ?s2"
  let ?s4 = "waited demo_failover 0 OConnected ?s3"
  note ev = playWhepWithFailover_def loop_at_def demo_failover_def failover_ops fo_emit_def
  have "failover_step demo_failover ?s0 (PlayReturns True) ?s1"
    by (rule failover_step.play_returns) (simp add: ev)
  moreover have "failover_step demo_failover ?s1 (PcState 0 ''connected'') ?s2"
    by (rule failover_step.pc_state) (simp add: ev)
  moreover have "failover_step demo_failover ?s2 (PollTick 0) ?s3"
    by (rule failover_step.poll_tick) (simp add: ev)
  moreover have "failover_step demo_failover ?s3 Resume ?s4"
    by (rule failover_step.resume) (simp_all add: ev)
  moreover have "fo_position ?s4 = Watching 0 \<and> \<not> fo_stopped ?s4 \<and> fo_open ?s4 = {0} \<and> fo_attempt ?s4 = 1"
    by (simp add: ev)
  ultimately show ?thesis by (meson run_cons run_nil)
qed


theorem failover_stop_silent_witness:
  "\<exists>t. failover_run demo_failover (stop_call (playWhepWithFailover demo_failover)) [PlayReturns True] t \<and>
    states_of (fo_log t) = states_of (fo_log (playWhepWithFailover demo_failover)) \<and> streams_of (fo_log t) = 1"
proof -
  let ?s = "stop_call (playWhepWithFailover demo_failover)"
  let ?t = "played demo_failover 0 True ?s"
  note ev = playWhepWithFailover_def loop_at_def demo_failover_def failover_ops fo_emit_def streams_of_def
  have run: "failover_run demo_failover ?s [PlayReturns True] ?t"
    by (rule run_cons [OF failover_step.play_returns run_nil]) (simp add: ev)
  moreover have "streams_of (fo_log ?t) = 1" by (simp add: ev)
  ultimately show ?thesis using failover_stop_silent [OF run] by blast
qed

theorem failover_advances_witness:
  "\<exists>s t cx. failover_run demo_failover s [PcState 0 ''failed'', WatchTick, CleanupDone] t \<and>
    fo_log t = fo_log s @ [StateChange FailingOver cx, StateChange Connecting (try_context demo_failover 1)]"
proof -
  from demo_run obtain s where "reachable demo_failover s" "fo_position s = Watching 0" "\<not> fo_stopped s"
    "fo_open s = {0}" by (auto simp: reachable_def)
  from failover_advances [OF this] show ?thesis by (auto simp: next_output_def demo_failover_def)
qed

theorem failover_waits_for_play_witness:
  "\<exists>t. failover_run demo_failover (playWhepWithFailover demo_failover) [ConnectTimer 0, PollTick 0] t \<and>
    fo_position t = Playing 0"
proof -
  let ?s = "playWhepWithFailover demo_failover"
  let ?t = "poll_tick 0 (connect_timer 0 ?s)"
  note ev = playWhepWithFailover_def loop_at_def demo_failover_def failover_ops fo_emit_def
  have run: "failover_run demo_failover ?s [ConnectTimer 0, PollTick 0] ?t"
    by (rule run_cons [OF failover_step.connect_timer run_cons [OF failover_step.poll_tick run_nil]])
      (simp_all add: ev)
  moreover have "fo_position ?s = Playing 0" by (simp add: ev)
  ultimately show ?thesis using failover_waits_for_play [OF run] by auto
qed

end
