(* ===== verification/Recorder.thy ===== *)
theory Recorder
  imports Prelude
begin

text \<open>
  \<open>apps/video/src/lib/webrtc/recorder.ts\<close>: the parallel recording of a broadcast. The
  \<open>MediaRecorder\<close> is outside: it hands over chunks (here their sizes, with a content of type
  \<open>'b\<close>) while it records, one last chunk after \<open>stop\<close>, then the \<open>stop\<close> event. The promises
  that \<open>stop\<close> returned and are still open wait for that event.
\<close>

datatype recording_state = Inactive | Recording

record 'b blob =
  bl_size :: nat
  bl_data :: 'b

record 'b recorder_session =
  rs_mimeType :: string
  rs_videoBitsPerSecond :: int
  rs_chunks :: "'b blob list"
  rs_state :: recording_state
  rs_flushing :: bool \<comment> \<open>stopped, the \<open>stop\<close> event still to come\<close>
  rs_waiting :: nat
  rs_blobs :: "(string \<times> 'b blob list) list" \<comment> \<open>what the promises resolved with\<close>

datatype 'b recorder_event =
    DataAvailable "'b blob"
  | RecorderStopped
  | StopCalled
  | CancelCalled

definition candidates :: "string list" where
  "candidates = [''video/webm;codecs=vp9,opus'', ''video/webm;codecs=vp8,opus'', ''video/webm'', ''video/mp4'']"

fun first_supported :: "(string \<Rightarrow> bool) \<Rightarrow> string list \<Rightarrow> string" where
  "first_supported supported [] = ''video/webm''"
| "first_supported supported (c # cs) = (if supported c then c else first_supported supported cs)"

definition pickSupportedMimeType :: "(string \<Rightarrow> bool) option \<Rightarrow> string" where
  \<comment> \<open>\<open>None\<close>: there is no \<open>MediaRecorder\<close>\<close>
  "pickSupportedMimeType isTypeSupported =
     (case isTypeSupported of None \<Rightarrow> ''video/webm'' | Some f \<Rightarrow> first_supported f candidates)"

definition startRecorder ::
  "(string \<Rightarrow> bool) option \<Rightarrow> string option \<Rightarrow> int option \<Rightarrow> 'b recorder_session" where
  "startRecorder isTypeSupported mimeType videoBitsPerSecond =
     \<lparr>rs_mimeType = or_default mimeType (pickSupportedMimeType isTypeSupported),
      rs_videoBitsPerSecond = or_default videoBitsPerSecond 2500000,
      rs_chunks = [], rs_state = Recording, rs_flushing = False, rs_waiting = 0, rs_blobs = []\<rparr>"

definition on_data :: "'b blob \<Rightarrow> 'b recorder_session \<Rightarrow> 'b recorder_session" where
  "on_data b s = (if 0 < bl_size b then s\<lparr>rs_chunks := rs_chunks s @ [b]\<rparr> else s)"

definition on_stopped :: "'b recorder_session \<Rightarrow> 'b recorder_session" where
  "on_stopped s = s\<lparr>rs_flushing := False, rs_waiting := 0,
     rs_blobs := rs_blobs s @ replicate (rs_waiting s) (rs_mimeType s, rs_chunks s)\<rparr>"

definition recorder_stop :: "'b recorder_session \<Rightarrow> 'b recorder_session" where
  "recorder_stop s =
     (if rs_state s = Inactive then s\<lparr>rs_blobs := rs_blobs s @ [(rs_mimeType s, rs_chunks s)]\<rparr>
      else s\<lparr>rs_waiting := rs_waiting s + 1, rs_state := Inactive, rs_flushing := True\<rparr>)"

definition recorder_cancel :: "'b recorder_session \<Rightarrow> 'b recorder_session" where
  "recorder_cancel s =
     (let s1 = (if rs_state s \<noteq> Inactive then s\<lparr>rs_state := Inactive, rs_flushing := True\<rparr> else s)
      in s1\<lparr>rs_chunks := []\<rparr>)"

fun recorder_step :: "'b recorder_event \<Rightarrow> 'b recorder_session \<Rightarrow> 'b recorder_session" where
  "recorder_step (DataAvailable b) s =
     (if rs_state s = Recording \<or> rs_flushing s then on_data b s else s)"
| "recorder_step RecorderStopped s = (if rs_flushing s then on_stopped s else s)"
| "recorder_step StopCalled s = recorder_stop s"
| "recorder_step CancelCalled s = recorder_cancel s"

definition recorder_run :: "'b recorder_event list \<Rightarrow> 'b recorder_session \<Rightarrow> 'b recorder_session" where
  "recorder_run es s = fold recorder_step es s"

subsection \<open>Facts\<close>

definition kept_chunks :: "'b blob list \<Rightarrow> 'b blob list" where
  "kept_chunks bs = filter (\<lambda>b. 0 < bl_size b) bs"

lemma run_simps [simp]:
  "recorder_run [] s = s" "recorder_run (e # es) s = recorder_run es (recorder_step e s)"
  "recorder_run (es @ fs) s = recorder_run fs (recorder_run es s)"
  by (simp_all add: recorder_run_def)

lemma data_run: "rs_state s = Recording \<or> rs_flushing s \<Longrightarrow>
   recorder_run (map DataAvailable bs) s = s\<lparr>rs_chunks := rs_chunks s @ kept_chunks bs\<rparr>"
  by (induction bs arbitrary: s) (auto simp: on_data_def kept_chunks_def)

text \<open>
  C9. A recording that is stopped once yields one blob: every chunk that is not empty, those
  the recorder flushes after \<open>stop\<close> included, in order, under the MIME type the session
  reports. That type is the caller's, or the first candidate the browser supports, or
  \<open>video/webm\<close>.
\<close>

theorem recording_complete:
  "rs_blobs (recorder_run (map DataAvailable bs @ [StopCalled] @ map DataAvailable flush @ [RecorderStopped])
      (startRecorder supported mime bps)) =
     [(rs_mimeType (startRecorder supported mime bps :: 'b recorder_session), kept_chunks (bs @ flush))] \<and>
   (case mime of
      Some m \<Rightarrow> rs_mimeType (startRecorder supported mime bps :: 'b recorder_session) = m
    | None \<Rightarrow> rs_mimeType (startRecorder supported mime bps :: 'b recorder_session) =
        (case supported of None \<Rightarrow> ''video/webm'' | Some f \<Rightarrow>
          (case filter f candidates of [] \<Rightarrow> ''video/webm'' | c # _ \<Rightarrow> c)))"
proof -
  have pick: "first_supported f cs = (case filter f cs of [] \<Rightarrow> ''video/webm'' | c # _ \<Rightarrow> c)" for f cs
    by (induction cs) auto
  show ?thesis
    by (auto simp: data_run recorder_stop_def on_stopped_def kept_chunks_def startRecorder_def
        pickSupportedMimeType_def pick split: option.splits)
qed

end
