(* ===== verification/AppShell.thy ===== *)
theory AppShell
  imports JsText
begin

text \<open>
  The application's shell, \<open>apps/video/src\<close>: the environment (\<open>lib/env.ts\<close>), the Cloudflare
  CDN addresses (\<open>lib/cloudflare/stream-urls.ts\<close>), the redirect target after sign-in
  (\<open>lib/safe-next.ts\<close>) and the gate in front of protected pages (\<open>middleware.ts\<close>).
  \<open>process.env\<close> is a function; of \<open>zod\<close> the model takes the checks the schemas name, with the
  text of an issue and the validity of a URL as parameters.
\<close>

subsection \<open>Environment\<close>

type_synonym process_env = "string \<Rightarrow> string option"

record server_env =
  se_accountId :: string
  se_streamApiToken :: string
  se_webhookSecret :: "string option"
  se_privyAppId :: string
  se_privyAppSecret :: string
  se_publisherTokenSecret :: "string option"
  se_livepeerApiKey :: "string option"
  se_nodeEnv :: string

definition min_length :: "nat \<Rightarrow> string option \<Rightarrow> bool" where
  \<comment> \<open>\<open>z.string().min(n)\<close>\<close>
  "min_length n v = (case v of None \<Rightarrow> False | Some s \<Rightarrow> n \<le> length s)"

definition optional :: "(string option \<Rightarrow> bool) \<Rightarrow> string option \<Rightarrow> bool" where
  "optional check v = (v = None \<or> check v)"

definition one_of :: "string list \<Rightarrow> string option \<Rightarrow> bool" where
  "one_of names v = (case v of None \<Rightarrow> False | Some s \<Rightarrow> s \<in> set names)"

definition server_schema :: "(string \<times> (string option \<Rightarrow> bool)) list" where
  "server_schema =
     [(''CLOUDFLARE_ACCOUNT_ID'', min_length 1),
      (''STREAM_API_TOKEN'', min_length 1),
      (''STREAM_WEBHOOK_SECRET'', optional (min_length 0)),
      (''NEXT_PUBLIC_PRIVY_APP_ID'', min_length 1),
      (''PRIVY_APP_SECRET'', min_length 1),
      (''AEVIA_PUBLISHER_TOKEN_SECRET'', optional (min_length 32)),
      (''LIVEPEER_API_KEY'', optional (min_length 1)),
      (''NODE_ENV'', optional (one_of [''development'', ''test'', ''production'']))]"

definition failing :: "(string \<times> (string option \<Rightarrow> bool)) list \<Rightarrow> process_env \<Rightarrow> string list" where
  \<comment> \<open>the paths of \<open>error.issues\<close> of \<open>safeParse\<close>\<close>
  "failing schema env = map fst (filter (\<lambda>(k, check). \<not> check (env k)) schema)"

definition server_env_of :: "process_env \<Rightarrow> server_env" where
  "server_env_of env =
     \<lparr>se_accountId = the (env ''CLOUDFLARE_ACCOUNT_ID''),
      se_streamApiToken = the (env ''STREAM_API_TOKEN''),
      se_webhookSecret = env ''STREAM_WEBHOOK_SECRET'',
      se_privyAppId = the (env ''NEXT_PUBLIC_PRIVY_APP_ID''),
      se_privyAppSecret = the (env ''PRIVY_APP_SECRET''),
      se_publisherTokenSecret = env ''AEVIA_PUBLISHER_TOKEN_SECRET'',
      se_livepeerApiKey = env ''LIVEPEER_API_KEY'',
      se_nodeEnv = or_default (env ''NODE_ENV'') ''development''\<rparr>"

definition newline :: char where
  "newline = CHR 0x0A"

definition issue_lines :: "string \<Rightarrow> (string \<Rightarrow> string) \<Rightarrow> string list \<Rightarrow> string" where
  "issue_lines sep issue_text paths = join_with sep (map (\<lambda>p. p @ '': '' @ issue_text p) paths)"

definition getServerEnv ::
  "(string \<Rightarrow> string) \<Rightarrow> process_env \<Rightarrow> server_env option \<Rightarrow> server_env result \<times> server_env option" where
  \<comment> \<open>with the module's \<open>cached\<close> before and after\<close>
  "getServerEnv issue_text env cached =
     (case cached of
        Some e \<Rightarrow> (Inr e, cached)
      | None \<Rightarrow>
          if failing server_schema env \<noteq> []
          then (Inl (Error (''Invalid server environment:'' @ [newline] @
            issue_lines [newline] issue_text (failing server_schema env) @ [newline, newline] @ ''See SETUP.md'')), None)
          else (Inr (server_env_of env), Some (server_env_of env)))"

record turn_env =
  tn_tokenId :: string
  tn_apiToken :: string

definition getRealtimeTurnEnv :: "process_env \<Rightarrow> turn_env option" where
  "getRealtimeTurnEnv env =
     (if failing [(''CLOUDFLARE_REALTIME_TURN_TOKEN_ID'', min_length 1),
           (''CLOUDFLARE_REALTIME_TURN_API_TOKEN'', min_length 1)] env \<noteq> []
      then None
      else Some \<lparr>tn_tokenId = the (env ''CLOUDFLARE_REALTIME_TURN_TOKEN_ID''),
        tn_apiToken = the (env ''CLOUDFLARE_REALTIME_TURN_API_TOKEN'')\<rparr>)"

record relayer_env =
  re_privateKey :: string
  re_rpcUrl :: string

definition private_key_ok :: "string option \<Rightarrow> bool" where
  "private_key_ok v = (case v of None \<Rightarrow> False | Some s \<Rightarrow> hex0x 64 s)"

definition getRelayerEnv ::
  "(string \<Rightarrow> string) \<Rightarrow> (string \<Rightarrow> bool) \<Rightarrow> process_env \<Rightarrow> relayer_env option \<times> string list" where
  \<comment> \<open>with what is logged\<close>
  "getRelayerEnv issue_text is_url env =
     (let bad = failing [(''RELAYER_PRIVATE_KEY'', private_key_ok),
            (''BASE_SEPOLIA_RPC_URL'', optional (\<lambda>v. is_url (the v)))] env
      in if bad \<noteq> [] then (None, [''[relayer] env invalid or missing: '' @ issue_lines ''; '' issue_text bad])
         else (Some \<lparr>re_privateKey = the (env ''RELAYER_PRIVATE_KEY''),
                 re_rpcUrl = or_default (env ''BASE_SEPOLIA_RPC_URL'') ''https://sepolia.base.org''\<rparr>, []))"

record client_env =
  ce_appUrl :: string
  ce_appEnv :: string
  ce_streamCustomerCode :: "string option"
  ce_privyAppId :: "string option"
  ce_devBypassAuth :: bool
  ce_livepeerAvailable :: bool

definition clientEnv :: "process_env \<Rightarrow> client_env" where
  "clientEnv env =
     \<lparr>ce_appUrl = or_default (env ''NEXT_PUBLIC_APP_URL'') ''http://localhost:3000'',
      ce_appEnv = or_default (env ''NEXT_PUBLIC_APP_ENV'') ''development'',
      ce_streamCustomerCode = env ''NEXT_PUBLIC_STREAM_CUSTOMER_CODE'',
      ce_privyAppId = env ''NEXT_PUBLIC_PRIVY_APP_ID'',
      ce_devBypassAuth = (env ''NEXT_PUBLIC_AEVIA_DEV_BYPASS_AUTH'' = Some ''true''),
      ce_livepeerAvailable = (env ''NEXT_PUBLIC_LIVEPEER_AVAILABLE'' = Some ''true'')\<rparr>"

subsection \<open>CDN addresses\<close>

definition streamCustomerHost :: "client_env \<Rightarrow> string option" where
  "streamCustomerHost e =
     (if truthy (ce_streamCustomerCode e)
      then Some (''https://'' @ the (ce_streamCustomerCode e) @ ''.cloudflarestream.com'') else None)"

definition streamThumbnailUrl ::
  "client_env \<Rightarrow> string option \<Rightarrow> nat option \<Rightarrow> string option \<Rightarrow> string option" where
  "streamThumbnailUrl e recordingUid height time =
     (if \<not> truthy recordingUid then None
      else (case streamCustomerHost e of
          None \<Rightarrow> None
        | Some host \<Rightarrow> Some (host @ ''/'' @ the recordingUid @ ''/thumbnails/thumbnail.jpg?time='' @
            encodeURIComponent (or_default time ''1s'') @ ''&height='' @ show_nat (or_default height 360))))"

definition streamHlsUrl :: "client_env \<Rightarrow> string option \<Rightarrow> string option" where
  "streamHlsUrl e recordingUid =
     (if \<not> truthy recordingUid then None
      else (case streamCustomerHost e of
          None \<Rightarrow> None
        | Some host \<Rightarrow> Some (host @ ''/'' @ the recordingUid @ ''/manifest/video.m3u8'')))"

subsection \<open>Redirect targets\<close>

definition safeNextPath :: "string option \<Rightarrow> string \<Rightarrow> string" where
  "safeNextPath nxt fallback =
     (case nxt of
        None \<Rightarrow> fallback
      | Some s \<Rightarrow>
          if length s = 0 then fallback
          else if s ! 0 \<noteq> CHR ''/'' then fallback
          else if 1 < length s \<and> (s ! 1 = CHR ''/'' \<or> s ! 1 = CHR 0x5C) then fallback
          else s)"

subsection \<open>The gate\<close>

definition protected_paths :: "string list" where
  "protected_paths = [''/dashboard'', ''/live/new'', ''/wallet'']"

definition privy_cookie_names :: "string list" where
  "privy_cookie_names = [''privy-id-token'', ''__Host-privy-id-token'', ''privy-token'',
     ''__Host-privy-token'', ''privy-session'', ''__Host-privy-session'']"

record gate_request =
  gr_pathname :: string
  gr_searchParams :: "(string \<times> string) list"
  gr_cookies :: "string \<Rightarrow> string option"

datatype gate_response = PassThrough | RedirectTo string "(string \<times> string) list"

definition is_protected :: "string \<Rightarrow> bool" where
  "is_protected pathname = list_ex (\<lambda>p. pathname = p \<or> starts_with (p @ ''/'') pathname) protected_paths"

fun set_param :: "string \<Rightarrow> string \<Rightarrow> (string \<times> string) list \<Rightarrow> (string \<times> string) list" where
  \<comment> \<open>\<open>URLSearchParams.set\<close>: the first entry is replaced, others of the name go\<close>
  "set_param k v [] = [(k, v)]"
| "set_param k v ((k', v') # ps) =
     (if k' = k then (k, v) # filter (\<lambda>p. fst p \<noteq> k) ps else (k', v') # set_param k v ps)"

definition gate_bypass :: "process_env \<Rightarrow> bool" where
  "gate_bypass env = (env ''AEVIA_DEV_BYPASS_AUTH'' = Some ''true'' \<or>
     env ''NEXT_PUBLIC_AEVIA_DEV_BYPASS_AUTH'' = Some ''true'')"

definition middleware :: "process_env \<Rightarrow> gate_request \<Rightarrow> gate_response" where
  "middleware env req =
     (if gate_bypass env then PassThrough
      else if truthy (map_of (gr_searchParams req) ''privy_oauth_code'') then PassThrough
      else if \<not> is_protected (gr_pathname req) then PassThrough
      else if \<not> list_ex (\<lambda>name. truthy (gr_cookies req name)) privy_cookie_names
        then RedirectTo ''/'' (set_param ''next'' (gr_pathname req) (gr_searchParams req))
      else PassThrough)"

subsection \<open>Properties\<close>

definition url_stripped :: "string \<Rightarrow> string" where
  \<comment> \<open>the WHATWG URL parser removes tab, line feed and carriage return first\<close>
  "url_stripped s = filter (\<lambda>c. code c \<notin> {9, 10, 13}) s"

definition same_site :: "string \<Rightarrow> bool" where
  \<comment> \<open>a path that names no other host\<close>
  "same_site s = (take 1 s = ''/'' \<and> take 2 s \<noteq> ''//'' \<and> take 2 s \<noteq> [CHR ''/'', CHR 0x5C])"

lemma take_two: "1 < length s \<Longrightarrow> take 2 s = [s ! 0, s ! 1]"
  by (cases s; cases "tl s") auto

lemma safeNextPath_cases: "safeNextPath (Some s) f = (if same_site s then s else f)"
proof (cases "1 < length s")
  case True
  then show ?thesis using take_two [of s] by (cases s) (auto simp: safeNextPath_def same_site_def)
next
  case False
  then show ?thesis by (cases s) (auto simp: safeNextPath_def same_site_def)
qed

lemma starts_take: "starts_with q s \<Longrightarrow> n \<le> length q \<Longrightarrow> take n s = take n q"
  unfolding starts_with_def by (metis min.absorb1 take_take)

lemma protected_same_site:
  assumes "is_protected p"
  shows "same_site p"
proof -
  from assms obtain q where q: "q \<in> set protected_paths" "p = q \<or> starts_with (q @ ''/'') p"
    by (auto simp: is_protected_def list_ex_iff)
  have len: "2 \<le> length q" using q(1) by (auto simp: protected_paths_def)
  have "take n p = take n q" if "n \<le> 2" for n
    using q(2) starts_take [of "q @ ''/''" p n] len that by auto
  then show ?thesis using q(1) by (auto simp: same_site_def protected_paths_def)
qed

text \<open>
  C21. \<open>safeNextPath\<close> returns its argument exactly when that is a path of one leading slash not
  followed by a slash or backslash, and otherwise the fallback. For a path without tabs and
  line breaks that stays true of what a browser makes of it; with one it does not: the path
  \<open>/\<close>, tab, \<open>/evil.com\<close> is accepted, and a browser reads it as \<open>//evil.com\<close>.
\<close>

theorem safe_next_path:
  "safeNextPath None f = f \<and> safeNextPath (Some s) f = (if same_site s then s else f) \<and>
   (same_site s \<and> list_all (\<lambda>c. code c \<notin> {9, 10, 13}) s \<longrightarrow>
      safeNextPath (Some s) f = s \<and> same_site (url_stripped (safeNextPath (Some s) f))) \<and>
   safeNextPath (Some (CHR ''/'' # CHR 0x09 # ''/evil.com'')) f = CHR ''/'' # CHR 0x09 # ''/evil.com'' \<and>
   \<not> same_site (url_stripped (CHR ''/'' # CHR 0x09 # ''/evil.com''))"
proof -
  have "url_stripped s = s" if "list_all (\<lambda>c. code c \<notin> {9, 10, 13}) s"
    using that by (auto simp: url_stripped_def list_all_iff intro: filter_True)
  then show ?thesis
    by (simp add: safeNextPath_cases) (simp add: safeNextPath_def same_site_def url_stripped_def code_def)
qed

lemma map_of_set_param: "map_of (set_param k v ps) k = Some v"
  by (induction k v ps rule: set_param.induct) auto

lemma gate_target:
  assumes "middleware env req = RedirectTo target params"
  shows "target = ''/'' \<and> map_of params ''next'' = Some (gr_pathname req) \<and>
    safeNextPath (Some (gr_pathname req)) fallback = gr_pathname req"
  using assms
  by (auto simp: middleware_def safeNextPath_cases protected_same_site map_of_set_param split: if_splits)

text \<open>
  The gate redirects exactly the requests for a protected page that carry no Privy cookie,
  outside the bypass and the OAuth callback; it sends them to the front page with the wanted
  path as \<open>next\<close>, and that path is one \<open>safeNextPath\<close> accepts, so signing in leads back to it.
\<close>

lemma gate_redirects:
  "(middleware env req = PassThrough \<longleftrightarrow>
      gate_bypass env \<or> truthy (map_of (gr_searchParams req) ''privy_oauth_code'') \<or>
      \<not> is_protected (gr_pathname req) \<or> list_ex (\<lambda>name. truthy (gr_cookies req name)) privy_cookie_names) \<and>
   (middleware env req = RedirectTo target params \<longrightarrow>
      target = ''/'' \<and> map_of params ''next'' = Some (gr_pathname req) \<and>
      safeNextPath (map_of params ''next'') fallback = gr_pathname req)"
proof -
  have "map_of (set_param k v ps) k = Some v" for k v and ps :: "(string \<times> string) list"
    by (induction k v ps rule: set_param.induct) auto
  then show ?thesis by (auto simp: middleware_def safeNextPath_cases protected_same_site)
qed

theorem gate_redirects_witness:
  "middleware (\<lambda>_. None) \<lparr>gr_pathname = ''/wallet'', gr_searchParams = [], gr_cookies = \<lambda>_. None\<rparr> =
     RedirectTo ''/'' [(''next'', ''/wallet'')] \<and>
   safeNextPath (map_of [(''next'', ''/wallet'')] ''next'') ''/feed'' = ''/wallet''"
proof -
  let ?req = "\<lparr>gr_pathname = ''/wallet'', gr_searchParams = [], gr_cookies = \<lambda>_. None\<rparr>"
  have m: "middleware (\<lambda>_. None) ?req = RedirectTo ''/'' [(''next'', ''/wallet'')]"
    by (simp add: middleware_def gate_bypass_def is_protected_def protected_paths_def privy_cookie_names_def)
  from gate_redirects [of "\<lambda>_. None" ?req "''/''" "[(''next'', ''/wallet'')]" "''/feed''"] m show ?thesis
    by simp
qed

theorem safe_next_path_witness:
  "safeNextPath (Some ''/feed'') ''/'' = ''/feed'' \<and> same_site (url_stripped ''/feed'')"
  using safe_next_path [of "''/''" "''/feed''"] by (simp add: same_site_def code_def url_stripped_def)

text \<open>
  The server environment is parsed once: after a success every later call returns the same
  values, whatever \<open>process.env\<close> becomes, and a failure is not remembered. A parsed
  environment has its required values non-empty and a publisher secret, if any, of at least 32
  characters; a relayer environment has a 32-byte hex key.
\<close>

lemma server_env_cached:
  "(case getServerEnv issue_text env None of
      (Inr e, cached) \<Rightarrow>
        cached = Some e \<and> getServerEnv issue_text' env' cached = (Inr e, cached) \<and>
        se_accountId e \<noteq> [] \<and> se_streamApiToken e \<noteq> [] \<and> se_privyAppId e \<noteq> [] \<and> se_privyAppSecret e \<noteq> [] \<and>
        pred_option (\<lambda>s. 32 \<le> length s) (se_publisherTokenSecret e) \<and>
        pred_option (\<lambda>s. s \<noteq> []) (se_livepeerApiKey e) \<and>
        se_nodeEnv e \<in> {''development'', ''test'', ''production''}
    | (Inl err, cached) \<Rightarrow> cached = None \<and> failing server_schema env \<noteq> []) \<and>
   (case getRelayerEnv issue_text is_url env of
      (Some r, logged) \<Rightarrow> hex0x 64 (re_privateKey r) \<and> logged = []
    | (None, logged) \<Rightarrow> length logged = 1)"
proof -
  have "(case getRelayerEnv issue_text is_url env of
      (Some r, logged) \<Rightarrow> hex0x 64 (re_privateKey r) \<and> logged = [] | (None, logged) \<Rightarrow> length logged = 1)"
    by (auto simp: getRelayerEnv_def failing_def private_key_ok_def Let_def split: option.splits)
  moreover have "failing server_schema env = [] \<longleftrightarrow> (\<forall>(k, check) \<in> set server_schema. check (env k))"
    by (auto simp: failing_def filter_empty_conv)
  ultimately show ?thesis
    by (auto simp: getServerEnv_def server_schema_def server_env_of_def min_length_def optional_def one_of_def
        neq_Nil_conv Suc_le_length_iff split: option.splits)
qed

end
