(* ===== verification/Http.thy ===== *)
theory Http
  imports JsText
begin

text \<open>
  HTTP as the server code sees it: \<open>fetch\<close> is a parameter, a function of the request and of
  the outside world, whose state it may change. A computation of the server takes the world
  and returns a value, or what it threw, with the world after it. With it come the JavaScript
  operations on JSON values the server code uses: property access that may throw, spreading
  of objects and \<open>String(value)\<close>.
\<close>

subsection \<open>Requests, responses, effects\<close>

datatype http_body = No_Body | Json_Body json | Text_Body string

record http_request =
  hr_method :: string
  hr_url :: string
  hr_headers :: "(string \<times> string) list"
  hr_body :: http_body

text \<open>Reading the body as text or as JSON may reject.\<close>

record http_response =
  hp_status :: nat
  hp_statusText :: string
  hp_url :: string
  hp_headers :: "(string \<times> string) list"
  hp_text :: "string result"
  hp_json :: "json result"

definition res_ok :: "http_response \<Rightarrow> bool" where
  "res_ok res = (200 \<le> hp_status res \<and> hp_status res \<le> 299)"

definition get_header :: "string \<Rightarrow> (string \<times> string) list \<Rightarrow> string option" where
  \<comment> \<open>\<open>headers.get(name)\<close>: names are compared without case\<close>
  "get_header k hs = map_of (map (\<lambda>(h, v). (to_lower h, v)) hs) (to_lower k)"

type_synonym ('w, 'a) io = "'w \<Rightarrow> 'a result \<times> 'w"

type_synonym 'w fetch = "http_request \<Rightarrow> ('w, http_response) io"

definition io_return :: "'a \<Rightarrow> ('w, 'a) io" where
  "io_return x w = (Inr x, w)"

definition io_lift :: "'a result \<Rightarrow> ('w, 'a) io" where
  "io_lift r w = (r, w)"

definition io_bind :: "('w, 'a) io \<Rightarrow> ('a \<Rightarrow> ('w, 'b) io) \<Rightarrow> ('w, 'b) io" where
  "io_bind m f w = (case m w of (Inl e, w1) \<Rightarrow> (Inl e, w1) | (Inr x, w1) \<Rightarrow> f x w1)"

definition io_catch :: "('w, 'a) io \<Rightarrow> (js_error \<Rightarrow> ('w, 'a) io) \<Rightarrow> ('w, 'a) io" where
  "io_catch m h w = (case m w of (Inl e, w1) \<Rightarrow> h e w1 | (Inr x, w1) \<Rightarrow> (Inr x, w1))"

definition io_try :: "('w, 'a) io \<Rightarrow> ('w, 'a result) io" where
  \<comment> \<open>a \<open>try\<close> around one call, whose \<open>catch\<close> returns early\<close>
  "io_try m w = (case m w of (r, w1) \<Rightarrow> (Inr r, w1))"

lemmas io_defs = io_return_def io_lift_def io_bind_def io_catch_def io_try_def

lemma io_bind_return [simp]: "io_bind (io_return x) f = f x"
  by (rule ext) (simp add: io_defs)

lemma io_bind_lift [simp]:
  "io_bind (io_lift (Inr x)) f = f x" "io_bind (io_lift (Inl e)) f = io_lift (Inl e)"
  by (rule ext, simp add: io_defs)+

lemma io_bind_assoc: "io_bind (io_bind m f) g = io_bind m (\<lambda>x. io_bind (f x) g)"
  by (rule ext) (simp add: io_bind_def split: prod.splits sum.splits)

lemma io_catch_return [simp]: "io_catch (io_return x) h = io_return x"
  by (rule ext) (simp add: io_defs)

definition slice_text :: "nat \<Rightarrow> http_response \<Rightarrow> string" where
  \<comment> \<open>\<open>(await res.text().catch(() => '')).slice(0, n)\<close>\<close>
  "slice_text n res = (case hp_text res of Inl e \<Rightarrow> [] | Inr t \<Rightarrow> take n t)"

subsection \<open>JSON values as JavaScript objects\<close>

definition cannot_read :: "string \<Rightarrow> string \<Rightarrow> js_error" where
  \<comment> \<open>the \<open>TypeError\<close> of the Workers runtime (V8)\<close>
  "cannot_read what k =
     Error (''Cannot read properties of '' @ what @ '' (reading '' @ [CHR 0x27] @ k @ [CHR 0x27] @ '')'')"

definition jprop :: "json option \<Rightarrow> string \<Rightarrow> json option result" where
  \<comment> \<open>\<open>v.k\<close>: throws on \<open>undefined\<close> and \<open>null\<close>\<close>
  "jprop v k = (case v of
       None \<Rightarrow> Inl (cannot_read ''undefined'' k)
     | Some JNull \<Rightarrow> Inl (cannot_read ''null'' k)
     | Some x \<Rightarrow> Inr (jget x k))"

definition nullish :: "json option \<Rightarrow> bool" where
  "nullish v = (v = None \<or> v = Some JNull)"

definition jchain :: "json option \<Rightarrow> string \<Rightarrow> json option" where
  \<comment> \<open>\<open>v?.k\<close>\<close>
  "jchain v k = (case v of None \<Rightarrow> None | Some x \<Rightarrow> jget x k)"

definition jelse :: "json option \<Rightarrow> json \<Rightarrow> json" where
  \<comment> \<open>\<open>v ?? d\<close>\<close>
  "jelse v d = (case v of None \<Rightarrow> d | Some JNull \<Rightarrow> d | Some x \<Rightarrow> x)"

definition jset :: "(string \<times> json) list \<Rightarrow> (string \<times> json) list \<Rightarrow> (string \<times> json) list" where
  \<comment> \<open>\<open>{ ...a, ...b }\<close>: the keys of \<open>a\<close> keep their place\<close>
  "jset a b = foldl (\<lambda>o1 (k, v). if k \<in> fst ` set o1 then map (\<lambda>(k', v'). if k' = k then (k, v) else (k', v')) o1
     else o1 @ [(k, v)]) a b"

fun index_entries :: "nat \<Rightarrow> json list \<Rightarrow> (string \<times> json) list" where
  "index_entries i [] = []"
| "index_entries i (x # xs) = (show_nat i, x) # index_entries (Suc i) xs"

fun jentries :: "json option \<Rightarrow> (string \<times> json) list" where
  \<comment> \<open>what \<open>...v\<close> spreads\<close>
  "jentries (Some (JObj kvs)) = kvs"
| "jentries (Some (JArr xs)) = index_entries 0 xs"
| "jentries (Some (JStr s)) = index_entries 0 (map (\<lambda>c. JStr [c]) s)"
| "jentries _ = []"

definition opt_field :: "string \<Rightarrow> json option \<Rightarrow> (string \<times> json) list" where
  \<comment> \<open>an \<open>undefined\<close> property is left out of the JSON text\<close>
  "opt_field k v = (case v of None \<Rightarrow> [] | Some x \<Rightarrow> [(k, x)])"

definition jnat :: "nat \<Rightarrow> json" where
  "jnat n = JNum (Fin (of_nat n))"

fun num_string :: "(real \<Rightarrow> string) \<Rightarrow> jsnum \<Rightarrow> string" where
  "num_string num_text (Fin x) = js_String num_text x"
| "num_string num_text PInf = ''Infinity''"
| "num_string num_text NInf = ''-Infinity''"
| "num_string num_text NaN = ''NaN''"

fun json_string :: "(real \<Rightarrow> string) \<Rightarrow> json \<Rightarrow> string" where
  \<comment> \<open>\<open>String(v)\<close>\<close>
  "json_string nt JNull = ''null''"
| "json_string nt (JBool b) = (if b then ''true'' else ''false'')"
| "json_string nt (JNum x) = num_string nt x"
| "json_string nt (JStr s) = s"
| "json_string nt (JArr xs) = join_with '','' (map (\<lambda>x. if x = JNull then [] else json_string nt x) xs)"
| "json_string nt (JObj _) = ''[object Object]''"

definition value_string :: "(real \<Rightarrow> string) \<Rightarrow> json option \<Rightarrow> string" where
  "value_string nt v = (case v of None \<Rightarrow> ''undefined'' | Some x \<Rightarrow> json_string nt x)"

lemma map_of_upd_map: "k \<in> fst ` set xs \<Longrightarrow>
  map_of (map (\<lambda>(k', v'). if k' = k then (k, v) else (k', v')) xs) x = (if x = k then Some v else map_of xs x)"
proof (induction xs)
  case (Cons p xs)
  have none: "k \<notin> fst ` set xs \<Longrightarrow>
      map (\<lambda>(k', v'). if k' = k then (k, v) else (k', v')) xs = xs" by (force intro!: map_idI)
  obtain k1 v1 where p: "p = (k1, v1)" by (cases p)
  show ?case
  proof (cases "k \<in> fst ` set xs")
    case True
    with Cons.IH show ?thesis by (cases "x = k") (simp_all add: p)
  next
    case False
    with Cons.prems none show ?thesis by (auto simp: p)
  qed
qed simp

lemma map_of_snoc: "k \<notin> fst ` set xs \<Longrightarrow>
  map_of (xs @ [(k, v)]) x = (if x = k then Some v else map_of xs x)"
  by (induction xs) (auto split: if_splits)

lemma map_of_jset:
  assumes "distinct (map fst b)"
  shows "map_of (jset a b) x = (case map_of b x of Some v \<Rightarrow> Some v | None \<Rightarrow> map_of a x)"
  using assms
proof (induction b arbitrary: a)
  case Nil
  then show ?case by (simp add: jset_def)
next
  case (Cons p b)
  obtain k v where p: "p = (k, v)" by (cases p)
  define a' where "a' = (if k \<in> fst ` set a
    then map (\<lambda>(k', v'). if k' = k then (k, v) else (k', v')) a else a @ [(k, v)])"
  have step: "jset a ((k, v) # b) = jset a' b" by (simp add: jset_def a'_def)
  have a': "map_of a' y = (if y = k then Some v else map_of a y)" for y
    by (auto simp: a'_def map_of_upd_map map_of_snoc simp del: map_of_append)
  have none: "map_of b k = None" using Cons.prems by (simp add: p map_of_eq_None_iff)
  have "map_of (jset a' b) x = (case map_of b x of Some v \<Rightarrow> Some v | None \<Rightarrow> map_of a' x)"
    using Cons.prems by (intro Cons.IH) (simp add: p)
  with none show ?case by (cases "x = k") (simp_all add: p step a' split: option.splits)
qed

end
