(* ===== verification/StreamClient.thy ===== *)
theory StreamClient
  imports AppShell Http
begin

text \<open>
  The server's clients of the two managed video backends: Cloudflare Stream
  (\<open>lib/cloudflare/stream-client.ts\<close>: live inputs, recordings, direct uploads) and Livepeer
  (\<open>lib/livepeer/stream-client.ts\<close>, \<open>lib/livepeer/webrtc.ts\<close>). What the services send back is
  JSON nobody validates, so the model keeps it as a JSON value and every property access
  keeps the exception it may raise.
\<close>

subsection \<open>Cloudflare Stream: requests\<close>

record 'w server =
  sv_fetch :: "'w fetch"
  sv_env :: "server_env result" \<comment> \<open>what \<open>getServerEnv()\<close> gives\<close>
  sv_client :: client_env
  sv_numText :: "real \<Rightarrow> string"

definition cf_api_base :: string where
  "cf_api_base = ''https://api.cloudflare.com/client/v4''"

definition streamUrl :: "server_env result \<Rightarrow> string list \<Rightarrow> string result" where
  "streamUrl env segments =
     (case env of
        Inl e \<Rightarrow> Inl e
      | Inr se \<Rightarrow> Inr (cf_api_base @ ''/accounts/'' @ se_accountId se @ ''/stream/'' @ join_with ''/'' segments))"

definition jsonHeaders :: "server_env result \<Rightarrow> (string \<times> string) list result" where
  "jsonHeaders env =
     (case env of
        Inl e \<Rightarrow> Inl e
      | Inr se \<Rightarrow> Inr [(''Authorization'', ''Bearer '' @ se_streamApiToken se), (''Content-Type'', ''application/json'')])"

fun map_result :: "('a \<Rightarrow> 'b result) \<Rightarrow> 'a list \<Rightarrow> 'b list result" where
  "map_result f [] = Inr []"
| "map_result f (x # xs) =
     (case f x of Inl e \<Rightarrow> Inl e | Inr y \<Rightarrow> (case map_result f xs of Inl e \<Rightarrow> Inl e | Inr ys \<Rightarrow> Inr (y # ys)))"

definition error_line :: "(real \<Rightarrow> string) \<Rightarrow> json \<Rightarrow> string result" where
  "error_line nt e =
     (case jprop (Some e) ''code'' of
        Inl x \<Rightarrow> Inl x
      | Inr c \<Rightarrow> Inr (value_string nt c @ '': '' @ value_string nt (jget e ''message'')))"

definition envelope_error :: "(real \<Rightarrow> string) \<Rightarrow> http_response \<Rightarrow> json \<Rightarrow> js_error" where
  \<comment> \<open>what \<open>handle\<close> throws once it has the envelope\<close>
  "envelope_error nt res envelope =
     (case jprop (Some envelope) ''errors'' of
        Inl e \<Rightarrow> e
      | Inr errs \<Rightarrow>
          let msg = (if nullish errs then Inr (hp_statusText res) else
                case errs of
                  Some (JArr es) \<Rightarrow>
                    (case map_result (error_line nt) es of Inl e \<Rightarrow> Inl e | Inr ls \<Rightarrow> Inr (join_with '', '' ls))
                | _ \<Rightarrow> Inl (Error ''envelope.errors?.map is not a function''))
          in case msg of
               Inl e \<Rightarrow> e
             | Inr m \<Rightarrow> Error (''Cloudflare Stream API error ('' @ show_nat (hp_status res) @ ''): '' @ m))"

definition handle :: "(real \<Rightarrow> string) \<Rightarrow> http_response \<Rightarrow> json option result" where
  "handle nt res =
     (case hp_json res of
        Inl e \<Rightarrow> Inl e
      | Inr envelope \<Rightarrow>
          if \<not> res_ok res then Inl (envelope_error nt res envelope)
          else (case jprop (Some envelope) ''success'' of
                  Inl e \<Rightarrow> Inl e
                | Inr ok \<Rightarrow>
                    if truthy_json ok then Inr (jget envelope ''result'')
                    else Inl (envelope_error nt res envelope)))"

definition cf_fetch :: "'w server \<Rightarrow> string \<Rightarrow> string list \<Rightarrow> http_body \<Rightarrow> ('w, http_response) io" where
  \<comment> \<open>\<open>fetch(streamUrl(...segments), { method, headers: jsonHeaders(), body })\<close>\<close>
  "cf_fetch sv method segments body =
     io_bind (io_lift (streamUrl (sv_env sv) segments)) (\<lambda>url.
     io_bind (io_lift (jsonHeaders (sv_env sv))) (\<lambda>headers.
       sv_fetch sv \<lparr>hr_method = method, hr_url = url, hr_headers = headers, hr_body = body\<rparr>))"

definition cf_call :: "'w server \<Rightarrow> string \<Rightarrow> string list \<Rightarrow> http_body \<Rightarrow> ('w, json option) io" where
  "cf_call sv method segments body =
     io_bind (cf_fetch sv method segments body) (\<lambda>res. io_lift (handle (sv_numText sv) res))"

subsection \<open>Cloudflare Stream: live inputs\<close>

record live_opts =
  lo_creatorAddress :: string
  lo_creatorDisplayName :: string
  lo_creatorDid :: "string option"
  lo_title :: "json option"
  lo_deleteRecordingAfterDays :: "nat option"

definition slug_char :: "char \<Rightarrow> bool" where
  \<comment> \<open>\<open>[a-zA-Z0-9-]\<close>\<close>
  "slug_char c = (let n = code c in
     48 \<le> n \<and> n \<le> 57 \<or> 65 \<le> n \<and> n \<le> 90 \<or> 97 \<le> n \<and> n \<le> 122 \<or> c = CHR ''-'')"

definition name_slug :: "string \<Rightarrow> string" where
  "name_slug displayName =
     (let s = take 16 (filter slug_char displayName) in if s = [] then ''aevia'' else s)"

definition live_input_body :: "client_env \<Rightarrow> nat \<Rightarrow> live_opts \<Rightarrow> json" where
  "live_input_body ce now opts =
     (let autoDelete = (case lo_deleteRecordingAfterDays opts of
            Some d \<Rightarrow> Some d
          | None \<Rightarrow> if ce_appEnv ce = ''production'' then None else Some 30)
      in JObj
       ([(''meta'', JObj
            ([(''name'', jelse (lo_title opts)
                 (JStr (''aevia-'' @ name_slug (lo_creatorDisplayName opts) @ ''-'' @ show_nat now))),
              (''creator'', JStr (lo_creatorDisplayName opts)),
              (''creatorAddress'', JStr (to_lower (lo_creatorAddress opts)))] @
             (if truthy (lo_creatorDid opts) then [(''creatorDid'', JStr (the (lo_creatorDid opts)))] else []))),
         (''recording'', JObj [(''mode'', JStr ''automatic''), (''timeoutSeconds'', jnat 30),
            (''requireSignedURLs'', JBool False)]),
         (''defaultCreator'', JStr (lo_creatorAddress opts))] @
        (case autoDelete of Some d \<Rightarrow> [(''deleteRecordingAfterDays'', jnat d)] | None \<Rightarrow> [])))"

definition createLiveInput :: "'w server \<Rightarrow> nat \<Rightarrow> live_opts \<Rightarrow> ('w, json option) io" where
  "createLiveInput sv now opts =
     cf_call sv ''POST'' [''live_inputs''] (Json_Body (live_input_body (sv_client sv) now opts))"

definition getLiveInput :: "'w server \<Rightarrow> string \<Rightarrow> ('w, json option) io" where
  "getLiveInput sv uid = cf_call sv ''GET'' [''live_inputs'', uid] No_Body"

definition listed :: "string \<Rightarrow> json option \<Rightarrow> json result" where
  \<comment> \<open>the array itself, or the one under \<open>k\<close>, or \<open>[]\<close>\<close>
  "listed k result =
     (case result of
        Some (JArr xs) \<Rightarrow> Inr (JArr xs)
      | _ \<Rightarrow> (case jprop result k of Inl e \<Rightarrow> Inl e | Inr v \<Rightarrow> Inr (jelse v (JArr []))))"

definition listLiveInputs :: "'w server \<Rightarrow> ('w, json) io" where
  "listLiveInputs sv =
     io_bind (cf_call sv ''GET'' [''live_inputs''] No_Body) (\<lambda>r. io_lift (listed ''liveInputs'' r))"

record live_patch =
  lp_meta :: "(string \<times> string) list option"
  lp_defaultCreator :: "string option"

definition merged_meta :: "json option \<Rightarrow> live_patch \<Rightarrow> (string \<times> json) list" where
  \<comment> \<open>\<open>{ ...(current.meta ?? {}), ...(patch.meta ?? {}) }\<close>\<close>
  "merged_meta meta patch =
     jset (jset [] (jentries meta)) (map (\<lambda>(k, v). (k, JStr v)) (or_default (lp_meta patch) []))"

definition update_body :: "json \<Rightarrow> live_patch \<Rightarrow> json" where
  "update_body current patch =
     JObj ([(''meta'', JObj (merged_meta (jget current ''meta'') patch))] @
       (case lp_defaultCreator patch of Some c \<Rightarrow> [(''defaultCreator'', JStr c)] | None \<Rightarrow> []) @
       opt_field ''recording'' (jget current ''recording''))"

definition updateLiveInput :: "'w server \<Rightarrow> string \<Rightarrow> live_patch \<Rightarrow> ('w, json option) io" where
  "updateLiveInput sv uid patch =
     io_bind (getLiveInput sv uid) (\<lambda>current.
     io_bind (io_lift (jprop current ''meta'')) (\<lambda>_.
       cf_call sv ''PUT'' [''live_inputs'', uid] (Json_Body (update_body (the current) patch))))"

definition cf_delete :: "'w server \<Rightarrow> string list \<Rightarrow> string \<Rightarrow> ('w, unit) io" where
  \<comment> \<open>404 counts as deleted\<close>
  "cf_delete sv segments what =
     io_bind (cf_fetch sv ''DELETE'' segments No_Body) (\<lambda>res.
       if \<not> res_ok res \<and> hp_status res \<noteq> 404
       then io_lift (Inl (Error (''Failed to delete '' @ what @ '': '' @ show_nat (hp_status res))))
       else io_return ())"

definition deleteLiveInput :: "'w server \<Rightarrow> string \<Rightarrow> ('w, unit) io" where
  "deleteLiveInput sv uid = cf_delete sv [''live_inputs'', uid] (''live input '' @ uid)"

definition listLiveInputVideos :: "'w server \<Rightarrow> string \<Rightarrow> ('w, json) io" where
  "listLiveInputVideos sv uid =
     io_bind (cf_call sv ''GET'' [''live_inputs'', uid, ''videos''] No_Body) (\<lambda>r. io_lift (listed ''videos'' r))"

subsection \<open>Cloudflare Stream: recordings\<close>

definition getVideo :: "'w server \<Rightarrow> string \<Rightarrow> ('w, json option) io" where
  "getVideo sv uid = cf_call sv ''GET'' [uid] No_Body"

definition deleteVideo :: "'w server \<Rightarrow> string \<Rightarrow> ('w, unit) io" where
  "deleteVideo sv uid = cf_delete sv [uid] (''video '' @ uid)"

definition updateVideo :: "'w server \<Rightarrow> string \<Rightarrow> json \<Rightarrow> ('w, json option) io" where
  "updateVideo sv uid patch = cf_call sv ''POST'' [uid] (Json_Body patch)"

subsection \<open>Cloudflare Stream: direct uploads\<close>

fun unescape :: "string \<Rightarrow> string" where
  \<comment> \<open>of text with no \<open>%u\<close>, as \<open>encodeURIComponent\<close> writes it\<close>
  "unescape (c # x # y # s) =
     (if c = CHR ''%'' \<and> is_hex x \<and> is_hex y then char_of (16 * hex_val x + hex_val y) # unescape s
      else c # unescape (x # y # s))"
| "unescape s = s"

definition b64_char :: "nat \<Rightarrow> char" where
  "b64_char n = (if n < 26 then char_of (65 + n) else if n < 52 then char_of (71 + n)
     else if n < 62 then char_of (n - 4) else if n = 62 then CHR ''+'' else CHR ''/'')"

fun btoa :: "string \<Rightarrow> string" where
  "btoa [] = []"
| "btoa [a] = [b64_char (code a div 4), b64_char (code a mod 4 * 16), CHR ''='', CHR ''='']"
| "btoa [a, b] = [b64_char (code a div 4), b64_char (code a mod 4 * 16 + code b div 16),
     b64_char (code b mod 16 * 4), CHR ''='']"
| "btoa (a # b # c # s) =
     [b64_char (code a div 4), b64_char (code a mod 4 * 16 + code b div 16),
      b64_char (code b mod 16 * 4 + code c div 64), b64_char (code c mod 64)] @ btoa s"

definition encodeTusMetadata :: "(string \<times> string) list \<Rightarrow> string" where
  "encodeTusMetadata pairs =
     join_with '','' (map (\<lambda>(k, v). k @ '' '' @ btoa (unescape (encodeURIComponent v)))
       (filter (\<lambda>(k, v). v \<noteq> []) pairs))"

record direct_upload_options =
  du_liveInputId :: string
  du_creatorAddress :: string
  du_creatorDisplayName :: string
  du_creatorDid :: "string option"
  du_uploadLength :: nat

record direct_upload_result =
  dr_uploadUrl :: string
  dr_videoUid :: string

definition tus_pairs :: "direct_upload_options \<Rightarrow> (string \<times> string) list" where
  "tus_pairs opts =
     [(''name'', ''aevia-'' @ du_liveInputId opts), (''liveInputId'', du_liveInputId opts),
      (''creator'', du_creatorDisplayName opts), (''creatorAddress'', du_creatorAddress opts)] @
     (if truthy (du_creatorDid opts) then [(''creatorDid'', the (du_creatorDid opts))] else []) @
     [(''source'', ''whip-client-recorder'')]"

definition direct_upload_request :: "server_env \<Rightarrow> direct_upload_options \<Rightarrow> http_request" where
  "direct_upload_request se opts =
     \<lparr>hr_method = ''POST'',
      hr_url = cf_api_base @ ''/accounts/'' @ se_accountId se @ ''/stream?direct_user=true'',
      hr_headers =
        [(''Authorization'', ''Bearer '' @ se_streamApiToken se), (''Tus-Resumable'', ''1.0.0''),
         (''Upload-Metadata'', encodeTusMetadata (tus_pairs opts)),
         (''Upload-Length'', show_nat (du_uploadLength opts)),
         (''Upload-Creator'', du_creatorAddress opts)],
      hr_body = No_Body\<rparr>"

definition direct_upload_reply :: "http_response \<Rightarrow> direct_upload_result result" where
  "direct_upload_reply res =
     (if hp_status res \<noteq> 201
      then Inl (Error (''Cloudflare Stream direct upload init failed ('' @ show_nat (hp_status res) @ ''): '' @
             slice_text 300 res))
      else
        let uploadUrl = get_header ''Location'' (hp_headers res);
            videoUid = get_header ''stream-media-id'' (hp_headers res)
        in if \<not> truthy uploadUrl \<or> \<not> truthy videoUid
           then Inl (Error ''Cloudflare Stream direct upload response missing Location or stream-media-id headers'')
           else Inr \<lparr>dr_uploadUrl = the uploadUrl, dr_videoUid = the videoUid\<rparr>)"

definition createDirectUpload ::
  "'w server \<Rightarrow> direct_upload_options \<Rightarrow> ('w, direct_upload_result) io" where
  "createDirectUpload sv opts =
     io_bind (io_lift (sv_env sv)) (\<lambda>se.
     io_bind (sv_fetch sv (direct_upload_request se opts)) (\<lambda>res.
       io_lift (direct_upload_reply res)))"

subsection \<open>Livepeer\<close>

definition lp_api_base :: string where
  "lp_api_base = ''https://livepeer.studio/api''"

record livepeer_stream =
  ls_id :: "json option"
  ls_name :: "json option"
  ls_streamKey :: "json option"
  ls_playbackId :: "json option"
  ls_record :: json
  ls_createdAt :: "json option"

definition authHeaders :: "server_env result \<Rightarrow> (string \<times> string) list result" where
  "authHeaders env =
     (case env of
        Inl e \<Rightarrow> Inl e
      | Inr se \<Rightarrow>
          if \<not> truthy (se_livepeerApiKey se)
          then Inl (Error ''LIVEPEER_API_KEY required for Livepeer backend. See SETUP.md.'')
          else Inr [(''Authorization'', ''Bearer '' @ the (se_livepeerApiKey se)),
                    (''Content-Type'', ''application/json'')])"

definition lp_failed :: "string \<Rightarrow> http_response \<Rightarrow> js_error" where
  "lp_failed op res =
     Error (''Livepeer API '' @ op @ '' failed ('' @ show_nat (hp_status res) @ ''): '' @ slice_text 300 res)"

definition lp_handle :: "http_response \<Rightarrow> string \<Rightarrow> json result" where
  \<comment> \<open>\<open>handle\<close> of the Livepeer client\<close>
  "lp_handle res op = (if \<not> res_ok res then Inl (lp_failed op res) else hp_json res)"

definition normaliseStream :: "json \<Rightarrow> livepeer_stream result" where
  "normaliseStream raw =
     (case jprop (Some raw) ''id'' of
        Inl e \<Rightarrow> Inl e
      | Inr i \<Rightarrow> Inr
          \<lparr>ls_id = i, ls_name = jget raw ''name'', ls_streamKey = jget raw ''streamKey'',
           ls_playbackId = jget raw ''playbackId'', ls_record = jelse (jget raw ''record'') (JBool False),
           ls_createdAt = jget raw ''createdAt''\<rparr>)"

definition lp_fetch :: "'w server \<Rightarrow> string \<Rightarrow> string \<Rightarrow> http_body \<Rightarrow> ('w, http_response) io" where
  "lp_fetch sv method path body =
     io_bind (io_lift (authHeaders (sv_env sv))) (\<lambda>headers.
       sv_fetch sv \<lparr>hr_method = method, hr_url = lp_api_base @ path, hr_headers = headers, hr_body = body\<rparr>)"

definition lp_profile :: "string \<Rightarrow> nat \<Rightarrow> nat \<Rightarrow> nat \<Rightarrow> nat \<Rightarrow> json" where
  "lp_profile name bitrate fps width height = JObj
     [(''name'', JStr name), (''bitrate'', jnat bitrate), (''fps'', jnat fps), (''width'', jnat width),
      (''height'', jnat height)]"

record livepeer_opts =
  po_name :: json
  po_creatorAddress :: string
  po_creatorDid :: "string option"
  po_record :: "bool option"

definition livepeer_body :: "livepeer_opts \<Rightarrow> json" where
  "livepeer_body opts = JObj
     [(''name'', po_name opts), (''record'', JBool (or_default (po_record opts) True)),
      (''profiles'', JArr [lp_profile ''1080p60'' 4500000 60 1920 1080,
         lp_profile ''720p60'' 2500000 60 1280 720, lp_profile ''480p30'' 1000000 30 854 480]),
      (''userTags'', JObj
        ([(''creatorAddress'', JStr (to_lower (po_creatorAddress opts)))] @
         (if truthy (po_creatorDid opts) then [(''creatorDid'', JStr (the (po_creatorDid opts)))] else []) @
         [(''platform'', JStr ''aevia.video'')]))]"

definition createLivepeerStream :: "'w server \<Rightarrow> livepeer_opts \<Rightarrow> ('w, livepeer_stream) io" where
  "createLivepeerStream sv opts =
     io_bind (lp_fetch sv ''POST'' ''/stream'' (Json_Body (livepeer_body opts))) (\<lambda>res.
     io_bind (io_lift (lp_handle res ''createStream'')) (\<lambda>raw. io_lift (normaliseStream raw)))"

definition getLivepeerStream :: "'w server \<Rightarrow> string \<Rightarrow> ('w, livepeer_stream option) io" where
  "getLivepeerStream sv i =
     io_bind (lp_fetch sv ''GET'' (''/stream/'' @ encodeURIComponent i) No_Body) (\<lambda>res.
       if hp_status res = 404 then io_return None
       else io_bind (io_lift (lp_handle res ''getStream'')) (\<lambda>raw.
            io_bind (io_lift (normaliseStream raw)) (\<lambda>s. io_return (Some s))))"

definition deleteLivepeerStream :: "'w server \<Rightarrow> string \<Rightarrow> ('w, unit) io" where
  "deleteLivepeerStream sv i =
     io_bind (lp_fetch sv ''DELETE'' (''/stream/'' @ encodeURIComponent i) No_Body) (\<lambda>res.
       if \<not> res_ok res \<and> hp_status res \<noteq> 404 then io_lift (Inl (lp_failed ''deleteStream'' res))
       else io_return ())"

definition lp_host :: string where
  \<comment> \<open>\<open>API_BASE.replace('/api', '')\<close>\<close>
  "lp_host = take (length lp_api_base - 4) lp_api_base"

definition livepeerIngestUrl :: "string \<Rightarrow> string" where
  "livepeerIngestUrl streamKey = lp_host @ ''/webrtc/'' @ streamKey"

definition livepeerPlaybackUrl :: "string \<Rightarrow> string" where
  "livepeerPlaybackUrl playbackId = lp_host @ ''/webrtc/'' @ playbackId"

definition livepeerPlayerUrl :: "string \<Rightarrow> string" where
  "livepeerPlayerUrl playbackId = ''https://lvpr.tv/?v='' @ playbackId"

record lp_ice_server =
  li_urls :: string
  li_username :: "string option"
  li_credential :: "string option"

record livepeer_endpoint =
  le_url :: string
  le_iceServers :: "lp_ice_server list"

definition endpointFromUrl :: "(string \<Rightarrow> string result) \<Rightarrow> string \<Rightarrow> livepeer_endpoint result" where
  \<comment> \<open>with the host of a URL as a parameter\<close>
  "endpointFromUrl url_host url =
     (case url_host url of
        Inl e \<Rightarrow> Inl e
      | Inr host \<Rightarrow> Inr
          \<lparr>le_url = url,
           le_iceServers =
             [\<lparr>li_urls = ''stun:'' @ host, li_username = None, li_credential = None\<rparr>,
              \<lparr>li_urls = ''turn:'' @ host, li_username = Some ''livepeer'', li_credential = Some ''livepeer''\<rparr>]\<rparr>)"

definition resolveLivepeerEndpoint ::
  "'w fetch \<Rightarrow> (string \<Rightarrow> string result) \<Rightarrow> string \<Rightarrow> ('w, livepeer_endpoint) io" where
  "resolveLivepeerEndpoint do_fetch url_host baseUrl =
     io_catch
       (io_bind (do_fetch \<lparr>hr_method = ''HEAD'', hr_url = baseUrl, hr_headers = [], hr_body = No_Body\<rparr>)
         (\<lambda>res. io_lift (endpointFromUrl url_host (if hp_url res = [] then baseUrl else hp_url res))))
       (\<lambda>_. io_lift (endpointFromUrl url_host baseUrl))"


subsection \<open>Updates keep the metadata they do not name\<close>

lemma cf_call_put:
  assumes "sv_env sv = Inr se"
  shows "cf_call sv m segs b w =
    (case sv_fetch sv \<lparr>hr_method = m,
        hr_url = cf_api_base @ ''/accounts/'' @ se_accountId se @ ''/stream/'' @ join_with ''/'' segs,
        hr_headers = [(''Authorization'', ''Bearer '' @ se_streamApiToken se), (''Content-Type'', ''application/json'')],
        hr_body = b\<rparr> w of
       (Inl e, w1) \<Rightarrow> (Inl e, w1) | (Inr res, w1) \<Rightarrow> (handle (sv_numText sv) res, w1))"
  using assms
  by (simp add: cf_call_def cf_fetch_def streamUrl_def jsonHeaders_def io_defs split: prod.splits sum.splits)

lemma jset_empty: "distinct (map fst b) \<Longrightarrow> map_of (jset [] b) k = map_of b k"
  by (simp add: map_of_jset split: option.splits)

lemma map_of_str: "map_of (map (\<lambda>(k, v). (k, JStr v)) b) k = map_option JStr (map_of b k)"
  by (induction b) auto

lemma map_of_merged_meta:
  assumes "distinct (map fst (jentries meta))" "distinct (map fst (or_default (lp_meta patch) []))"
  shows "map_of (merged_meta meta patch) k =
    (case map_of (or_default (lp_meta patch) []) k of
       Some v \<Rightarrow> Some (JStr v) | None \<Rightarrow> map_of (jentries meta) k)"
proof -
  have "map fst (map (\<lambda>(k, v). (k, JStr v)) b) = map fst b" for b :: "(string \<times> string) list"
    by (induction b) auto
  then have "distinct (map fst (map (\<lambda>(k, v). (k, JStr v)) (or_default (lp_meta patch) [])))"
    using assms(2) by (simp del: map_map)
  then show ?thesis
    using assms(1) by (simp add: merged_meta_def map_of_jset map_of_str jset_empty del: map_map split: option.splits)
qed

subsection \<open>Upload metadata reads back\<close>

definition utf8 :: "string \<Rightarrow> string" where
  \<comment> \<open>the bytes of a text, each as a character\<close>
  "utf8 s = concat (map (\<lambda>c. if code c < 128 then [c]
     else [char_of (192 + code c div 64), char_of (128 + code c mod 64)]) s)"

definition b64_val :: "char \<Rightarrow> nat" where
  "b64_val c = (let n = code c in
     if 65 \<le> n \<and> n \<le> 90 then n - 65 else if 97 \<le> n \<and> n \<le> 122 then n - 71
     else if 48 \<le> n \<and> n \<le> 57 then n + 4 else if n = 43 then 62 else 63)"

fun atob :: "string \<Rightarrow> string" where
  "atob (p # q # r # s # rest) =
     (if r = CHR ''='' then [char_of (4 * b64_val p + b64_val q div 16)]
      else if s = CHR ''='' then [char_of (4 * b64_val p + b64_val q div 16),
             char_of (16 * (b64_val q mod 16) + b64_val r div 4)]
      else [char_of (4 * b64_val p + b64_val q div 16),
            char_of (16 * (b64_val q mod 16) + b64_val r div 4),
            char_of (64 * (b64_val r mod 4) + b64_val s)] @ atob rest)"
| "atob _ = []"

definition read_tus_pair :: "string \<Rightarrow> string \<times> string" where
  "read_tus_pair p = (case split_on CHR '' '' p of k # v # _ \<Rightarrow> (k, atob v) | _ \<Rightarrow> ([], []))"

definition read_tus :: "string \<Rightarrow> (string \<times> string) list" where
  \<comment> \<open>how a tus server reads \<open>Upload-Metadata\<close>\<close>
  "read_tus h = map read_tus_pair (split_on CHR '','' h)"

lemma hex_upper_hex: "d < 16 \<Longrightarrow> is_hex (hex_upper d) \<and> hex_val (hex_upper d) = d"
  by (auto simp: hex_upper_def is_hex_def hex_val_def code_char_of Let_def)

lemma unescape_other: "c \<noteq> CHR ''%'' \<Longrightarrow> unescape (c # s) = c # unescape s"
  by (cases s rule: unescape.cases) auto

lemma unescape_pct: "n < 256 \<Longrightarrow> unescape (pct n @ s) = char_of n # unescape s"
  using hex_upper_hex [of "n div 16"] hex_upper_hex [of "n mod 16"] by (simp add: pct_def)

lemma unescape_encode: "unescape (encodeURIComponent s) = utf8 s"
proof (induction s)
  case Nil
  then show ?case by (simp add: encodeURIComponent_def utf8_def)
next
  case (Cons c s)
  have bounds: "192 + code c div 64 < 256" "128 + code c mod 64 < 256" "code c < 256"
    using code_lt [of c] by auto
  have *: "unescape (encode_char c @ t) =
      (if code c < 128 then [c] else [char_of (192 + code c div 64), char_of (128 + code c mod 64)]) @ unescape t" for t
  proof (cases "unreserved c")
    case True
    then have "c \<noteq> CHR ''%''" "code c < 128" by (auto simp: unreserved_def code_def Let_def)
    with True show ?thesis by (simp add: encode_char_def unescape_other)
  next
    case False
    have "char_of (code c) = c" by (simp add: code_def)
    with False bounds show ?thesis by (simp add: encode_char_def Let_def unescape_pct)
  qed
  from Cons show ?case by (simp add: encodeURIComponent_def utf8_def *)
qed

lemma code_b64_char: "n < 64 \<Longrightarrow> code (b64_char n) =
    (if n < 26 then 65 + n else if n < 52 then 71 + n else if n < 62 then n - 4 else if n = 62 then 43 else 47)"
  by (simp add: b64_char_def code_char_of) (simp add: code_def)

lemma b64_val_char: "n < 64 \<Longrightarrow> b64_val (b64_char n) = n"
  by (auto simp: b64_val_def code_b64_char Let_def)

lemma b64_char_ne: "n < 64 \<Longrightarrow> code c \<in> {32, 44, 61} \<Longrightarrow> b64_char n \<noteq> c"
  by (auto simp: char_eq_iff_code code_b64_char)

lemma b64_char_seps:
  "n < 64 \<Longrightarrow> b64_char n \<noteq> CHR ''=''" "n < 64 \<Longrightarrow> b64_char n \<noteq> CHR '',''" "n < 64 \<Longrightarrow> b64_char n \<noteq> CHR '' ''"
  by (rule b64_char_ne, assumption, simp add: code_def)+

lemma sextet_bounds:
  "code a div 4 < 64" "code a mod 4 * 16 + code b div 16 < 64" "code b mod 16 * 4 + code c div 64 < 64"
  "code c mod 64 < 64" "code a mod 4 * 16 < 64" "code b mod 16 * 4 < 64"
proof -
  have a: "code a < 256" and b: "code b < 256" and c: "code c < 256" by (rule code_lt)+
  from a show "code a div 4 < 64" by simp
  have "code a mod 4 < 4" "code b div 16 < 16" using b by linarith+
  then show "code a mod 4 * 16 + code b div 16 < 64" "code a mod 4 * 16 < 64" by linarith+
  have "code b mod 16 < 16" "code c div 64 < 4" using c by linarith+
  then show "code b mod 16 * 4 + code c div 64 < 64" "code b mod 16 * 4 < 64" by linarith+
  show "code c mod 64 < 64" by simp
qed

lemma char_of_code: "n = code c \<Longrightarrow> char_of n = c"
  by (simp add: code_def)

lemma octets:
  "char_of (4 * (code a div 4) + (code a mod 4 * 16 + code b div 16) div 16) = a"
  "char_of (4 * (code a div 4) + (code a mod 4 * 16) div 16) = a"
  "char_of (16 * ((code a mod 4 * 16 + code b div 16) mod 16) + (code b mod 16 * 4 + code c div 64) div 4) = b"
  "char_of (16 * ((code a mod 4 * 16 + code b div 16) mod 16) + (code b mod 16 * 4) div 4) = b"
  "char_of (64 * ((code b mod 16 * 4 + code c div 64) mod 4) + code c mod 64) = c"
proof -
  have b: "code b div 16 < 16" and c: "code c div 64 < 4"
    using code_lt [of b] code_lt [of c] by linarith+
  have 1: "(code a mod 4 * 16 + code b div 16) div 16 = code a mod 4"
    and 2: "(code a mod 4 * 16 + code b div 16) mod 16 = code b div 16"
    and 3: "(code b mod 16 * 4 + code c div 64) div 4 = code b mod 16"
    and 4: "(code b mod 16 * 4 + code c div 64) mod 4 = code c div 64"
    using b c by simp_all
  show "char_of (4 * (code a div 4) + (code a mod 4 * 16 + code b div 16) div 16) = a"
    unfolding 1 by (rule char_of_code) simp
  show "char_of (4 * (code a div 4) + (code a mod 4 * 16) div 16) = a"
    by (rule char_of_code) simp
  show "char_of (16 * ((code a mod 4 * 16 + code b div 16) mod 16) +
      (code b mod 16 * 4 + code c div 64) div 4) = b"
    unfolding 2 3 by (rule char_of_code) simp
  show "char_of (16 * ((code a mod 4 * 16 + code b div 16) mod 16) + (code b mod 16 * 4) div 4) = b"
    unfolding 2 by (rule char_of_code) simp
  show "char_of (64 * ((code b mod 16 * 4 + code c div 64) mod 4) + code c mod 64) = c"
    unfolding 4 by (rule char_of_code) simp
qed

lemma atob_btoa: "atob (btoa s) = s"
proof (induction s rule: btoa.induct)
  case (2 a)
  have "b64_char (code a mod 4 * 16) \<noteq> CHR ''=''" by (simp add: b64_val_char b64_char_seps sextet_bounds)
  then show ?case by (simp only: btoa.simps atob.simps b64_val_char b64_char_seps sextet_bounds octets simp_thms if_True)
next
  case (3 a b)
  then show ?case
    by (simp only: btoa.simps atob.simps b64_val_char b64_char_seps sextet_bounds octets simp_thms if_True if_False)
next
  case (4 a b c s)
  then show ?case
    by (simp only: btoa.simps atob.simps append.simps b64_val_char b64_char_seps sextet_bounds octets simp_thms if_True if_False)
qed simp

lemma btoa_chars: "c \<in> set (btoa s) \<Longrightarrow> c \<noteq> CHR '','' \<and> c \<noteq> CHR '' ''"
proof (induction s rule: btoa.induct)
  case (4 x y z s)
  then show ?case
    by (auto simp: b64_val_char b64_char_seps sextet_bounds simp del: mult_Suc_right)
next
  case (2 x)
  then show ?case by (auto simp: b64_val_char b64_char_seps sextet_bounds)
next
  case (3 x y)
  then show ?case by (auto simp: b64_val_char b64_char_seps sextet_bounds)
qed simp


lemma read_tus_encode:
  assumes "filter (\<lambda>(k, v). v \<noteq> []) pairs \<noteq> []"
    and "\<And>k v. (k, v) \<in> set pairs \<Longrightarrow> CHR '','' \<notin> set k \<and> CHR '' '' \<notin> set k"
  shows "read_tus (encodeTusMetadata pairs) = map (\<lambda>(k, v). (k, utf8 v)) (filter (\<lambda>(k, v). v \<noteq> []) pairs)"
proof -
  define ps where "ps = filter (\<lambda>(k, v). v \<noteq> []) pairs"
  define enc where "enc = (\<lambda>(k, v). k @ '' '' @ btoa (unescape (encodeURIComponent v)))"
  have keys: "CHR '','' \<notin> set k \<and> CHR '' '' \<notin> set k" if "(k, v) \<in> set ps" for k v
    using that assms(2) unfolding ps_def by auto
  have "CHR '','' \<notin> set x" if "x \<in> set (map enc ps)" for x
    using that keys btoa_chars by (fastforce simp: enc_def)
  then have "split_on CHR '','' (join_with '','' (map enc ps)) = map enc ps"
    using assms(1) by (intro split_join) (auto simp: ps_def)
  then have "split_on CHR '','' (encodeTusMetadata pairs) = map enc ps"
    by (simp only: encodeTusMetadata_def enc_def ps_def)
  moreover have "read_tus_pair (enc (k, v)) = (k, utf8 v)" if "(k, v) \<in> set ps" for k v
  proof -
    have "split_on CHR '' '' (btoa (utf8 v)) = [btoa (utf8 v)]"
      using btoa_chars [of "CHR '' ''"] by (intro split_on_single) blast
    with keys [OF that] show ?thesis
      by (simp add: enc_def read_tus_pair_def unescape_encode split_on_append atob_btoa)
  qed
  ultimately show ?thesis
    unfolding ps_def [symmetric] read_tus_def by (auto simp: ps_def)
qed

text \<open>
  C20. The tus metadata of a direct upload read back: a server that splits them at commas and
  spaces and decodes the base64 gets every pair of the upload with a non-empty value, its text
  in UTF-8, in order, whatever the display name, the identifiers and the addresses hold.
\<close>

theorem tus_metadata_roundtrip:
  "read_tus (encodeTusMetadata (tus_pairs opts)) =
     map (\<lambda>(k, v). (k, utf8 v)) (filter (\<lambda>(k, v). v \<noteq> []) (tus_pairs opts))"
  by (rule read_tus_encode) (auto simp: tus_pairs_def split: if_splits)

text \<open>
  Updating a live input keeps its metadata: after reading the live input, the code sends
  one PUT whose metadata hold the new value of every key the patch names and the stored
  value of every other key, with the stored recording settings, and the creator only if the
  patch has one.
\<close>

lemma update_keeps_meta:
  assumes "getLiveInput sv uid w = (Inr (Some live), w1)"
    and "live \<noteq> JNull"
    and "distinct (map fst (jentries (jget live ''meta'')))"
    and "distinct (map fst (or_default (lp_meta patch) []))"
  shows "updateLiveInput sv uid patch w =
      cf_call sv ''PUT'' [''live_inputs'', uid] (Json_Body (update_body live patch)) w1 \<and>
    (\<forall>k. jchain (jget (update_body live patch) ''meta'') k =
      (case map_of (or_default (lp_meta patch) []) k of
         Some v \<Rightarrow> Some (JStr v)
       | None \<Rightarrow> map_of (jentries (jget live ''meta'')) k)) \<and>
    jget (update_body live patch) ''recording'' = jget live ''recording'' \<and>
    jget (update_body live patch) ''defaultCreator'' = map_option JStr (lp_defaultCreator patch)"
proof -
  have "updateLiveInput sv uid patch w =
      cf_call sv ''PUT'' [''live_inputs'', uid] (Json_Body (update_body live patch)) w1"
    using assms(1,2) by (cases live) (auto simp: updateLiveInput_def io_defs jprop_def)
  with map_of_merged_meta [OF assms(3,4)] show ?thesis
    by (auto simp: update_body_def jchain_def opt_field_def split: option.splits)
qed

definition demo_env_ok :: server_env where
  "demo_env_ok = \<lparr>se_accountId = ''acc'', se_streamApiToken = ''tok'', se_webhookSecret = None,
     se_privyAppId = ''p'', se_privyAppSecret = ''s'', se_publisherTokenSecret = None,
     se_livepeerApiKey = None, se_nodeEnv = ''test''\<rparr>"

definition demo_client :: client_env where
  "demo_client = \<lparr>ce_appUrl = ''https://aevia.video'', ce_appEnv = ''development'', ce_streamCustomerCode = None,
     ce_privyAppId = None, ce_devBypassAuth = False, ce_livepeerAvailable = False\<rparr>"

definition ok_reply :: "json \<Rightarrow> http_response" where
  "ok_reply v = \<lparr>hp_status = 200, hp_statusText = ''OK'', hp_url = [], hp_headers = [], hp_text = Inr [],
     hp_json = Inr (JObj [(''success'', JBool True), (''result'', v)])\<rparr>"

definition demo_server :: "json \<Rightarrow> nat server" where
  \<comment> \<open>answers every request with one live input and counts requests\<close>
  "demo_server live = \<lparr>sv_fetch = (\<lambda>req n. (Inr (ok_reply live), Suc n)), sv_env = Inr demo_env_ok,
     sv_client = demo_client, sv_numText = (\<lambda>_. [])\<rparr>"

definition demo_live :: json where
  "demo_live = JObj [(''uid'', JStr ''u1''),
     (''meta'', JObj [(''name'', JStr ''n''), (''creatorAddress'', JStr ''0xab'')]),
     (''recording'', JObj [(''mode'', JStr ''automatic'')])]"

lemma demo_server_get: "getLiveInput (demo_server live) uid n = (Inr (Some live), Suc n)"
  by (simp add: getLiveInput_def cf_call_put [where se = demo_env_ok] demo_server_def handle_def ok_reply_def
    res_ok_def jprop_def)

lemma update_keeps_meta_witness:
  "jchain (jget (update_body demo_live \<lparr>lp_meta = Some [(''name'', ''m'')], lp_defaultCreator = None\<rparr>) ''meta'')
     ''creatorAddress'' = Some (JStr ''0xab'')"
proof -
  let ?patch = "\<lparr>lp_meta = Some [(''name'', ''m'')], lp_defaultCreator = None\<rparr>"
  have "jchain (jget (update_body demo_live ?patch) ''meta'') k =
      (case map_of (or_default (lp_meta ?patch) []) k of
         Some v \<Rightarrow> Some (JStr v) | None \<Rightarrow> map_of (jentries (jget demo_live ''meta'')) k)" for k
    using update_keeps_meta [OF demo_server_get [of demo_live "''u1''" 0], where patch = ?patch]
    by (simp add: demo_live_def)
  then show ?thesis by (simp add: demo_live_def)
qed


end
