(* ===== verification/Did.thy ===== *)
theory Did
  imports JsText
begin

text \<open>
  \<open>packages/auth/src/did.ts\<close>, \<open>chains.ts\<close>, \<open>chains-viem.ts\<close>, \<open>types.ts\<close> and
  \<open>apps/video/src/lib/chain.ts\<close>: Ethereum addresses as \<open>did:pkh\<close> identifiers, and the chain
  the application runs on. viem's chain metadata is a parameter.
\<close>

subsection \<open>Identifiers\<close>

definition address_ok :: "string \<Rightarrow> bool" where
  \<comment> \<open>\<open>ADDRESS_RE\<close>\<close>
  "address_ok s = hex0x 40 s"

definition did_prefix :: string where
  "did_prefix = ''did:pkh:eip155:''"

definition addressToDid :: "string \<Rightarrow> nat \<Rightarrow> string result" where
  "addressToDid address chainId =
     (if \<not> address_ok address then Inl (Error (''invalid ethereum address: '' @ address))
      else Inr (did_prefix @ show_nat chainId @ '':'' @ to_lower address))"

definition did_match :: "string \<Rightarrow> (string \<times> string) option" where
  \<comment> \<open>the two groups of \<open>DID_RE\<close>: the digits and the address\<close>
  "did_match did =
     (if starts_with did_prefix did then
        let r = drop (length did_prefix) did;
            ds = takeWhile is_digit r; r2 = dropWhile is_digit r
        in if ds \<noteq> [] \<and> take 1 r2 = '':'' \<and> address_ok (drop 1 r2) then Some (ds, drop 1 r2) else None
      else None)"

definition didToAddress :: "string \<Rightarrow> string option" where
  "didToAddress did = map_option (\<lambda>m. to_lower (snd m)) (did_match did)"

definition didChainId :: "string \<Rightarrow> jsnum option" where
  "didChainId did = map_option (\<lambda>m. js_Number (fst m)) (did_match did)"

definition shortAddress :: "string \<Rightarrow> nat \<Rightarrow> nat \<Rightarrow> string" where
  \<comment> \<open>with \<open>head\<close> and a positive \<open>tail\<close>\<close>
  "shortAddress address front back =
     (if \<not> address_ok address then address
      else take front address @ [ellipsis] @ slice_end back address)"

subsection \<open>Chains\<close>

definition chain_id_mainnet :: nat where
  "chain_id_mainnet = 8453"

definition chain_id_sepolia :: nat where
  "chain_id_sepolia = 84532"

definition appChainId :: "string option \<Rightarrow> nat" where
  \<comment> \<open>of \<open>process.env.NEXT_PUBLIC_APP_ENV\<close>\<close>
  "appChainId app_env = (if app_env = Some ''production'' then chain_id_mainnet else chain_id_sepolia)"

record viem_chain =
  vc_rpcUrls :: "string list"
  vc_explorer :: "string option"

record viem_chains =
  vc_base :: viem_chain
  vc_baseSepolia :: viem_chain

definition defaultChain :: "viem_chains \<Rightarrow> string option \<Rightarrow> viem_chain" where
  "defaultChain viem app_env = (if app_env = Some ''production'' then vc_base viem else vc_baseSepolia viem)"

definition appChain :: "viem_chains \<Rightarrow> string option \<Rightarrow> viem_chain" where
  "appChain viem app_env =
     (if appChainId app_env = chain_id_mainnet then vc_base viem else vc_baseSepolia viem)"

definition defaultRpcUrl :: "viem_chains \<Rightarrow> string option \<Rightarrow> string" where
  "defaultRpcUrl viem app_env =
     (case vc_rpcUrls (appChain viem app_env) of [] \<Rightarrow> ''https://sepolia.base.org'' | u # _ \<Rightarrow> u)"

definition explorerUrl :: "viem_chains \<Rightarrow> string option \<Rightarrow> string" where
  "explorerUrl viem app_env = or_default (vc_explorer (appChain viem app_env)) ''https://basescan.org''"

definition explorerAddressUrl :: "viem_chains \<Rightarrow> string option \<Rightarrow> string \<Rightarrow> string" where
  "explorerAddressUrl viem app_env address = explorerUrl viem app_env @ ''/address/'' @ address"

definition explorerTxUrl :: "viem_chains \<Rightarrow> string option \<Rightarrow> string \<Rightarrow> string" where
  "explorerTxUrl viem app_env hash = explorerUrl viem app_env @ ''/tx/'' @ hash"

subsection \<open>Facts\<close>

lemma lower_char_code: "65 \<le> code c \<Longrightarrow> code c \<le> 90 \<Longrightarrow> code (lower_char c) = code c + 32"
  by (simp add: lower_char_def code_char_of)

lemma lower_char_other: "code c < 65 \<or> 90 < code c \<and> code c < 192 \<Longrightarrow> lower_char c = c"
  by (auto simp: lower_char_def Let_def)

lemma lower_char_hex: "is_hex c \<Longrightarrow> is_lower_hex (lower_char c)"
  using lower_char_code [of c] lower_char_other [of c]
  by (cases "65 \<le> code c \<and> code c \<le> 70") (auto simp: is_hex_def is_lower_hex_def Let_def)

lemma lower_hex_is_hex: "is_lower_hex c \<Longrightarrow> is_hex c"
  by (auto simp: is_hex_def is_lower_hex_def Let_def)

lemma lower_hex_lower: "is_lower_hex c \<Longrightarrow> lower_char c = c"
  by (rule lower_char_other) (auto simp: is_lower_hex_def Let_def)

lemma to_lower_0x: "take 2 s = ''0x'' \<Longrightarrow> take 2 (to_lower s) = ''0x''"
  by (cases s; cases "tl s") (auto simp: to_lower_def lower_char_def code_def)

lemma address_lower: "address_ok s \<Longrightarrow> lower_hex0x 40 (to_lower s)"
  using to_lower_0x [of s]
  by (auto simp: address_ok_def hex0x_def lower_hex0x_def to_lower_def list_all_iff drop_map intro: lower_char_hex)

lemma lower_address_ok: "lower_hex0x 40 s \<Longrightarrow> address_ok s"
  by (auto simp: address_ok_def hex0x_def lower_hex0x_def list_all_iff intro: lower_hex_is_hex)

lemma to_lower_id: "(\<And>c. c \<in> set s \<Longrightarrow> lower_char c = c) \<Longrightarrow> to_lower s = s"
  by (simp add: to_lower_def map_idI)

lemma lower_address_fix: "lower_hex0x n s \<Longrightarrow> to_lower s = s"
proof (rule to_lower_id)
  fix c assume s: "lower_hex0x n s" and c: "c \<in> set s"
  then have "c \<in> set (take 2 s) \<or> c \<in> set (drop 2 s)" by (metis Un_iff append_take_drop_id set_append)
  with s show "lower_char c = c"
    by (auto simp: lower_hex0x_def list_all_iff intro: lower_hex_lower) (auto simp: lower_char_def code_def)
qed

lemma did_match_address: "did_match d = Some (ds, a) \<Longrightarrow> address_ok a \<and> ds \<noteq> [] \<and> list_all is_digit ds"
  by (auto simp: did_match_def Let_def list_all_iff dest: set_takeWhileD split: if_splits)

lemma digits_colon: "list_all is_digit ds \<Longrightarrow>
   takeWhile is_digit (ds @ CHR '':'' # r) = ds \<and> dropWhile is_digit (ds @ CHR '':'' # r) = CHR '':'' # r"
  by (induction ds) (auto simp: is_digit_def code_def)

lemma did_match_show:
  "address_ok a \<Longrightarrow> did_match (did_prefix @ show_nat c @ '':'' @ a) = Some (show_nat c, a)"
  using digits_colon [OF show_nat_digits, of c a] by (simp add: did_match_def starts_with_def Let_def)

lemma did_match_form: "did_match d = Some (ds, a) \<Longrightarrow> d = did_prefix @ ds @ '':'' @ a"
proof -
  assume m: "did_match d = Some (ds, a)"
  then have p: "take (length did_prefix) d = did_prefix" and "take 1 (dropWhile is_digit (drop (length did_prefix) d)) = '':''"
    and "ds = takeWhile is_digit (drop (length did_prefix) d)" "a = drop 1 (dropWhile is_digit (drop (length did_prefix) d))"
    by (auto simp: did_match_def starts_with_def Let_def split: if_splits)
  then have "drop (length did_prefix) d = ds @ '':'' @ a" by (metis append_take_drop_id takeWhile_dropWhile_id)
  with p show ?thesis by (metis append_take_drop_id)
qed

lemma addressToDid_ok: "address_ok a \<Longrightarrow> addressToDid a c = Inr (did_prefix @ show_nat c @ '':'' @ to_lower a)"
  by (simp add: addressToDid_def)

lemma addressToDid_match:
  "addressToDid a c = Inr d \<Longrightarrow> did_match d = Some (show_nat c, to_lower a) \<and> lower_hex0x 40 (to_lower a)"
  using did_match_show [of "to_lower a" c] address_lower [of a] lower_address_ok [of "to_lower a"]
  by (auto simp: addressToDid_def split: if_splits)

subsection \<open>Properties\<close>

text \<open>
  C13. \<open>addressToDid\<close> accepts exactly the 20-byte hex addresses; reading its result gives back
  the lower-case address and the chain, so two inputs share a DID exactly when they are the
  same address up to case on the same chain. What \<open>didToAddress\<close> accepts is always a
  lower-case address, from which the DID of the same chain number reads back alike.
\<close>

theorem did_roundtrip:
  "((\<exists>d. addressToDid a c = Inr d) \<longleftrightarrow> address_ok a) \<and>
   (addressToDid a c = Inr d \<longrightarrow>
      didToAddress d = Some (to_lower a) \<and> didChainId d = Some (Fin (of_nat c)) \<and>
      (\<forall>b e. addressToDid b e = Inr d \<longleftrightarrow> address_ok b \<and> to_lower b = to_lower a \<and> e = c)) \<and>
   (didToAddress did = Some x \<longrightarrow>
      lower_hex0x 40 x \<and> addressToDid x c = Inr (did_prefix @ show_nat c @ '':'' @ x) \<and>
      didToAddress (did_prefix @ show_nat c @ '':'' @ x) = Some x)"
proof (intro conjI impI)
  show "(\<exists>d. addressToDid a c = Inr d) \<longleftrightarrow> address_ok a" by (auto simp: addressToDid_def)
next
  assume d: "addressToDid a c = Inr d"
  note m = addressToDid_match [OF d]
  show "didToAddress d = Some (to_lower a)" "didChainId d = Some (Fin (of_nat c))"
    using m lower_address_fix [of 40 "to_lower a"] by (simp_all add: didToAddress_def didChainId_def)
  have "addressToDid b e = Inr d \<Longrightarrow> address_ok b \<and> to_lower b = to_lower a \<and> e = c" for b e
    using m addressToDid_match [of b e d] by (auto simp: show_nat_inj addressToDid_def split: if_splits)
  moreover have "addressToDid b e = Inr d" if "address_ok b \<and> to_lower b = to_lower a \<and> e = c" for b e
    using d that by (simp add: addressToDid_def split: if_splits)
  ultimately show "\<forall>b e. addressToDid b e = Inr d \<longleftrightarrow> address_ok b \<and> to_lower b = to_lower a \<and> e = c"
    by blast
next
  assume x: "didToAddress did = Some x"
  then obtain ds y where "did_match did = Some (ds, y)" "x = to_lower y" by (auto simp: didToAddress_def)
  with did_match_address address_lower show lower: "lower_hex0x 40 x" by blast
  then show "addressToDid x c = Inr (did_prefix @ show_nat c @ '':'' @ x)"
    by (simp add: addressToDid_ok lower_address_ok lower_address_fix)
  show "didToAddress (did_prefix @ show_nat c @ '':'' @ x) = Some x"
    using did_match_show [OF lower_address_ok [OF lower], of c] lower_address_fix [OF lower]
    by (simp add: didToAddress_def)
qed

theorem did_roundtrip_witness:
  "\<exists>d. addressToDid ''0x00000000000000000000000000000000000000AB'' 8453 = Inr d \<and>
     didToAddress d = Some ''0x00000000000000000000000000000000000000ab'' \<and> didChainId d = Some (Fin 8453)"
proof -
  have ok: "address_ok ''0x00000000000000000000000000000000000000AB''"
    by (simp add: address_ok_def hex0x_def is_hex_def code_def)
  have low: "to_lower ''0x00000000000000000000000000000000000000AB'' = ''0x00000000000000000000000000000000000000ab''"
    by (simp add: to_lower_def lower_char_def code_def char_of_def bit_0)
  from did_roundtrip [of "''0x00000000000000000000000000000000000000AB''" 8453] ok obtain d
    where d: "addressToDid ''0x00000000000000000000000000000000000000AB'' 8453 = Inr d" by blast
  have "didToAddress d = Some ''0x00000000000000000000000000000000000000ab'' \<and> didChainId d = Some (Fin 8453)"
    using did_roundtrip [of "''0x00000000000000000000000000000000000000AB''" 8453 d "''''" "''''"] d low by simp
  with d show ?thesis by blast
qed

end
