(* ===== verification/AuthSession.thy ===== *)
theory AuthSession
  imports Did MeshLatency
begin

text \<open>
  \<open>packages/auth/src/server.ts\<close> and \<open>verify-edge.ts\<close>: who is making a request. Outside, as
  parameters: \<open>jwtVerify\<close> of \<open>jose\<close> against the embedded Privy keys (by issuer, audience and
  token), \<open>JSON.parse\<close>, the Privy users API, the environment and the cookies. The values those
  return are JSON, since the casts of the code check nothing; \<open>None\<close> of a JSON option is
  \<open>undefined\<close>. What is logged is the list of messages.
\<close>

subsection \<open>Data\<close>

datatype login_method = Email | Google | Apple | Passkey | Wallet | Unknown

record aevia_session =
  as_userId :: "json option"
  as_address :: string
  as_did :: string
  as_displayName :: string
  as_loginMethod :: login_method
  as_expiresAt :: json

record auth_env =
  ev_devBypass :: "string option"
  ev_publicDevBypass :: "string option"
  ev_privyAppId :: "string option"
  ev_privyAppSecret :: "string option"
  ev_appEnv :: "string option"

record user =
  us_id :: "json option"
  us_accounts :: "json list"

datatype api_reply = ApiRejected js_error | ApiResponse nat string "json result"

record auth_world =
  aw_jwtVerify :: "string \<Rightarrow> string \<Rightarrow> string \<Rightarrow> json result"
    \<comment> \<open>issuer, audience, token\<close>
  aw_jsonParse :: "string \<Rightarrow> json option"
  aw_usersApi :: "string \<Rightarrow> string \<Rightarrow> string \<Rightarrow> api_reply"
    \<comment> \<open>app id, secret, URL\<close>

definition has_type :: "json \<Rightarrow> string \<Rightarrow> bool" where
  "has_type account t = (jget account ''type'' = Some (JStr t))"

subsection \<open>Tokens\<close>

definition verifyPrivyJwt :: "auth_world \<Rightarrow> string \<Rightarrow> string \<Rightarrow> json result" where
  "verifyPrivyJwt w token appId = aw_jwtVerify w ''privy.io'' appId token"

definition parseLinkedAccounts :: "auth_world \<Rightarrow> json \<Rightarrow> json list" where
  "parseLinkedAccounts w payload =
     (case as_str (jget payload ''linked_accounts'') of
        None \<Rightarrow> []
      | Some s \<Rightarrow>
          if s = [] then []
          else (case aw_jsonParse w s of Some (JArr accounts) \<Rightarrow> accounts | _ \<Rightarrow> []))"

definition fetchPrivyUser :: "auth_world \<Rightarrow> auth_env \<Rightarrow> string \<Rightarrow> json result" where
  "fetchPrivyUser w env userId =
     (if \<not> truthy (ev_privyAppId env) \<or> \<not> truthy (ev_privyAppSecret env)
      then Inl (Error ''Privy not configured'')
      else (case aw_usersApi w (the (ev_privyAppId env)) (the (ev_privyAppSecret env))
               (''https://auth.privy.io/api/v1/users/'' @ encodeURIComponent userId) of
          ApiRejected e \<Rightarrow> Inl e
        | ApiResponse st body j \<Rightarrow>
            if \<not> status_ok st
            then Inl (Error (''Privy users GET failed: '' @ show_nat st @ '' '' @ take 200 body))
            else j))"

definition api_user :: "json \<Rightarrow> user result" where
  \<comment> \<open>reading \<open>id\<close> and iterating \<open>linked_accounts ?? []\<close> of the API's answer\<close>
  "api_user v =
     (if v = JNull then Inl Thrown
      else (case jget v ''linked_accounts'' of
          None \<Rightarrow> Inr \<lparr>us_id = jget v ''id'', us_accounts = []\<rparr>
        | Some JNull \<Rightarrow> Inr \<lparr>us_id = jget v ''id'', us_accounts = []\<rparr>
        | Some (JArr accounts) \<Rightarrow> Inr \<lparr>us_id = jget v ''id'', us_accounts = accounts\<rparr>
        | Some (JStr s) \<Rightarrow> Inr \<lparr>us_id = jget v ''id'', us_accounts = map (\<lambda>c. JStr [c]) s\<rparr>
        | Some _ \<Rightarrow> Inl Thrown))"

subsection \<open>From a user to a session\<close>

fun pickEthereumAddress :: "json list \<Rightarrow> string option result" where
  \<comment> \<open>a \<open>null\<close> account, and an address that is no string, throw\<close>
  "pickEthereumAddress [] = Inr None"
| "pickEthereumAddress (account # accounts) =
     (if account = JNull then Inl Thrown
      else if (has_type account ''wallet'' \<or> has_type account ''smart_wallet'') \<and>
         (jget account ''chain_type'' = Some (JStr ''ethereum'') \<or> jget account ''chain_type'' = None) \<and>
         truthy_json (jget account ''address'')
      then (case as_str (jget account ''address'') of
          None \<Rightarrow> Inl Thrown
        | Some addr \<Rightarrow> Inr (Some (to_lower addr)))
      else pickEthereumAddress accounts)"

definition detectLoginMethod :: "json list \<Rightarrow> login_method result" where
  \<comment> \<open>reading the type of a \<open>null\<close> account throws\<close>
  "detectLoginMethod accounts =
     (let has = (\<lambda>t. list_ex (\<lambda>a. has_type a t) accounts)
      in if JNull \<in> set accounts then Inl Thrown
         else Inr (if has ''email'' then Email
           else if has ''google_oauth'' then Google
           else if has ''apple_oauth'' then Apple
           else if has ''passkey'' then Passkey
           else if has ''wallet'' \<or> has ''smart_wallet'' then Wallet
           else Unknown))"

definition account_name :: "json \<Rightarrow> json option" where
  \<comment> \<open>what one account offers as a display name\<close>
  "account_name account =
     (if has_type account ''email'' \<and> truthy_json (jget account ''address'') then jget account ''address''
      else if has_type account ''google_oauth'' \<and> truthy_json (jget account ''name'') then jget account ''name''
      else if has_type account ''google_oauth'' \<and> truthy_json (jget account ''email'') then jget account ''email''
      else if has_type account ''apple_oauth'' \<and> truthy_json (jget account ''email'') then jget account ''email''
      else None)"

fun pickDisplayName :: "(json \<Rightarrow> string) \<Rightarrow> json list \<Rightarrow> string \<Rightarrow> string" where
  \<comment> \<open>\<open>json_text\<close> shows a name that is no string\<close>
  "pickDisplayName json_text [] address = shortAddress address 6 4"
| "pickDisplayName json_text (account # accounts) address =
     (case account_name account of
        Some (JStr s) \<Rightarrow> s
      | Some v \<Rightarrow> json_text v
      | None \<Rightarrow> pickDisplayName json_text accounts address)"

definition userToSession ::
  "(json \<Rightarrow> string) \<Rightarrow> auth_env \<Rightarrow> user \<Rightarrow> json \<Rightarrow> aevia_session option result" where
  "userToSession json_text env u expiresAt =
     (case pickEthereumAddress (us_accounts u) of
        Inl e \<Rightarrow> Inl e
      | Inr None \<Rightarrow> Inr None
      | Inr (Some address) \<Rightarrow>
          if address = [] then Inr None
          else (case addressToDid address (appChainId (ev_appEnv env)) of
              Inl e \<Rightarrow> Inl e
            | Inr did \<Rightarrow>
                (case detectLoginMethod (us_accounts u) of
                   Inl e \<Rightarrow> Inl e
                 | Inr loginMethod \<Rightarrow> Inr (Some
                     \<lparr>as_userId = us_id u, as_address = address, as_did = did,
                      as_displayName = pickDisplayName json_text (us_accounts u) address,
                      as_loginMethod = loginMethod, as_expiresAt = expiresAt\<rparr>))))"

definition userFromIdentityTokenPayload :: "json \<Rightarrow> json list \<Rightarrow> user option" where
  "userFromIdentityTokenPayload payload linkedAccounts =
     (if length linkedAccounts = 0 then None
      else Some \<lparr>us_id = jget payload ''sub'', us_accounts = linkedAccounts\<rparr>)"

definition payload_exp :: "json \<Rightarrow> json" where
  \<comment> \<open>\<open>payload.exp ?? 0\<close>\<close>
  "payload_exp payload =
     (case jget payload ''exp'' of None \<Rightarrow> JNum (Fin 0) | Some JNull \<Rightarrow> JNum (Fin 0) | Some v \<Rightarrow> v)"

definition dev_bypass_address :: string where
  "dev_bypass_address = ''0x000000000000000000000000000000000000dEaD''"

definition devBypassSession :: "auth_env \<Rightarrow> aevia_session result" where
  "devBypassSession env =
     (case addressToDid dev_bypass_address (appChainId (ev_appEnv env)) of
        Inl e \<Rightarrow> Inl e
      | Inr did \<Rightarrow> Inr
          \<lparr>as_userId = Some (JStr ''dev-bypass''), as_address = dev_bypass_address, as_did = did,
           as_displayName = ''dev'', as_loginMethod = Unknown, as_expiresAt = JNum (Fin 0)\<rparr>)"

subsection \<open>From a request to a session\<close>

type_synonym cookies = "string \<Rightarrow> string option"

fun readCookieValue :: "string list \<Rightarrow> cookies \<Rightarrow> string option" where
  "readCookieValue [] store = None"
| "readCookieValue (name # names) store =
     (if truthy (store name) then store name else readCookieValue names store)"

definition identity_cookie_names :: "string list" where
  "identity_cookie_names = [''privy-id-token'', ''__Host-privy-id-token'']"

definition access_cookie_names :: "string list" where
  "access_cookie_names = [''privy-token'', ''__Host-privy-token'']"

definition identity_path ::
  "auth_world \<Rightarrow> (json \<Rightarrow> string) \<Rightarrow> auth_env \<Rightarrow> string \<Rightarrow> string \<Rightarrow> aevia_session option \<times> string list" where
  "identity_path w json_text env appId idToken =
     (case verifyPrivyJwt w idToken appId of
        Inl e \<Rightarrow> (None, [''[aevia-auth] id-token verification failed:''])
      | Inr payload \<Rightarrow>
          (case userFromIdentityTokenPayload payload (parseLinkedAccounts w payload) of
             None \<Rightarrow> (None, [''[aevia-auth] id-token path: linked_accounts missing or empty''])
           | Some u \<Rightarrow>
               (case userToSession json_text env u (payload_exp payload) of
                  Inl e \<Rightarrow> (None, [''[aevia-auth] id-token verification failed:''])
                | Inr None \<Rightarrow> (None, [''[aevia-auth] id-token path: user has no ethereum wallet''])
                | Inr (Some s) \<Rightarrow> (Some s, []))))"

definition fetched_session ::
  "auth_world \<Rightarrow> (json \<Rightarrow> string) \<Rightarrow> auth_env \<Rightarrow> json \<Rightarrow> string \<Rightarrow> aevia_session option result" where
  \<comment> \<open>\<open>userToSession\<close> of the fetched user\<close>
  "fetched_session w json_text env payload userId =
     (case fetchPrivyUser w env userId of
        Inl e \<Rightarrow> Inl e
      | Inr v \<Rightarrow> (case api_user v of
            Inl e \<Rightarrow> Inl e
          | Inr u \<Rightarrow> userToSession json_text env u (payload_exp payload)))"

definition access_path ::
  "auth_world \<Rightarrow> (json \<Rightarrow> string) \<Rightarrow> auth_env \<Rightarrow> string \<Rightarrow> string \<Rightarrow> aevia_session option \<times> string list" where
  "access_path w json_text env appId accessToken =
     (case verifyPrivyJwt w accessToken appId of
        Inl e \<Rightarrow> (None, [''[aevia-auth] access-token verification failed:''])
      | Inr payload \<Rightarrow>
          if \<not> truthy (as_str (jget payload ''sub'')) then (None, [])
          else (case fetched_session w json_text env payload (the (as_str (jget payload ''sub''))) of
              Inl e \<Rightarrow> (None, [''[aevia-auth] access-token verification failed:''])
            | Inr None \<Rightarrow> (None, [''[aevia-auth] access-token path: user has no ethereum wallet''])
            | Inr (Some s) \<Rightarrow> (Some s, [])))"

definition dev_bypass :: "auth_env \<Rightarrow> bool" where
  "dev_bypass env = (ev_devBypass env = Some ''true'' \<or> ev_publicDevBypass env = Some ''true'')"

definition readAeviaSession ::
  "auth_world \<Rightarrow> (json \<Rightarrow> string) \<Rightarrow> auth_env \<Rightarrow> cookies \<Rightarrow> aevia_session option result \<times> string list" where
  "readAeviaSession w json_text env store =
     (if dev_bypass env then (map_sum id Some (devBypassSession env), [])
      else if \<not> truthy (ev_privyAppId env) then (Inr None, [])
      else let appId = the (ev_privyAppId env);
               idToken = readCookieValue identity_cookie_names store;
               accessToken = readCookieValue access_cookie_names store;
               (s1, log1) = (case idToken of None \<Rightarrow> (None, [])
                 | Some t \<Rightarrow> identity_path w json_text env appId t)
           in if s1 \<noteq> None then (Inr s1, log1)
              else let (s2, log2) = (case accessToken of None \<Rightarrow> (None, [])
                         | Some t \<Rightarrow> access_path w json_text env appId t)
                   in if s2 \<noteq> None then (Inr s2, log1 @ log2)
                      else (Inr None, log1 @ log2 @
                        (if accessToken = None \<and> idToken = None
                         then [''[aevia-auth] no usable privy cookies on protected request''] else [])))"

definition verifyBearerToken ::
  "auth_world \<Rightarrow> (json \<Rightarrow> string) \<Rightarrow> auth_env \<Rightarrow> string \<Rightarrow> aevia_session option" where
  "verifyBearerToken w json_text env token =
     (if \<not> truthy (ev_privyAppId env) then None
      else (case verifyPrivyJwt w token (the (ev_privyAppId env)) of
          Inl e \<Rightarrow> None
        | Inr payload \<Rightarrow>
            let inline = (case userFromIdentityTokenPayload payload (parseLinkedAccounts w payload) of
                   None \<Rightarrow> Inr None
                 | Some u \<Rightarrow> userToSession json_text env u (payload_exp payload))
            in case inline of
                 Inl e \<Rightarrow> None
               | Inr (Some s) \<Rightarrow> Some s
               | Inr None \<Rightarrow>
                   if \<not> truthy (as_str (jget payload ''sub'')) then None
                   else (case fetched_session w json_text env payload (the (as_str (jget payload ''sub''))) of
                       Inl e \<Rightarrow> None
                     | Inr s \<Rightarrow> s)))"

subsection \<open>Facts\<close>

definition account_source :: "auth_world \<Rightarrow> auth_env \<Rightarrow> json \<Rightarrow> user \<Rightarrow> bool" where
  \<comment> \<open>a user comes from the token itself, or from the users API for its subject\<close>
  "account_source w env payload u =
     (us_accounts u = parseLinkedAccounts w payload \<and> us_id u = jget payload ''sub'' \<or>
      (\<exists>userId v. jget payload ''sub'' = Some (JStr userId) \<and> userId \<noteq> [] \<and>
         fetchPrivyUser w env userId = Inr v \<and> api_user v = Inr u))"

definition session_of :: "auth_world \<Rightarrow> auth_env \<Rightarrow> string \<Rightarrow> aevia_session \<Rightarrow> bool" where
  \<comment> \<open>what a session rests on: a token Privy issued to this application, and a wallet of its user\<close>
  "session_of w env token s =
     (\<exists>payload u. aw_jwtVerify w ''privy.io'' (the (ev_privyAppId env)) token = Inr payload \<and>
        account_source w env payload u \<and> as_userId s = us_id u \<and>
        pickEthereumAddress (us_accounts u) = Inr (Some (as_address s)) \<and>
        lower_hex0x 40 (as_address s) \<and>
        addressToDid (as_address s) (appChainId (ev_appEnv env)) = Inr (as_did s) \<and>
        as_expiresAt s = payload_exp payload)"

lemma pick_lower: "pickEthereumAddress accounts = Inr (Some a) \<Longrightarrow> \<exists>x. a = to_lower x"
  by (induction accounts) (auto split: if_splits option.splits)

lemma address_lower_fix: "address_ok (to_lower x) \<Longrightarrow> lower_hex0x 40 (to_lower x)"
proof -
  assume a: "address_ok (to_lower x)"
  have "lower_char (lower_char c) = lower_char c" for c
    using lower_char_code [of c] lower_char_other [of "lower_char c"]
    by (cases "65 \<le> code c \<and> code c \<le> 90"; cases "192 \<le> code c \<and> code c \<le> 222 \<and> code c \<noteq> 215")
      (auto simp: lower_char_def code_char_of Let_def)
  then have "to_lower (to_lower x) = to_lower x" by (simp add: to_lower_def)
  with address_lower [OF a] show ?thesis by simp
qed

lemma userToSession_of:
  assumes "userToSession json_text env u expiry = Inr (Some s)"
  shows "as_userId s = us_id u \<and> pickEthereumAddress (us_accounts u) = Inr (Some (as_address s)) \<and>
    lower_hex0x 40 (as_address s) \<and>
    addressToDid (as_address s) (appChainId (ev_appEnv env)) = Inr (as_did s) \<and> as_expiresAt s = expiry"
proof -
  have parts: "as_userId s = us_id u" "pickEthereumAddress (us_accounts u) = Inr (Some (as_address s))"
    "addressToDid (as_address s) (appChainId (ev_appEnv env)) = Inr (as_did s)" "as_expiresAt s = expiry"
    using assms by (auto simp: userToSession_def split: sum.splits option.splits if_splits)
  from parts(3) have "address_ok (as_address s)" by (auto simp: addressToDid_def split: if_splits)
  with pick_lower [OF parts(2)] address_lower_fix have "lower_hex0x 40 (as_address s)" by auto
  with parts show ?thesis by simp
qed

lemma session_of_intro:
  assumes "verifyPrivyJwt w token (the (ev_privyAppId env)) = Inr payload"
    "userToSession json_text env u (payload_exp payload) = Inr (Some s)" "account_source w env payload u"
  shows "session_of w env token s"
  using assms(1,3) userToSession_of [OF assms(2)] by (auto simp: session_of_def verifyPrivyJwt_def)

lemma identity_user:
  "userFromIdentityTokenPayload payload (parseLinkedAccounts w payload) = Some u \<Longrightarrow> account_source w env payload u"
  by (auto simp: userFromIdentityTokenPayload_def account_source_def split: if_splits)

lemma identity_path_session:
  "identity_path w json_text env (the (ev_privyAppId env)) t = (Some s, out) \<Longrightarrow> session_of w env t s"
  by (auto simp: identity_path_def split: sum.splits option.splits
      intro: session_of_intro identity_user)

lemma fetched_user:
  assumes "fetched_session w json_text env payload userId = Inr (Some s)"
    "truthy (as_str (jget payload ''sub''))" "userId = the (as_str (jget payload ''sub''))"
  shows "\<exists>u. userToSession json_text env u (payload_exp payload) = Inr (Some s) \<and> account_source w env payload u"
  using assms by (auto simp: fetched_session_def account_source_def truthy_iff as_str_Some split: sum.splits)

lemma access_path_session:
  "access_path w json_text env (the (ev_privyAppId env)) t = (Some s, out) \<Longrightarrow> session_of w env t s"
  by (auto simp: access_path_def split: sum.splits option.splits if_splits
      dest: fetched_user intro: session_of_intro)

lemma readCookieValue_Some: "readCookieValue names store = Some t \<Longrightarrow>
   \<exists>name \<in> set names. store name = Some t \<and> t \<noteq> []"
  by (induction names) (auto simp: truthy_iff split: if_splits)

subsection \<open>Properties\<close>

text \<open>
  C12. Outside the development bypass, a session that is read from a request rests on a token
  in one of the four Privy cookies that verifies as issued by Privy to this application; its
  address is the lower-case address of the first Ethereum wallet of the token's user (named in
  the token, or by the users API for the token's subject), its DID is that address on the
  application's chain, and its expiry the token's. The same holds of a bearer token.
\<close>

theorem session_sound:
  "(\<not> dev_bypass env \<and> readAeviaSession w json_text env store = (Inr (Some s), out) \<longrightarrow>
      truthy (ev_privyAppId env) \<and>
      (\<exists>name token. name \<in> set (identity_cookie_names @ access_cookie_names) \<and>
         store name = Some token \<and> token \<noteq> [] \<and> session_of w env token s)) \<and>
   (verifyBearerToken w json_text env token = Some s \<longrightarrow>
      truthy (ev_privyAppId env) \<and> session_of w env token s)"
proof (intro conjI impI; (elim conjE)?)
  assume bypass: "\<not> dev_bypass env" and read: "readAeviaSession w json_text env store = (Inr (Some s), out)"
  let ?id = "readCookieValue identity_cookie_names store"
  let ?acc = "readCookieValue access_cookie_names store"
  let ?app = "the (ev_privyAppId env)"
  from bypass read show app: "truthy (ev_privyAppId env)"
    by (simp add: readAeviaSession_def split: if_splits)
  have "(\<exists>t o1. ?id = Some t \<and> identity_path w json_text env ?app t = (Some s, o1)) \<or>
      (\<exists>t o2. ?acc = Some t \<and> access_path w json_text env ?app t = (Some s, o2))"
    using bypass read app
    by (auto simp: readAeviaSession_def Let_def split: if_splits option.splits prod.splits)
  then show "\<exists>name token. name \<in> set (identity_cookie_names @ access_cookie_names) \<and>
         store name = Some token \<and> token \<noteq> [] \<and> session_of w env token s"
    using identity_path_session access_path_session readCookieValue_Some by (metis Un_iff set_append)
next
  assume "verifyBearerToken w json_text env token = Some s"
  then show "truthy (ev_privyAppId env)" by (simp add: verifyBearerToken_def split: if_splits)
next
  assume "verifyBearerToken w json_text env token = Some s"
  then show "session_of w env token s"
    by (auto simp: verifyBearerToken_def Let_def split: if_splits sum.splits option.splits
        dest: fetched_user intro: session_of_intro identity_user)
qed

definition demo_env :: auth_env where
  "demo_env = \<lparr>ev_devBypass = None, ev_publicDevBypass = None, ev_privyAppId = Some ''app'',
     ev_privyAppSecret = None, ev_appEnv = Some ''production''\<rparr>"

definition demo_address :: string where
  "demo_address = ''0x00000000000000000000000000000000000000ab''"

definition demo_payload :: json where
  "demo_payload = JObj [(''sub'', JStr ''u1''), (''exp'', JNum (Fin 9)), (''linked_accounts'', JStr ''[..]'')]"

definition demo_world :: auth_world where
  "demo_world = \<lparr>
     aw_jwtVerify = (\<lambda>iss aud tok. if iss = ''privy.io'' \<and> aud = ''app'' \<and> tok = ''jwt''
       then Inr demo_payload else Inl Thrown),
     aw_jsonParse = (\<lambda>s. Some (JArr [JObj [(''type'', JStr ''wallet''), (''address'', JStr demo_address)]])),
     aw_usersApi = (\<lambda>_ _ _. ApiRejected Thrown)\<rparr>"

lemma demo_address_ok: "address_ok demo_address" "to_lower demo_address = demo_address"
proof -
  show "address_ok demo_address"
    by (simp add: demo_address_def address_ok_def hex0x_def is_hex_def code_def)
  then have "lower_hex0x 40 demo_address"
    by (simp add: demo_address_def lower_hex0x_def is_lower_hex_def code_def)
  then show "to_lower demo_address = demo_address" by (rule lower_address_fix)
qed

definition demo_cookies :: cookies where
  "demo_cookies = (\<lambda>n. if n = ''privy-id-token'' then Some ''jwt'' else None)"

lemma demo_read: "\<exists>s. readAeviaSession demo_world (\<lambda>_. []) demo_env demo_cookies = (Inr (Some s), [])"
proof -
  have ne: "demo_address \<noteq> []" by (simp add: demo_address_def)
  show ?thesis
    using demo_address_ok ne
    by (simp add: readAeviaSession_def dev_bypass_def demo_env_def identity_cookie_names_def access_cookie_names_def
        demo_cookies_def identity_path_def verifyPrivyJwt_def demo_world_def userFromIdentityTokenPayload_def
        parseLinkedAccounts_def demo_payload_def userToSession_def has_type_def detectLoginMethod_def
        addressToDid_def Let_def)
qed

theorem session_sound_witness:
  "\<exists>s. readAeviaSession demo_world (\<lambda>_. []) demo_env demo_cookies = (Inr (Some s), []) \<and>
     (\<exists>token. session_of demo_world demo_env token s)"
proof -
  from demo_read obtain s where s: "readAeviaSession demo_world (\<lambda>_. []) demo_env demo_cookies = (Inr (Some s), [])"
    by blast
  have "\<not> dev_bypass demo_env" by (simp add: dev_bypass_def demo_env_def)
  with s session_sound [of demo_env demo_world "\<lambda>_. []" demo_cookies s "[]" "''''"] show ?thesis by blast
qed

text \<open>
  The development bypass answers every request with one fixed session, whose address is
  not lower-case (as the session type documents) though its DID reads back the lower-case
  one. Otherwise a session of the identity token is used as it is, whatever the access token
  and the users API say; and with no Privy cookie nobody is signed in.
\<close>

lemma session_preference:
  "(dev_bypass env \<longrightarrow>
      (\<exists>s. readAeviaSession w json_text env store = (Inr (Some s), []) \<and>
         as_address s = dev_bypass_address \<and> to_lower (as_address s) \<noteq> as_address s \<and>
         didToAddress (as_did s) = Some (to_lower (as_address s)))) \<and>
   (\<not> dev_bypass env \<and> ev_privyAppId env = Some appId \<and> appId \<noteq> [] \<and>
      readCookieValue identity_cookie_names store = Some token \<and>
      identity_path w json_text env appId token = (Some s, out) \<longrightarrow>
      readAeviaSession w json_text env store = (Inr (Some s), out)) \<and>
   (\<not> dev_bypass env \<and> (\<forall>name \<in> set (identity_cookie_names @ access_cookie_names). \<not> truthy (store name)) \<longrightarrow>
      fst (readAeviaSession w json_text env store) = Inr None)"
proof (intro conjI impI; (elim conjE)?)
  assume b: "dev_bypass env"
  have ok: "address_ok dev_bypass_address"
    by (simp add: dev_bypass_address_def address_ok_def hex0x_def is_hex_def code_def)
  have "to_lower dev_bypass_address ! 39 \<noteq> dev_bypass_address ! 39"
    by (simp add: dev_bypass_address_def to_lower_def lower_char_def code_def char_of_def bit_0)
  then have "to_lower dev_bypass_address \<noteq> dev_bypass_address" by auto
  moreover obtain d where d: "addressToDid dev_bypass_address (appChainId (ev_appEnv env)) = Inr d"
    using addressToDid_ok [OF ok] by blast
  moreover have "didToAddress d = Some (to_lower dev_bypass_address)"
    using addressToDid_match [OF d] lower_address_fix [of 40 "to_lower dev_bypass_address"]
    by (simp add: didToAddress_def)
  ultimately show "\<exists>s. readAeviaSession w json_text env store = (Inr (Some s), []) \<and>
         as_address s = dev_bypass_address \<and> to_lower (as_address s) \<noteq> as_address s \<and>
         didToAddress (as_did s) = Some (to_lower (as_address s))"
    using b by (simp add: readAeviaSession_def devBypassSession_def)
next
  assume "\<not> dev_bypass env" "ev_privyAppId env = Some appId" "appId \<noteq> []"
    "readCookieValue identity_cookie_names store = Some token"
    "identity_path w json_text env appId token = (Some s, out)"
  then show "readAeviaSession w json_text env store = (Inr (Some s), out)"
    by (simp add: readAeviaSession_def Let_def)
next
  assume "\<not> dev_bypass env" "\<forall>name \<in> set (identity_cookie_names @ access_cookie_names). \<not> truthy (store name)"
  then show "fst (readAeviaSession w json_text env store) = Inr None"
    by (simp add: readAeviaSession_def identity_cookie_names_def access_cookie_names_def Let_def)
qed

theorem session_preference_witness:
  "(\<exists>s. readAeviaSession demo_world (\<lambda>_. []) (demo_env\<lparr>ev_devBypass := Some ''true''\<rparr>) demo_cookies = (Inr (Some s), []) \<and>
      as_address s = dev_bypass_address) \<and>
   fst (readAeviaSession demo_world (\<lambda>_. []) demo_env (\<lambda>_. None)) = Inr None"
  using session_preference [of "demo_env\<lparr>ev_devBypass := Some ''true''\<rparr>" demo_world "\<lambda>_. []" demo_cookies]
    session_preference [of demo_env demo_world "\<lambda>_. []" "\<lambda>_. None"]
  by (fastforce simp: dev_bypass_def demo_env_def)

end
