(* ===== verification/RegisterMeta.thy ===== *)
theory RegisterMeta
  imports StreamClient AuthSession
begin

text \<open>
  What the API routes share: their responses, the session gate, ownership of a live input and
  the registration metadata (\<open>app/api/lives/[id]/_lib/register-meta.ts\<close>), with the route that
  stores them (\<open>app/api/lives/[id]/register/route.ts\<close>). A route's handler takes what
  \<open>readAeviaSession()\<close> gave and what reading the request's body as JSON gave; an \<open>Inl\<close> result
  of the handler is an exception it lets through.
\<close>

subsection \<open>Responses\<close>

record route_response =
  rr_status :: nat
  rr_body :: http_body
  rr_headers :: "(string \<times> string) list"

type_synonym 'w route = "('w, route_response) io"

definition json_response :: "nat \<Rightarrow> (string \<times> json) list \<Rightarrow> route_response" where
  \<comment> \<open>\<open>NextResponse.json({ ... }, { status })\<close>\<close>
  "json_response status kvs = \<lparr>rr_status = status, rr_body = Json_Body (JObj kvs), rr_headers = []\<rparr>"

definition respond :: "nat \<Rightarrow> (string \<times> json) list \<Rightarrow> 'w route" where
  "respond status kvs = io_return (json_response status kvs)"

definition respond_error :: "nat \<Rightarrow> string \<Rightarrow> 'w route" where
  "respond_error status msg = respond status [(''error'', JStr msg)]"

definition caught_error :: "nat \<Rightarrow> string \<Rightarrow> js_error \<Rightarrow> 'w route" where
  \<comment> \<open>\<open>{ error: err instanceof Error ? err.message : dflt }\<close>\<close>
  "caught_error status dflt e = respond_error status (err_message dflt e)"

definition with_session ::
  "aevia_session option result \<Rightarrow> (aevia_session \<Rightarrow> 'w route) \<Rightarrow> 'w route" where
  "with_session session k =
     io_bind (io_lift session) (\<lambda>s. case s of None \<Rightarrow> respond_error 401 ''unauthorized'' | Some s \<Rightarrow> k s)"

definition or_null :: "('w, json option) io \<Rightarrow> ('w, json option) io" where
  \<comment> \<open>\<open>.catch(() => null)\<close>\<close>
  "or_null m = io_catch m (\<lambda>_. io_return (Some JNull))"

lemma respond_simp [simp]: "respond status kvs w = (Inr (json_response status kvs), w)"
  by (simp add: respond_def io_return_def)

lemma respond_error_simp [simp]:
  "respond_error status m w = (Inr (json_response status [(''error'', JStr m)]), w)"
  by (simp add: respond_error_def)

lemma with_session_simps [simp]:
  "with_session (Inr None) k = respond_error 401 ''unauthorized''"
  "with_session (Inr (Some s)) k = k s"
  by (simp_all only: with_session_def io_bind_lift option.case)

subsection \<open>Ownership\<close>

definition opt_lower :: "string \<Rightarrow> json option \<Rightarrow> string option result" where
  \<comment> \<open>\<open>v?.toLowerCase()\<close>, with the text of \<open>v\<close> for the \<open>TypeError\<close>\<close>
  "opt_lower expr v =
     (if nullish v then Inr None
      else (case v of Some (JStr s) \<Rightarrow> Inr (Some (to_lower s))
            | _ \<Rightarrow> Inl (Error (expr @ ''.toLowerCase is not a function''))))"

definition live_meta :: "json \<Rightarrow> string \<Rightarrow> json option" where
  \<comment> \<open>\<open>live.meta?.k\<close>\<close>
  "live_meta live k = jchain (jget live ''meta'') k"

definition owned_by :: "string \<Rightarrow> json \<Rightarrow> bool result" where
  "owned_by sessionAddress live =
     (case opt_lower ''live.meta.creatorAddress'' (live_meta live ''creatorAddress'') of
        Inl e \<Rightarrow> Inl e
      | Inr metaCreator \<Rightarrow>
          (case opt_lower ''live.defaultCreator'' (jget live ''defaultCreator'') of
             Inl e \<Rightarrow> Inl e
           | Inr defaultCreator \<Rightarrow>
               Inr (metaCreator = Some (to_lower sessionAddress) \<or>
                    defaultCreator = Some (to_lower sessionAddress))))"

record live_ownership =
  ow_live :: json
  ow_owned :: bool

definition resolveLiveOwnership :: "'w server \<Rightarrow> string \<Rightarrow> string \<Rightarrow> ('w, live_ownership option) io" where
  "resolveLiveOwnership sv uid sessionAddress =
     io_bind (or_null (getLiveInput sv uid)) (\<lambda>live.
       if \<not> truthy_json live then io_return None
       else io_bind (io_lift (owned_by sessionAddress (the live))) (\<lambda>owned.
            io_return (Some \<lparr>ow_live = the live, ow_owned = owned\<rparr>)))"

subsection \<open>Registration metadata\<close>

record registration_meta =
  rm_manifestCid :: string
  rm_registerTxHash :: string
  rm_registerBlock :: real
  rm_sponsored :: bool

definition lowered_hex32 :: "json option \<Rightarrow> string option" where
  \<comment> \<open>the lower-cased text, if it matches \<open>HEX32_RE\<close>\<close>
  "lowered_hex32 v =
     (let s = (case as_str v of Some t \<Rightarrow> to_lower t | None \<Rightarrow> [])
      in if lower_hex0x 64 s then Some s else None)"

definition block_number :: "json option \<Rightarrow> real option" where
  "block_number raw =
     (let n = (case raw of Some (JStr s) \<Rightarrow> Some (js_Number s) | Some (JNum x) \<Rightarrow> Some x | _ \<Rightarrow> None)
      in case n of Some (Fin x) \<Rightarrow> if x < 0 then None else Some x | _ \<Rightarrow> None)"

definition normaliseRegistrationMeta :: "json \<Rightarrow> string + registration_meta" where
  \<comment> \<open>\<open>Inl\<close>: the field at fault; its message is \<open>invalid\<close> and the field\<close>
  "normaliseRegistrationMeta input =
     (case lowered_hex32 (jget input ''manifestCid'') of
        None \<Rightarrow> Inl ''manifestCid''
      | Some manifestCid \<Rightarrow>
          (case lowered_hex32 (jget input ''registerTxHash'') of
             None \<Rightarrow> Inl ''registerTxHash''
           | Some txHash \<Rightarrow>
               (case block_number (jget input ''registerBlock'') of
                  None \<Rightarrow> Inl ''registerBlock''
                | Some blockNum \<Rightarrow> Inr
                    \<lparr>rm_manifestCid = manifestCid, rm_registerTxHash = txHash, rm_registerBlock = blockNum,
                     rm_sponsored = (jget input ''sponsored'' = Some (JBool True))\<rparr>)))"

definition registration_patch :: "(real \<Rightarrow> string) \<Rightarrow> registration_meta \<Rightarrow> (string \<times> string) list" where
  "registration_patch nt m =
     [(''manifestCid'', rm_manifestCid m), (''registerTxHash'', rm_registerTxHash m),
      (''registerBlock'', js_String nt (rm_registerBlock m))] @
     (if rm_sponsored m then [(''sponsored'', ''1'')] else [])"

definition persistRegistrationMeta :: "'w server \<Rightarrow> string \<Rightarrow> registration_meta \<Rightarrow> ('w, unit) io" where
  "persistRegistrationMeta sv uid m =
     io_bind (updateLiveInput sv uid
       \<lparr>lp_meta = Some (registration_patch (sv_numText sv) m), lp_defaultCreator = None\<rparr>)
       (\<lambda>_. io_return ())"

definition other_manifest :: "json \<Rightarrow> string \<Rightarrow> bool" where
  \<comment> \<open>\<open>live.meta?.manifestCid && live.meta.manifestCid !== manifestCid\<close>\<close>
  "other_manifest live manifestCid =
     (truthy_json (live_meta live ''manifestCid'') \<and> live_meta live ''manifestCid'' \<noteq> Some (JStr manifestCid))"

definition post_register ::
  "'w server \<Rightarrow> aevia_session option result \<Rightarrow> string \<Rightarrow> json result \<Rightarrow> 'w route" where
  "post_register sv session i body =
     with_session session (\<lambda>s.
     io_bind (resolveLiveOwnership sv i (as_address s)) (\<lambda>ownership.
       case ownership of
         None \<Rightarrow> respond_error 403 ''forbidden''
       | Some own \<Rightarrow>
           if \<not> ow_owned own then respond_error 403 ''forbidden''
           else (case body of
               Inl _ \<Rightarrow> respond_error 400 ''invalid json''
             | Inr b \<Rightarrow>
                 (case normaliseRegistrationMeta b of
                    Inl field \<Rightarrow> respond_error 400 (''invalid '' @ field)
                  | Inr m \<Rightarrow>
                      if other_manifest (ow_live own) (rm_manifestCid m)
                      then respond_error 409 ''manifestCid already set for this live''
                      else io_catch
                        (io_bind (persistRegistrationMeta sv i m) (\<lambda>_. respond 200
                          [(''ok'', JBool True), (''manifestCid'', JStr (rm_manifestCid m)),
                           (''txHash'', JStr (rm_registerTxHash m)),
                           (''block'', JNum (Fin (rm_registerBlock m)))]))
                        (caught_error 500 ''unknown'')))))"

subsection \<open>Facts\<close>

lemma opt_lower_simps [simp]:
  "opt_lower e None = Inr None" "opt_lower e (Some JNull) = Inr None"
  "opt_lower e (Some (JStr s)) = Inr (Some (to_lower s))"
  by (simp_all add: opt_lower_def nullish_def)

lemma truthy_json_Some: "truthy_json v \<Longrightarrow> \<exists>x. v = Some x"
  by (cases v) auto

lemma lower_char_idem: "lower_char (lower_char c) = lower_char c"
  by (auto simp: lower_char_def Let_def code_def)

lemma to_lower_idem [simp]: "to_lower (to_lower s) = to_lower s"
  by (simp add: to_lower_def lower_char_idem)

lemma lowered_hex32_Some:
  "lowered_hex32 v = Some s \<Longrightarrow> lower_hex0x 64 s \<and> lowered_hex32 (Some (JStr s)) = Some s"
  by (auto simp: lowered_hex32_def lower_hex0x_def Let_def split: if_splits option.splits)

lemma block_number_nat [simp]: "block_number (Some (JStr (show_nat n))) = Some (of_nat n)"
  by (simp add: block_number_def)

lemma normalise_Inr:
  assumes "normaliseRegistrationMeta input = Inr m"
  shows "lowered_hex32 (Some (JStr (rm_manifestCid m))) = Some (rm_manifestCid m)"
    "lowered_hex32 (Some (JStr (rm_registerTxHash m))) = Some (rm_registerTxHash m)"
    "lower_hex0x 64 (rm_manifestCid m)" "lower_hex0x 64 (rm_registerTxHash m)"
    "0 \<le> rm_registerBlock m"
  using assms lowered_hex32_Some
  by (auto simp: normaliseRegistrationMeta_def block_number_def Let_def
      split: option.splits if_splits jsnum.splits)

text \<open>Ownership costs one read; a failing read, or none to show, is no ownership.\<close>

lemma resolve_ownership:
  "resolveLiveOwnership sv uid addr w =
    (case getLiveInput sv uid w of
       (Inl _, w1) \<Rightarrow> (Inr None, w1)
     | (Inr live, w1) \<Rightarrow>
         if truthy_json live
         then (map_sum id (\<lambda>b. Some \<lparr>ow_live = the live, ow_owned = b\<rparr>) (owned_by addr (the live)), w1)
         else (Inr None, w1))"
  by (auto simp: resolveLiveOwnership_def or_null_def io_defs split: prod.splits sum.splits)

lemma normalise_patch:
  assumes "lowered_hex32 (Some (JStr (rm_manifestCid m))) = Some (rm_manifestCid m)"
    and "lowered_hex32 (Some (JStr (rm_registerTxHash m))) = Some (rm_registerTxHash m)"
    and "rm_registerBlock m = of_nat n" "n < 10 ^ 21"
  shows "normaliseRegistrationMeta (JObj (map (\<lambda>(k, v). (k, JStr v)) (registration_patch nt m))) =
    Inr (m\<lparr>rm_sponsored := False\<rparr>)"
  using assms by (cases m) (auto simp: normaliseRegistrationMeta_def registration_patch_def)

text \<open>
  Registration metadata are validated once and stored so that they read back: an accepted
  payload has two 32-byte hexadecimal identifiers in lower case and a block number that is not
  negative, and for every block number a chain has, validating the stored strings again gives
  the same record (the sponsored mark is stored as \<open>"1"\<close>, which is not the boolean the
  validator takes).
\<close>

lemma registration_meta_roundtrip:
  assumes "normaliseRegistrationMeta input = Inr m"
  shows "lower_hex0x 64 (rm_manifestCid m) \<and> lower_hex0x 64 (rm_registerTxHash m) \<and>
    0 \<le> rm_registerBlock m \<and>
    (\<forall>n < 10 ^ 21. rm_registerBlock m = of_nat n \<longrightarrow>
      normaliseRegistrationMeta (JObj (map (\<lambda>(k, v). (k, JStr v)) (registration_patch nt m))) =
        Inr (m\<lparr>rm_sponsored := False\<rparr>))"
  using normalise_Inr [OF assms] by (auto simp: normalise_patch)

definition demo_hash :: string where
  "demo_hash = ''0x'' @ replicate 64 CHR ''a''"

lemma demo_hash_ok: "to_lower demo_hash = demo_hash \<and> lower_hex0x 64 demo_hash"
  by (simp add: demo_hash_def to_lower_def lower_char_def lower_hex0x_def is_lower_hex_def code_def
      list_all_iff numeral_eq_Suc)

definition demo_registration :: json where
  "demo_registration = JObj [(''manifestCid'', JStr demo_hash), (''registerTxHash'', JStr demo_hash),
     (''registerBlock'', JStr (show_nat 7))]"

lemma demo_registration_ok: "normaliseRegistrationMeta demo_registration =
    Inr \<lparr>rm_manifestCid = demo_hash, rm_registerTxHash = demo_hash, rm_registerBlock = 7, rm_sponsored = False\<rparr>"
  using demo_hash_ok by (simp add: normaliseRegistrationMeta_def demo_registration_def lowered_hex32_def)

lemma registration_meta_roundtrip_witness:
  "normaliseRegistrationMeta (JObj (map (\<lambda>(k, v). (k, JStr v)) (registration_patch (\<lambda>_. [])
     \<lparr>rm_manifestCid = demo_hash, rm_registerTxHash = demo_hash, rm_registerBlock = 7, rm_sponsored = False\<rparr>))) =
   Inr \<lparr>rm_manifestCid = demo_hash, rm_registerTxHash = demo_hash, rm_registerBlock = 7, rm_sponsored = False\<rparr>"
  using registration_meta_roundtrip [OF demo_registration_ok] by (auto dest!: spec [of _ "7 :: nat"])


end
