(* ===== verification/PublisherToken.thy ===== *)
theory PublisherToken
  imports JsText
begin

text \<open>
  \<open>packages/auth/src/publisher-token.ts\<close>: the bearer tokens of external broadcast tools. The
  JWT library (\<open>jose\<close>) is a parameter: \<open>sign alg key payload\<close> is the token, and
  \<open>verify algs key issuer audience now token\<close> the payload of a token it accepts at that time,
  or its rejection. The random bytes and the clock are arguments.
\<close>

record jose =
  jwt_sign :: "string \<Rightarrow> string \<Rightarrow> json \<Rightarrow> string"
  jwt_verify :: "string list \<Rightarrow> string \<Rightarrow> string \<Rightarrow> string \<Rightarrow> nat \<Rightarrow> string \<Rightarrow> json result"

definition alg :: string where "alg = ''HS256''"

definition default_ttl_seconds :: nat where "default_ttl_seconds = 30 * 60"

definition issuer :: string where "issuer = ''aevia-video''"

definition audience :: string where "audience = ''aevia-whip''"

record publisher_token_claims =
  pt_liveId :: string
  pt_role :: string
  pt_iat :: jsnum
  pt_exp :: jsnum
  pt_jti :: string

record minted_token =
  mk_token :: string
  mk_expiresAt :: nat
  mk_jti :: string

definition signingKey :: "string option \<Rightarrow> string result" where
  "signingKey secret =
     (case secret of
        None \<Rightarrow> Inl (Error ''AEVIA_PUBLISHER_TOKEN_SECRET must be set and >= 32 chars. See SETUP.md.'')
      | Some s \<Rightarrow>
          if s = [] \<or> length s < 32
          then Inl (Error ''AEVIA_PUBLISHER_TOKEN_SECRET must be set and >= 32 chars. See SETUP.md.'')
          else Inr s)"

definition randomJti :: "nat list \<Rightarrow> string" where
  "randomJti bytes = concat (map (\<lambda>b. pad_start 2 CHR ''0'' (show_hex b)) bytes)"

definition publisher_payload :: "string \<Rightarrow> nat \<Rightarrow> nat \<Rightarrow> string \<Rightarrow> json" where
  "publisher_payload liveId now expiry jti = JObj
     [(''liveId'', JStr liveId), (''role'', JStr ''publisher''), (''iss'', JStr issuer),
      (''aud'', JStr audience), (''iat'', JNum (Fin (of_nat now))), (''exp'', JNum (Fin (of_nat expiry))),
      (''jti'', JStr jti)]"

definition mintPublisherToken ::
  "jose \<Rightarrow> string option \<Rightarrow> nat list \<Rightarrow> nat \<Rightarrow> string \<Rightarrow> nat option \<Rightarrow> minted_token result" where
  \<comment> \<open>with \<open>now\<close> in seconds\<close>
  "mintPublisherToken J secret bytes now liveId ttlSeconds =
     (let ttl = or_default ttlSeconds default_ttl_seconds;
          expiry = now + ttl;
          jti = randomJti bytes
      in case signingKey secret of
           Inl e \<Rightarrow> Inl e
         | Inr key \<Rightarrow> Inr
             \<lparr>mk_token = jwt_sign J alg key (publisher_payload liveId now expiry jti),
              mk_expiresAt = expiry, mk_jti = jti\<rparr>)"

definition token_claims :: "json \<Rightarrow> publisher_token_claims option" where
  "token_claims payload =
     (case (as_str (jget payload ''liveId''), as_num (jget payload ''iat''), as_num (jget payload ''exp''),
            as_str (jget payload ''jti'')) of
        (Some liveId, Some iat, Some expiry, Some jti) \<Rightarrow>
          if jget payload ''role'' = Some (JStr ''publisher'')
          then Some \<lparr>pt_liveId = liveId, pt_role = ''publisher'', pt_iat = iat, pt_exp = expiry, pt_jti = jti\<rparr>
          else None
      | _ \<Rightarrow> None)"

definition verifyPublisherToken ::
  "jose \<Rightarrow> string option \<Rightarrow> nat \<Rightarrow> string \<Rightarrow> publisher_token_claims option" where
  "verifyPublisherToken J secret now token =
     (case signingKey secret of
        Inl e \<Rightarrow> None
      | Inr key \<Rightarrow>
          (case jwt_verify J [alg] key issuer audience now token of
             Inl e \<Rightarrow> None
           | Inr payload \<Rightarrow> token_claims payload))"

subsection \<open>What is relied on of the JWT library\<close>

definition jose_reads :: "jose \<Rightarrow> string \<Rightarrow> json \<Rightarrow> bool" where
  \<comment> \<open>a signed payload verifies under its own key, issuer and audience until it expires\<close>
  "jose_reads J key payload = (\<forall>now iss aud expiry.
     jget payload ''iss'' = Some (JStr iss) \<and> jget payload ''aud'' = Some (JStr aud) \<and>
     jget payload ''exp'' = Some (JNum (Fin expiry)) \<longrightarrow>
       jwt_verify J [alg] key iss aud now (jwt_sign J alg key payload) =
         (if of_nat now < expiry then Inr payload else Inl (Error ''ERR_JWT_EXPIRED'')))"

lemma signingKey_ok: "signingKey secret = Inr key \<longleftrightarrow> secret = Some key \<and> 32 \<le> length key"
  by (auto simp: signingKey_def split: option.splits)

lemma token_claims_payload: "token_claims (publisher_payload liveId now expiry jti) = Some
   \<lparr>pt_liveId = liveId, pt_role = ''publisher'', pt_iat = Fin (of_nat now), pt_exp = Fin (of_nat expiry), pt_jti = jti\<rparr>"
  by (simp add: token_claims_def publisher_payload_def)

lemma jti_hex:
  assumes "\<And>b. b \<in> set bytes \<Longrightarrow> b < 256"
  shows "length (randomJti bytes) = 2 * length bytes \<and> list_all is_lower_hex (randomJti bytes)"
proof -
  have "length (pad_start 2 CHR ''0'' (show_hex b)) = 2" if "b < 256" for b
    using length_show_hex [of b 1] that by (simp add: length_pad_start)
  then show ?thesis using assms
    by (induction bytes) (auto simp: randomJti_def pad_lower_hex show_hex_lower)
qed

subsection \<open>Properties\<close>

text \<open>
  C14. With a secret of at least 32 characters a minted token verifies, until its expiry and
  no longer, to the claims it was minted with; its id is 32 hex digits. Without such a secret
  nothing is minted and nothing verifies.
\<close>

theorem publisher_token_roundtrip:
  assumes "jose_reads J key (publisher_payload liveId now (now + or_default ttl 1800) (randomJti bytes))"
    and "length bytes = 16" and "\<forall>b \<in> set bytes. b < 256"
  shows "(32 \<le> length key \<longrightarrow>
      (\<exists>m. mintPublisherToken J (Some key) bytes now liveId ttl = Inr m \<and>
         mk_expiresAt m = now + or_default ttl 1800 \<and>
         length (mk_jti m) = 32 \<and> list_all is_lower_hex (mk_jti m) \<and>
         (\<forall>later. verifyPublisherToken J (Some key) later (mk_token m) =
            (if later < mk_expiresAt m
             then Some \<lparr>pt_liveId = liveId, pt_role = ''publisher'', pt_iat = Fin (of_nat now),
               pt_exp = Fin (of_nat (mk_expiresAt m)), pt_jti = mk_jti m\<rparr>
             else None)))) \<and>
    (length key < 32 \<longrightarrow>
      (\<exists>e. mintPublisherToken J (Some key) bytes now liveId ttl = Inl e) \<and>
      (\<forall>later tok. verifyPublisherToken J (Some key) later tok = None))"
proof (intro conjI impI)
  let ?p = "publisher_payload liveId now (now + or_default ttl 1800) (randomJti bytes)"
  assume key: "32 \<le> length key"
  then have k: "signingKey (Some key) = Inr key" by (simp add: signingKey_ok)
  have "jwt_verify J [alg] key issuer audience later (jwt_sign J alg key ?p) =
      (if later < now + or_default ttl 1800 then Inr ?p else Inl (Error ''ERR_JWT_EXPIRED''))" for later
    using assms(1) by (simp add: jose_reads_def publisher_payload_def flip: of_nat_add)
  then show "\<exists>m. mintPublisherToken J (Some key) bytes now liveId ttl = Inr m \<and>
         mk_expiresAt m = now + or_default ttl 1800 \<and>
         length (mk_jti m) = 32 \<and> list_all is_lower_hex (mk_jti m) \<and>
         (\<forall>later. verifyPublisherToken J (Some key) later (mk_token m) =
            (if later < mk_expiresAt m
             then Some \<lparr>pt_liveId = liveId, pt_role = ''publisher'', pt_iat = Fin (of_nat now),
               pt_exp = Fin (of_nat (mk_expiresAt m)), pt_jti = mk_jti m\<rparr>
             else None))"
    using k jti_hex [of bytes] assms(2,3)
    by (simp add: mintPublisherToken_def verifyPublisherToken_def token_claims_payload
        default_ttl_seconds_def Let_def)
next
  assume "length key < 32"
  then show "\<exists>e. mintPublisherToken J (Some key) bytes now liveId ttl = Inl e"
    by (auto simp: mintPublisherToken_def signingKey_def Let_def)
next
  fix later tok
  assume "length key < 32"
  then show "\<forall>later tok. verifyPublisherToken J (Some key) later tok = None"
    by (auto simp: verifyPublisherToken_def signingKey_def)
qed

definition demo_jose :: "json \<Rightarrow> jose" where
  \<comment> \<open>a library that knows one payload\<close>
  "demo_jose p = \<lparr>jwt_sign = (\<lambda>a k q. ''tok''), jwt_verify = (\<lambda>algs k iss aud now t.
     case jget p ''exp'' of Some (JNum (Fin x)) \<Rightarrow>
       if of_nat now < x then Inr p else Inl (Error ''ERR_JWT_EXPIRED'')
     | _ \<Rightarrow> Inr p)\<rparr>"

theorem publisher_token_roundtrip_witness:
  "\<exists>m c. mintPublisherToken (demo_jose (publisher_payload ''live1'' 100 1900 (randomJti (replicate 16 7))))
       (Some (replicate 32 CHR ''k'')) (replicate 16 7) 100 ''live1'' None = Inr m \<and>
     verifyPublisherToken (demo_jose (publisher_payload ''live1'' 100 1900 (randomJti (replicate 16 7))))
       (Some (replicate 32 CHR ''k'')) 1899 (mk_token m) = Some c \<and> pt_liveId c = ''live1''"
proof -
  let ?J = "demo_jose (publisher_payload ''live1'' 100 1900 (randomJti (replicate 16 7)))"
  have "jose_reads ?J (replicate 32 CHR ''k'')
      (publisher_payload ''live1'' 100 (100 + or_default None 1800) (randomJti (replicate 16 7)))"
    by (simp add: jose_reads_def demo_jose_def publisher_payload_def)
  from publisher_token_roundtrip [OF this] show ?thesis by fastforce
qed

end
