(* ===== verification/LiveRoutes.thy ===== *)
theory LiveRoutes
  imports RegisterMeta PublisherToken
begin

text \<open>
  The API routes of a live: creation on one of three backends (\<open>app/api/lives/route.ts\<close>),
  reading and deletion (\<open>lives/[id]/route.ts\<close>), linking a recording, the upload address, the
  publisher token, the authenticated WHIP proxy (the routes below \<open>lives/[id]/\<close>) and the TURN
  credentials (\<open>app/api/webrtc/ice-servers/route.ts\<close>). Logging is left out.
\<close>

subsection \<open>Creation\<close>

datatype live_backend = Cloudflare | Aevia_Mesh | Livepeer

definition backend_name :: "live_backend \<Rightarrow> string" where
  "backend_name b = (case b of Cloudflare \<Rightarrow> ''cloudflare'' | Aevia_Mesh \<Rightarrow> ''aevia-mesh'' | Livepeer \<Rightarrow> ''livepeer'')"

definition create_params :: "json result \<Rightarrow> json option \<times> live_backend" where
  \<comment> \<open>title and backend of the body, which is optional\<close>
  "create_params body =
     (case body of
        Inl _ \<Rightarrow> (None, Cloudflare)
      | Inr b \<Rightarrow>
          (case jprop (Some b) ''title'' of
             Inl _ \<Rightarrow> (None, Cloudflare)
           | Inr title \<Rightarrow>
               (title,
                if jget b ''backend'' = Some (JStr ''aevia-mesh'') then Aevia_Mesh
                else if jget b ''backend'' = Some (JStr ''livepeer'') then Livepeer else Cloudflare)))"

definition sliced_title :: "json option \<Rightarrow> json option result" where
  \<comment> \<open>\<open>title?.slice(0, 80)\<close>\<close>
  "sliced_title title =
     (if nullish title then Inr None
      else (case title of
          Some (JStr s) \<Rightarrow> Inr (Some (JStr (take 80 s)))
        | Some (JArr xs) \<Rightarrow> Inr (Some (JArr (take 80 xs)))
        | _ \<Rightarrow> Inl (Error ''title?.slice is not a function'')))"

definition creator_fields :: "aevia_session \<Rightarrow> (string \<times> json) list" where
  "creator_fields s =
     [(''creator'', JStr (as_displayName s)), (''creatorAddress'', JStr (as_address s)),
      (''creatorDid'', JStr (as_did s))]"

definition create_mesh :: "string option \<Rightarrow> aevia_session \<Rightarrow> json option \<Rightarrow> 'w route" where
  "create_mesh meshEnv s title =
     (let meshUrl = map_option trim meshEnv in
      if \<not> truthy meshUrl then respond_error 400 ''mesh backend not configured on this deployment''
      else let base = strip_slashes (the meshUrl) in
        respond 201
          ([(''backend'', JStr (backend_name Aevia_Mesh)), (''uid'', JNull), (''whipUrl'', JStr (base @ ''/whip'')),
            (''whepUrl'', JNull), (''hlsBaseUrl'', JStr base), (''playbackId'', JNull), (''playerUrl'', JNull)] @
           creator_fields s @ [(''title'', jelse title JNull)]))"

definition create_livepeer :: "'w server \<Rightarrow> nat \<Rightarrow> aevia_session \<Rightarrow> json option \<Rightarrow> 'w route" where
  "create_livepeer sv now s title =
     io_catch
       (io_bind (io_lift (sliced_title title)) (\<lambda>t.
        io_bind (createLivepeerStream sv
          \<lparr>po_name = jelse t (JStr (''aevia-'' @ name_slug (as_displayName s) @ ''-'' @ show_nat now)),
           po_creatorAddress = as_address s, po_creatorDid = Some (as_did s), po_record = Some True\<rparr>) (\<lambda>stream.
        let key = value_string (sv_numText sv) (ls_streamKey stream);
            playback = value_string (sv_numText sv) (ls_playbackId stream)
        in respond 201
          ([(''backend'', JStr (backend_name Livepeer))] @ opt_field ''uid'' (ls_id stream) @
           [(''whipUrl'', JStr (livepeerIngestUrl key)), (''whepUrl'', JStr (livepeerPlaybackUrl playback)),
            (''hlsBaseUrl'', JNull)] @
           opt_field ''playbackId'' (ls_playbackId stream) @
           [(''playerUrl'', JStr (livepeerPlayerUrl playback))] @ creator_fields s @
           opt_field ''title'' (if nullish title then ls_name stream else title)))))
       (caught_error 502 ''livepeer create failed'')"

definition create_cloudflare :: "'w server \<Rightarrow> nat \<Rightarrow> aevia_session \<Rightarrow> json option \<Rightarrow> 'w route" where
  "create_cloudflare sv now s title =
     io_catch
       (io_bind (createLiveInput sv now
          \<lparr>lo_creatorAddress = as_address s, lo_creatorDisplayName = as_displayName s,
           lo_creatorDid = Some (as_did s), lo_title = title, lo_deleteRecordingAfterDays = None\<rparr>) (\<lambda>live.
        io_bind (io_lift (jprop live ''uid'')) (\<lambda>uid.
        io_bind (io_lift (jprop (jchain live ''webRTC'') ''url'')) (\<lambda>whip.
        io_bind (io_lift (jprop (jchain live ''webRTCPlayback'') ''url'')) (\<lambda>whep.
        respond 201
          ([(''backend'', JStr (backend_name Cloudflare))] @ opt_field ''uid'' uid @ opt_field ''whipUrl'' whip @
           opt_field ''whepUrl'' whep @
           [(''hlsBaseUrl'', JNull), (''playbackId'', JNull), (''playerUrl'', JNull)] @
           creator_fields s @ [(''title'', jelse title JNull)]))))))
       (caught_error 500 ''unknown'')"

definition post_lives ::
  "'w server \<Rightarrow> string option \<Rightarrow> nat \<Rightarrow> aevia_session option result \<Rightarrow> json result \<Rightarrow> 'w route" where
  \<comment> \<open>with \<open>NEXT_PUBLIC_AEVIA_MESH_URL\<close> and the clock\<close>
  "post_lives sv meshEnv now session body =
     with_session session (\<lambda>s.
       let (title, backend) = create_params body in
       case backend of
         Aevia_Mesh \<Rightarrow> create_mesh meshEnv s title
       | Livepeer \<Rightarrow> create_livepeer sv now s title
       | Cloudflare \<Rightarrow> create_cloudflare sv now s title)"

subsection \<open>Reading and deletion\<close>

definition get_live :: "'w server \<Rightarrow> string \<Rightarrow> 'w route" where
  "get_live sv i =
     io_catch
       (io_bind (getLiveInput sv i) (\<lambda>live.
        io_bind (io_lift (jprop live ''uid'')) (\<lambda>uid.
        io_bind (io_lift (jprop (jchain live ''webRTCPlayback'') ''url'')) (\<lambda>whep.
        io_bind (io_lift (jprop (jchain live ''webRTC'') ''url'')) (\<lambda>whip.
        let l = the live; defaultCreator = jget l ''defaultCreator'' in
        respond 200
          (opt_field ''uid'' uid @ opt_field ''whepUrl'' whep @ opt_field ''whipUrl'' whip @
           [(''creator'', jelse (live_meta l ''creator'') (jelse defaultCreator (JStr ''unknown''))),
            (''creatorAddress'', jelse defaultCreator JNull),
            (''name'', jelse (live_meta l ''name'') (JStr [])),
            (''state'', jelse (jchain (jchain (jget l ''status'') ''current'') ''state'') (JStr ''unknown''))] @
           opt_field ''created'' (jget l ''created'')))))))
       (caught_error 500 ''unknown'')"

definition delete_live :: "'w server \<Rightarrow> aevia_session option result \<Rightarrow> string \<Rightarrow> 'w route" where
  "delete_live sv session i =
     with_session session (\<lambda>s.
       io_catch
         (io_bind (or_null (getLiveInput sv i)) (\<lambda>live.
          if \<not> truthy_json live \<or> jget (the live) ''defaultCreator'' \<noteq> Some (JStr (as_address s))
          then respond_error 403 ''forbidden''
          else let recording = live_meta (the live) ''recordingVideoUid'' in
            io_bind (if truthy_json recording
               then io_catch (deleteVideo sv (value_string (sv_numText sv) recording)) (\<lambda>_. io_return ())
               else io_return ()) (\<lambda>_.
            io_bind (deleteLiveInput sv i) (\<lambda>_. respond 200 [(''ok'', JBool True)]))))
         (caught_error 500 ''unknown''))"

subsection \<open>Recordings\<close>

definition with_owned_live ::
  "'w server \<Rightarrow> aevia_session \<Rightarrow> string \<Rightarrow> (json \<Rightarrow> 'w route) \<Rightarrow> 'w route" where
  \<comment> \<open>the lookup and the ownership check of the two recording routes\<close>
  "with_owned_live sv s i k =
     io_bind (or_null (getLiveInput sv i)) (\<lambda>live.
       if \<not> truthy_json live then respond_error 404 ''not found''
       else io_bind (io_lift (owned_by (as_address s) (the live))) (\<lambda>owned.
            if owned then k (the live) else respond_error 403 ''forbidden''))"

definition video_uid_of :: "json result \<Rightarrow> string result" where
  \<comment> \<open>or the error the route answers with status 400\<close>
  "video_uid_of body =
     (case body of
        Inl _ \<Rightarrow> Inl (Error ''JSON body required'')
      | Inr b \<Rightarrow>
          (case jprop (Some b) ''videoUid'' of
             Inl _ \<Rightarrow> Inl (Error ''JSON body required'')
           | Inr v \<Rightarrow> if truthy (as_str v) then Inr (the (as_str v)) else Inl (Error ''videoUid required'')))"

definition link_video :: "'w server \<Rightarrow> string \<Rightarrow> string \<Rightarrow> 'w route" where
  "link_video sv i videoUid =
     io_bind (io_try (getVideo sv videoUid)) (\<lambda>looked_up.
     case looked_up of
       Inl e \<Rightarrow> respond_error 400 (''video not found: '' @ err_message ''unknown'' e)
     | Inr video \<Rightarrow>
         io_bind (io_lift (jprop video ''requireSignedURLs'')) (\<lambda>signed.
         io_bind (if signed \<noteq> Some (JBool False)
           then io_catch (updateVideo sv videoUid (JObj [(''requireSignedURLs'', JBool False)])) (\<lambda>_. io_return None)
           else io_return None) (\<lambda>_.
         io_catch
           (io_bind (updateLiveInput sv i
              \<lparr>lp_meta = Some [(''recordingVideoUid'', videoUid)], lp_defaultCreator = None\<rparr>) (\<lambda>_.
            respond 201 [(''videoUid'', JStr videoUid), (''linked'', JBool True)]))
           (caught_error 500 ''unknown''))))"

definition post_link_recording ::
  "'w server \<Rightarrow> aevia_session option result \<Rightarrow> string \<Rightarrow> json result \<Rightarrow> 'w route" where
  "post_link_recording sv session i body =
     with_session session (\<lambda>s.
       case video_uid_of body of
         Inl e \<Rightarrow> caught_error 400 [] e
       | Inr videoUid \<Rightarrow>
           with_owned_live sv s i (\<lambda>live.
             if live_meta live ''recordingVideoUid'' = Some (JStr videoUid)
             then respond 200 [(''videoUid'', JStr videoUid), (''linked'', JBool True), (''already'', JBool True)]
             else link_video sv i videoUid))"

definition max_upload :: nat where
  "max_upload = 5 * 1024 * 1024 * 1024"

definition upload_length_of :: "json result \<Rightarrow> nat result" where
  \<comment> \<open>or the error the route answers with status 400\<close>
  "upload_length_of body =
     (case body of
        Inl _ \<Rightarrow> Inl (Error ''uploadLength required in JSON body'')
      | Inr b \<Rightarrow>
          (case jprop (Some b) ''uploadLength'' of
             Inl _ \<Rightarrow> Inl (Error ''uploadLength required in JSON body'')
           | Inr v \<Rightarrow>
               (case or_default (as_num v) NaN of
                  Fin raw \<Rightarrow>
                    if raw \<le> 0 \<or> raw > of_nat max_upload
                    then Inl (Error (''uploadLength must be a positive number '' @ [at_most_sign] @ '' 5 GiB''))
                    else Inr (nat \<lfloor>raw\<rfloor>)
                | _ \<Rightarrow> Inl (Error (''uploadLength must be a positive number '' @ [at_most_sign] @ '' 5 GiB'')))))"

definition post_direct_upload_url ::
  "'w server \<Rightarrow> aevia_session option result \<Rightarrow> string \<Rightarrow> json result \<Rightarrow> 'w route" where
  "post_direct_upload_url sv session i body =
     with_session session (\<lambda>s.
       with_owned_live sv s i (\<lambda>live.
         case upload_length_of body of
           Inl e \<Rightarrow> caught_error 400 [] e
         | Inr n \<Rightarrow>
             io_catch
               (io_bind (createDirectUpload sv
                  \<lparr>du_liveInputId = i, du_creatorAddress = as_address s,
                   du_creatorDisplayName = as_displayName s, du_creatorDid = Some (as_did s),
                   du_uploadLength = n\<rparr>) (\<lambda>r.
                respond 201 [(''uploadUrl'', JStr (dr_uploadUrl r)), (''videoUid'', JStr (dr_videoUid r))]))
               (caught_error 500 ''unknown'')))"

subsection \<open>Publishing from outside the browser\<close>

definition post_publisher_token ::
  "'w server \<Rightarrow> jose \<Rightarrow> string option \<Rightarrow> nat list \<Rightarrow> nat \<Rightarrow>
   aevia_session option result \<Rightarrow> string \<Rightarrow> 'w route" where
  \<comment> \<open>with the signing library, the secret, the random bytes and the clock in seconds\<close>
  "post_publisher_token sv J secret bytes now session i =
     with_session session (\<lambda>s.
     io_bind (resolveLiveOwnership sv i (as_address s)) (\<lambda>ownership.
       case ownership of
         None \<Rightarrow> respond_error 404 ''live not found''
       | Some own \<Rightarrow>
           if \<not> ow_owned own then respond_error 403 ''forbidden''
           else (case mintPublisherToken J secret bytes now i None of
               Inl _ \<Rightarrow> respond_error 503 ''publisher tokens not configured on this deployment''
             | Inr mint \<Rightarrow>
                 io_return
                   \<lparr>rr_status = 200,
                    rr_body = Json_Body (JObj
                      [(''token'', JStr (mk_token mint)), (''jti'', JStr (mk_jti mint)),
                       (''expiresAt'', jnat (mk_expiresAt mint)),
                       (''ingestUrl'', JStr (strip_slashes (ce_appUrl (sv_client sv)) @ ''/api/lives/'' @ i @ ''/whip'')),
                       (''liveId'', JStr i), (''liveName'', jelse (live_meta (ow_live own) ''name'') JNull)]),
                    rr_headers = [(''cache-control'', ''no-store'')]\<rparr>)))"

definition cors_headers :: "(string \<times> string) list" where
  "cors_headers =
     [(''Access-Control-Allow-Origin'', ''*''), (''Access-Control-Allow-Methods'', ''POST, DELETE, OPTIONS''),
      (''Access-Control-Allow-Headers'', ''Authorization, Content-Type, Link''),
      (''Access-Control-Expose-Headers'', ''Location, ETag''), (''Access-Control-Max-Age'', ''86400'')]"

definition corsResponse :: "nat \<Rightarrow> route_response" where
  "corsResponse status = \<lparr>rr_status = status, rr_body = No_Body, rr_headers = cors_headers\<rparr>"

definition cors_json :: "nat \<Rightarrow> (string \<times> json) list \<Rightarrow> route_response" where
  "cors_json status kvs = (json_response status kvs)\<lparr>rr_headers := cors_headers\<rparr>"

definition whip_unauthorized :: "string \<Rightarrow> route_response" where
  "whip_unauthorized reason = cors_json 401 [(''error'', JStr ''unauthorized''), (''reason'', JStr reason)]"

definition line_end :: "char \<Rightarrow> bool" where
  "line_end c = (code c = 10 \<or> code c = 13)"

definition bearer_token :: "string \<Rightarrow> string option" where
  \<comment> \<open>the group of \<open>/^Bearer\s+(.+)$/i\<close>; white space gives its last character back if nothing else is left\<close>
  "bearer_token auth =
     (let r = drop 6 auth; ws = takeWhile is_ws r; rest = dropWhile is_ws r in
      if to_lower (take 6 auth) \<noteq> ''bearer'' \<or> ws = [] then None
      else if rest \<noteq> [] then (if list_ex line_end rest then None else Some rest)
      else if 2 \<le> length ws \<and> \<not> line_end (last ws) then Some [last ws] else None)"

definition authorise ::
  "(string \<Rightarrow> publisher_token_claims option) \<Rightarrow> string option \<Rightarrow> string \<Rightarrow> route_response option" where
  \<comment> \<open>the refusal, or \<open>None\<close> if the caller may go on; \<open>verify\<close> is \<open>verifyPublisherToken\<close>\<close>
  "authorise verify auth expectedLiveId =
     (case bearer_token (or_default auth []) of
        None \<Rightarrow> Some (whip_unauthorized ''missing bearer token'')
      | Some token \<Rightarrow>
          (case verify token of
             None \<Rightarrow> Some (whip_unauthorized ''invalid or expired token'')
           | Some claims \<Rightarrow>
               if pt_liveId claims \<noteq> expectedLiveId then Some (whip_unauthorized ''token scope mismatch'')
               else None))"

record proxy_request =
  wr_authorization :: "string option"
  wr_contentType :: "string option"
  wr_text :: "string result"

definition set_header :: "string \<Rightarrow> string \<Rightarrow> (string \<times> string) list \<Rightarrow> (string \<times> string) list" where
  \<comment> \<open>\<open>headers.set(k, v)\<close> of a name not there yet\<close>
  "set_header k v hs = hs @ [(k, v)]"

definition new_response :: "string \<Rightarrow> nat \<Rightarrow> (string \<times> string) list \<Rightarrow> route_response result" where
  \<comment> \<open>the constructor refuses statuses out of range, and a body where the status has none\<close>
  "new_response body status headers =
     (if status < 200 \<or> status > 599 then Inl (Error ''Responses may only be constructed with status codes in the range 200 to 599, inclusive.'')
      else if status \<in> {204, 205, 304} then Inl (Error ''Response with null body status (101, 204, 205, or 304) cannot have a body.'')
      else Inr \<lparr>rr_status = status, rr_body = Text_Body body, rr_headers = headers\<rparr>)"

definition whip_proxy_answer :: "http_response \<Rightarrow> route_response result" where
  "whip_proxy_answer upstream =
     (case hp_text upstream of
        Inl e \<Rightarrow> Inl e
      | Inr answer \<Rightarrow>
          let h0 = set_header ''Content-Type''
                (or_default (get_header ''content-type'' (hp_headers upstream)) ''application/sdp'') cors_headers;
              location = get_header ''location'' (hp_headers upstream);
              h1 = (if truthy location then set_header ''Location'' (the location) h0 else h0);
              etag = get_header ''etag'' (hp_headers upstream);
              h2 = (if truthy etag then set_header ''ETag'' (the etag) h1 else h1)
          in new_response answer (hp_status upstream) h2)"

definition whip_forward :: "'w server \<Rightarrow> proxy_request \<Rightarrow> json option \<Rightarrow> 'w route" where
  "whip_forward sv req live =
     io_bind (io_lift (jprop live ''webRTC'')) (\<lambda>webRTC.
       let upstreamUrl = jchain webRTC ''url'' in
       if \<not> truthy_json upstreamUrl
       then io_return (cors_json 502 [(''error'', JStr ''live has no WHIP endpoint'')])
       else io_bind (io_lift (wr_text req)) (\<lambda>sdp.
            io_bind (sv_fetch sv
              \<lparr>hr_method = ''POST'', hr_url = value_string (sv_numText sv) upstreamUrl,
               hr_headers = [(''Content-Type'', or_default (wr_contentType req) ''application/sdp'')],
               hr_body = Text_Body sdp\<rparr>) (\<lambda>upstream. io_lift (whip_proxy_answer upstream))))"

definition post_whip ::
  "'w server \<Rightarrow> (string \<Rightarrow> publisher_token_claims option) \<Rightarrow> proxy_request \<Rightarrow> string \<Rightarrow> 'w route" where
  "post_whip sv verify req i =
     (case authorise verify (wr_authorization req) i of
        Some refusal \<Rightarrow> io_return refusal
      | None \<Rightarrow>
          io_bind (io_try (getLiveInput sv i)) (\<lambda>looked_up.
          case looked_up of
            Inl _ \<Rightarrow> io_return (cors_json 404 [(''error'', JStr ''live not found'')])
          | Inr live \<Rightarrow> whip_forward sv req live))"

definition delete_whip ::
  "(string \<Rightarrow> publisher_token_claims option) \<Rightarrow> proxy_request \<Rightarrow> string \<Rightarrow> route_response" where
  "delete_whip verify req i =
     (case authorise verify (wr_authorization req) i of
        Some refusal \<Rightarrow> refusal
      | None \<Rightarrow> corsResponse 200)"

definition options_whip :: route_response where
  "options_whip = corsResponse 204"

subsection \<open>TURN credentials\<close>

definition stun_only_ice_servers :: json where
  "stun_only_ice_servers = JArr
     [JObj [(''urls'', JStr ''stun:stun.cloudflare.com:3478'')],
      JObj [(''urls'', JStr ''stun:stun.l.google.com:19302'')]]"

definition cache_response :: "string \<Rightarrow> (string \<times> json) list \<Rightarrow> route_response" where
  "cache_response cc kvs = (json_response 200 kvs)\<lparr>rr_headers := [(''cache-control'', cc)]\<rparr>"

definition stunOnly :: "string \<Rightarrow> nat \<Rightarrow> 'w route" where
  "stunOnly reason maxAge =
     io_return (cache_response (''public, max-age='' @ show_nat maxAge)
       [(''iceServers'', stun_only_ice_servers), (''relay'', JStr reason)])"

definition turn_ttl :: nat where
  "turn_ttl = 3600"

definition turn_request :: "turn_env \<Rightarrow> http_request" where
  "turn_request turn =
     \<lparr>hr_method = ''POST'',
      hr_url = ''https://rtc.live.cloudflare.com/v1/turn/keys/'' @ tn_tokenId turn @ ''/credentials/generate-ice-servers'',
      hr_headers = [(''Authorization'', ''Bearer '' @ tn_apiToken turn), (''Content-Type'', ''application/json'')],
      hr_body = Json_Body (JObj [(''ttl'', jnat turn_ttl)])\<rparr>"

definition get_ice_servers ::
  "'w fetch \<Rightarrow> turn_env option \<Rightarrow> aevia_session option result \<Rightarrow> 'w route" where
  \<comment> \<open>with what \<open>getRealtimeTurnEnv()\<close> gives\<close>
  "get_ice_servers do_fetch turn session =
     io_bind (io_lift session) (\<lambda>s.
       if s = None then stunOnly ''unauthenticated'' 60
       else (case turn of
           None \<Rightarrow> stunOnly ''unavailable'' 60
         | Some t \<Rightarrow>
             io_bind (do_fetch (turn_request t)) (\<lambda>upstream.
               if \<not> res_ok upstream then stunOnly ''mint-failed'' 0
               else io_bind (io_lift (hp_json upstream)) (\<lambda>payload.
                    io_bind (io_lift (jprop (Some payload) ''iceServers'')) (\<lambda>servers.
                    io_return (cache_response (''private, max-age='' @ show_nat (max 60 (turn_ttl - 600)))
                      (opt_field ''iceServers'' servers @
                       [(''relay'', JStr ''cloudflare''), (''ttl'', jnat turn_ttl)])))))))"


subsection \<open>Who may do what\<close>

lemma or_null_get: "or_null (getLiveInput sv i) w =
   (case getLiveInput sv i w of (Inl _, w1) \<Rightarrow> (Inr (Some JNull), w1) | (Inr l, w1) \<Rightarrow> (Inr l, w1))"
  by (simp add: or_null_def io_defs split: prod.splits sum.splits)

lemma owned_by_default:
  "owned_by a live = Inr False \<Longrightarrow> jget live ''defaultCreator'' \<noteq> Some (JStr a)"
  by (auto simp: owned_by_def split: sum.splits)


text \<open>
  Without a session every route of the studio answers 401 and sends nothing anywhere: the
  outside world is as it was. The TURN route answers with the two STUN servers alone, and asks
  for no credentials.
\<close>

lemma anonymous_sends_nothing:
  "post_lives sv mesh now (Inr None) body w = respond_error 401 ''unauthorized'' w \<and>
   delete_live sv (Inr None) i w = respond_error 401 ''unauthorized'' w \<and>
   post_register sv (Inr None) i body w = respond_error 401 ''unauthorized'' w \<and>
   post_link_recording sv (Inr None) i body w = respond_error 401 ''unauthorized'' w \<and>
   post_direct_upload_url sv (Inr None) i body w = respond_error 401 ''unauthorized'' w \<and>
   post_publisher_token sv J secret bytes secs (Inr None) i w = respond_error 401 ''unauthorized'' w \<and>
   snd (respond_error 401 ''unauthorized'' w) = w \<and>
   get_ice_servers do_fetch turn (Inr None) w =
     (Inr (cache_response ''public, max-age=60''
        [(''iceServers'', stun_only_ice_servers), (''relay'', JStr ''unauthenticated'')]), w)"
proof -
  have "show_nat 60 = ''60''" by (simp add: show_nat.simps)
  then show ?thesis
    by (simp add: post_lives_def delete_live_def post_register_def post_link_recording_def
        post_direct_upload_url_def post_publisher_token_def get_ice_servers_def stunOnly_def io_return_def)
qed


definition demo_session :: aevia_session where
  "demo_session = \<lparr>as_userId = None, as_address = ''0xCD'', as_did = ''did'', as_displayName = ''Zo'',
     as_loginMethod = Wallet, as_expiresAt = JNull\<rparr>"


text \<open>
  The deletion route looks at the default creator alone, without regard to case: the creator of
  a live input whose default creator the service dropped is refused.
\<close>

lemma delete_ignores_meta_creator:
  assumes "getLiveInput sv i w = (Inr (Some live), w1)" "truthy_json (Some live)"
    and "live_meta live ''creatorAddress'' = Some (JStr (to_lower (as_address s)))"
    and "nullish (jget live ''defaultCreator'')"
  shows "owned_by (as_address s) live = Inr True \<and>
    delete_live sv (Inr (Some s)) i w = respond_error 403 ''forbidden'' w1"
  using assms
  by (auto simp: owned_by_def opt_lower_def nullish_def delete_live_def io_catch_def io_bind_def or_null_get)

lemma bearer_token_plain:
  assumes "t \<noteq> []" "list_all (\<lambda>c. \<not> is_ws c) t"
  shows "bearer_token (''Bearer '' @ t) = Some t"
proof -
  obtain c cs where t: "t = c # cs" and c: "\<not> is_ws c" using assms by (cases t) auto
  have "takeWhile is_ws (CHR '' '' # t) = [CHR '' '']" "dropWhile is_ws (CHR '' '' # t) = t"
    using c by (simp_all add: t is_ws_def code_def)
  moreover have "list_ex line_end t = False"
    using assms(2) by (auto simp: list_all_iff list_ex_iff line_end_def is_ws_def Let_def)
  moreover have "to_lower ''Bearer'' = ''bearer''" by code_simp
  ultimately show ?thesis
    using assms(1) by (simp add: bearer_token_def Let_def)
qed

text \<open>
  C18. A publisher token opens the WHIP proxy of its live input and of no other, and only until
  it expires: with the token the studio minted for live \<open>i\<close>, the proxy's check of a request to
  live \<open>j\<close> passes exactly if \<open>j\<close> is \<open>i\<close>, is refused for its scope otherwise, and is refused
  as invalid from the expiry on. (The signed token is taken to be a non-empty text without
  white space, and the signing library to read back what it signed until it expires.)
\<close>

theorem publisher_token_scope:
  assumes mint: "mintPublisherToken J (Some key) bytes now i None = Inr m"
    and reads: "jose_reads J key (publisher_payload i now (now + 1800) (randomJti bytes))"
    and plain: "mk_token m \<noteq> []" "list_all (\<lambda>c. \<not> is_ws c) (mk_token m)"
  shows "authorise (verifyPublisherToken J (Some key) later) (Some (''Bearer '' @ mk_token m)) j =
    (if mk_expiresAt m \<le> later then Some (whip_unauthorized ''invalid or expired token'')
     else if j = i then None
     else Some (whip_unauthorized ''token scope mismatch''))"
proof -
  let ?p = "publisher_payload i now (now + 1800) (randomJti bytes)"
  have key: "signingKey (Some key) = Inr key"
    and m: "mk_token m = jwt_sign J alg key ?p" "mk_expiresAt m = now + 1800"
    using mint by (auto simp: mintPublisherToken_def default_ttl_seconds_def Let_def signingKey_ok
        split: sum.splits)
  have fields: "jget ?p ''iss'' = Some (JStr issuer)" "jget ?p ''aud'' = Some (JStr audience)"
      "jget ?p ''exp'' = Some (JNum (Fin (of_nat (now + 1800))))"
    by (simp_all add: publisher_payload_def)
  have "jwt_verify J [alg] key issuer audience later (mk_token m) =
      (if later < now + 1800 then Inr ?p else Inl (Error ''ERR_JWT_EXPIRED''))"
    using reads [unfolded jose_reads_def, rule_format, of issuer audience "of_nat (now + 1800)" later]
    by (simp only: fields m(1) of_nat_less_iff simp_thms HOL.simp_thms conj_absorb)
  then have "verifyPublisherToken J (Some key) later (mk_token m) =
      (if later < now + 1800 then token_claims ?p else None)"
    using key by (simp add: verifyPublisherToken_def)
  with bearer_token_plain [OF plain] show ?thesis
    by (auto simp: authorise_def token_claims_payload m(2))
qed

lemma publisher_token_scope_witness:
  "authorise (verifyPublisherToken (demo_jose (publisher_payload ''a'' 0 1800 (randomJti []))) (Some (replicate 32 CHR ''k'')) 5)
     (Some ''Bearer tok'') ''b'' = Some (whip_unauthorized ''token scope mismatch'')"
proof -
  let ?J = "demo_jose (publisher_payload ''a'' 0 1800 (randomJti []))"
  let ?m = "\<lparr>mk_token = ''tok'', mk_expiresAt = 1800, mk_jti = randomJti []\<rparr>"
  have key: "signingKey (Some (replicate 32 CHR ''k'')) = Inr (replicate 32 CHR ''k'')"
    by (simp only: signingKey_ok length_replicate) simp
  have "mintPublisherToken ?J (Some (replicate 32 CHR ''k'')) [] 0 ''a'' None = Inr ?m"
    unfolding mintPublisherToken_def by (simp add: key default_ttl_seconds_def demo_jose_def)
  note scope = publisher_token_scope [OF this, of 5 "''b''"]
  have "jose_reads ?J (replicate 32 CHR ''k'') (publisher_payload ''a'' 0 (0 + 1800) (randomJti []))"
    by (simp add: jose_reads_def demo_jose_def publisher_payload_def)
  moreover have "list_all (\<lambda>c. \<not> is_ws c) ''tok''" by code_simp
  ultimately show ?thesis using scope by simp
qed

text \<open>
  C19. The WHIP proxy lets nobody through without a verified publisher token for the live input
  of the address: every other request gets 401 before the live input is even read, so nothing
  reaches the media server and the stream's own address stays inside.
\<close>

theorem whip_proxy_guarded:
  "(\<exists>token claims. bearer_token (or_default (wr_authorization req) []) = Some token \<and>
      verifyPublisherToken J secret now token = Some claims \<and> pt_liveId claims = i) \<or>
   (\<exists>reason. post_whip sv (verifyPublisherToken J secret now) req i w = (Inr (whip_unauthorized reason), w) \<and>
      delete_whip (verifyPublisherToken J secret now) req i = whip_unauthorized reason)"
  by (auto simp: post_whip_def delete_whip_def authorise_def io_return_def split: option.splits)


end
