(* ===== verification/RegisterContent.thy ===== *)
theory RegisterContent
  imports Did
begin

unbundle bit_operations_syntax

text \<open>
  \<open>packages/auth/src/register-content.ts\<close>: what a creator signs to register content, and the
  placeholder manifest identifier. Parameters: \<open>keccak256\<close>, and the text of a number that is
  not a plain integer (\<open>num_text\<close>). The contract's typehash string is copied from
  \<open>packages/contracts/src/ContentRegistry.sol\<close>, to state that both sides agree.
\<close>

subsection \<open>Deployments and ABI\<close>

definition content_registry_address :: "(nat \<times> string) list" where
  "content_registry_address = [(chain_id_sepolia, ''0x07ffbcB245bcD8aA08F8dA75B2AeDE750d5592F0'')]"

definition contentRegistryAddress :: "nat \<Rightarrow> string result" where
  "contentRegistryAddress chainId =
     (case map_of content_registry_address chainId of
        None \<Rightarrow> Inl (Error (''ContentRegistry is not deployed on chainId='' @ show_nat chainId @
          ''. Supported chains: '' @ join_with '', '' (map (show_nat \<circ> fst) content_registry_address)))
      | Some address \<Rightarrow> Inr address)"

record abi_param =
  ap_name :: string
  ap_type :: string

record abi_entry =
  ae_type :: string
  ae_name :: string
  ae_stateMutability :: "string option"
  ae_inputs :: "(abi_param \<times> bool option) list" \<comment> \<open>with \<open>indexed\<close>, for events\<close>
  ae_outputs :: "abi_param list option"

definition par :: "string \<Rightarrow> string \<Rightarrow> abi_param" where
  "par n t = \<lparr>ap_name = n, ap_type = t\<rparr>"

definition content_registry_abi :: "abi_entry list" where
  "content_registry_abi =
     [\<lparr>ae_type = ''function'', ae_name = ''registerContent'', ae_stateMutability = Some ''nonpayable'',
       ae_inputs = [(par ''owner'' ''address'', None), (par ''manifestCid'' ''bytes32'', None),
         (par ''parentCid'' ''bytes32'', None), (par ''policyFlags'' ''uint8'', None),
         (par ''signature'' ''bytes'', None)],
       ae_outputs = Some []\<rparr>,
      \<lparr>ae_type = ''function'', ae_name = ''nonces'', ae_stateMutability = Some ''view'',
       ae_inputs = [(par ''owner'' ''address'', None)], ae_outputs = Some [par '''' ''uint256'']\<rparr>,
      \<lparr>ae_type = ''function'', ae_name = ''isRegistered'', ae_stateMutability = Some ''view'',
       ae_inputs = [(par ''manifestCid'' ''bytes32'', None)], ae_outputs = Some [par '''' ''bool'']\<rparr>,
      \<lparr>ae_type = ''event'', ae_name = ''ContentRegistered'', ae_stateMutability = None,
       ae_inputs = [(par ''manifestCid'' ''bytes32'', Some True), (par ''owner'' ''address'', Some True),
         (par ''parentCid'' ''bytes32'', Some True), (par ''timestamp'' ''uint64'', Some False),
         (par ''policyFlags'' ''uint8'', Some False)],
       ae_outputs = None\<rparr>]"

subsection \<open>Typed data\<close>

definition domain_name :: string where
  "domain_name = ''Aevia ContentRegistry''"

definition domain_version :: string where
  "domain_version = ''1''"

definition register_content_types :: "(string \<times> abi_param list) list" where
  "register_content_types =
     [(''RegisterContent'',
       [par ''owner'' ''address'', par ''manifestCid'' ''bytes32'', par ''parentCid'' ''bytes32'',
        par ''policyFlags'' ''uint8'', par ''chainId'' ''uint256'', par ''nonce'' ''uint256''])]"

record typed_data_args =
  ta_owner :: string
  ta_manifestCid :: string
  ta_parentCid :: string
  ta_policyFlags :: jsnum
  ta_chainId :: nat
  ta_nonce :: int
  ta_verifyingContract :: string

record typed_data_domain =
  td_name :: string
  td_version :: string
  td_domainChainId :: nat
  td_verifyingContract :: string

record typed_data_message =
  tm_owner :: string
  tm_manifestCid :: string
  tm_parentCid :: string
  tm_policyFlags :: jsnum
  tm_chainId :: nat
  tm_nonce :: jsnum

record typed_data =
  td_domain :: typed_data_domain
  td_types :: "(string \<times> abi_param list) list"
  td_primaryType :: string
  td_message :: typed_data_message

fun out_of_uint8 :: "jsnum \<Rightarrow> bool" where
  \<comment> \<open>\<open>policyFlags < 0 || policyFlags > 0xff\<close>\<close>
  "out_of_uint8 (Fin x) = (x < 0 \<or> x > 255)"
| "out_of_uint8 PInf = True"
| "out_of_uint8 NInf = True"
| "out_of_uint8 NaN = False"

fun to_int32 :: "jsnum \<Rightarrow> 32 word" where
  \<comment> \<open>JavaScript's \<open>ToInt32\<close>: truncated, modulo \<open>2 ^ 32\<close>\<close>
  "to_int32 (Fin x) = word_of_int (if 0 \<le> x then \<lfloor>x\<rfloor> else \<lceil>x\<rceil>)"
| "to_int32 _ = 0"

definition max_safe_integer :: int where
  "max_safe_integer = 2 ^ 53 - 1"

definition buildRegisterContentTypedData :: "(jsnum \<Rightarrow> string) \<Rightarrow> typed_data_args \<Rightarrow> typed_data result" where
  "buildRegisterContentTypedData num_text args =
     (if out_of_uint8 (ta_policyFlags args)
      then Inl (Error (''policyFlags out of uint8 range: '' @ num_text (ta_policyFlags args)))
      else if to_int32 (ta_policyFlags args) AND 0x80 \<noteq> 0
      then Inl (Error ''policyFlags top bit (0x80) is reserved for moderator use'')
      else if max_safe_integer < ta_nonce args
      then Inl (Error (''nonce '' @ show_nat (nat (ta_nonce args)) @
        '' exceeds Number.MAX_SAFE_INTEGER; typed-data emitter needs a bigint-safe path''))
      else Inr
        \<lparr>td_domain = \<lparr>td_name = domain_name, td_version = domain_version,
           td_domainChainId = ta_chainId args, td_verifyingContract = ta_verifyingContract args\<rparr>,
         td_types = register_content_types,
         td_primaryType = ''RegisterContent'',
         td_message = \<lparr>tm_owner = ta_owner args, tm_manifestCid = ta_manifestCid args,
           tm_parentCid = ta_parentCid args, tm_policyFlags = ta_policyFlags args,
           tm_chainId = ta_chainId args, tm_nonce = Fin (of_int (ta_nonce args))\<rparr>\<rparr>)"

subsection \<open>The placeholder manifest identifier\<close>

definition videoUidToBytes32 :: "string \<Rightarrow> string" where
  "videoUidToBytes32 videoUid =
     (let hex = to_lower (filter is_hex videoUid)
      in if 64 \<le> length hex then take 64 hex else pad_end 64 CHR ''0'' hex)"

definition strip_0x :: "string \<Rightarrow> string" where
  "strip_0x s = (if starts_with ''0x'' s then drop 2 s else s)"

definition placeholder_preimage :: "string \<Rightarrow> string \<Rightarrow> nat \<Rightarrow> string" where
  "placeholder_preimage videoUid owner createdAtSeconds =
     (let videoHex = videoUidToBytes32 videoUid;
          ownerHex = pad_start 40 CHR ''0'' (strip_0x (to_lower owner));
          tsHex = pad_start 16 CHR ''0'' (show_hex createdAtSeconds)
      in ''0x'' @ videoHex @ ownerHex @ tsHex)"

definition sprint2PlaceholderManifestCid :: "(string \<Rightarrow> string) \<Rightarrow> string \<Rightarrow> string \<Rightarrow> nat \<Rightarrow> string" where
  "sprint2PlaceholderManifestCid keccak256 videoUid owner createdAtSeconds =
     keccak256 (placeholder_preimage videoUid owner createdAtSeconds)"

subsection \<open>Facts\<close>

definition encode_type :: "string \<times> abi_param list \<Rightarrow> string" where
  \<comment> \<open>EIP-712's \<open>encodeType\<close> of a struct of plain fields\<close>
  "encode_type t = fst t @ ''('' @ join_with '','' (map (\<lambda>p. ap_type p @ '' '' @ ap_name p) (snd t)) @ '')''"

lemma reserved_bit:
  assumes "0 \<le> k" "k < (256 :: int)"
  shows "(word_of_int k :: 32 word) AND 0x80 = 0 \<longleftrightarrow> k < 128"
proof -
  have "(0x80 :: 32 word) = 2 ^ 7" by simp
  then have "(word_of_int k :: 32 word) AND 0x80 = 0 \<longleftrightarrow> \<not> bit (word_of_int k :: 32 word) 7"
    by (simp only: and_exp_eq_0_iff_not_bit)
  moreover have "bit (word_of_int k :: 32 word) 7 \<longleftrightarrow> odd (k div 128)"
    by (simp add: bit_word_of_int_iff) (simp add: bit_iff_odd)
  moreover have "odd (k div 128) \<longleftrightarrow> 128 \<le> k"
    using assms by presburger
  ultimately show ?thesis by auto
qed

lemma flags_accepted:
  "\<not> out_of_uint8 f \<and> to_int32 f AND 0x80 = 0 \<longleftrightarrow> f = NaN \<or> (\<exists>x. f = Fin x \<and> 0 \<le> x \<and> x < 128)"
proof (cases f)
  case (Fin x)
  show ?thesis
  proof (cases "0 \<le> x \<and> x \<le> 255")
    case True
    then have "0 \<le> \<lfloor>x\<rfloor>" "\<lfloor>x\<rfloor> < 256" by (auto simp: floor_less_iff)
    from reserved_bit [OF this] True Fin show ?thesis by (auto simp: floor_less_iff)
  qed (use Fin in auto)
qed auto

lemma video_hex: "length (videoUidToBytes32 u) = 64 \<and> list_all is_lower_hex (videoUidToBytes32 u)"
proof -
  let ?hex = "to_lower (filter is_hex u)"
  have hex: "list_all is_lower_hex ?hex"
    by (auto simp: to_lower_def list_all_iff intro: lower_char_hex)
  then have "list_all is_lower_hex (take 64 ?hex)" by (auto simp: list_all_iff dest: in_set_takeD)
  with pad_lower_hex(2) [OF hex, of 64] show ?thesis
    by (cases "64 \<le> length ?hex") (simp_all add: videoUidToBytes32_def Let_def length_pad_end)
qed

lemma video_uid_collision:
  assumes "length (filter is_hex u) < 64"
  shows "videoUidToBytes32 (u @ ''0'') = videoUidToBytes32 u"
proof -
  define h where "h = to_lower (filter is_hex u)"
  have n: "length h < 64" using assms by (simp add: h_def to_lower_def)
  have "is_hex CHR ''0''" "lower_char CHR ''0'' = CHR ''0''"
    by (simp_all add: is_hex_def lower_char_def code_def)
  then have "to_lower (filter is_hex (u @ ''0'')) = h @ ''0''" by (simp add: h_def to_lower_def)
  moreover have "64 - length h = Suc (63 - length h)" using n by linarith
  then have "pad_end 64 CHR ''0'' (h @ ''0'') = pad_end 64 CHR ''0'' h" by (simp add: pad_end_def)
  moreover have "take 64 (h @ ''0'') = pad_end 64 CHR ''0'' h" if "length h = 63"
    using that by (simp add: pad_end_def)
  ultimately show ?thesis using n
    by (cases "length h = 63") (simp_all add: videoUidToBytes32_def Let_def length_pad_end flip: h_def)
qed

lemma owner_hex:
  assumes "address_ok owner"
  shows "pad_start 40 CHR ''0'' (strip_0x (to_lower owner)) = drop 2 (to_lower owner)"
    "list_all is_lower_hex (drop 2 (to_lower owner))" "length (drop 2 (to_lower owner)) = 40"
    "to_lower owner = ''0x'' @ drop 2 (to_lower owner)"
proof -
  have low: "take 2 (to_lower owner) = ''0x''" "length (to_lower owner) = 42"
    "list_all is_lower_hex (drop 2 (to_lower owner))"
    using address_lower [OF assms] by (simp_all add: lower_hex0x_def)
  then have "starts_with ''0x'' (to_lower owner)" by (simp add: starts_with_def numeral_2_eq_2)
  with low show "pad_start 40 CHR ''0'' (strip_0x (to_lower owner)) = drop 2 (to_lower owner)"
    by (simp add: strip_0x_def pad_start_def)
  show "list_all is_lower_hex (drop 2 (to_lower owner))" "length (drop 2 (to_lower owner)) = 40"
    using low by simp_all
  show "to_lower owner = ''0x'' @ drop 2 (to_lower owner)" using low(1) by (metis append_take_drop_id)
qed

lemma stamp_hex:
  assumes "ts < 16 ^ 16"
  shows "length (pad_start 16 CHR ''0'' (show_hex ts)) = 16"
    "list_all is_lower_hex (pad_start 16 CHR ''0'' (show_hex ts))"
  using length_show_hex [of ts 15] assms
  by (simp_all add: length_pad_start pad_lower_hex show_hex_lower)

lemma preimage_split:
  assumes "address_ok o1"
  shows "placeholder_preimage u o1 t =
    ''0x'' @ videoUidToBytes32 u @ drop 2 (to_lower o1) @ pad_start 16 CHR ''0'' (show_hex t)"
  using owner_hex(1) [OF assms] by (simp add: placeholder_preimage_def Let_def)

subsection \<open>Properties\<close>

text \<open>
  \<open>buildRegisterContentTypedData\<close> succeeds exactly for policy flags from 0 below 128 (or
  \<open>NaN\<close>, which no comparison rejects; fractions pass too) and a nonce a double holds exactly;
  then the message carries the caller's values, the nonce unchanged, the domain's chain is the
  message's, and the struct it declares encodes to the contract's own typehash string.
\<close>

lemma typed_data_correct:
  "((\<exists>td. buildRegisterContentTypedData num_text args = Inr td) \<longleftrightarrow>
     (ta_policyFlags args = NaN \<or> (\<exists>x. ta_policyFlags args = Fin x \<and> 0 \<le> x \<and> x < 128)) \<and>
     ta_nonce args \<le> 2 ^ 53 - 1) \<and>
   (case buildRegisterContentTypedData num_text args of
      Inl e \<Rightarrow> True
    | Inr td \<Rightarrow>
        td_message td = \<lparr>tm_owner = ta_owner args, tm_manifestCid = ta_manifestCid args,
          tm_parentCid = ta_parentCid args, tm_policyFlags = ta_policyFlags args,
          tm_chainId = ta_chainId args, tm_nonce = Fin (of_int (ta_nonce args))\<rparr> \<and>
        td_domainChainId (td_domain td) = tm_chainId (td_message td) \<and>
        td_verifyingContract (td_domain td) = ta_verifyingContract args \<and>
        (\<exists>fields. map_of (td_types td) (td_primaryType td) = Some fields \<and>
           encode_type (td_primaryType td, fields) =
           ''RegisterContent(address owner,bytes32 manifestCid,bytes32 parentCid,uint8 policyFlags,uint256 chainId,uint256 nonce)''))"
  using flags_accepted [of "ta_policyFlags args"]
  by (auto simp: buildRegisterContentTypedData_def max_safe_integer_def register_content_types_def
      encode_type_def par_def)

text \<open>
  The bytes hashed into a placeholder identifier are always 60: the UID as 32, the owner
  as 20, the time as 8. Two registrations hash the same bytes exactly when their times, their
  owners up to case and their coerced UIDs agree; but appending a \<open>0\<close> to a UID of fewer
  than 64 hex digits does not change the coerced UID, against the comment that every UID
  produces a unique one.
\<close>

lemma placeholder_preimage_correct:
  assumes "address_ok o1" "address_ok o2" "t1 < 16 ^ 16" "t2 < 16 ^ 16"
  shows "lower_hex0x 120 (placeholder_preimage u o1 t1) \<and>
    (placeholder_preimage u o1 t1 = placeholder_preimage v o2 t2 \<longleftrightarrow>
       videoUidToBytes32 u = videoUidToBytes32 v \<and> to_lower o1 = to_lower o2 \<and> t1 = t2) \<and>
    (length (filter is_hex u) < 64 \<longrightarrow>
       sprint2PlaceholderManifestCid keccak (u @ ''0'') o1 t1 = sprint2PlaceholderManifestCid keccak u o1 t1)"
proof -
  note o1 = owner_hex [OF assms(1)] and o2 = owner_hex [OF assms(2)]
  note t1 = stamp_hex [OF assms(3)] and t2 = stamp_hex [OF assms(4)]
  have hex: "lower_hex0x 120 (placeholder_preimage u o1 t1)"
    using video_hex [of u] o1(2,3) t1
    by (simp add: preimage_split [OF assms(1)] lower_hex0x_def)
  have stamp: "t1 = t2" if "pad_start 16 CHR ''0'' (show_hex t1) = pad_start 16 CHR ''0'' (show_hex t2)"
    using arg_cong [OF that, of read_hex] by simp
  have owner: "to_lower o1 = to_lower o2" if "drop 2 (to_lower o1) = drop 2 (to_lower o2)"
    using that o1(4) o2(4) by metis
  have "placeholder_preimage u o1 t1 = placeholder_preimage v o2 t2 \<longleftrightarrow>
       videoUidToBytes32 u = videoUidToBytes32 v \<and> to_lower o1 = to_lower o2 \<and> t1 = t2"
    using video_hex [of u] video_hex [of v] o1(3) o2(3) stamp owner
    by (auto simp: preimage_split [OF assms(1)] preimage_split [OF assms(2)])
  moreover have "length (filter is_hex u) < 64 \<longrightarrow>
       sprint2PlaceholderManifestCid keccak (u @ ''0'') o1 t1 = sprint2PlaceholderManifestCid keccak u o1 t1"
    using video_uid_collision by (simp add: sprint2PlaceholderManifestCid_def placeholder_preimage_def)
  ultimately show ?thesis using hex by blast
qed

theorem placeholder_preimage_correct_witness:
  "lower_hex0x 120 (placeholder_preimage ''ab'' ''0x00000000000000000000000000000000000000AB'' 1700000000) \<and>
   sprint2PlaceholderManifestCid rev ''ab0'' ''0x00000000000000000000000000000000000000AB'' 1700000000 =
   sprint2PlaceholderManifestCid rev ''ab'' ''0x00000000000000000000000000000000000000AB'' 1700000000"
proof -
  have ok: "address_ok ''0x00000000000000000000000000000000000000AB''"
    by (simp add: address_ok_def hex0x_def is_hex_def code_def)
  have t: "(1700000000 :: nat) < 16 ^ 16" by simp
  have "length (filter is_hex ''ab'') < 64" by (simp add: is_hex_def code_def)
  with placeholder_preimage_correct [OF ok ok t t, of "''ab''" "''ab''" rev] show ?thesis by simp
qed

end
