(* ===== verification/Relayer.thy ===== *)
theory Relayer
  imports RegisterMeta RegisterContent
begin

text \<open>
  The gas-sponsored registration, \<open>app/api/lives/[id]/register-relayed/route.ts\<close>: the checks
  before the relayer pays, the transaction, and the count of free registrations of an owner,
  in a KV namespace or, without one, in a map of the isolate. The chain client (viem) is a
  parameter, a record of the calls the route makes of it.
\<close>

subsection \<open>State and services\<close>

text \<open>The module's \<open>FALLBACK_COUNTS\<close> beside the outside world.\<close>

record 'w isolate =
  is_counts :: "string \<Rightarrow> real option"
  is_world :: 'w

definition outer :: "('w, 'a) io \<Rightarrow> ('w isolate, 'a) io" where
  \<comment> \<open>what a call to the outside does to the isolate's state\<close>
  "outer m st = (case m (is_world st) of (r, w1) \<Rightarrow> (r, st\<lparr>is_world := w1\<rparr>))"

record 'w kv_namespace =
  kv_get :: "string \<Rightarrow> ('w, string option) io"
  kv_put :: "string \<Rightarrow> string \<Rightarrow> ('w, unit) io"

text \<open>What \<open>process.env[KV_BINDING]\<close> may hold.\<close>

datatype 'w binding =
    Unbound
  | Bound_Text string
  | Bound_Object "(string \<Rightarrow> ('w, string option) io) option" "(string \<Rightarrow> string \<Rightarrow> ('w, unit) io) option"

record receipt =
  rc_status :: string
  rc_blockNumber :: nat

record relayed_request =
  rq_owner :: string
  rq_manifestCid :: string
  rq_parentCid :: string
  rq_policyFlags :: jsnum
  rq_signature :: string

record 'w chain_client =
  cc_nonces :: "string \<Rightarrow> string \<Rightarrow> ('w, nat) io" \<comment> \<open>of the registry, for an owner\<close>
  cc_getCode :: "string \<Rightarrow> ('w, string option) io"
  cc_verifyTypedData :: "string \<Rightarrow> typed_data \<Rightarrow> string \<Rightarrow> bool result"
  cc_account :: "string \<Rightarrow> string result" \<comment> \<open>\<open>privateKeyToAccount\<close>\<close>
  cc_registerContent :: "string \<Rightarrow> string \<Rightarrow> relayed_request \<Rightarrow> ('w, string) io"
    \<comment> \<open>\<open>writeContract\<close> from an account to the registry\<close>
  cc_waitReceipt :: "string \<Rightarrow> nat \<Rightarrow> ('w, receipt) io"

subsection \<open>The sponsorship count\<close>

definition max_free_registrations :: nat where
  "max_free_registrations = 10"

definition relayer_tx_timeout_ms :: nat where
  "relayer_tx_timeout_ms = 30000"

definition kv_key :: "string \<Rightarrow> string" where
  "kv_key owner = ''owner:'' @ to_lower owner"

definition resolveKvBinding :: "'w binding \<Rightarrow> 'w kv_namespace option" where
  "resolveKvBinding raw =
     (case raw of
        Bound_Object (Some g) (Some p) \<Rightarrow> Some \<lparr>kv_get = g, kv_put = p\<rparr>
      | _ \<Rightarrow> None)"

definition stored_count :: "string option \<Rightarrow> real" where
  "stored_count raw =
     (if \<not> truthy raw then 0
      else (case js_Number (the raw) of Fin x \<Rightarrow> if 0 \<le> x then x else 0 | _ \<Rightarrow> 0))"

definition readCount :: "'w binding \<Rightarrow> string \<Rightarrow> ('w isolate, real) io" where
  "readCount raw owner =
     (case resolveKvBinding raw of
        None \<Rightarrow> (\<lambda>st. (Inr (or_default (is_counts st (to_lower owner)) 0), st))
      | Some kv \<Rightarrow> io_bind (outer (kv_get kv (kv_key owner))) (\<lambda>v. io_return (stored_count v)))"

definition incrementCount :: "(real \<Rightarrow> string) \<Rightarrow> 'w binding \<Rightarrow> string \<Rightarrow> real \<Rightarrow> ('w isolate, unit) io" where
  "incrementCount nt raw owner n =
     (case resolveKvBinding raw of
        None \<Rightarrow> (\<lambda>st. (Inr (), st\<lparr>is_counts := (is_counts st)(to_lower owner \<mapsto> n)\<rparr>))
      | Some kv \<Rightarrow> outer (kv_put kv (kv_key owner) (js_String nt n)))"

subsection \<open>The request\<close>

definition sig_hex :: "string \<Rightarrow> bool" where
  \<comment> \<open>\<open>/^0x[0-9a-fA-F]+$/\<close>\<close>
  "sig_hex s = (take 2 s = ''0x'' \<and> 2 < length s \<and> list_all is_hex (drop 2 s))"

definition parseBody :: "json \<Rightarrow> string + relayed_request" where
  "parseBody raw =
     (if \<not> is_object raw then Inl ''invalid_payload''
      else
        let owner = or_default (as_str (jget raw ''owner'')) [];
            manifestCid = or_default (as_str (jget raw ''manifestCid'')) [];
            parentCid = or_default (as_str (jget raw ''parentCid'')) [];
            signature = or_default (as_str (jget raw ''signature'')) [];
            policyFlags = or_default (as_num (jget raw ''policyFlags'')) (Fin (- 1))
        in if \<not> hex0x 40 owner then Inl ''invalid_payload: owner''
           else if \<not> hex0x 64 manifestCid then Inl ''invalid_payload: manifestCid''
           else if \<not> hex0x 64 parentCid then Inl ''invalid_payload: parentCid''
           else if \<not> sig_hex signature \<or> length signature < 2 + 2 * 65 then Inl ''invalid_payload: signature''
           else if out_of_uint8 policyFlags then Inl ''invalid_payload: policyFlags''
           else if to_int32 policyFlags AND 0x80 \<noteq> 0 then Inl ''invalid_payload: reserved policy bit''
           else Inr
             \<lparr>rq_owner = to_lower owner, rq_manifestCid = to_lower manifestCid,
              rq_parentCid = to_lower parentCid, rq_policyFlags = policyFlags, rq_signature = signature\<rparr>)"

subsection \<open>The handler\<close>

definition relay_typed_data :: "nat \<Rightarrow> string \<Rightarrow> nat \<Rightarrow> relayed_request \<Rightarrow> typed_data" where
  \<comment> \<open>what the signature is verified over\<close>
  "relay_typed_data chainId registry nonce req =
     \<lparr>td_domain = \<lparr>td_name = ''Aevia ContentRegistry'', td_version = ''1'',
        td_domainChainId = chainId, td_verifyingContract = registry\<rparr>,
      td_types = register_content_types, td_primaryType = ''RegisterContent'',
      td_message = \<lparr>tm_owner = rq_owner req, tm_manifestCid = rq_manifestCid req,
        tm_parentCid = rq_parentCid req, tm_policyFlags = rq_policyFlags req,
        tm_chainId = chainId, tm_nonce = Fin (of_nat nonce)\<rparr>\<rparr>"

definition submission_failed :: "string \<Rightarrow> (string \<times> json) list \<Rightarrow> 'w route" where
  "submission_failed reason extra =
     respond 502 ([(''error'', JStr ''relayer_submission_failed''), (''reason'', JStr reason)] @ extra)"

definition relay_settle ::
  "'w server \<Rightarrow> (string \<Rightarrow> real \<Rightarrow> ('w isolate, unit) io) \<Rightarrow> string \<Rightarrow> relayed_request \<Rightarrow> real \<Rightarrow>
   string \<Rightarrow> nat \<Rightarrow> 'w isolate route" where
  \<comment> \<open>step 9: count, then store the metadata; a failed store is only logged\<close>
  "relay_settle sv inc i req used txHash block =
     (let nextCount = used + 1 in
      io_bind (inc (rq_owner req) nextCount) (\<lambda>_.
      io_bind (io_try (outer (persistRegistrationMeta sv i
          \<lparr>rm_manifestCid = rq_manifestCid req, rm_registerTxHash = txHash,
           rm_registerBlock = of_nat block, rm_sponsored = True\<rparr>))) (\<lambda>_.
      respond 200
        [(''ok'', JBool True), (''manifestCid'', JStr (rq_manifestCid req)), (''txHash'', JStr txHash),
         (''block'', jnat block), (''sponsored'', JBool True),
         (''remaining'', JNum (Fin (max 0 (of_nat max_free_registrations - nextCount))))])))"

definition is_timeout :: "string \<Rightarrow> bool" where
  \<comment> \<open>\<open>/timed? ?out|Timeout/i\<close>\<close>
  "is_timeout m = (\<exists>p \<in> {''timeout'', ''time out'', ''timedout'', ''timed out''}. contains p (to_lower m))"

definition relay_confirm ::
  "'w server \<Rightarrow> 'w chain_client \<Rightarrow> (string \<Rightarrow> real \<Rightarrow> ('w isolate, unit) io) \<Rightarrow> string \<Rightarrow>
   relayed_request \<Rightarrow> real \<Rightarrow> string \<Rightarrow> 'w isolate route" where
  \<comment> \<open>step 8\<close>
  "relay_confirm sv cc inc i req used txHash =
     io_bind (io_try (outer (cc_waitReceipt cc txHash relayer_tx_timeout_ms))) (\<lambda>r.
       case r of
         Inl e \<Rightarrow>
           let message = err_message ''timeout'' e in
           if is_timeout message
           then respond 504 [(''error'', JStr ''relayer_timeout''), (''reason'', JStr message), (''txHash'', JStr txHash)]
           else submission_failed message [(''txHash'', JStr txHash)]
       | Inr rec \<Rightarrow>
           if rc_status rec \<noteq> ''success''
           then submission_failed (''reverted at block '' @ show_nat (rc_blockNumber rec)) [(''txHash'', JStr txHash)]
           else relay_settle sv inc i req used txHash (rc_blockNumber rec))"

definition relay_submit ::
  "'w server \<Rightarrow> 'w chain_client \<Rightarrow> (string \<Rightarrow> real \<Rightarrow> ('w isolate, unit) io) \<Rightarrow> relayer_env \<Rightarrow> string \<Rightarrow>
   string \<Rightarrow> relayed_request \<Rightarrow> real \<Rightarrow> 'w isolate route" where
  \<comment> \<open>step 7\<close>
  "relay_submit sv cc inc renv registry i req used =
     io_bind (io_lift (cc_account cc (re_privateKey renv))) (\<lambda>account.
     io_bind (io_try (outer (cc_registerContent cc account registry req))) (\<lambda>r.
       case r of
         Inl e \<Rightarrow>
           let message = err_message ''write_failed'' e in
           if contains ''alreadyregistered'' (to_lower message)
           then respond_error 409 ''already_registered''
           else submission_failed message []
       | Inr txHash \<Rightarrow> relay_confirm sv cc inc i req used txHash))"

definition signature_check ::
  "'w chain_client \<Rightarrow> nat \<Rightarrow> string \<Rightarrow> nat \<Rightarrow> relayed_request \<Rightarrow> route_response option" where
  \<comment> \<open>the refusal, if the local verification gives one\<close>
  "signature_check cc chainId registry nonce req =
     (case cc_verifyTypedData cc (rq_owner req) (relay_typed_data chainId registry nonce req) (rq_signature req) of
        Inl e \<Rightarrow> Some (json_response 400
          [(''error'', JStr ''signature_invalid''), (''reason'', JStr (err_message ''verify_failed'' e))])
      | Inr ok \<Rightarrow> if ok then None else Some (json_response 400 [(''error'', JStr ''signature_invalid'')]))"

definition has_code :: "string option result \<Rightarrow> bool" where
  "has_code r = (case r of Inr (Some c) \<Rightarrow> c \<noteq> [] \<and> c \<noteq> ''0x'' | _ \<Rightarrow> False)"

definition relay_verify ::
  "'w server \<Rightarrow> 'w chain_client \<Rightarrow> (string \<Rightarrow> real \<Rightarrow> ('w isolate, unit) io) \<Rightarrow> relayer_env \<Rightarrow> nat \<Rightarrow>
   string \<Rightarrow> relayed_request \<Rightarrow> real \<Rightarrow> 'w isolate route" where
  \<comment> \<open>step 6: the nonce, the owner's code, the signature of an owner without code\<close>
  "relay_verify sv cc inc renv chainId i req used =
     io_bind (io_lift (contentRegistryAddress chainId)) (\<lambda>registry.
     io_bind (io_try (outer (cc_nonces cc registry (rq_owner req)))) (\<lambda>n.
       case n of
         Inl e \<Rightarrow> submission_failed (err_message ''rpc_read_failed'' e) []
       | Inr nonce \<Rightarrow>
           io_bind (io_try (outer (cc_getCode cc (rq_owner req)))) (\<lambda>code.
             case (if has_code code then None else signature_check cc chainId registry nonce req) of
               Some refusal \<Rightarrow> io_return refusal
             | None \<Rightarrow> relay_submit sv cc inc renv registry i req used)))"

definition relay_budget ::
  "'w server \<Rightarrow> 'w chain_client \<Rightarrow> (string \<Rightarrow> ('w isolate, real) io) \<Rightarrow>
   (string \<Rightarrow> real \<Rightarrow> ('w isolate, unit) io) \<Rightarrow> relayer_env \<Rightarrow> nat \<Rightarrow> string \<Rightarrow>
   relayed_request \<Rightarrow> 'w isolate route" where
  \<comment> \<open>step 5\<close>
  "relay_budget sv cc rd inc renv chainId i req =
     io_bind (rd (rq_owner req)) (\<lambda>used.
       if of_nat max_free_registrations \<le> used
       then respond 402 [(''error'', JStr ''sponsorship_cap_exceeded''), (''limit'', jnat max_free_registrations),
              (''used'', JNum (Fin used))]
       else relay_verify sv cc inc renv chainId i req used)"

definition relay_route ::
  "'w server \<Rightarrow> 'w chain_client \<Rightarrow> (string \<Rightarrow> ('w isolate, real) io) \<Rightarrow>
   (string \<Rightarrow> real \<Rightarrow> ('w isolate, unit) io) \<Rightarrow> relayer_env option \<Rightarrow> nat \<Rightarrow>
   aevia_session option result \<Rightarrow> string \<Rightarrow> json result \<Rightarrow> 'w isolate route" where
  \<comment> \<open>steps 1 to 4, with the counter's two operations\<close>
  "relay_route sv cc rd inc renv chainId session i body =
     with_session session (\<lambda>s.
       case renv of
         None \<Rightarrow> respond_error 500 ''relayer_not_configured''
       | Some re \<Rightarrow>
           (case body of
              Inl _ \<Rightarrow> respond_error 400 ''invalid_payload''
            | Inr b \<Rightarrow>
                (case parseBody b of
                   Inl msg \<Rightarrow> respond_error 400 msg
                 | Inr req \<Rightarrow>
                     if rq_owner req \<noteq> to_lower (as_address s) then respond_error 403 ''forbidden''
                     else io_bind (outer (resolveLiveOwnership sv i (as_address s))) (\<lambda>ownership.
                       case ownership of
                         None \<Rightarrow> respond_error 403 ''forbidden''
                       | Some own \<Rightarrow>
                           if \<not> ow_owned own then respond_error 403 ''forbidden''
                           else if other_manifest (ow_live own) (rq_manifestCid req)
                           then respond_error 409 ''manifestCid already set for this live''
                           else relay_budget sv cc rd inc re chainId i req))))"

definition post_register_relayed ::
  "'w server \<Rightarrow> 'w chain_client \<Rightarrow> 'w binding \<Rightarrow> relayer_env option \<Rightarrow> nat \<Rightarrow>
   aevia_session option result \<Rightarrow> string \<Rightarrow> json result \<Rightarrow> 'w isolate route" where
  "post_register_relayed sv cc raw =
     relay_route sv cc (readCount raw) (incrementCount (sv_numText sv) raw)"

subsection \<open>Runs of requests\<close>

record 'w relay_call =
  rl_server :: "'w server"
  rl_chain :: "'w chain_client"
  rl_env :: "relayer_env option"
  rl_chainId :: nat
  rl_session :: "aevia_session option result"
  rl_live :: string
  rl_body :: "json result"

definition granted :: "route_response result \<Rightarrow> bool" where
  \<comment> \<open>a sponsored registration\<close>
  "granted r = (case r of Inl _ \<Rightarrow> False | Inr resp \<Rightarrow> rr_status resp = 200)"

definition owner_of :: "json result \<Rightarrow> string" where
  \<comment> \<open>the owner a body names, in lower case, if it is accepted\<close>
  "owner_of body =
     (case body of Inl _ \<Rightarrow> [] | Inr b \<Rightarrow> (case parseBody b of Inl _ \<Rightarrow> [] | Inr req \<Rightarrow> rq_owner req))"

definition relay_answer ::
  "(string \<Rightarrow> ('w isolate, real) io) \<Rightarrow> (string \<Rightarrow> real \<Rightarrow> ('w isolate, unit) io) \<Rightarrow> 'w relay_call \<Rightarrow>
   'w isolate route" where
  "relay_answer rd inc c =
     relay_route (rl_server c) (rl_chain c) rd inc (rl_env c) (rl_chainId c) (rl_session c) (rl_live c) (rl_body c)"

fun relayer_run ::
  "('w relay_call \<Rightarrow> 'w isolate route) \<Rightarrow> string \<Rightarrow> 'w relay_call list \<Rightarrow> 'w isolate \<Rightarrow> nat \<times> 'w isolate" where
  \<comment> \<open>requests one after the other; the number of registrations granted to an owner\<close>
  "relayer_run answer p [] st = (0, st)"
| "relayer_run answer p (c # cs) st =
     (let (r, st1) = answer c st; (n, st2) = relayer_run answer p cs st1
      in (if granted r \<and> owner_of (rl_body c) = to_lower p then Suc n else n, st2))"

definition relayed_post :: "'w binding \<Rightarrow> 'w relay_call \<Rightarrow> 'w isolate route" where
  "relayed_post raw c =
     post_register_relayed (rl_server c) (rl_chain c) raw (rl_env c) (rl_chainId c) (rl_session c) (rl_live c) (rl_body c)"

definition accounted ::
  "('s \<Rightarrow> string \<Rightarrow> real) \<Rightarrow> string \<Rightarrow> 's \<Rightarrow> route_response result \<times> 's \<Rightarrow> bool" where
  \<comment> \<open>a granted registration adds one to the count of its owner, which was below the cap;
    any other answer leaves the counts\<close>
  "accounted cnt ow st res =
     ((granted (fst res) \<longrightarrow> cnt st ow < of_nat max_free_registrations) \<and>
      (\<forall>p. cnt (snd res) p = cnt st p + (if granted (fst res) \<and> to_lower p = to_lower ow then 1 else 0)))"

lemma accounted_same [simp]: "\<not> granted r \<Longrightarrow> accounted cnt ow st (r, st)"
  by (simp add: accounted_def)

lemma granted_simps [simp]:
  "\<not> granted (Inl e)" "granted (Inr (json_response s kvs)) \<longleftrightarrow> s = 200"
  by (simp_all add: granted_def json_response_def)

lemma parseBody_owner: "parseBody b = Inr req \<Longrightarrow> to_lower (rq_owner req) = rq_owner req"
  by (auto simp: parseBody_def Let_def split: if_splits)

text \<open>
  A counter of registrations: reading gives the owner's count and changes nothing, writing
  replaces the count of that owner, whatever the case of its address, and nothing the outside
  world does touches the counts.
\<close>

locale owner_counter =
  fixes rd :: "string \<Rightarrow> ('w isolate, real) io"
    and inc :: "string \<Rightarrow> real \<Rightarrow> ('w isolate, unit) io"
    and cnt :: "'w isolate \<Rightarrow> string \<Rightarrow> real"
  assumes rd: "rd ow st = (Inr (cnt st ow), st)"
    and inc: "\<exists>st1. inc ow n st = (Inr (), st1) \<and>
      (\<forall>p. cnt st1 p = (if to_lower p = to_lower ow then n else cnt st p))"
    and one_count: "to_lower p = to_lower ow \<Longrightarrow> cnt st p = cnt st ow"
    and world: "cnt (st\<lparr>is_world := x\<rparr>) p = cnt st p"
begin

lemma accounted_world: "accounted cnt ow (st\<lparr>is_world := x\<rparr>) res = accounted cnt ow st res"
  by (simp add: accounted_def world)

lemma accounted_refused: "\<not> granted r \<Longrightarrow> accounted cnt ow st (r, st\<lparr>is_world := x\<rparr>)"
  by (simp add: accounted_def world)

lemma accounted_try:
  assumes "\<And>r x. accounted cnt ow (st\<lparr>is_world := x\<rparr>) (k r (st\<lparr>is_world := x\<rparr>))"
  shows "accounted cnt ow st (io_bind (io_try (outer m)) k st)"
  using assms by (simp add: io_bind_def io_try_def outer_def accounted_world split: prod.splits)

lemma accounted_outer:
  assumes "\<And>r x. accounted cnt ow (st\<lparr>is_world := x\<rparr>) (k r (st\<lparr>is_world := x\<rparr>))"
  shows "accounted cnt ow st (io_bind (outer m) k st)"
  using assms
  by (simp add: io_bind_def outer_def accounted_world accounted_refused split: prod.splits sum.splits)

lemma accounted_lift:
  assumes "\<And>r. accounted cnt ow st (k r st)"
  shows "accounted cnt ow st (io_bind (io_lift v) k st)"
  using assms by (cases v) (simp_all add: io_lift_def)

lemma settle_accounted:
  assumes "used = cnt st (rq_owner req)" "used < of_nat max_free_registrations"
  shows "accounted cnt (rq_owner req) st (relay_settle sv inc i req used txHash block st)"
proof -
  obtain st1 where st1: "inc (rq_owner req) (used + 1) st = (Inr (), st1)"
    "\<And>p. cnt st1 p = (if to_lower p = to_lower (rq_owner req) then used + 1 else cnt st p)"
    using inc by metis
  have "cnt st p = used" if "to_lower p = to_lower (rq_owner req)" for p
    using one_count [OF that] assms(1) by simp
  then show ?thesis
    using st1 assms(2)
    by (auto simp: relay_settle_def io_bind_def io_try_def outer_def accounted_def world Let_def
        split: prod.splits)
qed

lemma confirm_accounted:
  assumes "used = cnt st (rq_owner req)" "used < of_nat max_free_registrations"
  shows "accounted cnt (rq_owner req) st (relay_confirm sv cc inc i req used txHash st)"
  unfolding relay_confirm_def
  by (rule accounted_try) (use assms in \<open>auto simp: Let_def submission_failed_def world
    intro!: settle_accounted split: sum.splits\<close>)

lemma submit_accounted:
  assumes "used = cnt st (rq_owner req)" "used < of_nat max_free_registrations"
  shows "accounted cnt (rq_owner req) st (relay_submit sv cc inc renv registry i req used st)"
  unfolding relay_submit_def
  by (intro accounted_lift accounted_try) (use assms in \<open>auto simp: Let_def submission_failed_def world
    intro!: confirm_accounted split: sum.splits\<close>)

lemma refusal_not_granted: "signature_check cc chainId registry nonce req = Some r \<Longrightarrow> \<not> granted (Inr r)"
  by (auto simp: signature_check_def split: sum.splits if_splits)

lemma verify_accounted:
  assumes "used = cnt st (rq_owner req)" "used < of_nat max_free_registrations"
  shows "accounted cnt (rq_owner req) st (relay_verify sv cc inc renv chainId i req used st)"
  unfolding relay_verify_def
proof (intro accounted_lift accounted_try)
  fix registry n x
  show "accounted cnt (rq_owner req) (st\<lparr>is_world := x\<rparr>)
     ((case n of Inl e \<Rightarrow> submission_failed (err_message ''rpc_read_failed'' e) []
       | Inr nonce \<Rightarrow>
           io_bind (io_try (outer (cc_getCode cc (rq_owner req)))) (\<lambda>code.
             case (if has_code code then None else signature_check cc chainId registry nonce req) of
               Some refusal \<Rightarrow> io_return refusal
             | None \<Rightarrow> relay_submit sv cc inc renv registry i req used)) (st\<lparr>is_world := x\<rparr>))"
  proof (cases n)
    case (Inr nonce)
    show ?thesis
      unfolding Inr sum.case
      by (rule accounted_try) (use assms in \<open>auto simp: world io_return_def refusal_not_granted
        intro!: submit_accounted split: option.splits\<close>)
  qed (simp add: submission_failed_def)
qed

lemma budget_accounted:
  "rq_owner req = ow \<Longrightarrow> accounted cnt ow st (relay_budget sv cc rd inc renv chainId i req st)"
  by (auto simp: relay_budget_def io_bind_def rd intro!: verify_accounted)

lemma route_accounted: "accounted cnt (owner_of (rl_body c)) st (relay_answer rd inc c st)"
proof (cases "\<exists>b req. rl_body c = Inr b \<and> parseBody b = Inr req")
  case False
  then show ?thesis
    by (auto simp: relay_answer_def relay_route_def with_session_def io_bind_def io_lift_def
        split: sum.splits option.splits)
next
  case True
  then obtain b req where b: "rl_body c = Inr b" "parseBody b = Inr req" by blast
  have "accounted cnt (rq_owner req) st (relay_answer rd inc c st)"
    unfolding relay_answer_def relay_route_def with_session_def
    by (rule accounted_lift) (auto simp: b intro!: accounted_outer budget_accounted split: option.splits)
  then show ?thesis by (simp add: owner_of_def b)
qed

lemma granted_owner:
  assumes "granted (fst (relay_answer rd inc c st))"
  shows "to_lower (owner_of (rl_body c)) = owner_of (rl_body c)"
  using parseBody_owner by (auto simp: owner_of_def to_lower_def split: sum.splits)

lemma run_counts:
  "relayer_run (relay_answer rd inc) p cs st = (n, st1) \<Longrightarrow>
    cnt st1 p = cnt st p + of_nat n \<and> (0 < n \<longrightarrow> cnt st p + of_nat n < of_nat max_free_registrations + 1)"
proof (induction cs arbitrary: n st)
  case (Cons c cs)
  obtain r st0 where r: "relay_answer rd inc c st = (r, st0)" by fastforce
  obtain m where m: "relayer_run (relay_answer rd inc) p cs st0 = (m, st1)"
    using Cons.prems by (auto simp: r split: prod.splits)
  note IH = Cons.IH [OF m]
  have acc: "accounted cnt (owner_of (rl_body c)) st (r, st0)" using route_accounted [of c st] by (simp add: r)
  have lower: "granted r \<Longrightarrow> to_lower (owner_of (rl_body c)) = owner_of (rl_body c)"
    using granted_owner [of c st] by (simp add: r)
  show ?case
  proof (cases "granted r \<and> owner_of (rl_body c) = to_lower p")
    case True
    then have n: "n = Suc m" using Cons.prems by (simp add: r m)
    have "cnt st p = cnt st (owner_of (rl_body c))" by (rule one_count) (simp add: True)
    moreover have "cnt st0 p = cnt st p + 1" using acc True by (simp add: accounted_def)
    moreover have "cnt st (owner_of (rl_body c)) < of_nat max_free_registrations"
      using acc True by (simp add: accounted_def)
    ultimately show ?thesis using IH n by (cases "m = 0") auto
  next
    case False
    then have n: "n = m" using Cons.prems by (auto simp: r m)
    have "cnt st0 p = cnt st p" using acc False lower by (auto simp: accounted_def)
    with IH n show ?thesis by simp
  qed
qed simp

end

text \<open>The isolate's map is such a counter, as long as no KV namespace is bound.\<close>

definition fallback_count :: "'w isolate \<Rightarrow> string \<Rightarrow> real" where
  "fallback_count st p = or_default (is_counts st (to_lower p)) 0"

lemma fallback_ops:
  assumes "resolveKvBinding raw = None"
  shows "readCount raw = (\<lambda>ow st. (Inr (fallback_count st ow), st))"
    "incrementCount nt raw = (\<lambda>ow n st. (Inr (), st\<lparr>is_counts := (is_counts st)(to_lower ow \<mapsto> n)\<rparr>))"
  using assms by (auto simp: readCount_def incrementCount_def fallback_count_def fun_eq_iff)

interpretation fallback: owner_counter "readCount Unbound" "incrementCount nt Unbound" fallback_count for nt
  by unfold_locales (auto simp: fallback_ops resolveKvBinding_def fallback_count_def)

lemma relayed_post_fallback:
  assumes "resolveKvBinding raw = None"
  shows "relayed_post raw = relay_answer (readCount Unbound) (incrementCount nt Unbound)"
proof
  fix c
  have "resolveKvBinding (Unbound :: 'a binding) = None" by (simp add: resolveKvBinding_def)
  with assms show "relayed_post raw c = relay_answer (readCount Unbound) (incrementCount nt Unbound) c"
    by (simp add: relayed_post_def post_register_relayed_def relay_answer_def fallback_ops)
qed

text \<open>
  C16. The sponsorship cap, for requests that do not overlap: without a KV namespace, and from
  any non-negative counts, however many requests are posted and whatever the chain and the
  video service answer, no owner is granted more than ten registrations, and the count of every
  address grows by exactly the registrations granted to it, upper and lower case being one.
\<close>

theorem relay_cap:
  assumes "resolveKvBinding raw = None"
    and "0 \<le> fallback_count st p"
    and "relayer_run (relayed_post raw) p cs st = (n, st1)"
  shows "n \<le> max_free_registrations \<and> fallback_count st1 p = fallback_count st p + of_nat n"
proof -
  have "relayer_run (relay_answer (readCount Unbound) (incrementCount (\<lambda>_. []) Unbound)) p cs st = (n, st1)"
    using assms(3) by (simp add: relayed_post_fallback [OF assms(1), of "\<lambda>_. []"])
  from fallback.run_counts [OF this] assms(2) show ?thesis
    by (cases "n = 0") auto
qed



subsection \<open>What the relayer pays for\<close>

definition with_submit ::
  "(string \<Rightarrow> string \<Rightarrow> relayed_request \<Rightarrow> ('w, string) io) \<Rightarrow> 'w chain_client \<Rightarrow> 'w chain_client" where
  \<comment> \<open>the same chain client with another \<open>writeContract\<close>\<close>
  "with_submit f cc = cc\<lparr>cc_registerContent := f\<rparr>"

lemma signature_check_submit [simp]:
  "signature_check (with_submit f cc) chainId registry nonce req = signature_check cc chainId registry nonce req"
  by (simp add: signature_check_def with_submit_def)

lemma signature_check_None:
  "signature_check cc chainId registry nonce req = None \<Longrightarrow>
   cc_verifyTypedData cc (rq_owner req) (relay_typed_data chainId registry nonce req) (rq_signature req) = Inr True"
  by (auto simp: signature_check_def split: sum.splits if_splits)

lemma with_submit_simps [simp]:
  "cc_nonces (with_submit f cc) = cc_nonces cc" "cc_getCode (with_submit f cc) = cc_getCode cc"
  by (simp_all add: with_submit_def)

lemma verify_differs:
  assumes "relay_verify sv (with_submit f cc) inc renv chainId i req used st \<noteq>
    relay_verify sv cc inc renv chainId i req used st"
  shows "\<exists>registry nonce. contentRegistryAddress chainId = Inr registry \<and>
    (cc_verifyTypedData cc (rq_owner req) (relay_typed_data chainId registry nonce req) (rq_signature req) = Inr True \<or>
     (\<exists>x. has_code (fst (cc_getCode cc (rq_owner req) x))))"
proof (cases "contentRegistryAddress chainId")
  case (Inl e)
  with assms show ?thesis by (simp add: relay_verify_def)
next
  case (Inr registry)
  obtain n x1 where n: "cc_nonces cc registry (rq_owner req) (is_world st) = (n, x1)" by fastforce
  obtain code x2 where code: "cc_getCode cc (rq_owner req) x1 = (code, x2)" by fastforce
  obtain nonce where nonce: "n = Inr nonce"
    using assms by (cases n) (auto simp: relay_verify_def Inr io_bind_def io_try_def outer_def n)
  have "has_code code \<or> signature_check cc chainId registry nonce req = None"
    using assms by (cases "has_code code"; cases "signature_check cc chainId registry nonce req")
      (auto simp: relay_verify_def Inr io_bind_def io_try_def outer_def n nonce code)
  with Inr code show ?thesis
    by (metis fst_conv signature_check_None)
qed

lemma budget_differs:
  assumes "relay_budget sv (with_submit f cc) rd inc renv chainId i req st \<noteq>
    relay_budget sv cc rd inc renv chainId i req st"
  shows "(\<exists>used st1. rd (rq_owner req) st = (Inr used, st1) \<and> used < of_nat max_free_registrations) \<and>
    (\<exists>registry nonce. contentRegistryAddress chainId = Inr registry \<and>
      (cc_verifyTypedData cc (rq_owner req) (relay_typed_data chainId registry nonce req) (rq_signature req) = Inr True \<or>
       (\<exists>x. has_code (fst (cc_getCode cc (rq_owner req) x)))))"
proof -
  obtain used st1 where rd: "rd (rq_owner req) st = (Inr used, st1)"
    using assms by (auto simp: relay_budget_def io_bind_def split: prod.splits sum.splits)
  have "used < of_nat max_free_registrations"
    and "relay_verify sv (with_submit f cc) inc renv chainId i req used st1 \<noteq>
      relay_verify sv cc inc renv chainId i req used st1"
    using assms by (auto simp: relay_budget_def io_bind_def rd split: if_splits)
  with rd verify_differs show ?thesis by blast
qed



text \<open>
  The relayer verifies what the studio had signed: whenever the client's builder accepts the
  fields of a request, with a nonce a contract can have, it builds the very typed data the
  relayer verifies the signature over.
\<close>

lemma relay_verifies_built_data:
  assumes "buildRegisterContentTypedData nt args = Inr td" "ta_nonce args = int nonce"
  shows "relay_typed_data (ta_chainId args) (ta_verifyingContract args) nonce
    \<lparr>rq_owner = ta_owner args, rq_manifestCid = ta_manifestCid args, rq_parentCid = ta_parentCid args,
     rq_policyFlags = ta_policyFlags args, rq_signature = sig\<rparr> = td"
  using assms
  by (auto simp: buildRegisterContentTypedData_def relay_typed_data_def domain_name_def domain_version_def
      split: if_splits)

text \<open>
  Requests that overlap escape the cap: each writes one more than what it read before, so of two
  that read the same count both are granted and the count goes up by one.
\<close>

lemma relay_lost_update:
  assumes "resolveKvBinding raw = None" "rq_owner req2 = rq_owner req1"
    and "relay_settle sv (incrementCount nt raw) i1 req1 used tx1 b1 st = (r1, st1)"
    and "relay_settle sv (incrementCount nt raw) i2 req2 used tx2 b2 st1 = (r2, st2)"
  shows "granted r1 \<and> granted r2 \<and> is_counts st2 (to_lower (rq_owner req1)) = Some (used + 1)"
  using assms(2-)
  by (auto simp: relay_settle_def fallback_ops [OF assms(1)] io_bind_def io_try_def outer_def Let_def
      split: prod.splits)

text \<open>
  In production the application's chain is Base mainnet, where the registry is not deployed: a
  request that passes every check and has budget left ends in an exception the route does not
  catch.
\<close>

lemma relay_throws_in_production:
  assumes "readCount raw (rq_owner req) st = (Inr used, st1)" "used < of_nat max_free_registrations"
  shows "\<exists>e. relay_budget sv cc (readCount raw) inc renv (appChainId (Some ''production'')) i req st = (Inl e, st1)"
  using assms
  by (simp add: relay_budget_def io_bind_def relay_verify_def io_lift_def contentRegistryAddress_def
      content_registry_address_def appChainId_def chain_id_mainnet_def chain_id_sepolia_def)

subsection \<open>A request that is granted\<close>

definition hex_text :: "nat \<Rightarrow> string" where
  "hex_text n = ''0x'' @ replicate n CHR ''a''"

lemma hex_text_ok [simp]:
  "hex0x n (hex_text n)" "to_lower (hex_text n) = hex_text n" "length (hex_text n) = n + 2"
  "0 < n \<Longrightarrow> sig_hex (hex_text n)"
  by (simp_all add: hex_text_def hex0x_def sig_hex_def to_lower_def lower_char_def is_hex_def code_def
      list_all_iff Let_def)

definition demo_relay_req :: relayed_request where
  "demo_relay_req = \<lparr>rq_owner = hex_text 40, rq_manifestCid = hex_text 64, rq_parentCid = hex_text 64,
     rq_policyFlags = Fin 0, rq_signature = hex_text 130\<rparr>"

definition demo_relay_body :: json where
  "demo_relay_body = JObj [(''owner'', JStr (hex_text 40)), (''manifestCid'', JStr (hex_text 64)),
     (''parentCid'', JStr (hex_text 64)), (''policyFlags'', JNum (Fin 0)), (''signature'', JStr (hex_text 130))]"

lemma demo_relay_parses: "parseBody demo_relay_body = Inr demo_relay_req"
  by (simp add: parseBody_def demo_relay_body_def demo_relay_req_def is_object_def Let_def)

definition demo_relay_live :: json where
  "demo_relay_live = JObj [(''meta'', JObj [(''creatorAddress'', JStr (hex_text 40))])]"

definition demo_relay_session :: aevia_session where
  "demo_relay_session = \<lparr>as_userId = None, as_address = hex_text 40, as_did = [], as_displayName = [],
     as_loginMethod = Wallet, as_expiresAt = JNull\<rparr>"

definition demo_chain :: "bool \<Rightarrow> nat chain_client" where
  \<comment> \<open>accepts every signature; submission works or does not\<close>
  "demo_chain works = \<lparr>cc_nonces = (\<lambda>_ _ n. (Inr 0, n)), cc_getCode = (\<lambda>_ n. (Inr None, n)),
     cc_verifyTypedData = (\<lambda>_ _ _. Inr True), cc_account = Inr,
     cc_registerContent = (\<lambda>_ _ _ n. (if works then Inr ''0xtx'' else Inl Thrown, n)),
     cc_waitReceipt = (\<lambda>_ _ n. (Inr \<lparr>rc_status = ''success'', rc_blockNumber = 7\<rparr>, n))\<rparr>"

definition demo_relay_call :: "nat relay_call" where
  "demo_relay_call = \<lparr>rl_server = demo_server demo_relay_live, rl_chain = demo_chain True,
     rl_env = Some \<lparr>re_privateKey = hex_text 64, re_rpcUrl = []\<rparr>, rl_chainId = chain_id_sepolia,
     rl_session = Inr (Some demo_relay_session), rl_live = ''u1'', rl_body = Inr demo_relay_body\<rparr>"

lemma demo_relay_owned:
  "resolveLiveOwnership (demo_server demo_relay_live) ''u1'' (hex_text 40) n =
    (Inr (Some \<lparr>ow_live = demo_relay_live, ow_owned = True\<rparr>), Suc n)"
  by (simp add: resolve_ownership demo_server_get demo_relay_live_def owned_by_def live_meta_def jchain_def)

lemma demo_relay_post:
  "fst (post_register_relayed (demo_server demo_relay_live) (demo_chain works) Unbound
     (Some \<lparr>re_privateKey = hex_text 64, re_rpcUrl = []\<rparr>) chain_id_sepolia
     (Inr (Some demo_relay_session)) ''u1'' (Inr demo_relay_body)
     \<lparr>is_counts = Map.empty, is_world = 0\<rparr>) =
   (if works
    then Inr (json_response 200 [(''ok'', JBool True), (''manifestCid'', JStr (hex_text 64)),
      (''txHash'', JStr ''0xtx''), (''block'', jnat 7), (''sponsored'', JBool True),
      (''remaining'', JNum (Fin 9))])
    else Inr (json_response 502 [(''error'', JStr ''relayer_submission_failed''), (''reason'', JStr ''write_failed'')]))"
proof -
  have reg: "contentRegistryAddress chain_id_sepolia = Inr ''0x07ffbcB245bcD8aA08F8dA75B2AeDE750d5592F0''"
    by (simp add: contentRegistryAddress_def content_registry_address_def)
  have msg: "\<not> contains ''alreadyregistered'' (to_lower ''write_failed'')" by code_simp
  have none: "resolveKvBinding (Unbound :: nat binding) = None" by (simp add: resolveKvBinding_def)
  have manifest: "\<not> other_manifest demo_relay_live (hex_text 64)"
    by (simp add: other_manifest_def demo_relay_live_def live_meta_def jchain_def)
  note steps = post_register_relayed_def relay_route_def relay_budget_def relay_verify_def relay_submit_def
    relay_confirm_def relay_settle_def signature_check_def has_code_def submission_failed_def
  show ?thesis
    using msg manifest
    by (auto simp: steps demo_relay_parses demo_relay_req_def demo_relay_session_def io_bind_def io_try_def
        outer_def demo_relay_owned reg demo_chain_def fallback_ops [OF none] fallback_count_def
        max_free_registrations_def io_lift_def Let_def split: prod.splits)
qed

lemma relay_cap_witness:
  "\<exists>st1. relayer_run (relayed_post Unbound) (hex_text 40) [demo_relay_call] \<lparr>is_counts = Map.empty, is_world = 0\<rparr> = (1, st1) \<and>
     fallback_count st1 (hex_text 40) = 1"
proof -
  let ?st = "\<lparr>is_counts = Map.empty, is_world = 0 :: nat\<rparr>"
  obtain n st1 where run: "relayer_run (relayed_post Unbound) (hex_text 40) [demo_relay_call] ?st = (n, st1)"
    by fastforce
  then have "n = 1"
    using demo_relay_post [of True]
    by (auto simp: relayed_post_def demo_relay_call_def owner_of_def demo_relay_parses demo_relay_req_def
        split: prod.splits if_splits)
  with run relay_cap [OF _ _ run] show ?thesis
    by (simp add: resolveKvBinding_def fallback_count_def)
qed



end
