(* ===== verification/UploadQueue.thy ===== *)
theory UploadQueue
  imports Http
begin

text \<open>
  The upload provider, \<open>apps/video/src/components/upload-context.tsx\<close>: the rows it shows, the
  \<open>tus\<close> uploads it runs in the background, the link to the live input when one is through, and
  the guard against closing the tab. The upload library and the server are events; a task is
  one call of \<open>startUpload\<close>, numbered by its place in the list of all calls.
\<close>

subsection \<open>State\<close>

datatype upload_status = Queued | Uploading | Linking | Done | Failed

record upload_row =
  ur_liveInputId :: string
  ur_videoUid :: string
  ur_status :: upload_status
  ur_progress :: nat
  ur_error :: "string option"
  ur_attempts :: nat
  ur_startedAt :: nat

record start_input =
  si_liveInputId :: string
  si_blobType :: string
  si_uploadUrl :: string
  si_videoUid :: string

record tus_options =
  to_uploadUrl :: string
  to_retryDelays :: "nat list"
  to_chunkSize :: nat
  to_filetype :: string

text \<open>Where a task is: loading the library, uploading, linking, or over.\<close>

datatype task_phase = Loading | Running | Link_Pending | Over

record upload_task =
  tk_input :: start_input
  tk_phase :: task_phase
  tk_options :: "tus_options option" \<comment> \<open>of the \<open>tus.Upload\<close>, once there is one\<close>
  tk_aborted :: bool

record upload_provider =
  up_uploads :: "upload_row list"
  up_instances :: "string \<Rightarrow> nat option" \<comment> \<open>\<open>instancesRef\<close>: the task whose upload is registered\<close>
  up_tasks :: "upload_task list"

datatype upload_event =
    Start_Upload start_input nat \<comment> \<open>with the clock\<close>
  | Tus_Loaded nat
  | Tus_Load_Failed nat js_error
  | Tus_Error nat string
  | Tus_Progress nat nat nat
  | Tus_Success nat
  | Link_Answered nat "unit result" \<comment> \<open>how \<open>linkRecording\<close> ended\<close>
  | Dismiss string
  | Unmount

definition upload_init :: upload_provider where
  "upload_init = \<lparr>up_uploads = [], up_instances = Map.empty, up_tasks = []\<rparr>"

subsection \<open>Operations\<close>

definition isActive :: "upload_status \<Rightarrow> bool" where
  "isActive s = (s \<in> {Queued, Uploading, Linking})"

record row_patch =
  rp_status :: upload_status
  rp_progress :: "nat option"
  rp_error :: "string option"

definition patch_row :: "row_patch \<Rightarrow> upload_row \<Rightarrow> upload_row" where
  \<comment> \<open>\<open>{ ...existing, ...patch }\<close>\<close>
  "patch_row patch row = row
     \<lparr>ur_status := rp_status patch,
      ur_progress := or_default (rp_progress patch) (ur_progress row),
      ur_error := (case rp_error patch of None \<Rightarrow> ur_error row | Some e \<Rightarrow> Some e)\<rparr>"

definition upsert :: "string \<Rightarrow> row_patch \<Rightarrow> upload_row list \<Rightarrow> upload_row list" where
  "upsert i patch prev =
     (case find (\<lambda>u. ur_liveInputId u = i) prev of
        None \<Rightarrow> prev
      | Some existing \<Rightarrow> map (\<lambda>u. if ur_liveInputId u = i then patch_row patch existing else u) prev)"

definition failed_patch :: "string \<Rightarrow> row_patch" where
  "failed_patch msg = \<lparr>rp_status = Failed, rp_progress = None, rp_error = Some msg\<rparr>"

definition link_failed_text :: string where
  "link_failed_text = ''falha ao vincular grava'' @ [CHR 0xE7, CHR 0xE3] @ ''o''"

definition linkRecording :: "(real \<Rightarrow> string) \<Rightarrow> http_response result \<Rightarrow> unit result" where
  \<comment> \<open>of what \<open>fetch\<close> gave; the text of \<open>data.error\<close> if the server sent one\<close>
  "linkRecording nt r =
     (case r of
        Inl e \<Rightarrow> Inl e
      | Inr res \<Rightarrow>
          if res_ok res then Inr ()
          else
            let data = (case hp_json res of Inl _ \<Rightarrow> JObj [] | Inr j \<Rightarrow> j);
                dflt = link_failed_text @ '' ('' @ show_nat (hp_status res) @ '')''
            in (case jprop (Some data) ''error'' of
                  Inl e \<Rightarrow> Inl e
                | Inr v \<Rightarrow> Inl (Error (if nullish v then dflt else value_string nt v))))"

definition new_row :: "start_input \<Rightarrow> nat \<Rightarrow> upload_row" where
  "new_row input now =
     \<lparr>ur_liveInputId = si_liveInputId input, ur_videoUid = si_videoUid input, ur_status = Queued,
      ur_progress = 0, ur_error = None, ur_attempts = 0, ur_startedAt = now\<rparr>"

definition new_tus :: "start_input \<Rightarrow> tus_options" where
  "new_tus input =
     \<lparr>to_uploadUrl = si_uploadUrl input, to_retryDelays = [0, 1000, 3000, 10000, 20000],
      to_chunkSize = 5 * 1024 * 1024,
      to_filetype = (if si_blobType input = [] then ''video/webm'' else si_blobType input)\<rparr>"

definition startUpload :: "start_input \<Rightarrow> nat \<Rightarrow> upload_provider \<Rightarrow> upload_provider" where
  "startUpload input now st = st
     \<lparr>up_uploads := filter (\<lambda>u. ur_liveInputId u \<noteq> si_liveInputId input) (up_uploads st) @ [new_row input now],
      up_tasks := up_tasks st @ [\<lparr>tk_input = input, tk_phase = Loading, tk_options = None, tk_aborted = False\<rparr>]\<rparr>"

definition task_id :: "upload_task \<Rightarrow> string" where
  "task_id t = si_liveInputId (tk_input t)"

definition set_task :: "nat \<Rightarrow> (upload_task \<Rightarrow> upload_task) \<Rightarrow> upload_provider \<Rightarrow> upload_provider" where
  "set_task n f st = st\<lparr>up_tasks := (up_tasks st)[n := f (up_tasks st ! n)]\<rparr>"

definition set_rows :: "string \<Rightarrow> row_patch \<Rightarrow> upload_provider \<Rightarrow> upload_provider" where
  "set_rows i patch st = st\<lparr>up_uploads := upsert i patch (up_uploads st)\<rparr>"

definition drop_instance :: "string \<Rightarrow> upload_provider \<Rightarrow> upload_provider" where
  "drop_instance i st = st\<lparr>up_instances := (up_instances st)(i := None)\<rparr>"

definition onLoaded :: "nat \<Rightarrow> upload_task \<Rightarrow> upload_provider \<Rightarrow> upload_provider" where
  "onLoaded n t st =
     set_task n (\<lambda>t. t\<lparr>tk_phase := Running, tk_options := Some (new_tus (tk_input t))\<rparr>)
       (st\<lparr>up_instances := (up_instances st)(task_id t \<mapsto> n)\<rparr>)"

definition onLoadFailed :: "nat \<Rightarrow> upload_task \<Rightarrow> js_error \<Rightarrow> upload_provider \<Rightarrow> upload_provider" where
  "onLoadFailed n t e st =
     set_task n (\<lambda>t. t\<lparr>tk_phase := Over\<rparr>)
       (set_rows (task_id t) (failed_patch (err_message ''falha ao carregar cliente de upload'' e)) st)"

definition onError :: "nat \<Rightarrow> upload_task \<Rightarrow> string \<Rightarrow> upload_provider \<Rightarrow> upload_provider" where
  "onError n t message st =
     set_task n (\<lambda>t. t\<lparr>tk_phase := Over\<rparr>)
       (drop_instance (task_id t)
         (set_rows (task_id t) (failed_patch (if message = [] then ''falha no upload'' else message)) st))"

definition progress_pct :: "nat \<Rightarrow> nat \<Rightarrow> nat" where
  \<comment> \<open>\<open>Math.min(99, Math.floor((bytesUploaded / bytesTotal) * 100))\<close>\<close>
  "progress_pct bytesUploaded bytesTotal =
     (if 0 < bytesTotal then min 99 (bytesUploaded * 100 div bytesTotal) else 0)"

definition onProgress :: "upload_task \<Rightarrow> nat \<Rightarrow> nat \<Rightarrow> upload_provider \<Rightarrow> upload_provider" where
  "onProgress t bytesUploaded bytesTotal st =
     set_rows (task_id t)
       \<lparr>rp_status = Uploading, rp_progress = Some (progress_pct bytesUploaded bytesTotal), rp_error = None\<rparr> st"

definition onSuccess :: "nat \<Rightarrow> upload_task \<Rightarrow> upload_provider \<Rightarrow> upload_provider" where
  "onSuccess n t st =
     set_task n (\<lambda>t. t\<lparr>tk_phase := Link_Pending\<rparr>)
       (set_rows (task_id t) \<lparr>rp_status = Linking, rp_progress = Some 99, rp_error = None\<rparr> st)"

definition onLinkAnswered :: "nat \<Rightarrow> upload_task \<Rightarrow> unit result \<Rightarrow> upload_provider \<Rightarrow> upload_provider" where
  "onLinkAnswered n t r st =
     set_task n (\<lambda>t. t\<lparr>tk_phase := Over\<rparr>)
       (drop_instance (task_id t)
         (set_rows (task_id t)
           (case r of
              Inr _ \<Rightarrow> \<lparr>rp_status = Done, rp_progress = Some 100, rp_error = None\<rparr>
            | Inl e \<Rightarrow> failed_patch (err_message link_failed_text e)) st))"

definition abort_task :: "upload_task \<Rightarrow> upload_task" where
  "abort_task t = t\<lparr>tk_aborted := True\<rparr>"

definition dismissUpload :: "string \<Rightarrow> upload_provider \<Rightarrow> upload_provider" where
  "dismissUpload i st =
     (let st1 = (case up_instances st i of
            None \<Rightarrow> st
          | Some n \<Rightarrow> drop_instance i (set_task n abort_task st))
      in st1\<lparr>up_uploads := filter (\<lambda>u. ur_liveInputId u \<noteq> i) (up_uploads st1)\<rparr>)"

definition unmountProvider :: "upload_provider \<Rightarrow> upload_provider" where
  "unmountProvider st = st
     \<lparr>up_tasks := map (\<lambda>n. let t = up_tasks st ! n in
          if up_instances st (task_id t) = Some n then abort_task t else t) [0..<length (up_tasks st)],
      up_instances := Map.empty\<rparr>"

definition hasActive :: "upload_provider \<Rightarrow> bool" where
  \<comment> \<open>whether closing the tab asks first\<close>
  "hasActive st = list_ex (\<lambda>u. isActive (ur_status u)) (up_uploads st)"

definition with_task ::
  "nat \<Rightarrow> (upload_task \<Rightarrow> upload_provider \<Rightarrow> upload_provider) \<Rightarrow> upload_provider \<Rightarrow> upload_provider" where
  "with_task n f st = (if n < length (up_tasks st) then f (up_tasks st ! n) st else st)"

fun upload_step :: "upload_event \<Rightarrow> upload_provider \<Rightarrow> upload_provider" where
  "upload_step (Start_Upload input now) st = startUpload input now st"
| "upload_step (Tus_Loaded n) st = with_task n (onLoaded n) st"
| "upload_step (Tus_Load_Failed n e) st = with_task n (\<lambda>t. onLoadFailed n t e) st"
| "upload_step (Tus_Error n m) st = with_task n (\<lambda>t. onError n t m) st"
| "upload_step (Tus_Progress n sent whole) st = with_task n (\<lambda>t. onProgress t sent whole) st"
| "upload_step (Tus_Success n) st = with_task n (onSuccess n) st"
| "upload_step (Link_Answered n r) st = with_task n (\<lambda>t. onLinkAnswered n t r) st"
| "upload_step (Dismiss i) st = dismissUpload i st"
| "upload_step Unmount st = unmountProvider st"

subsection \<open>Facts about rows\<close>

definition row_status :: "string \<Rightarrow> upload_row list \<Rightarrow> upload_status option" where
  "row_status i rows = map_option ur_status (find (\<lambda>u. ur_liveInputId u = i) rows)"

lemma patch_row_id [simp]: "ur_liveInputId (patch_row p u) = ur_liveInputId u"
  by (simp add: patch_row_def)

lemma find_Some_id: "find (\<lambda>u. ur_liveInputId u = i) rows = Some u \<Longrightarrow> ur_liveInputId u = i \<and> u \<in> set rows"
  by (induction rows) (auto split: if_splits)

lemma upsert_ids [simp]: "map ur_liveInputId (upsert i p rows) = map ur_liveInputId rows"
proof (cases "find (\<lambda>u. ur_liveInputId u = i) rows")
  case (Some e)
  have "ur_liveInputId (if ur_liveInputId u = i then patch_row p e else u) = ur_liveInputId u" for u
    using find_Some_id [OF Some] by simp
  then show ?thesis by (simp add: upsert_def Some)
qed (simp add: upsert_def)

lemma find_map_same:
  assumes "\<And>u. ur_liveInputId (f u) = ur_liveInputId u"
  shows "find (\<lambda>u. ur_liveInputId u = i) (map f rows) = map_option f (find (\<lambda>u. ur_liveInputId u = i) rows)"
  using assms by (induction rows) auto

lemma row_status_upsert:
  "row_status i (upsert j p rows) =
    (if i = j \<and> row_status j rows \<noteq> None then Some (rp_status p) else row_status i rows)"
proof (cases "find (\<lambda>u. ur_liveInputId u = j) rows")
  case None
  then show ?thesis by (auto simp: upsert_def row_status_def)
next
  case (Some e)
  have "row_status i (map (\<lambda>u. if ur_liveInputId u = j then patch_row p e else u) rows) =
      (if i = j then Some (rp_status p) else row_status i rows)"
    using find_Some_id [OF Some] Some
    by (auto simp: row_status_def find_map_same patch_row_def dest: find_Some_id split: option.splits
        intro!: option.expand)
  with Some show ?thesis by (auto simp: upsert_def row_status_def)
qed

lemma row_status_filter:
  "row_status i (filter (\<lambda>u. ur_liveInputId u \<noteq> j) rows) = (if i = j then None else row_status i rows)"
  by (induction rows) (auto simp: row_status_def)

lemma row_status_append:
  "row_status i (rows @ [u]) = (case row_status i rows of
     None \<Rightarrow> if ur_liveInputId u = i then Some (ur_status u) else None | Some s \<Rightarrow> Some s)"
  by (induction rows) (auto simp: row_status_def)

lemma row_status_in:
  "distinct (map ur_liveInputId rows) \<Longrightarrow> u \<in> set rows \<Longrightarrow> row_status (ur_liveInputId u) rows = Some (ur_status u)"
  by (induction rows) (auto simp: row_status_def rev_image_eqI)

lemma row_status_mem: "row_status i rows = Some s \<Longrightarrow> \<exists>u \<in> set rows. ur_liveInputId u = i \<and> ur_status u = s"
  by (auto simp: row_status_def dest!: find_Some_id)


subsection \<open>Well-formed rows\<close>

definition row_ok :: "upload_row \<Rightarrow> bool" where
  "row_ok u = (ur_progress u \<le> 100 \<and> ur_attempts u = 0 \<and>
     (case ur_status u of
        Queued \<Rightarrow> ur_progress u = 0
      | Uploading \<Rightarrow> ur_progress u \<le> 99
      | Linking \<Rightarrow> ur_progress u = 99
      | Done \<Rightarrow> ur_progress u = 100
      | Failed \<Rightarrow> ur_error u \<noteq> None))"

definition rows_ok :: "upload_row list \<Rightarrow> bool" where
  "rows_ok rows = (distinct (map ur_liveInputId rows) \<and> list_all row_ok rows)"

definition patch_ok :: "row_patch \<Rightarrow> bool" where
  \<comment> \<open>a patch that makes any well-formed row a well-formed row\<close>
  "patch_ok p = (\<forall>u. row_ok u \<longrightarrow> row_ok (patch_row p u))"

lemma patches_ok:
  "patch_ok (failed_patch m)" "patch_ok \<lparr>rp_status = Linking, rp_progress = Some 99, rp_error = None\<rparr>"
  "patch_ok \<lparr>rp_status = Uploading, rp_progress = Some (progress_pct b s), rp_error = None\<rparr>"
  "patch_ok \<lparr>rp_status = Done, rp_progress = Some 100, rp_error = None\<rparr>"
  by (auto simp: patch_ok_def patch_row_def failed_patch_def row_ok_def progress_pct_def)

lemma rows_ok_upsert: "rows_ok rows \<Longrightarrow> patch_ok p \<Longrightarrow> rows_ok (upsert i p rows)"
  using upsert_ids [of i p rows]
  by (auto simp: rows_ok_def upsert_def patch_ok_def list_all_iff dest!: find_Some_id split: option.splits)

lemma rows_ok_filter: "rows_ok rows \<Longrightarrow> rows_ok (filter P rows)"
  by (auto simp: rows_ok_def list_all_iff distinct_map_filter)

lemma rows_ok_start: "rows_ok rows \<Longrightarrow>
    rows_ok (filter (\<lambda>u. ur_liveInputId u \<noteq> si_liveInputId x) rows @ [new_row x now])"
  using rows_ok_filter [of rows "\<lambda>u. ur_liveInputId u \<noteq> si_liveInputId x"]
  by (auto simp: rows_ok_def new_row_def row_ok_def)

lemma step_simps [simp]:
  "up_uploads (set_task n f st) = up_uploads st" "up_uploads (drop_instance i st) = up_uploads st"
  "up_uploads (set_rows i p st) = upsert i p (up_uploads st)"
  "up_instances (set_task n f st) = up_instances st" "up_instances (set_rows i p st) = up_instances st"
  "up_instances (drop_instance i st) = (up_instances st)(i := None)"
  "up_tasks (set_rows i p st) = up_tasks st" "up_tasks (drop_instance i st) = up_tasks st"
  "up_tasks (set_task n f st) = (up_tasks st)[n := f (up_tasks st ! n)]"
  by (simp_all add: set_task_def drop_instance_def set_rows_def)

lemmas upload_ops = startUpload_def onLoaded_def onLoadFailed_def onError_def onProgress_def onSuccess_def
  onLinkAnswered_def dismissUpload_def unmountProvider_def

lemma upload_step_rows:
  assumes "rows_ok (up_uploads st)"
  shows "rows_ok (up_uploads (upload_step ev st))"
  using assms
  by (cases ev) (auto simp: with_task_def upload_ops Let_def rows_ok_filter rows_ok_start rows_ok_upsert patches_ok
      split: option.splits sum.splits)


subsection \<open>The life of one upload\<close>

text \<open>The abstract specification: what the status of a live input's row may become.\<close>

inductive lifecycle :: "upload_status option \<Rightarrow> upload_status option \<Rightarrow> bool" where
  stay: "lifecycle s s"
| queue: "s \<in> {None, Some Done, Some Failed} \<Longrightarrow> lifecycle s (Some Queued)"
| upload: "lifecycle (Some Queued) (Some Uploading)"
| link: "s \<in> {Queued, Uploading} \<Longrightarrow> lifecycle (Some s) (Some Linking)"
| linked: "lifecycle (Some Linking) (Some Done)"
| fail: "isActive s \<Longrightarrow> lifecycle (Some s) (Some Failed)"
| dismissed: "lifecycle (Some s) None"

inductive_simps lifecycle_simps: "lifecycle a b"

text \<open>
  What the library and the studio do: callbacks come for a running upload that was not aborted,
  the answer to a link request once, and a live input's upload is started again only when no
  earlier one is still at work.
\<close>

definition at_work :: "upload_task \<Rightarrow> bool" where
  "at_work t = (tk_phase t \<noteq> Over \<and> \<not> (tk_phase t = Running \<and> tk_aborted t))"

definition phase_is :: "upload_provider \<Rightarrow> nat \<Rightarrow> task_phase \<Rightarrow> bool" where
  "phase_is st n p = (n < length (up_tasks st) \<and> tk_phase (up_tasks st ! n) = p \<and> at_work (up_tasks st ! n))"

fun orderly :: "upload_provider \<Rightarrow> upload_event \<Rightarrow> bool" where
  "orderly st (Start_Upload input now) =
     list_all (\<lambda>t. task_id t = si_liveInputId input \<longrightarrow> \<not> at_work t) (up_tasks st)"
| "orderly st (Tus_Loaded n) = phase_is st n Loading"
| "orderly st (Tus_Load_Failed n e) = phase_is st n Loading"
| "orderly st (Tus_Error n m) = phase_is st n Running"
| "orderly st (Tus_Progress n sent whole) = phase_is st n Running"
| "orderly st (Tus_Success n) = phase_is st n Running"
| "orderly st (Link_Answered n r) = phase_is st n Link_Pending"
| "orderly st (Dismiss i) = True"
| "orderly st Unmount = False"

inductive upload_reach :: "upload_provider \<Rightarrow> bool" where
  start: "upload_reach upload_init"
| step: "upload_reach st \<Longrightarrow> orderly st ev \<Longrightarrow> upload_reach (upload_step ev st)"

fun fits :: "task_phase \<Rightarrow> upload_status \<Rightarrow> bool" where
  "fits Loading s = (s = Queued)"
| "fits Running s = (s = Queued \<or> s = Uploading)"
| "fits Link_Pending s = (s = Linking)"
| "fits Over s = False"

definition works_for :: "upload_provider \<Rightarrow> string \<Rightarrow> nat \<Rightarrow> bool" where
  "works_for st i n = (n < length (up_tasks st) \<and> task_id (up_tasks st ! n) = i \<and> at_work (up_tasks st ! n))"

definition matched :: "upload_provider \<Rightarrow> bool" where
  \<comment> \<open>one task at a time works for a live input, and its phase is the status of the row\<close>
  "matched st =
     (distinct (map ur_liveInputId (up_uploads st)) \<and>
      (\<forall>i m n. works_for st i m \<longrightarrow> works_for st i n \<longrightarrow> m = n) \<and>
      (\<forall>i n. up_instances st i = Some n \<longrightarrow> n < length (up_tasks st) \<and> task_id (up_tasks st ! n) = i) \<and>
      (\<forall>i s. row_status i (up_uploads st) = Some s \<longrightarrow>
         (isActive s \<longrightarrow> (\<exists>n. works_for st i n)) \<and>
         (\<forall>n. works_for st i n \<longrightarrow> fits (tk_phase (up_tasks st ! n)) s)))"


lemma fits_active: "fits p s \<Longrightarrow> isActive s"
  by (cases p) (auto simp: isActive_def)

lemma matched_callback:
  assumes st: "matched st" and n: "works_for st i n"
    and tasks: "up_tasks st1 = (up_tasks st)[n := t1]" "task_id t1 = i"
    and rows: "map ur_liveInputId (up_uploads st1) = map ur_liveInputId (up_uploads st)"
      "\<And>j. j \<noteq> i \<Longrightarrow> row_status j (up_uploads st1) = row_status j (up_uploads st)"
    and inst: "\<And>j m. up_instances st1 j = Some m \<Longrightarrow> (j = i \<and> m = n) \<or> up_instances st j = Some m"
    and fit: "\<And>s. row_status i (up_uploads st1) = Some s \<Longrightarrow>
      (if at_work t1 then fits (tk_phase t1) s else \<not> isActive s)"
  shows "matched st1"
proof -
  have len: "n < length (up_tasks st)" and id: "task_id (up_tasks st ! n) = i" and unique: "\<And>m. works_for st i m \<Longrightarrow> m = n"
    using st n by (auto simp: works_for_def matched_def)
  have works: "works_for st1 j m = (if m = n then j = i \<and> at_work t1 else works_for st j m)" for j m
    using len tasks by (auto simp: works_for_def)
  show ?thesis
    unfolding matched_def
  proof (intro conjI allI impI)
    show "distinct (map ur_liveInputId (up_uploads st1))"
      using st rows(1) by (simp add: matched_def)
    show "a = b" if "works_for st1 j a" "works_for st1 j b" for j a b
      using that st unique by (auto simp: works matched_def split: if_splits)
    show "m < length (up_tasks st1)" "task_id (up_tasks st1 ! m) = j" if "up_instances st1 j = Some m" for j m
      using inst [OF that] st len id tasks by (auto simp: matched_def nth_list_update)
  next
    fix j s
    assume s: "row_status j (up_uploads st1) = Some s" and act: "isActive s"
    show "\<exists>m. works_for st1 j m"
    proof (cases "j = i")
      case True
      with fit s act have "at_work t1" by (auto split: if_splits)
      with True show ?thesis by (auto simp: works)
    next
      case False
      then obtain m where m: "works_for st j m" using st s rows(2) act by (fastforce simp: matched_def)
      with False id have "m \<noteq> n" by (auto simp: works_for_def)
      with m show ?thesis by (auto simp: works)
    qed
  next
    fix j s m
    assume s: "row_status j (up_uploads st1) = Some s" and m: "works_for st1 j m"
    show "fits (tk_phase (up_tasks st1 ! m)) s"
    proof (cases "m = n")
      case True
      with m have "j = i" "at_work t1" by (simp_all add: works)
      with fit [of s] s True len tasks show ?thesis by simp
    next
      case False
      then have "works_for st j m" using m by (simp add: works)
      moreover from this False unique have "j \<noteq> i" by blast
      ultimately show ?thesis using st s rows(2) False tasks by (simp add: matched_def)
    qed
  qed
qed

lemma phase_is_works: "phase_is st n p \<Longrightarrow> works_for st (task_id (up_tasks st ! n)) n"
  by (simp add: phase_is_def works_for_def)

lemma matched_status:
  assumes "matched st" "phase_is st n p" "row_status (task_id (up_tasks st ! n)) (up_uploads st) = Some s"
  shows "fits p s"
  using assms phase_is_works [OF assms(2)] by (auto simp: matched_def phase_is_def)

lemma task_id_upd [simp]:
  "task_id (t\<lparr>tk_phase := p\<rparr>) = task_id t" "task_id (t\<lparr>tk_phase := p, tk_options := x\<rparr>) = task_id t"
  "task_id (abort_task t) = task_id t" "task_id (t\<lparr>tk_aborted := b\<rparr>) = task_id t"
  by (simp_all add: task_id_def abort_task_def)

lemma at_work_upd [simp]:
  "\<not> at_work (t\<lparr>tk_phase := Over\<rparr>)" "at_work (t\<lparr>tk_phase := Link_Pending\<rparr>)"
  by (simp_all add: at_work_def)

lemma matched_settles:
  \<comment> \<open>a callback that patches the row and moves its task on\<close>
  assumes "matched st" "phase_is st n p"
    and "up_tasks st1 = (up_tasks st)[n := (up_tasks st ! n)\<lparr>tk_phase := q\<rparr>]"
    and "up_uploads st1 = upsert (task_id (up_tasks st ! n)) patch (up_uploads st)"
    and "\<And>j m. up_instances st1 j = Some m \<Longrightarrow> up_instances st j = Some m"
    and "(q = Over \<and> \<not> isActive (rp_status patch)) \<or> (q = Link_Pending \<and> rp_status patch = Linking)"
  shows "matched st1"
  using assms
  by (intro matched_callback [OF assms(1) phase_is_works [OF assms(2)], of st1
      "(up_tasks st ! n)\<lparr>tk_phase := q\<rparr>"])
    (auto simp: row_status_upsert isActive_def split: if_splits)

lemma matched_loaded:
  assumes st: "matched st" and ph: "phase_is st n Loading"
    and fresh: "\<not> tk_aborted (up_tasks st ! n)"
  shows "matched (onLoaded n (up_tasks st ! n) st)"
proof (rule matched_callback [OF st phase_is_works [OF ph]])
  let ?t = "up_tasks st ! n"
  let ?t1 = "?t\<lparr>tk_phase := Running, tk_options := Some (new_tus (tk_input ?t))\<rparr>"
  show "up_tasks (onLoaded n ?t st) = (up_tasks st)[n := ?t1]" "task_id ?t1 = task_id ?t"
    by (simp_all add: onLoaded_def)
  show "map ur_liveInputId (up_uploads (onLoaded n ?t st)) = map ur_liveInputId (up_uploads st)"
    "row_status j (up_uploads (onLoaded n ?t st)) = row_status j (up_uploads st)" for j
    by (simp_all add: onLoaded_def)
  show "(j = task_id ?t \<and> m = n) \<or> up_instances st j = Some m"
    if "up_instances (onLoaded n ?t st) j = Some m" for j m
    using that by (simp add: onLoaded_def split: if_splits)
  show "if at_work ?t1 then fits (tk_phase ?t1) s else \<not> isActive s"
    if "row_status (task_id ?t) (up_uploads (onLoaded n ?t st)) = Some s" for s
    using matched_status [OF st ph] that fresh by (auto simp: onLoaded_def at_work_def)
qed

lemma matched_start:
  assumes st: "matched st" and ok: "orderly st (Start_Upload x now)"
  shows "matched (startUpload x now st)"
proof -
  let ?i = "si_liveInputId x" and ?st = "startUpload x now st"
  let ?t = "\<lparr>tk_input = x, tk_phase = Loading, tk_options = None, tk_aborted = False\<rparr>"
  have idle: "\<not> works_for st ?i n" for n
    using ok by (auto simp: works_for_def list_all_iff)
  have works: "works_for ?st j m = (works_for st j m \<or> (m = length (up_tasks st) \<and> j = ?i))" for j m
    by (auto simp: works_for_def startUpload_def nth_append task_id_def at_work_def)
  have row: "row_status j (up_uploads ?st) = (if j = ?i then Some Queued else row_status j (up_uploads st))" for j
    by (auto simp: startUpload_def row_status_append row_status_filter new_row_def split: option.splits)
  have task: "up_tasks ?st ! m = (if m = length (up_tasks st) then ?t else up_tasks st ! m)"
    if "m < length (up_tasks st) \<or> m = length (up_tasks st)" for m
    using that by (auto simp: startUpload_def nth_append)
  have len: "works_for st j m \<Longrightarrow> m < length (up_tasks st)" for j m by (simp add: works_for_def)
  have dist: "distinct (map ur_liveInputId (up_uploads ?st))"
    using st by (auto simp: matched_def startUpload_def new_row_def distinct_map_filter)
  have inst: "m < length (up_tasks ?st) \<and> task_id (up_tasks ?st ! m) = j" if "up_instances ?st j = Some m" for j m
    using that st by (auto simp: matched_def startUpload_def nth_append intro: less_SucI)
  show ?thesis
    unfolding matched_def
  proof (intro conjI allI impI dist)
    show "a = b" if "works_for ?st j a" "works_for ?st j b" for j a b
      using that idle st by (auto simp: works matched_def)
    show "m < length (up_tasks ?st)" "task_id (up_tasks ?st ! m) = j" if "up_instances ?st j = Some m" for j m
      using inst [OF that] by simp_all
    show "\<exists>n. works_for ?st j n" if "row_status j (up_uploads ?st) = Some s" "isActive s" for j s
      using that st by (auto simp: row works matched_def split: if_splits)
    show "fits (tk_phase (up_tasks ?st ! n)) s"
      if "row_status j (up_uploads ?st) = Some s" "works_for ?st j n" for j s n
      using that idle st len by (auto simp: row works task matched_def split: if_splits)
  qed
qed

lemma matched_dismiss:
  assumes st: "matched st"
  shows "matched (dismissUpload i st)"
proof -
  let ?st = "dismissUpload i st"
  have works: "j \<noteq> i \<Longrightarrow> works_for ?st j m = works_for st j m"
    and fewer: "works_for ?st j m \<Longrightarrow> works_for st j m"
    and phase: "works_for ?st j m \<Longrightarrow> tk_phase (up_tasks ?st ! m) = tk_phase (up_tasks st ! m)" for j m
    using st by (auto simp: works_for_def dismissUpload_def Let_def matched_def nth_list_update
        at_work_def abort_task_def split: option.splits if_splits)
  have row: "row_status j (up_uploads ?st) = (if j = i then None else row_status j (up_uploads st))" for j
    by (auto simp: dismissUpload_def Let_def row_status_filter split: option.splits)
  have inst: "m < length (up_tasks ?st) \<and> task_id (up_tasks ?st ! m) = j" if "up_instances ?st j = Some m" for j m
    using that st unfolding matched_def
    by (auto simp: dismissUpload_def Let_def nth_list_update split: option.splits if_splits)
      (metis option.inject)+
  have dist: "distinct (map ur_liveInputId (up_uploads ?st))"
    using st by (auto simp: matched_def dismissUpload_def Let_def distinct_map_filter split: option.splits)
  show ?thesis
    unfolding matched_def
  proof (intro conjI allI impI dist)
    show "a = b" if "works_for ?st j a" "works_for ?st j b" for j a b
      using fewer [OF that(1)] fewer [OF that(2)] st by (auto simp: matched_def)
    show "m < length (up_tasks ?st)" "task_id (up_tasks ?st ! m) = j" if "up_instances ?st j = Some m" for j m
      using inst [OF that] by simp_all
    show "\<exists>n. works_for ?st j n" if "row_status j (up_uploads ?st) = Some s" "isActive s" for j s
      using that st works by (auto simp: row matched_def split: if_splits)
    show "fits (tk_phase (up_tasks ?st ! n)) s"
      if "row_status j (up_uploads ?st) = Some s" "works_for ?st j n" for j s n
      using that st fewer [OF that(2)] phase [OF that(2)] by (auto simp: row matched_def split: if_splits)
  qed
qed


definition fresh_while_loading :: "upload_provider \<Rightarrow> bool" where
  \<comment> \<open>a task that has no upload yet is neither registered nor aborted\<close>
  "fresh_while_loading st = (\<forall>n < length (up_tasks st). tk_phase (up_tasks st ! n) = Loading \<longrightarrow>
     \<not> tk_aborted (up_tasks st ! n) \<and> (\<forall>i. up_instances st i \<noteq> Some n))"

lemma fresh_step:
  assumes "matched st" "fresh_while_loading st"
  shows "fresh_while_loading (upload_step ev st)"
proof -
  have inst: "up_instances st i = Some n \<Longrightarrow> n < length (up_tasks st)" for i n
    using assms(1) by (simp add: matched_def)
  show ?thesis
    using assms(2) inst
    by (cases ev) (auto simp: fresh_while_loading_def with_task_def upload_ops Let_def nth_append
        nth_list_update abort_task_def less_Suc_eq split: option.splits if_splits)
qed


lemma with_task_at: "phase_is st n p \<Longrightarrow> with_task n f st = f (up_tasks st ! n) st"
  by (simp add: with_task_def phase_is_def)

lemma matched_step:
  assumes st: "matched st" "fresh_while_loading st" and ok: "orderly st ev"
  shows "matched (upload_step ev st)"
proof (cases ev)
  case (Start_Upload x now)
  with st ok show ?thesis by (auto intro: matched_start)
next
  case (Tus_Loaded n)
  with ok have "phase_is st n Loading" by simp
  with st Tus_Loaded show ?thesis
    by (auto simp: with_task_def phase_is_def fresh_while_loading_def intro!: matched_loaded)
next
  case (Tus_Load_Failed n e)
  with ok have ph: "phase_is st n Loading" by simp
  show ?thesis
    unfolding Tus_Load_Failed upload_step.simps with_task_at [OF ph]
    by (rule matched_settles [OF st(1) ph, where q = Over], (simp add: onLoadFailed_def failed_patch_def isActive_def)+)
next
  case (Tus_Error n m)
  with ok have ph: "phase_is st n Running" by simp
  show ?thesis
    unfolding Tus_Error upload_step.simps with_task_at [OF ph]
    by (rule matched_settles [OF st(1) ph, where q = Over], (simp add: onError_def failed_patch_def isActive_def split: if_splits)+)
next
  case (Tus_Progress n sent whole)
  with ok have ph: "phase_is st n Running" by simp
  from Tus_Progress st ph matched_status [OF st(1) ph] show ?thesis
    by (intro matched_callback [OF st(1) phase_is_works [OF ph], of _ "up_tasks st ! n"])
      (auto simp: with_task_def onProgress_def row_status_upsert phase_is_def split: if_splits)
next
  case (Tus_Success n)
  with ok have ph: "phase_is st n Running" by simp
  show ?thesis
    unfolding Tus_Success upload_step.simps with_task_at [OF ph]
    by (rule matched_settles [OF st(1) ph, where q = Link_Pending], (simp add: onSuccess_def)+)
next
  case (Link_Answered n r)
  with ok have ph: "phase_is st n Link_Pending" by simp
  show ?thesis
    unfolding Link_Answered upload_step.simps with_task_at [OF ph]
    by (rule matched_settles [OF st(1) ph, where q = Over],
      (simp add: onLinkAnswered_def failed_patch_def isActive_def split: if_splits sum.splits)+)
next
  case (Dismiss i)
  with st show ?thesis by (simp add: matched_dismiss)
next
  case Unmount
  with ok show ?thesis by simp
qed

lemma reach_matched: "upload_reach st \<Longrightarrow> matched st \<and> fresh_while_loading st"
proof (induction rule: upload_reach.induct)
  case start
  then show ?case
    by (simp add: matched_def fresh_while_loading_def upload_init_def works_for_def row_status_def)
next
  case (step st ev)
  then show ?case by (simp add: matched_step fresh_step)
qed

lemma lifecycle_callback:
  assumes "matched st" "phase_is st n p"
    and "\<And>s. fits p s \<Longrightarrow> lifecycle (Some s) (Some (rp_status patch))"
  shows "lifecycle (row_status i (up_uploads st))
    (row_status i (upsert (task_id (up_tasks st ! n)) patch (up_uploads st)))"
  using assms(3) matched_status [OF assms(1,2)] by (auto simp: row_status_upsert intro: lifecycle.stay)

lemma lifecycle_start:
  assumes "matched st" "orderly st (Start_Upload x now)"
  shows "lifecycle (row_status i (up_uploads st)) (row_status i (up_uploads (startUpload x now st)))"
proof -
  have "s \<in> {Done, Failed}" if "row_status (si_liveInputId x) (up_uploads st) = Some s" for s
  proof (rule ccontr)
    assume "s \<notin> {Done, Failed}"
    then have "isActive s" by (cases s) (auto simp: isActive_def)
    with that assms(1) obtain n where "works_for st (si_liveInputId x) n" by (fastforce simp: matched_def)
    with assms(2) show False by (auto simp: works_for_def list_all_iff)
  qed
  then show ?thesis
    by (cases "row_status (si_liveInputId x) (up_uploads st)")
      (auto simp: startUpload_def row_status_append row_status_filter new_row_def
        intro: lifecycle.intros split: option.splits)
qed

lemma hasActive_works:
  assumes "matched st"
  shows "hasActive st \<longleftrightarrow> (\<exists>i n. works_for st i n \<and> row_status i (up_uploads st) \<noteq> None)"
proof
  assume "hasActive st"
  then obtain u where u: "u \<in> set (up_uploads st)" "isActive (ur_status u)"
    by (auto simp: hasActive_def list_ex_iff)
  then have "row_status (ur_liveInputId u) (up_uploads st) = Some (ur_status u)"
    using assms by (simp add: matched_def row_status_in)
  with u(2) assms show "\<exists>i n. works_for st i n \<and> row_status i (up_uploads st) \<noteq> None"
    by (metis matched_def option.distinct(1))
next
  assume "\<exists>i n. works_for st i n \<and> row_status i (up_uploads st) \<noteq> None"
  then obtain i n s where "works_for st i n" "row_status i (up_uploads st) = Some s" by auto
  moreover from this assms have "fits (tk_phase (up_tasks st ! n)) s" by (simp add: matched_def)
  then have "isActive s" by (rule fits_active)
  ultimately show "hasActive st"
    using row_status_mem by (fastforce simp: hasActive_def list_ex_iff)
qed

text \<open>
  C23. The provider refines the life of an upload. As long as an upload is started again only
  once the earlier one of its live input is through, each event moves the row of each live input
  along the lifecycle (queued, uploading, linking, done; failed from any of the active ones;
  queued again from done or failed; gone when dismissed) or leaves it, and closing the tab asks
  for confirmation exactly while some task with a row is still loading, uploading or linking.
\<close>

theorem upload_refines_lifecycle:
  assumes "upload_reach st" "orderly st ev"
  shows "lifecycle (row_status i (up_uploads st)) (row_status i (up_uploads (upload_step ev st))) \<and>
    hasActive st = (\<exists>j n. works_for st j n \<and> row_status j (up_uploads st) \<noteq> None)"
proof
  have st: "matched st" using reach_matched [OF assms(1)] by simp
  then show "hasActive st = (\<exists>j n. works_for st j n \<and> row_status j (up_uploads st) \<noteq> None)"
    by (rule hasActive_works)
  have step: "lifecycle (Some s) (Some q)"
    if "fits p s" "(p = Running \<and> q = Uploading) \<or> (p = Running \<and> q = Linking) \<or> q = Failed \<or> (p = Link_Pending \<and> q = Done)"
    for p s q
    using that by (cases p; cases s) (auto simp: lifecycle_simps isActive_def)
  show "lifecycle (row_status i (up_uploads st)) (row_status i (up_uploads (upload_step ev st)))"
  proof (cases ev)
    case (Start_Upload x now)
    with lifecycle_start [OF st] assms(2) show ?thesis by simp
  next
    case (Dismiss j)
    then show ?thesis
      by (auto simp: dismissUpload_def Let_def row_status_filter lifecycle_simps split: option.splits)
  next
    case Unmount
    with assms(2) show ?thesis by simp
  qed (use assms(2) in \<open>auto simp: with_task_def upload_ops failed_patch_def lifecycle.stay
      split: sum.splits if_splits intro!: lifecycle_callback [OF st] intro: step\<close>)
qed


definition demo_input :: start_input where
  "demo_input = \<lparr>si_liveInputId = ''l1'', si_blobType = [], si_uploadUrl = ''u'', si_videoUid = ''v''\<rparr>"

lemma upload_refines_lifecycle_witness:
  "lifecycle (row_status ''l1'' (up_uploads (startUpload demo_input 0 upload_init)))
     (row_status ''l1'' (up_uploads (upload_step (Tus_Loaded 0) (startUpload demo_input 0 upload_init)))) \<and>
   hasActive (startUpload demo_input 0 upload_init)"
proof -
  let ?st = "startUpload demo_input 0 upload_init"
  have "orderly upload_init (Start_Upload demo_input 0)" by (simp add: upload_init_def)
  from upload_reach.step [OF upload_reach.start this] have "upload_reach ?st" by simp
  moreover have "orderly ?st (Tus_Loaded 0)"
    by (simp add: phase_is_def startUpload_def upload_init_def at_work_def)
  moreover have "works_for ?st ''l1'' 0 \<and> row_status ''l1'' (up_uploads ?st) \<noteq> None"
    by (simp add: works_for_def startUpload_def upload_init_def at_work_def task_id_def demo_input_def
        row_status_def new_row_def)
  ultimately show ?thesis using upload_refines_lifecycle by blast
qed

text \<open>
  Starting the upload of a live input again while the first is still running does not stop the
  first: both upload, and when the first fails the new row is marked failed, the second upload,
  still running, is no longer registered, so that neither dismissing the row nor leaving the
  page aborts it, and closing the tab asks nothing.
\<close>

lemma restart_leaves_first_upload:
  "let st = foldl (\<lambda>st ev. upload_step ev st) upload_init
         [Start_Upload demo_input 0, Tus_Loaded 0, Start_Upload demo_input 1, Tus_Loaded 1, Tus_Error 0 ''x'']
   in map ur_status (up_uploads st) = [Failed] \<and> up_instances st ''l1'' = None \<and> \<not> hasActive st \<and>
      tk_phase (up_tasks st ! 1) = Running \<and> \<not> tk_aborted (up_tasks st ! 1)"
  by (simp add: Let_def upload_init_def with_task_def upload_ops set_task_def set_rows_def drop_instance_def
      upsert_def new_row_def failed_patch_def patch_row_def hasActive_def isActive_def task_id_def demo_input_def)

text \<open>
  Dismissing an upload while the upload library is still loading removes its row and nothing
  else: the upload starts all the same once the library is there.
\<close>

lemma dismissed_while_loading_still_uploads:
  "let st = foldl (\<lambda>st ev. upload_step ev st) upload_init
         [Start_Upload demo_input 0, Dismiss ''l1'', Tus_Loaded 0]
   in up_uploads st = [] \<and> up_instances st ''l1'' = Some 0 \<and>
      tk_phase (up_tasks st ! 0) = Running \<and> \<not> tk_aborted (up_tasks st ! 0)"
  by (simp add: Let_def upload_init_def with_task_def upload_ops set_task_def task_id_def new_row_def demo_input_def)

end
