(* ===== verification/Catalog.thy ===== *)
theory Catalog
  imports JsSort AppShell Did "HOL-Library.List_Lexorder" "HOL-Library.Char_ord"
begin

text \<open>
  What the public pages make of the list of live inputs: the creators index
  (\<open>app/creators/page.tsx\<close>), the discovery page (\<open>app/discover/page.tsx\<close>), the home feed
  (\<open>app/feed/page.tsx\<close>), a creator's channel (\<open>app/creator/[address]/page.tsx\<close>) and the owner's
  dashboard (\<open>app/dashboard/page.tsx\<close>). Only the data the pages hand to their screens is
  modelled, not the markup. Live inputs have the declared type of the list (\<open>LiveInputListItem\<close>
  in \<open>lib/cloudflare/types.ts\<close>), with the fields the pages tolerate as missing optional;
  \<open>localeCompare\<close>, whose collation comes with the platform, is a parameter.
\<close>

subsection \<open>Live inputs\<close>

record live_item =
  lv_uid :: string
  lv_meta :: "(string \<times> string) list option"
  lv_created :: string
  lv_defaultCreator :: "string option"
  lv_state :: "string option" \<comment> \<open>\<open>status?.current?.state\<close>\<close>

definition item_meta :: "live_item \<Rightarrow> string \<Rightarrow> string option" where
  "item_meta l k = Option.bind (lv_meta l) (\<lambda>m. map_of m k)"

definition is_connected :: "live_item \<Rightarrow> bool" where
  "is_connected l = (lv_state l = Some ''connected'')"

definition nullish_or :: "string option \<Rightarrow> string option \<Rightarrow> string option" where
  \<comment> \<open>\<open>a ?? b\<close>\<close>
  "nullish_or a b = (case a of None \<Rightarrow> b | Some x \<Rightarrow> Some x)"

definition creator_address :: "live_item \<Rightarrow> string" where
  \<comment> \<open>\<open>(meta?.creatorAddress ?? defaultCreator ?? '').toLowerCase()\<close>\<close>
  "creator_address l = to_lower (or_default (nullish_or (item_meta l ''creatorAddress'') (lv_defaultCreator l)) [])"

definition owned_item :: "string \<Rightarrow> live_item \<Rightarrow> bool" where
  "owned_item address l =
     (map_option to_lower (item_meta l ''creatorAddress'') = Some address \<or>
      map_option to_lower (lv_defaultCreator l) = Some address)"

definition created_desc :: "live_item \<Rightarrow> live_item \<Rightarrow> sign" where
  \<comment> \<open>\<open>a.created < b.created ? 1 : -1\<close>: never 0, so equal times leave the order to the engine\<close>
  "created_desc a b = (if lv_created a < lv_created b then Pos else Neg)"

subsection \<open>Creators\<close>

record creator_stats =
  cr_displayName :: string
  cr_livesCount :: nat
  cr_hasLiveNow :: bool
  cr_lastLiveAtISO :: "string option"
  cr_anchoredCount :: nat

definition item_display :: "live_item \<Rightarrow> string \<Rightarrow> string" where
  "item_display l address = or_default (item_meta l ''creator'') (shortAddress address 6 4)"

definition is_anchored :: "live_item \<Rightarrow> bool" where
  "is_anchored l = truthy (item_meta l ''manifestCid'')"

definition first_stats :: "live_item \<Rightarrow> string \<Rightarrow> creator_stats" where
  "first_stats l address =
     \<lparr>cr_displayName = item_display l address, cr_livesCount = 1, cr_hasLiveNow = is_connected l,
      cr_lastLiveAtISO = Some (lv_created l), cr_anchoredCount = (if is_anchored l then 1 else 0)\<rparr>"

definition more_stats :: "live_item \<Rightarrow> creator_stats \<Rightarrow> creator_stats" where
  "more_stats l v = v
     \<lparr>cr_livesCount := cr_livesCount v + 1,
      cr_hasLiveNow := cr_hasLiveNow v \<or> is_connected l,
      cr_anchoredCount := cr_anchoredCount v + (if is_anchored l then 1 else 0),
      cr_lastLiveAtISO :=
        (if \<not> truthy (cr_lastLiveAtISO v) \<or> the (cr_lastLiveAtISO v) < lv_created l
         then Some (lv_created l) else cr_lastLiveAtISO v)\<rparr>"

fun map_upsert :: "'k \<Rightarrow> 'v \<Rightarrow> ('v \<Rightarrow> 'v) \<Rightarrow> ('k \<times> 'v) list \<Rightarrow> ('k \<times> 'v) list" where
  \<comment> \<open>a \<open>Map\<close> in insertion order: the entry is changed in place, a new one goes to the end\<close>
  "map_upsert k v f [] = [(k, v)]"
| "map_upsert k v f ((k', v') # m) = (if k' = k then (k', f v') # m else (k', v') # map_upsert k v f m)"

definition add_creator :: "(string \<times> creator_stats) list \<Rightarrow> live_item \<Rightarrow> (string \<times> creator_stats) list" where
  "add_creator byAddress l =
     (let raw = creator_address l in
      if \<not> lower_hex0x 40 raw then byAddress
      else map_upsert raw (first_stats l raw) (more_stats l) byAddress)"

definition creators_by_address :: "live_item list \<Rightarrow> (string \<times> creator_stats) list" where
  "creators_by_address all = foldl add_creator [] all"

definition live_first :: "creator_stats \<Rightarrow> creator_stats \<Rightarrow> sign" where
  "live_first a b = (if cr_hasLiveNow a = cr_hasLiveNow b then Zero else if cr_hasLiveNow a then Neg else Pos)"

definition creators_cmp ::
  "(string \<Rightarrow> string \<Rightarrow> sign) \<Rightarrow> string \<times> creator_stats \<Rightarrow> string \<times> creator_stats \<Rightarrow> sign" where
  "creators_cmp localeCompare a b =
     or_else (live_first (snd a) (snd b))
       (or_else (num_cmp (cr_livesCount (snd b)) (cr_livesCount (snd a)))
         (localeCompare (or_default (cr_lastLiveAtISO (snd b)) []) (or_default (cr_lastLiveAtISO (snd a)) [])))"

definition creators_page ::
  "(string \<Rightarrow> string \<Rightarrow> sign) \<Rightarrow> live_item list \<Rightarrow> (string \<times> creator_stats) list \<times> nat \<times> nat" where
  \<comment> \<open>the creators, how many are live, and how many lives are anchored\<close>
  "creators_page localeCompare all =
     (let creators = js_sort (creators_cmp localeCompare) (creators_by_address all)
      in (creators, length (filter (\<lambda>c. cr_hasLiveNow (snd c)) creators),
          sum_list (map (\<lambda>c. cr_anchoredCount (snd c)) creators)))"

record discover_stats =
  ds_displayName :: string
  ds_livesCount :: nat
  ds_hasLiveNow :: bool

definition add_discovered :: "(string \<times> discover_stats) list \<Rightarrow> live_item \<Rightarrow> (string \<times> discover_stats) list" where
  "add_discovered byAddress l =
     (let raw = creator_address l in
      if \<not> lower_hex0x 40 raw then byAddress
      else map_upsert raw
        \<lparr>ds_displayName = item_display l raw, ds_livesCount = 1, ds_hasLiveNow = is_connected l\<rparr>
        (\<lambda>v. v\<lparr>ds_livesCount := ds_livesCount v + 1, ds_hasLiveNow := ds_hasLiveNow v \<or> is_connected l\<rparr>)
        byAddress)"

definition discover_cmp :: "string \<times> discover_stats \<Rightarrow> string \<times> discover_stats \<Rightarrow> sign" where
  "discover_cmp a b =
     or_else (if ds_hasLiveNow (snd a) = ds_hasLiveNow (snd b) then Zero else if ds_hasLiveNow (snd a) then Neg else Pos)
       (num_cmp (ds_livesCount (snd b)) (ds_livesCount (snd a)))"

definition discover_creators :: "live_item list \<Rightarrow> (string \<times> discover_stats) list" where
  "discover_creators all = js_sort discover_cmp (foldl add_discovered [] all)"

subsection \<open>Lives\<close>

record live_card =
  lc_uid :: string
  lc_title :: string
  lc_creatorDisplayName :: string
  lc_creatorAddress :: "string option"
  lc_thumbnailUrl :: "string option"

definition untitled :: string where
  "untitled = ''sem t'' @ [CHR 0xED] @ ''tulo''"

definition live_card_of :: "client_env \<Rightarrow> string option \<Rightarrow> live_item \<Rightarrow> live_card" where
  \<comment> \<open>with the creator's address the page accepts\<close>
  "live_card_of env address l =
     \<lparr>lc_uid = lv_uid l, lc_title = or_default (item_meta l ''name'') untitled,
      lc_creatorDisplayName = or_default (item_meta l ''creator'')
        (case address of None \<Rightarrow> ''aevia'' | Some a \<Rightarrow> shortAddress a 6 4),
      lc_creatorAddress = address,
      lc_thumbnailUrl = streamThumbnailUrl env (item_meta l ''recordingVideoUid'') (Some 360) None\<rparr>"

definition connected_lives :: "live_item list \<Rightarrow> live_item list" where
  "connected_lives all = js_sort created_desc (filter is_connected all)"

definition discover_lives :: "client_env \<Rightarrow> live_item list \<Rightarrow> live_card list" where
  "discover_lives env all =
     map (\<lambda>l. let raw = creator_address l in live_card_of env (if lower_hex0x 40 raw then Some raw else None) l)
       (connected_lives all)"

definition feed_lives :: "client_env \<Rightarrow> live_item list \<Rightarrow> live_card list" where
  "feed_lives env all =
     map (\<lambda>l. let raw = creator_address l in live_card_of env (if raw = [] then None else Some raw) l)
       (take 8 (connected_lives all))"

subsection \<open>A creator's channel\<close>

record creator_live =
  cl_uid :: string
  cl_name :: string
  cl_state :: string
  cl_createdISO :: string
  cl_thumbnailUrl :: "string option"
  cl_manifestCid :: "string option"
  cl_registerBlock :: "jsnum option"
  cl_registerTxHash :: "string option"

record creator_channel =
  cc_address :: string
  cc_did :: "string result"
  cc_displayName :: string
  cc_lastRegisterBlock :: "jsnum option"
  cc_lives :: "creator_live list"

fun js_gt :: "jsnum \<Rightarrow> jsnum \<Rightarrow> bool" where
  "js_gt (Fin x) (Fin y) = (x > y)"
| "js_gt PInf (Fin y) = True"
| "js_gt PInf NInf = True"
| "js_gt (Fin x) NInf = True"
| "js_gt _ _ = False"

definition register_block :: "live_item \<Rightarrow> jsnum option" where
  "register_block l =
     (if truthy (item_meta l ''registerBlock'') then Some (js_Number (the (item_meta l ''registerBlock''))) else None)"

definition later_block :: "jsnum option \<Rightarrow> live_item \<Rightarrow> jsnum option" where
  "later_block last_block l =
     (case register_block l of
        None \<Rightarrow> last_block
      | Some b \<Rightarrow> (case last_block of None \<Rightarrow> Some b | Some x \<Rightarrow> if js_gt b x then Some b else Some x))"

definition creator_live_of :: "client_env \<Rightarrow> live_item \<Rightarrow> creator_live" where
  "creator_live_of env l =
     \<lparr>cl_uid = lv_uid l, cl_name = or_default (item_meta l ''name'') untitled,
      cl_state = or_default (lv_state l) ''unknown'', cl_createdISO = lv_created l,
      cl_thumbnailUrl = streamThumbnailUrl env (item_meta l ''recordingVideoUid'') (Some 360) None,
      cl_manifestCid = item_meta l ''manifestCid'', cl_registerBlock = register_block l,
      cl_registerTxHash = item_meta l ''registerTxHash''\<rparr>"

definition creator_page :: "client_env \<Rightarrow> string \<Rightarrow> live_item list \<Rightarrow> creator_channel option" where
  \<comment> \<open>\<open>None\<close>: not found\<close>
  "creator_page env raw liveInputs =
     (if \<not> hex0x 40 raw then None
      else
        let address = to_lower raw;
            owned = js_sort created_desc (filter (owned_item address) liveInputs)
        in Some
          \<lparr>cc_address = address, cc_did = addressToDid address 84532,
           cc_displayName = (case find (\<lambda>l. truthy (item_meta l ''creator'')) owned of
               None \<Rightarrow> shortAddress address 6 4
             | Some l \<Rightarrow> or_default (item_meta l ''creator'') (shortAddress address 6 4)),
           cc_lastRegisterBlock = foldl later_block None owned,
           cc_lives = map (creator_live_of env) owned\<rparr>)"

subsection \<open>The dashboard\<close>

record live_row =
  lr_uid :: string
  lr_state :: string
  lr_name :: string
  lr_created :: string
  lr_recordingVideoUid :: "string option"
  lr_manifestCid :: "string option"
  lr_registerTxHash :: "string option"
  lr_registerBlock :: "jsnum option"

definition live_row_of :: "live_item \<Rightarrow> live_row" where
  "live_row_of l =
     \<lparr>lr_uid = lv_uid l, lr_state = or_default (lv_state l) ''disconnected'',
      lr_name = or_default (item_meta l ''name'') [], lr_created = lv_created l,
      lr_recordingVideoUid = item_meta l ''recordingVideoUid'', lr_manifestCid = item_meta l ''manifestCid'',
      lr_registerTxHash = item_meta l ''registerTxHash'', lr_registerBlock = register_block l\<rparr>"

definition dashboard_lives :: "string \<Rightarrow> live_item list \<Rightarrow> live_row list" where
  "dashboard_lives sessionAddress all =
     js_sort (\<lambda>a b. if lr_created a < lr_created b then Pos else Neg)
       (map live_row_of (filter (owned_item (to_lower sessionAddress)) all))"

subsection \<open>What the creators pages compute\<close>

text \<open>The reference: an address is listed once, where it is first seen, with the summary of its lives.\<close>

definition first_seen :: "'a list \<Rightarrow> 'a list" where
  "first_seen xs = rev (remdups (rev xs))"

definition creator_summary :: "string \<Rightarrow> live_item list \<Rightarrow> creator_stats" where
  "creator_summary address ls =
     \<lparr>cr_displayName = item_display (hd ls) address, cr_livesCount = length ls,
      cr_hasLiveNow = list_ex is_connected ls, cr_lastLiveAtISO = Some (Max (set (map lv_created ls))),
      cr_anchoredCount = length (filter is_anchored ls)\<rparr>"

definition lives_of :: "live_item list \<Rightarrow> string \<Rightarrow> live_item list" where
  "lives_of all address = filter (\<lambda>l. creator_address l = address) all"

definition creator_addresses :: "live_item list \<Rightarrow> string list" where
  "creator_addresses all = first_seen (filter (lower_hex0x 40) (map creator_address all))"

lemma first_seen_snoc: "first_seen (xs @ [x]) = (if x \<in> set xs then first_seen xs else first_seen xs @ [x])"
  by (simp add: first_seen_def)

lemma first_seen_simps [simp]:
  "first_seen [] = []" "set (first_seen xs) = set xs" "distinct (first_seen xs)"
  by (simp_all add: first_seen_def)

lemma map_upsert_tagged:
  "distinct ks \<Longrightarrow> map_upsert k v f (map (\<lambda>a. (a, g a)) ks) =
     (if k \<in> set ks then map (\<lambda>a. (a, if a = k then f (g a) else g a)) ks
      else map (\<lambda>a. (a, g a)) ks @ [(k, v)])"
  by (induction ks) auto

lemma map_upsert_image:
  assumes "\<And>w. h (f w) = f' (h w)"
  shows "map (\<lambda>(a, w). (a, h w)) (map_upsert k v f m) = map_upsert k (h v) f' (map (\<lambda>(a, w). (a, h w)) m)"
  by (induction m) (auto simp: assms)

lemma summary_more:
  assumes "ls \<noteq> []"
  shows "creator_summary a (ls @ [l]) = more_stats l (creator_summary a ls)"
proof -
  obtain m where m: "Max (lv_created ` set ls) = m" by blast
  then have "Max (insert (lv_created l) (lv_created ` set ls)) = max (lv_created l) m"
    using assms by simp
  moreover have "(if \<not> truthy (Some m) \<or> m < lv_created l then Some (lv_created l) else Some m) = Some (max (lv_created l) m)"
    by (cases m) (auto simp: max_def)
  ultimately show ?thesis
    using assms m by (auto simp: creator_summary_def more_stats_def split: if_splits)
qed

lemma summary_first: "creator_summary a [l] = first_stats l a"
  by (simp add: creator_summary_def first_stats_def)

lemma lives_of_ne: "lives_of all a \<noteq> [] \<longleftrightarrow> a \<in> creator_address ` set all"
  by (auto simp: lives_of_def filter_empty_conv)

lemma creators_grouped:
  "creators_by_address all = map (\<lambda>a. (a, creator_summary a (lives_of all a))) (creator_addresses all)"
proof (induction all rule: rev_induct)
  case Nil
  then show ?case by (simp add: creators_by_address_def creator_addresses_def)
next
  case (snoc l all)
  let ?a = "creator_address l"
  have step: "creators_by_address (all @ [l]) = add_creator (creators_by_address all) l"
    by (simp add: creators_by_address_def)
  have other: "lives_of (all @ [l]) a = (if a = ?a then lives_of all a @ [l] else lives_of all a)" for a
    by (simp add: lives_of_def)
  show ?case
  proof (cases "lower_hex0x 40 ?a")
    case False
    then have "creator_addresses (all @ [l]) = creator_addresses all" by (simp add: creator_addresses_def)
    moreover have "a \<noteq> ?a" if "a \<in> set (creator_addresses all)" for a
      using that False by (auto simp: creator_addresses_def)
    ultimately show ?thesis using False by (simp add: step snoc add_creator_def other)
  next
    case True
    have mem: "?a \<in> set (creator_addresses all) \<longleftrightarrow> lives_of all ?a \<noteq> []"
      using True by (auto simp: creator_addresses_def lives_of_ne)
    have addrs: "creator_addresses (all @ [l]) =
        (if ?a \<in> set (creator_addresses all) then creator_addresses all else creator_addresses all @ [?a])"
      using True by (auto simp: creator_addresses_def first_seen_snoc)
    have "distinct (creator_addresses all)" by (simp add: creator_addresses_def)
    then show ?thesis
      using mem True by (auto simp: step snoc add_creator_def Let_def map_upsert_tagged addrs other summary_more
          summary_first)
  qed
qed

definition to_discovered :: "creator_stats \<Rightarrow> discover_stats" where
  "to_discovered v =
     \<lparr>ds_displayName = cr_displayName v, ds_livesCount = cr_livesCount v, ds_hasLiveNow = cr_hasLiveNow v\<rparr>"

lemma discovered_step:
  "map (\<lambda>(a, v). (a, to_discovered v)) (add_creator m l) =
     add_discovered (map (\<lambda>(a, v). (a, to_discovered v)) m) l"
proof (cases "lower_hex0x 40 (creator_address l)")
  case True
  have more: "to_discovered (more_stats l w) = (to_discovered w)
      \<lparr>ds_livesCount := ds_livesCount (to_discovered w) + 1,
       ds_hasLiveNow := ds_hasLiveNow (to_discovered w) \<or> is_connected l\<rparr>" for w
    by (simp add: to_discovered_def more_stats_def)
  have first: "to_discovered (first_stats l a) =
      \<lparr>ds_displayName = item_display l a, ds_livesCount = 1, ds_hasLiveNow = is_connected l\<rparr>" for a
    by (simp add: to_discovered_def first_stats_def)
  show ?thesis
    using True unfolding add_creator_def add_discovered_def Let_def
    by (simp add: map_upsert_image [where h = to_discovered and f = "more_stats l", OF more] first)
qed (simp add: add_creator_def add_discovered_def)

lemma discovered_projection:
  "foldl add_discovered [] all = map (\<lambda>(a, v). (a, to_discovered v)) (creators_by_address all)"
  by (induction all rule: rev_induct) (simp_all add: creators_by_address_def discovered_step)

text \<open>The order of the creators page, when the platform's collation is consistent.\<close>

lemma live_first_key: "live_first a b = num_cmp (\<not> cr_hasLiveNow a) (\<not> cr_hasLiveNow b)"
  by (auto simp: live_first_def num_cmp_def)

lemma creators_cmp_comparator: "js_comparator lc \<Longrightarrow> js_comparator (creators_cmp lc)"
  unfolding creators_cmp_def live_first_key
  by (intro comparator_or_else comparator_key [where f = "\<lambda>a. or_default (cr_lastLiveAtISO (snd a)) []"]
      comparator_key [where f = "\<lambda>a. \<not> cr_hasLiveNow (snd a)", OF num_cmp_comparator]
      comparator_rev [of "\<lambda>a b. lc (or_default (cr_lastLiveAtISO (snd a)) []) (or_default (cr_lastLiveAtISO (snd b)) [])"]
      comparator_rev [of "\<lambda>a b. num_cmp (cr_livesCount (snd a)) (cr_livesCount (snd b))"]
      comparator_key [where f = "\<lambda>a. cr_livesCount (snd a)", OF num_cmp_comparator])

definition before_creator :: "(string \<Rightarrow> string \<Rightarrow> sign) \<Rightarrow> creator_stats \<Rightarrow> creator_stats \<Rightarrow> bool" where
  \<comment> \<open>live now, then more lives, then the later last live\<close>
  "before_creator lc a b =
     (cr_hasLiveNow a \<and> \<not> cr_hasLiveNow b \<or>
      cr_hasLiveNow a = cr_hasLiveNow b \<and>
        (cr_livesCount a > cr_livesCount b \<or>
         cr_livesCount a = cr_livesCount b \<and>
           lc (or_default (cr_lastLiveAtISO b) []) (or_default (cr_lastLiveAtISO a) []) \<noteq> Pos))"

lemma before_creator: "creators_cmp lc a b \<noteq> Pos \<longleftrightarrow> before_creator lc (snd a) (snd b)"
  by (auto simp: creators_cmp_def before_creator_def live_first_def)

lemma sum_list_mset: "mset xs = mset ys \<Longrightarrow> sum_list (map f xs) = (sum_list (map f ys) :: nat)"
  by (metis mset_map sum_mset_sum_list)

lemma length_filter_mset: "mset xs = mset ys \<Longrightarrow> length (filter P xs) = length (filter P ys)"
  by (metis mset_filter size_mset)

lemma anchored_total:
  "sum_list (map (\<lambda>c. cr_anchoredCount (snd c)) (creators_by_address all)) =
     length (filter (\<lambda>l. is_anchored l \<and> lower_hex0x 40 (creator_address l)) all)"
proof -
  have upsert: "sum_list (map (\<lambda>c. cr_anchoredCount (snd c)) (map_upsert k (first_stats l k) (more_stats l) m)) =
      sum_list (map (\<lambda>c. cr_anchoredCount (snd c)) m) + (if is_anchored l then 1 else 0)" for k l m
    by (induction m) (auto simp: first_stats_def more_stats_def)
  show ?thesis
    by (induction all rule: rev_induct) (auto simp: creators_by_address_def add_creator_def Let_def upsert)
qed

lemma live_creators:
  "length (filter (\<lambda>c. cr_hasLiveNow (snd c)) (creators_by_address all)) =
     length (filter (\<lambda>a. list_ex is_connected (lives_of all a)) (creator_addresses all))"
  by (simp add: creators_grouped filter_map o_def creator_summary_def)

text \<open>
  C24. The creators index is the list of live inputs grouped by creator. Each well-formed address
  is listed once, with the number of its lives, whether one of them is connected, how many are
  anchored, the latest creation time and the name of its first live; creators who are live come
  first, then those with more lives, then the more recently active; the two totals count the
  creators who are live and the anchored lives with an address. The discovery page shows the same
  grouping with fewer columns.
\<close>

theorem creators_index:
  assumes "js_comparator localeCompare"
  shows "(case creators_page localeCompare all of (creators, liveNowCount, anchoredTotal) \<Rightarrow>
      mset creators = mset (map (\<lambda>a. (a, creator_summary a (lives_of all a))) (creator_addresses all)) \<and>
      distinct (map fst creators) \<and>
      sorted_wrt (\<lambda>a b. before_creator localeCompare (snd a) (snd b)) creators \<and>
      liveNowCount = length (filter (\<lambda>a. list_ex is_connected (lives_of all a)) (creator_addresses all)) \<and>
      anchoredTotal = length (filter (\<lambda>l. is_anchored l \<and> lower_hex0x 40 (creator_address l)) all)) \<and>
    mset (discover_creators all) = mset (map (\<lambda>(a, v). (a, to_discovered v)) (creators_by_address all))"
proof -
  let ?cs = "js_sort (creators_cmp localeCompare) (creators_by_address all)"
  have m: "mset ?cs = mset (creators_by_address all)" by simp
  have "map fst (creators_by_address all) = creator_addresses all" by (simp add: creators_grouped o_def)
  with m have "mset (map fst ?cs) = mset (creator_addresses all)" by (metis mset_map)
  then have "distinct (map fst ?cs)"
    by (metis creator_addresses_def distinct_count_atmost_1 first_seen_simps(3) set_mset_mset)
  moreover have "sorted_wrt (\<lambda>a b. before_creator localeCompare (snd a) (snd b)) ?cs"
    using js_comparator.sort_sorted [OF creators_cmp_comparator [OF assms]] by (simp add: before_creator)
  moreover have "length (filter (\<lambda>c. cr_hasLiveNow (snd c)) ?cs) =
      length (filter (\<lambda>a. list_ex is_connected (lives_of all a)) (creator_addresses all))"
    using length_filter_mset [OF m] live_creators by metis
  moreover have "sum_list (map (\<lambda>c. cr_anchoredCount (snd c)) ?cs) =
      length (filter (\<lambda>l. is_anchored l \<and> lower_hex0x 40 (creator_address l)) all)"
    using sum_list_mset [OF m] anchored_total by metis
  moreover have "mset ?cs = mset (map (\<lambda>a. (a, creator_summary a (lives_of all a))) (creator_addresses all))"
    by (simp only: mset_js_sort creators_grouped)
  moreover have "mset (discover_creators all) = mset (map (\<lambda>(a, v). (a, to_discovered v)) (creators_by_address all))"
    by (simp add: discover_creators_def discovered_projection)
  ultimately show ?thesis unfolding creators_page_def Let_def prod.case by blast
qed

definition demo_live :: "string \<Rightarrow> string \<Rightarrow> string \<Rightarrow> live_item" where
  "demo_live uid state created =
     \<lparr>lv_uid = uid, lv_meta = Some [(''creatorAddress'', ''0x'' @ replicate 40 CHR ''A''), (''creator'', uid)],
      lv_created = created, lv_defaultCreator = None, lv_state = Some state\<rparr>"

lemma creators_index_witness:
  "mset (discover_creators [demo_live ''u'' ''connected'' ''2025'', demo_live ''v'' ''idle'' ''2026'']) =
     {#(''0x'' @ replicate 40 CHR ''a'', \<lparr>ds_displayName = ''u'', ds_livesCount = 2, ds_hasLiveNow = True\<rparr>)#}"
proof -
  let ?all = "[demo_live ''u'' ''connected'' ''2025'', demo_live ''v'' ''idle'' ''2026'']"
  have "map (\<lambda>(a, v). (a, to_discovered v)) (creators_by_address ?all) =
      [(''0x'' @ replicate 40 CHR ''a'', \<lparr>ds_displayName = ''u'', ds_livesCount = 2, ds_hasLiveNow = True\<rparr>)]"
    by code_simp
  then show ?thesis using creators_index [OF num_cmp_comparator, of ?all] by simp
qed

subsection \<open>What the lists of lives hold\<close>

text \<open>The comparison never returns 0, but only its sign on later lives matters to the order.\<close>

lemma insert_created:
  assumes "\<And>x y. (c x y = Pos) = (f x < (f y :: 'b :: linorder))"
  shows "sorted_wrt (\<lambda>a b. f b \<le> f a) xs \<Longrightarrow> sorted_wrt (\<lambda>a b. f b \<le> f a) (js_insert c x xs)"
  by (induction xs) (auto simp: assms)

lemma sort_created:
  assumes "\<And>x y. (c x y = Pos) = (f x < (f y :: 'b :: linorder))"
  shows "sorted_wrt (\<lambda>a b. f b \<le> f a) (js_sort c xs)"
  by (induction xs) (simp_all add: insert_created [OF assms])

lemma created_desc_Pos [simp]: "created_desc a b = Pos \<longleftrightarrow> lv_created a < lv_created b"
  by (simp add: created_desc_def)

lemma sorted_map: "sorted_wrt r (map f xs) = sorted_wrt (\<lambda>a b. r (f a) (f b)) xs"
  by (rule sorted_wrt_map)

text \<open>
  The lists of lives. The home feed shows the first eight cards of the discovery page; the
  discovery page shows the live inputs that are connected, each once; a creator's channel and the
  owner's dashboard show the live inputs whose recorded or default creator is that address in
  any case of its letters, each once; all of them newest first.
\<close>

lemma lives_listed:
  "map lc_uid (feed_lives env all) = take 8 (map lc_uid (discover_lives env all)) \<and>
   mset (map lc_uid (discover_lives env all)) = mset (map lv_uid (filter is_connected all)) \<and>
   sorted_wrt (\<lambda>a b. lv_created b \<le> lv_created a) (connected_lives all) \<and>
   map lc_uid (discover_lives env all) = map lv_uid (connected_lives all) \<and>
   (case creator_page env raw all of
      None \<Rightarrow> \<not> hex0x 40 raw
    | Some ch \<Rightarrow> cc_address ch = to_lower raw \<and>
        mset (map cl_uid (cc_lives ch)) = mset (map lv_uid (filter (owned_item (to_lower raw)) all)) \<and>
        sorted_wrt (\<lambda>a b. cl_createdISO b \<le> cl_createdISO a) (cc_lives ch)) \<and>
   mset (dashboard_lives me all) = mset (map live_row_of (filter (owned_item (to_lower me)) all)) \<and>
   sorted_wrt (\<lambda>a b. lr_created b \<le> lr_created a) (dashboard_lives me all)"
proof -
  have discover: "map lc_uid (discover_lives env all) = map lv_uid (connected_lives all)"
    by (simp add: discover_lives_def live_card_of_def Let_def)
  have "map lc_uid (feed_lives env all) = take 8 (map lv_uid (connected_lives all))"
    by (simp add: feed_lives_def live_card_of_def Let_def take_map)
  moreover have newest: "sorted_wrt (\<lambda>a b. lv_created b \<le> lv_created a) (js_sort created_desc ls)" for ls
    by (rule sort_created) simp
  moreover have "mset (map lv_uid (connected_lives all)) = mset (map lv_uid (filter is_connected all))"
    by (simp add: connected_lives_def)
  moreover have "sorted_wrt (\<lambda>a b. lr_created b \<le> lr_created a) (dashboard_lives me all)"
    unfolding dashboard_lives_def by (rule sort_created) simp
  moreover have "(case creator_page env raw all of
      None \<Rightarrow> \<not> hex0x 40 raw
    | Some ch \<Rightarrow> cc_address ch = to_lower raw \<and>
        mset (map cl_uid (cc_lives ch)) = mset (map lv_uid (filter (owned_item (to_lower raw)) all)) \<and>
        sorted_wrt (\<lambda>a b. cl_createdISO b \<le> cl_createdISO a) (cc_lives ch))"
    using newest by (simp add: creator_page_def Let_def creator_live_of_def o_def sorted_wrt_map)
  ultimately show ?thesis
    unfolding discover by (simp add: connected_lives_def dashboard_lives_def)
qed

text \<open>
  The comment beside the grouping of the discovery page prefers the most recent display name; the
  code keeps the one of the first live in the list, however old.
\<close>

lemma first_display_kept:
  "map (ds_displayName \<circ> snd) (discover_creators
     [demo_live ''old'' ''idle'' ''2025'', demo_live ''new'' ''idle'' ''2026'']) = [''old'']"
  by code_simp

text \<open>
  The dashboard and the channel accept either field, the index prefers the first: a live input with
  two different addresses is counted for one creator and listed in the channels of both.
\<close>

lemma two_creators:
  "let l = \<lparr>lv_uid = ''u'', lv_meta = Some [(''creatorAddress'', ''0xa'')], lv_created = [],
            lv_defaultCreator = Some ''0xb'', lv_state = None\<rparr>
   in creator_address l = ''0xa'' \<and> owned_item ''0xa'' l \<and> owned_item ''0xb'' l"
  by code_simp

end
