(* ===== verification/PlayerHls.thy ===== *)
theory PlayerHls
  imports WhepFailover ChunkRelay JsText
begin

text \<open>
  The HLS side of the player (\<open>apps/video/src/components/player-screen.tsx\<close>): which engine an
  effect of the screen starts, the rotation over the providers with the browser's own HLS and
  with hls.js, and the replay. An effect is its set-up, the handlers it registers and its
  clean-up; the video element, hls.js and the import of the chunk relay are outside, as the
  events they fire. Texts hold the characters of the source in Latin-1.
\<close>

subsection \<open>Properties and browser\<close>

datatype player_backend = Backend_Cloudflare | Backend_Mesh | Backend_Livepeer

record player_props =
  pp_uid :: string
  pp_title :: string
  pp_whepUrl :: string
  pp_hlsUrl :: "string option"
  pp_aeviaHlsUrl :: "string option"
  pp_aeviaWhepUrl :: "string option"
  pp_aeviaSessionId :: "string option"
  pp_candidates :: "failover_candidate list option"
  pp_bootstraps :: "string list option"
  pp_vodProcessing :: "bool option"
  pp_backend :: "player_backend option"
  pp_state :: string

record browser =
  bw_query :: "(string \<times> string) list" \<comment> \<open>the query of the page, parsed\<close>
  bw_video :: bool \<comment> \<open>the video element is mounted\<close>
  bw_nativeHls :: bool \<comment> \<open>\<open>canPlayType('application/vnd.apple.mpegurl')\<close>\<close>
  bw_hlsJs :: bool \<comment> \<open>\<open>Hls.isSupported()\<close>\<close>

datatype viewer_mode = Live_Mode | Vod_Mode
datatype live_status = Live_Idle | Live_Connecting | Live_Playing | Live_Ended | Live_Error
datatype vod_status = Vod_Idle | Vod_Loading | Vod_Playing | Vod_Error

datatype stream_source = Whep_Stream nat | Failover_Stream nat failover_candidate

record player =
  pl_mode :: viewer_mode
  pl_liveStatus :: live_status
  pl_liveError :: "string option"
  pl_autoplayBlocked :: bool
  pl_vodStatus :: vod_status
  pl_vodError :: "string option"
  pl_srcObject :: "stream_source option" \<comment> \<open>\<open>video.srcObject\<close>\<close>
  pl_src :: string \<comment> \<open>\<open>video.src\<close>\<close>
  pl_muted :: bool
  pl_chunkRelayStats :: "chunk_relay_stats option"

definition player_init :: "player_props \<Rightarrow> player" where
  "player_init p =
     \<lparr>pl_mode = (if pp_state p = ''connected'' then Live_Mode else Vod_Mode), pl_liveStatus = Live_Idle,
      pl_liveError = None, pl_autoplayBlocked = False, pl_vodStatus = Vod_Idle, pl_vodError = None,
      pl_srcObject = None, pl_src = [], pl_muted = True, pl_chunkRelayStats = None\<rparr>"

definition live_is :: "live_status \<Rightarrow> player \<Rightarrow> player" where
  "live_is st s = s\<lparr>pl_liveStatus := st\<rparr>"

definition live_fails :: "string \<Rightarrow> player \<Rightarrow> player" where
  "live_fails m s = s\<lparr>pl_liveStatus := Live_Error, pl_liveError := Some m\<rparr>"

definition live_connecting :: "player \<Rightarrow> player" where
  "live_connecting s = s\<lparr>pl_liveStatus := Live_Connecting, pl_liveError := None\<rparr>"

definition query_is :: "browser \<Rightarrow> string \<Rightarrow> string \<Rightarrow> bool" where
  "query_is b k v = (map_of (bw_query b) k = Some v)"

definition forceHlsPath :: "browser \<Rightarrow> bool" where
  "forceHlsPath b = query_is b ''hls'' ''1''"

definition effectiveWhepUrl :: "browser \<Rightarrow> player_props \<Rightarrow> string option" where
  "effectiveWhepUrl b p =
     (if forceHlsPath b then None
      else case pp_aeviaWhepUrl p of
             Some u \<Rightarrow> Some u
           | None \<Rightarrow> if pp_whepUrl p = [] then None else Some (pp_whepUrl p))"

definition failover_ready :: "player_props \<Rightarrow> bool" where
  "failover_ready p = (or_default (pp_candidates p) [] \<noteq> [] \<and> truthy (pp_aeviaSessionId p))"

definition hasFailover :: "browser \<Rightarrow> player_props \<Rightarrow> bool" where
  "hasFailover b p = (\<not> forceHlsPath b \<and> failover_ready p)"

definition whep_drives :: "browser \<Rightarrow> player_props \<Rightarrow> player \<Rightarrow> bool" where
  \<comment> \<open>the effect calls \<open>startLive\<close>\<close>
  "whep_drives b p s = (pl_mode s = Live_Mode \<and> (truthy (effectiveWhepUrl b p) \<or> hasFailover b p))"

definition hls_urls :: "player_props \<Rightarrow> string list" where
  "hls_urls p =
     (if failover_ready p
      then map (\<lambda>c. strip_slashes (fc_httpsBase c) @ ''/live/'' @ the (pp_aeviaSessionId p) @ ''/hls/index.m3u8'')
             (the (pp_candidates p))
      else if truthy (pp_aeviaHlsUrl p) then [the (pp_aeviaHlsUrl p)] else [])"

subsection \<open>The browser's own HLS\<close>

record native_hls =
  nh_urls :: "string list"
  nh_idx :: nat
  nh_tried :: "string list" \<comment> \<open>what \<open>video.src\<close> was set to\<close>

datatype native_event = Native_CanPlay | Native_Refused | Native_Error

definition no_playlist :: string where
  "no_playlist = ''playlist indispon'' @ [CHR 0xED] @ ''vel '' @ [em_dash] @ '' transmiss'' @ [CHR 0xE3] @
     ''o pode ter encerrado''"

definition attachNative :: "native_hls \<times> player \<Rightarrow> native_hls \<times> player" where
  "attachNative = (\<lambda>(n, s).
     if nh_idx n < length (nh_urls n) \<and> nh_urls n ! nh_idx n \<noteq> []
     then (n\<lparr>nh_tried := nh_tried n @ [nh_urls n ! nh_idx n]\<rparr>, s\<lparr>pl_src := nh_urls n ! nh_idx n\<rparr>)
     else (n, s))"

definition start_native :: "string list \<Rightarrow> player \<Rightarrow> native_hls \<times> player" where
  "start_native urls s = attachNative (\<lparr>nh_urls = urls, nh_idx = 0, nh_tried = []\<rparr>, s)"

fun native_step :: "native_event \<Rightarrow> native_hls \<times> player \<Rightarrow> native_hls \<times> player" where
  "native_step Native_CanPlay (n, s) = (n, live_is Live_Playing s)"
| "native_step Native_Refused (n, s) = (n, s\<lparr>pl_autoplayBlocked := True\<rparr>)"
| "native_step Native_Error (n, s) =
     (let n' = n\<lparr>nh_idx := nh_idx n + 1\<rparr>
      in if nh_idx n' < length (nh_urls n') then attachNative (n', live_is Live_Connecting s)
         else (n', live_fails no_playlist s))"

definition stop_native :: "player \<Rightarrow> player" where
  "stop_native s = s\<lparr>pl_src := []\<rparr>"

subsection \<open>hls.js\<close>

datatype hlsjs_phase =
    Importing \<comment> \<open>\<open>await import('@/lib/p2p/chunk-relay')\<close>\<close>
  | Attached
  | Destroyed

record hlsjs =
  hj_urls :: "string list"
  hj_phase :: hlsjs_phase
  hj_cancelled :: bool
  hj_relay :: bool \<comment> \<open>the chunk relay is wired\<close>
  hj_idx :: nat \<comment> \<open>\<open>candidateIdx\<close>\<close>
  hj_loads :: "string list" \<comment> \<open>the calls of \<open>loadSource\<close>\<close>

datatype hls_error_type = NetworkError | OtherHlsError string

datatype hlsjs_event =
    Relay_Wired
  | Relay_Refused
  | Relay_Stats chunk_relay_stats
  | Manifest_Parsed
  | Hls_Refused
  | Hls_Error bool hls_error_type

definition all_unavailable :: "nat \<Rightarrow> string" where
  "all_unavailable n = ''mesh: todos os '' @ show_nat n @ '' provedores indispon'' @ [CHR 0xED] @ ''veis''"

definition loadCurrent :: "hlsjs \<Rightarrow> hlsjs" where
  "loadCurrent h =
     (if hj_idx h < length (hj_urls h) \<and> hj_urls h ! hj_idx h \<noteq> []
      then h\<lparr>hj_loads := hj_loads h @ [hj_urls h ! hj_idx h]\<rparr> else h)"

definition attach_hls :: "bool \<Rightarrow> hlsjs \<Rightarrow> hlsjs" where
  "attach_hls relay h = loadCurrent (h\<lparr>hj_phase := Attached, hj_relay := relay\<rparr>)"

definition use_chunk_relay :: "browser \<Rightarrow> player_props \<Rightarrow> bool" where
  "use_chunk_relay b p =
     (query_is b ''p2p'' ''1'' \<and> query_is b ''chunks'' ''1'' \<and> truthy (pp_aeviaSessionId p))"

definition start_hlsjs :: "bool \<Rightarrow> string list \<Rightarrow> hlsjs" where
  "start_hlsjs useChunkRelay urls =
     (let h = \<lparr>hj_urls = urls, hj_phase = Importing, hj_cancelled = False, hj_relay = False, hj_idx = 0, hj_loads = []\<rparr>
      in if useChunkRelay then h else attach_hls False h)"

definition on_hls_error :: "bool \<Rightarrow> hls_error_type \<Rightarrow> hlsjs \<times> player \<Rightarrow> hlsjs \<times> player" where
  "on_hls_error fatal ty = (\<lambda>(h, s).
     if \<not> fatal then (h, s)
     else if ty = NetworkError \<and> hj_idx h + 1 < length (hj_urls h)
       then (loadCurrent (h\<lparr>hj_idx := hj_idx h + 1\<rparr>), live_connecting s)
     else (h, live_fails
       (case ty of NetworkError \<Rightarrow> all_unavailable (length (hj_urls h)) | OtherHlsError t \<Rightarrow> ''mesh: '' @ t) s))"

fun hlsjs_step :: "hlsjs_event \<Rightarrow> hlsjs \<times> player \<Rightarrow> hlsjs \<times> player" where
  \<comment> \<open>the import answers while it is awaited; hls.js calls its handlers until it is destroyed\<close>
  "hlsjs_step Relay_Wired (h, s) =
     (if hj_phase h \<noteq> Importing then (h, s)
      else if hj_cancelled h then (h\<lparr>hj_phase := Destroyed\<rparr>, s) else (attach_hls True h, s))"
| "hlsjs_step Relay_Refused (h, s) =
     (if hj_phase h \<noteq> Importing then (h, s)
      else if hj_cancelled h then (h\<lparr>hj_phase := Destroyed\<rparr>, s) else (attach_hls False h, s))"
| "hlsjs_step (Relay_Stats c) (h, s) =
     (h, if hj_phase h = Attached \<and> hj_relay h then s\<lparr>pl_chunkRelayStats := Some c\<rparr> else s)"
| "hlsjs_step Manifest_Parsed (h, s) = (h, if hj_phase h = Attached then live_is Live_Playing s else s)"
| "hlsjs_step Hls_Refused (h, s) = (h, s\<lparr>pl_autoplayBlocked := True\<rparr>)"
| "hlsjs_step (Hls_Error fatal ty) (h, s) =
     (if hj_phase h = Attached then on_hls_error fatal ty (h, s) else (h, s))"

definition stop_hlsjs :: "hlsjs \<times> player \<Rightarrow> hlsjs \<times> player" where
  \<comment> \<open>\<open>cancelled = true; destroy?.()\<close>: there is nothing to destroy before the import answered\<close>
  "stop_hlsjs = (\<lambda>(h, s).
     (let h' = h\<lparr>hj_cancelled := True\<rparr>
      in if hj_phase h = Attached then (h'\<lparr>hj_phase := Destroyed\<rparr>, s\<lparr>pl_chunkRelayStats := None\<rparr>) else (h', s)))"

subsection \<open>The effect of the live playlist\<close>

datatype hls_engine = No_Hls | Native_Hls native_hls | Hls_Js hlsjs

definition no_hls_support :: string where
  "no_hls_support = ''navegador n'' @ [CHR 0xE3] @ ''o suporta HLS''"

definition start_hls :: "browser \<Rightarrow> player_props \<Rightarrow> player \<Rightarrow> hls_engine \<times> player" where
  "start_hls b p s0 =
     (if pl_mode s0 \<noteq> Live_Mode \<or> truthy (effectiveWhepUrl b p) \<or> \<not> bw_video b \<or> hls_urls p = [] then (No_Hls, s0)
      else
        let s = live_connecting (s0\<lparr>pl_srcObject := None\<rparr>);
            preferNative = (\<not> (query_is b ''p2p'' ''1'' \<and> bw_hlsJs b))
        in if preferNative \<and> bw_nativeHls b
             then (case start_native (hls_urls p) s of (n, t) \<Rightarrow> (Native_Hls n, t))
           else if bw_hlsJs b then (Hls_Js (start_hlsjs (use_chunk_relay b p) (hls_urls p)), s)
           else (No_Hls, live_fails no_hls_support s))"

subsection \<open>The replay\<close>

datatype replay_engine =
    No_Replay
  | Native_Replay bool \<comment> \<open>the one-off \<open>canplay\<close> listener is still there\<close>
  | Hls_Replay

datatype replay_event =
    Replay_CanPlay
  | Replay_Error
  | Replay_Parsed
  | Replay_Refused
  | Replay_Hls_Error bool string

definition vod_fails :: "string \<Rightarrow> player \<Rightarrow> player" where
  "vod_fails m s = s\<lparr>pl_vodError := Some m, pl_vodStatus := Vod_Error\<rparr>"

definition start_replay :: "browser \<Rightarrow> player_props \<Rightarrow> player \<Rightarrow> replay_engine \<times> player" where
  "start_replay b p s0 =
     (if pl_mode s0 \<noteq> Vod_Mode \<or> \<not> truthy (pp_hlsUrl p) \<or> \<not> bw_video b then (No_Replay, s0)
      else
        let s = s0\<lparr>pl_srcObject := None, pl_vodStatus := Vod_Loading, pl_vodError := None\<rparr>
        in if bw_nativeHls b then (Native_Replay True, s\<lparr>pl_src := the (pp_hlsUrl p)\<rparr>)
           else if bw_hlsJs b then (Hls_Replay, s)
           else (No_Replay, vod_fails (''reprodu'' @ [CHR 0xE7, CHR 0xE3] @ ''o hls n'' @ [CHR 0xE3] @
                   ''o suportada neste navegador'') s))"

fun replay_step :: "replay_event \<Rightarrow> replay_engine \<times> player \<Rightarrow> replay_engine \<times> player" where
  "replay_step Replay_CanPlay (Native_Replay True, s) = (Native_Replay False, s\<lparr>pl_vodStatus := Vod_Playing\<rparr>)"
| "replay_step Replay_Error (Native_Replay l, s) = (Native_Replay l, vod_fails ''falha ao carregar replay'' s)"
| "replay_step Replay_Parsed (Hls_Replay, s) = (Hls_Replay, s\<lparr>pl_vodStatus := Vod_Playing\<rparr>)"
| "replay_step Replay_Refused (Hls_Replay, s) = (Hls_Replay, s\<lparr>pl_autoplayBlocked := True\<rparr>)"
| "replay_step (Replay_Hls_Error fatal ty) (Hls_Replay, s) =
     (Hls_Replay, if fatal then vod_fails (''replay error: '' @ ty) s else s)"
| "replay_step _ (e, s) = (e, s)"

definition stop_replay :: "replay_engine \<Rightarrow> player \<Rightarrow> player" where
  "stop_replay e s = (case e of Native_Replay _ \<Rightarrow> s\<lparr>pl_src := []\<rparr> | _ \<Rightarrow> s)"

subsection \<open>The rotation\<close>

lemma hls_urls_nonempty: "u \<in> set (hls_urls p) \<Longrightarrow> u \<noteq> []"
  by (auto simp: hls_urls_def truthy_iff split: if_splits)

lemma hls_urls_ready: "failover_ready p \<Longrightarrow> hls_urls p \<noteq> []"
  by (cases "pp_candidates p") (auto simp: hls_urls_def failover_ready_def)

lemma forced_whep [simp]: "forceHlsPath b \<Longrightarrow> effectiveWhepUrl b p = None"
  by (simp add: effectiveWhepUrl_def)

definition network_errors :: "hlsjs_event list \<Rightarrow> nat" where
  "network_errors evs = length (filter ((=) (Hls_Error True NetworkError)) evs)"

definition native_errors :: "native_event list \<Rightarrow> nat" where
  "native_errors evs = length (filter ((=) Native_Error) evs)"

lemma take_Suc_nth: "n < length xs \<Longrightarrow> take (Suc n) xs = take n xs @ [xs ! n]"
  by (rule take_Suc_conv_app_nth)

definition rotating :: "string list \<Rightarrow> nat \<Rightarrow> hlsjs \<Rightarrow> bool" where
  "rotating urls n h =
     (hj_urls h = urls \<and> hj_phase h = Attached \<and> hj_idx h = min n (length urls - 1) \<and>
      hj_loads h = take (Suc (hj_idx h)) urls)"

lemma rotating_step:
  assumes "rotating urls n h" "urls \<noteq> []" "\<And>u. u \<in> set urls \<Longrightarrow> u \<noteq> []"
  shows "rotating urls (n + network_errors [e]) (fst (hlsjs_step e (h, s)))"
proof (cases "e = Hls_Error True NetworkError")
  case True
  from assms(1) have h: "hj_urls h = urls" "hj_phase h = Attached" "hj_idx h = min n (length urls - 1)"
    "hj_loads h = take (Suc (hj_idx h)) urls"
    by (simp_all add: rotating_def)
  show ?thesis
  proof (cases "Suc n < length urls")
    case more: True
    then have "urls ! Suc n \<noteq> []" using assms(3) by simp
    with True h more show ?thesis
      by (simp add: rotating_def on_hls_error_def loadCurrent_def network_errors_def take_Suc_nth)
  next
    case False
    then have "min (Suc n) (length urls - 1) = min n (length urls - 1)" by auto
    moreover from False have "\<not> Suc (min n (length urls - 1)) < length urls" using assms(2) by (cases urls) auto
    moreover note True h False
    ultimately show ?thesis
      by (simp add: rotating_def on_hls_error_def network_errors_def)
  qed
next
  case False
  with assms(1) show ?thesis
    by (cases e) (auto simp: rotating_def on_hls_error_def network_errors_def)
qed

lemma rotating_run:
  assumes "urls \<noteq> []" "\<And>u. u \<in> set urls \<Longrightarrow> u \<noteq> []"
  shows "rotating urls n h \<Longrightarrow> rotating urls (n + network_errors evs) (fst (fold hlsjs_step evs (h, s)))"
proof (induction evs arbitrary: n h s)
  case Nil
  then show ?case by (simp add: network_errors_def)
next
  case (Cons e evs)
  obtain h' s' where hs: "hlsjs_step e (h, s) = (h', s')" by fastforce
  with rotating_step [OF Cons.prems assms, of e s] have "rotating urls (n + network_errors [e]) h'" by simp
  from Cons.IH [OF this, of s'] show ?case by (simp add: hs network_errors_def add.assoc split: if_splits)
qed

definition attached_hls :: "string list \<Rightarrow> hlsjs \<Rightarrow> bool" where
  \<comment> \<open>hls.js as the effect leaves it, with or without the chunk relay\<close>
  "attached_hls urls h =
     (h = start_hlsjs False urls \<or>
      (\<exists>ev s. ev \<in> {Relay_Wired, Relay_Refused} \<and> h = fst (hlsjs_step ev (start_hlsjs True urls, s))))"

lemma attached_rotating:
  assumes "attached_hls urls h" "urls \<noteq> []" "\<And>u. u \<in> set urls \<Longrightarrow> u \<noteq> []"
  shows "rotating urls 0 h"
  using assms by (cases urls) (auto simp: attached_hls_def start_hlsjs_def attach_hls_def loadCurrent_def rotating_def)

lemma native_run:
  assumes "urls \<noteq> []" "\<And>u. u \<in> set urls \<Longrightarrow> u \<noteq> []"
  shows "let (n, t) = fold native_step evs (start_native urls s)
    in nh_urls n = urls \<and> nh_idx n = native_errors evs \<and> nh_tried n = take (Suc (native_errors evs)) urls"
proof (induction evs rule: rev_induct)
  case Nil
  from assms show ?case by (cases urls) (simp_all add: start_native_def attachNative_def native_errors_def)
next
  case (snoc e evs)
  obtain n t where run: "fold native_step evs (start_native urls s) = (n, t)" by fastforce
  with snoc have n: "nh_urls n = urls" "nh_idx n = native_errors evs" "nh_tried n = take (Suc (native_errors evs)) urls"
    by simp_all
  show ?case
  proof (cases e)
    case Native_Error
    show ?thesis
    proof (cases "Suc (native_errors evs) < length urls")
      case True
      then have "urls ! Suc (native_errors evs) \<noteq> []" using assms(2) by simp
      with True n Native_Error run show ?thesis
        by (simp add: attachNative_def native_errors_def take_Suc_nth)
    qed (use n Native_Error run in \<open>simp add: native_errors_def\<close>)
  qed (use n run in \<open>simp_all add: native_errors_def\<close>)
qed

text \<open>
  C25. Rotating over the providers ends. Whatever hls.js and the video element report, each
  provider's playlist is loaded at most once, in the order of the ranking: after \<open>k\<close> fatal network
  errors the first \<open>k + 1\<close> were loaded and no other. From the last one on, such an error changes
  nothing but the message, which names their number, and a fatal error of another kind never
  rotates. The browser's own player rotates alike on its error events.
\<close>

theorem hls_rotation_ends:
  assumes "hls_urls p \<noteq> []" "attached_hls (hls_urls p) h0"
  shows "(case fold hlsjs_step evs (h0, s0) of (h, s) \<Rightarrow>
      hj_loads h = take (Suc (network_errors evs)) (hls_urls p) \<and>
      (if Suc (network_errors evs) < length (hls_urls p)
       then (case hlsjs_step (Hls_Error True NetworkError) (h, s) of (h', s') \<Rightarrow>
              pl_liveStatus s' = Live_Connecting \<and> hj_loads h' = hj_loads h @ [hls_urls p ! Suc (network_errors evs)])
       else hlsjs_step (Hls_Error True NetworkError) (h, s) =
              (h, live_fails (all_unavailable (length (hls_urls p))) s)) \<and>
      hlsjs_step (Hls_Error True (OtherHlsError t)) (h, s) = (h, live_fails (''mesh: '' @ t) s)) \<and>
    (case fold native_step nevs (start_native (hls_urls p) s0) of (n, s) \<Rightarrow>
      nh_tried n = take (Suc (native_errors nevs)) (hls_urls p) \<and>
      (Suc (native_errors nevs) < length (hls_urls p) \<or>
       (\<exists>n'. native_step Native_Error (n, s) = (n', live_fails no_playlist s) \<and> nh_tried n' = nh_tried n)))"
proof -
  let ?urls = "hls_urls p"
  obtain h s where hs: "fold hlsjs_step evs (h0, s0) = (h, s)" by fastforce
  have start: "rotating ?urls 0 h0" using attached_rotating [OF assms(2,1)] hls_urls_nonempty by blast
  have r: "rotating ?urls (network_errors evs) h"
    using rotating_run [OF assms(1) _ start, of evs s0] hls_urls_nonempty hs by simp
  then have h: "hj_urls h = ?urls" "hj_phase h = Attached" "hj_idx h = min (network_errors evs) (length ?urls - 1)"
    by (simp_all add: rotating_def)
  have loads: "hj_loads h = take (Suc (network_errors evs)) ?urls"
    using r assms(1) by (cases "Suc (network_errors evs) < length ?urls") (auto simp: rotating_def min_def)
  have more: "case hlsjs_step (Hls_Error True NetworkError) (h, s) of (h', s') \<Rightarrow>
      pl_liveStatus s' = Live_Connecting \<and> hj_loads h' = hj_loads h @ [?urls ! Suc (network_errors evs)]"
    if "Suc (network_errors evs) < length ?urls"
  proof -
    from that have "hj_idx h = network_errors evs" using h(3) by simp
    moreover from that have "?urls ! Suc (network_errors evs) \<noteq> []"
      using hls_urls_nonempty [of "?urls ! Suc (network_errors evs)" p] by simp
    ultimately show ?thesis using that h(1,2) by (simp add: on_hls_error_def loadCurrent_def live_connecting_def)
  qed
  have stuck: "hlsjs_step (Hls_Error True NetworkError) (h, s) = (h, live_fails (all_unavailable (length ?urls)) s)"
    if "\<not> Suc (network_errors evs) < length ?urls"
  proof -
    from that assms(1) have "Suc (hj_idx h) = length ?urls" using h(3) by (cases ?urls) auto
    then show ?thesis using h(1,2) by (simp add: on_hls_error_def)
  qed
  have other: "hlsjs_step (Hls_Error True (OtherHlsError t)) (h, s) = (h, live_fails (''mesh: '' @ t) s)"
    using h(2) by (simp add: on_hls_error_def)
  obtain n u where nt: "fold native_step nevs (start_native ?urls s0) = (n, u)" by fastforce
  then have n: "nh_urls n = ?urls" "nh_idx n = native_errors nevs" "nh_tried n = take (Suc (native_errors nevs)) ?urls"
    using native_run [OF assms(1), of nevs s0] hls_urls_nonempty by auto
  then have "Suc (native_errors nevs) < length ?urls \<or>
      (\<exists>n'. native_step Native_Error (n, u) = (n', live_fails no_playlist u) \<and> nh_tried n' = nh_tried n)"
    by (simp add: Let_def)
  with loads more stuck other hs nt n(3) show ?thesis by simp
qed

definition demo_props :: player_props where
  "demo_props = \<lparr>pp_uid = ''u'', pp_title = [], pp_whepUrl = [], pp_hlsUrl = None, pp_aeviaHlsUrl = None,
     pp_aeviaWhepUrl = None, pp_aeviaSessionId = Some ''s'',
     pp_candidates = Some [\<lparr>fc_peerId = ''a'', fc_httpsBase = ''https://a/''\<rparr>, \<lparr>fc_peerId = ''b'', fc_httpsBase = ''https://b''\<rparr>],
     pp_bootstraps = None, pp_vodProcessing = None, pp_backend = None, pp_state = ''connected''\<rparr>"

lemma demo_hls_urls: "hls_urls demo_props = [''https://a/live/s/hls/index.m3u8'', ''https://b/live/s/hls/index.m3u8'']"
  by code_simp

lemma hls_rotation_ends_witness:
  "hj_loads (fst (fold hlsjs_step [Manifest_Parsed, Hls_Error True NetworkError]
      (start_hlsjs False (hls_urls demo_props), player_init demo_props))) = hls_urls demo_props"
proof -
  have "attached_hls (hls_urls demo_props) (start_hlsjs False (hls_urls demo_props))" by (simp add: attached_hls_def)
  note th = hls_rotation_ends [OF _ this, where evs = "[Manifest_Parsed, Hls_Error True NetworkError]" and ?s0.0 = "player_init demo_props"]
  have "hj_loads (fst (fold hlsjs_step [Manifest_Parsed, Hls_Error True NetworkError]
      (start_hlsjs False (hls_urls demo_props), player_init demo_props))) =
      take (Suc (network_errors [Manifest_Parsed, Hls_Error True NetworkError])) (hls_urls demo_props)"
    using th unfolding case_prod_beta by (simp only: demo_hls_urls list.distinct) blast
  then show ?thesis by (simp add: demo_hls_urls network_errors_def)
qed

text \<open>The effect has a playlist to play and no WHEP address that plays instead.\<close>

definition hls_wanted :: "browser \<Rightarrow> player_props \<Rightarrow> player \<Rightarrow> bool" where
  "hls_wanted b p s =
     (pl_mode s = Live_Mode \<and> \<not> truthy (effectiveWhepUrl b p) \<and> bw_video b \<and> hls_urls p \<noteq> [])"

text \<open>
  Which engine plays. A playlist is loaded only while the live is watched and the page has no
  WHEP address, or \<open>?hls=1\<close> hides it: by the browser itself when it can and the peer-to-peer flag
  does not ask for hls.js, else by hls.js when that is supported, else the screen reports that HLS
  is not supported. The WHEP effect and the playlist play into the same element together exactly
  when the page has candidates and a session but no WHEP address at all.
\<close>

lemma live_engine_choice:
  "(case start_hls b p s of (e, t) \<Rightarrow>
     (\<exists>n. e = Native_Hls n) = (hls_wanted b p s \<and> bw_nativeHls b \<and> \<not> (query_is b ''p2p'' ''1'' \<and> bw_hlsJs b)) \<and>
     (\<exists>h. e = Hls_Js h) = (hls_wanted b p s \<and> bw_hlsJs b \<and> \<not> (bw_nativeHls b \<and> \<not> query_is b ''p2p'' ''1'')) \<and>
     pl_liveStatus t = (if e \<noteq> No_Hls then Live_Connecting else if hls_wanted b p s then Live_Error else pl_liveStatus s) \<and>
     (e \<noteq> No_Hls \<and> whep_drives b p s) =
       (pl_mode s = Live_Mode \<and> bw_video b \<and> \<not> forceHlsPath b \<and> failover_ready p \<and>
        \<not> truthy (effectiveWhepUrl b p) \<and> (bw_hlsJs b \<or> bw_nativeHls b)))"
proof -
  note engine = start_hls_def hls_wanted_def Let_def start_native_def attachNative_def
  show ?thesis
    by (cases "hls_wanted b p s"; cases "bw_nativeHls b"; cases "bw_hlsJs b"; cases "query_is b ''p2p'' ''1''")
      (auto simp: engine whep_drives_def hasFailover_def hls_urls_ready live_fails_def live_connecting_def
        split: prod.splits)
qed

end
