(* ===== verification/PlayerScreen.thy ===== *)
theory PlayerScreen
  imports PlayerHls Whep
begin

text \<open>
  The WHEP side of the player (\<open>apps/video/src/components/player-screen.tsx\<close>): \<open>startLive\<close> with the
  orchestrator of \<open>whep-failover.ts\<close> or a single \<open>playWhep\<close>, what their callbacks do to the screen,
  the clean-up of the effect, and the change to the replay with its polling. The two clients are
  the models of the theories \<open>WhepFailover\<close> and \<open>Whep\<close>, run inside the screen: an event of the
  screen is an event of one of them, the answer to the request for ICE servers, a call of
  \<open>startLive\<close> (by the effect or the retry button) or of the clean-up.
\<close>

subsection \<open>State\<close>

record whep_attempt =
  wa_url :: string \<comment> \<open>\<open>effectiveWhepUrl\<close> of the call\<close>
  wa_failed :: bool \<comment> \<open>resolving the endpoint threw\<close>
  wa_play :: "(whep_options \<times> whep_state) option" \<comment> \<open>\<open>playWhep\<close>, once called\<close>

record screen =
  sn_player :: player
  sn_attempts :: "whep_attempt list"
  sn_whepRef :: "nat option" \<comment> \<open>\<open>whepSessionRef.current\<close>: the attempt of the session\<close>
  sn_handles :: "(failover_options \<times> failover) list"
  sn_failoverRef :: "nat option"

definition screen_init :: "player_props \<Rightarrow> screen" where
  "screen_init p = \<lparr>sn_player = player_init p, sn_attempts = [], sn_whepRef = None, sn_handles = [],
     sn_failoverRef = None\<rparr>"

definition on_player :: "(player \<Rightarrow> player) \<Rightarrow> screen \<Rightarrow> screen" where
  "on_player f s = s\<lparr>sn_player := f (sn_player s)\<rparr>"

subsection \<open>The orchestrated path\<close>

definition failover_opts :: "player_props \<Rightarrow> failover_options" where
  "failover_opts p = \<lparr>fo_sessionId = the (pp_aeviaSessionId p), fo_candidates = the (pp_candidates p)\<rparr>"

definition none_served :: "nat \<Rightarrow> string" where
  "none_served n = ''nenhum dos '' @ show_nat n @ '' provedores conseguiu servir a live''"

definition show_stream :: "browser \<Rightarrow> stream_source \<Rightarrow> player \<Rightarrow> player" where
  \<comment> \<open>a refused \<open>play()\<close> is an event of its own\<close>
  "show_stream b st s = (if bw_video b then s\<lparr>pl_srcObject := Some st\<rparr> else s)"

fun onStateChange :: "failover_state \<Rightarrow> failover_context \<Rightarrow> player \<Rightarrow> player" where
  "onStateChange Idle cx s = s"
| "onStateChange Connecting cx s = live_is Live_Connecting s"
| "onStateChange FailingOver cx s = live_is Live_Connecting s"
| "onStateChange Connected cx s = live_is Live_Playing s"
| "onStateChange FailedAll cx s = live_fails (none_served (cx_totalAttempts cx)) s"

fun show_failover :: "browser \<Rightarrow> nat \<Rightarrow> failover_output \<Rightarrow> player \<Rightarrow> player" where
  "show_failover b i (StateChange st cx) s = onStateChange st cx s"
| "show_failover b i (StreamOut c) s = show_stream b (Failover_Stream i c) s"

subsection \<open>The single address\<close>

definition onConnectionStateChange :: "string \<Rightarrow> player \<Rightarrow> player" where
  "onConnectionStateChange st s =
     (let s1 = (if st = ''connected'' then live_is Live_Playing s else s);
          s2 = (if st = ''failed'' \<or> st = ''closed''
             then live_fails (''conex'' @ [CHR 0xE3] @ ''o '' @ (if st = ''failed'' then ''falhou'' else ''encerrada'')) s1
             else s1)
      in if st = ''disconnected'' then live_is Live_Ended s2 else s2)"

fun show_whep :: "whep_output \<Rightarrow> player \<Rightarrow> player" where
  "show_whep (StateCallback st) s = onConnectionStateChange st s"
| "show_whep _ s = s"

definition start_failed :: "js_error \<Rightarrow> player \<Rightarrow> player" where
  "start_failed e s = live_fails (err_message ''falha ao conectar'' e) s"

definition play_options :: "browser \<Rightarrow> player_props \<Rightarrow> string \<Rightarrow> string \<Rightarrow> ice_server list \<Rightarrow> whep_options" where
  "play_options b p effective url iceServers =
     \<lparr>wo_whepUrl = (if pp_backend p = Some Backend_Livepeer then url else effective),
      wo_iceServers = Some iceServers, wo_iceTransportPolicy = None, wo_debugLog = query_is b ''debug'' ''1'',
      wo_skipResourceDelete = (pp_backend p = Some Backend_Livepeer)\<rparr>"

definition set_play :: "nat \<Rightarrow> whep_options \<times> whep_state \<Rightarrow> screen \<Rightarrow> screen" where
  "set_play i ow s = s\<lparr>sn_attempts := (sn_attempts s)[i := (sn_attempts s ! i)\<lparr>wa_play := Some ow\<rparr>]\<rparr>"

definition ice_resolved :: "browser \<Rightarrow> player_props \<Rightarrow> nat \<Rightarrow> string \<Rightarrow> ice_server list \<Rightarrow> real \<Rightarrow> screen \<Rightarrow> screen" where
  \<comment> \<open>\<open>resolveLivepeerEndpoint\<close> or \<open>fetchIceServers\<close> answered; only the former gives an address\<close>
  "ice_resolved b p i url iceServers now s =
     (let opts = play_options b p (wa_url (sn_attempts s ! i)) url iceServers
      in set_play i (opts, playWhep opts now) s)"

definition resolve_threw :: "nat \<Rightarrow> js_error \<Rightarrow> screen \<Rightarrow> screen" where
  "resolve_threw i e s =
     on_player (start_failed e) (s\<lparr>sn_attempts := (sn_attempts s)[i := (sn_attempts s ! i)\<lparr>wa_failed := True\<rparr>]\<rparr>)"

definition play_settled :: "browser \<Rightarrow> nat \<Rightarrow> whep_stage \<Rightarrow> whep_stage \<Rightarrow> screen \<Rightarrow> screen" where
  \<comment> \<open>what follows \<open>await playWhep\<close> once it returned or threw\<close>
  "play_settled b i before after s =
     (if \<not> awaiting before then s
      else case after of
          Live _ \<Rightarrow> on_player (show_stream b (Whep_Stream i)) (s\<lparr>sn_whepRef := Some i\<rparr>)
        | PlayFailed e \<Rightarrow> on_player (start_failed e) s
        | _ \<Rightarrow> s)"

definition whep_happens ::
  "(string \<Rightarrow> string \<Rightarrow> string option) \<Rightarrow> browser \<Rightarrow> nat \<Rightarrow> whep_options \<times> whep_state \<Rightarrow> whep_event \<Rightarrow> screen \<Rightarrow> screen" where
  "whep_happens resolve b i ow ev s =
     (case ow of (opts, w) \<Rightarrow>
        let w' = whep_step resolve opts ev w;
            s1 = on_player (fold show_whep (drop (length (ws_out w)) (ws_out w'))) (set_play i (opts, w') s)
        in play_settled b i (ws_stage w) (ws_stage w') s1)"

subsection \<open>Starting and cleaning up\<close>

definition startLive :: "browser \<Rightarrow> player_props \<Rightarrow> screen \<Rightarrow> screen" where
  "startLive b p s =
     (if failover_ready p then
        let f = playWhepWithFailover (failover_opts p); i = length (sn_handles s)
        in (on_player (fold (show_failover b i) (fo_log f)) (on_player live_connecting s))
             \<lparr>sn_handles := sn_handles s @ [(failover_opts p, f)], sn_failoverRef := Some i\<rparr>
      else if \<not> truthy (effectiveWhepUrl b p) then s
      else (on_player live_connecting s)
             \<lparr>sn_attempts := sn_attempts s @ [\<lparr>wa_url = the (effectiveWhepUrl b p), wa_failed = False, wa_play = None\<rparr>]\<rparr>)"

definition stop_session ::
  "(string \<Rightarrow> string \<Rightarrow> string option) \<Rightarrow> screen \<Rightarrow> screen" where
  \<comment> \<open>\<open>void whepSessionRef.current?.stop(); whepSessionRef.current = null\<close>\<close>
  "stop_session resolve s =
     (case sn_whepRef s of
        None \<Rightarrow> s
      | Some i \<Rightarrow> (case wa_play (sn_attempts s ! i) of
            None \<Rightarrow> s\<lparr>sn_whepRef := None\<rparr>
          | Some (opts, w) \<Rightarrow> (set_play i (opts, whep_step resolve opts WhepStop w) s)\<lparr>sn_whepRef := None\<rparr>))"

definition stop_failover :: "screen \<Rightarrow> screen" where
  "stop_failover s =
     (case sn_failoverRef s of
        None \<Rightarrow> s
      | Some i \<Rightarrow> (case sn_handles s ! i of (opts, f) \<Rightarrow>
            s\<lparr>sn_handles := (sn_handles s)[i := (opts, stop_call f)], sn_failoverRef := None\<rparr>))"

definition cleanup_live :: "(string \<Rightarrow> string \<Rightarrow> string option) \<Rightarrow> screen \<Rightarrow> screen" where
  "cleanup_live resolve s = stop_failover (stop_session resolve s)"

definition switchToReplay :: "(string \<Rightarrow> string \<Rightarrow> string option) \<Rightarrow> screen \<Rightarrow> screen" where
  "switchToReplay resolve s = on_player (\<lambda>pl. pl\<lparr>pl_mode := Vod_Mode\<rparr>) (stop_session resolve s)"

definition unmute :: "browser \<Rightarrow> screen \<Rightarrow> screen" where
  "unmute b s = (if bw_video b then on_player (\<lambda>pl. pl\<lparr>pl_muted := False, pl_autoplayBlocked := False\<rparr>) s else s)"

datatype screen_event =
    Start_Live
  | Ice_Resolved nat string "ice_server list" real
  | Resolve_Threw nat js_error
  | Whep_Happens nat whep_event
  | Failover_Happens nat failover_event
  | Stream_Refused
  | Cleanup_Live

definition waiting_ice :: "screen \<Rightarrow> nat \<Rightarrow> bool" where
  "waiting_ice s i = (i < length (sn_attempts s) \<and> wa_play (sn_attempts s ! i) = None \<and> \<not> wa_failed (sn_attempts s ! i))"

inductive screen_step ::
  "(string \<Rightarrow> string \<Rightarrow> string option) \<Rightarrow> browser \<Rightarrow> player_props \<Rightarrow> screen \<Rightarrow> screen_event \<Rightarrow> screen \<Rightarrow> bool"
  for resolve :: "string \<Rightarrow> string \<Rightarrow> string option" and b :: browser and p :: player_props where
  start_live: "screen_step resolve b p s Start_Live (startLive b p s)"
| ice: "waiting_ice s i \<Longrightarrow>
    screen_step resolve b p s (Ice_Resolved i url servers now) (ice_resolved b p i url servers now s)"
| threw: "waiting_ice s i \<Longrightarrow> screen_step resolve b p s (Resolve_Threw i e) (resolve_threw i e s)"
| whep: "i < length (sn_attempts s) \<Longrightarrow> wa_play (sn_attempts s ! i) = Some ow \<Longrightarrow> ev \<noteq> WhepStop \<Longrightarrow>
    screen_step resolve b p s (Whep_Happens i ev) (whep_happens resolve b i ow ev s)"
| failover: "i < length (sn_handles s) \<Longrightarrow> sn_handles s ! i = (opts, f) \<Longrightarrow> failover_step opts f ev g \<Longrightarrow> ev \<noteq> StopCall \<Longrightarrow>
    screen_step resolve b p s (Failover_Happens i ev)
      (on_player (fold (show_failover b i) (drop (length (fo_log f)) (fo_log g)))
        (s\<lparr>sn_handles := (sn_handles s)[i := (opts, g)]\<rparr>))"
| refused: "screen_step resolve b p s Stream_Refused (on_player (\<lambda>pl. pl\<lparr>pl_autoplayBlocked := True\<rparr>) s)"
| cleanup: "screen_step resolve b p s Cleanup_Live (cleanup_live resolve s)"

inductive screen_run ::
  "(string \<Rightarrow> string \<Rightarrow> string option) \<Rightarrow> browser \<Rightarrow> player_props \<Rightarrow> screen \<Rightarrow> screen_event list \<Rightarrow> screen \<Rightarrow> bool"
  for resolve :: "string \<Rightarrow> string \<Rightarrow> string option" and b :: browser and p :: player_props where
  screen_nil: "screen_run resolve b p s [] s"
| screen_cons: "screen_step resolve b p s e t \<Longrightarrow> screen_run resolve b p t es u \<Longrightarrow> screen_run resolve b p s (e # es) u"

inductive_cases screen_stepE: "screen_step resolve b p s e t"
inductive_simps screen_run_Nil: "screen_run resolve b p s [] t"
inductive_simps screen_run_Cons: "screen_run resolve b p s (e # es) t"

subsection \<open>Mesh and sharing\<close>

definition meshEnabled :: "browser \<Rightarrow> player_props \<Rightarrow> player \<Rightarrow> bool" where
  \<comment> \<open>the libp2p node is mounted\<close>
  "meshEnabled b p s =
     (pl_mode s = Live_Mode \<and> query_is b ''p2p'' ''1'' \<and> truthy (pp_aeviaSessionId p) \<and>
      or_default (pp_bootstraps p) [] \<noteq> [])"

datatype share_outcome = Shared | Copied string | Not_Shared

definition handleShare :: "string \<Rightarrow> player_props \<Rightarrow> bool option \<Rightarrow> bool \<Rightarrow> share_outcome" where
  \<comment> \<open>whether \<open>navigator.share\<close> exists and then succeeds, and whether there is a clipboard\<close>
  "handleShare origin p share clipboard =
     (if share = Some True then Shared
      else if clipboard then Copied (origin @ ''/live/'' @ pp_uid p) else Not_Shared)"

subsection \<open>From the live to its replay\<close>

text \<open>
  The timer of the automatic change and the polling for the recording. The props change when
  \<open>router.refresh()\<close> brings the page again; \<open>ho_refreshes\<close> counts its calls since the screen last
  started to wait, the ticks survive a re-run of the effect.
\<close>

record handoff =
  ho_status :: live_status
  ho_mode :: viewer_mode
  ho_hlsUrl :: "string option"
  ho_vodProcessing :: bool
  ho_timer :: bool \<comment> \<open>the timer of 800 ms is set\<close>
  ho_tick :: nat \<comment> \<open>\<open>pollTickRef.current\<close>\<close>
  ho_remaining :: "int option"
  ho_interval :: bool \<comment> \<open>the interval of 5 s is set\<close>
  ho_refreshes :: nat

definition max_ticks :: nat where
  "max_ticks = 24"

definition handoff_ready :: "handoff \<Rightarrow> bool" where
  "handoff_ready h = (ho_status h = Live_Ended \<and> truthy (ho_hlsUrl h) \<and> ho_mode h = Live_Mode)"

definition waiting_replay :: "handoff \<Rightarrow> bool" where
  "waiting_replay h =
     (ho_status h = Live_Ended \<and> \<not> truthy (ho_hlsUrl h) \<or>
      ho_mode h = Vod_Mode \<and> ho_vodProcessing h \<and> \<not> truthy (ho_hlsUrl h))"

definition handoff_effects :: "handoff \<Rightarrow> handoff" where
  \<comment> \<open>both effects run again: the old timer and interval are cleared\<close>
  "handoff_effects h0 =
     (let h = h0\<lparr>ho_timer := handoff_ready h0\<rparr>
      in if \<not> waiting_replay h
         then h\<lparr>ho_tick := 0, ho_remaining := None, ho_interval := False, ho_refreshes := 0\<rparr>
         else h\<lparr>ho_remaining := Some (int max_ticks - int (ho_tick h)), ho_interval := True\<rparr>)"

datatype handoff_event =
    Status_Changes live_status
  | Page_Refreshed "string option" bool
  | Handoff_Timer
  | Poll_Tick
  | Replay_Tapped

definition handoff_tick :: "handoff \<Rightarrow> handoff" where
  "handoff_tick h =
     (let n = ho_tick h + 1
      in if max_ticks \<le> n then h\<lparr>ho_tick := n, ho_interval := False, ho_remaining := Some 0\<rparr>
         else h\<lparr>ho_tick := n, ho_remaining := Some (int max_ticks - int n), ho_refreshes := ho_refreshes h + 1\<rparr>)"

fun handoff_step :: "handoff_event \<Rightarrow> handoff \<Rightarrow> handoff" where
  \<comment> \<open>an effect runs again only when one of its dependencies changed\<close>
  "handoff_step (Status_Changes st) h = (if st = ho_status h then h else handoff_effects (h\<lparr>ho_status := st\<rparr>))"
| "handoff_step (Page_Refreshed url processing) h =
     (if url = ho_hlsUrl h \<and> processing = ho_vodProcessing h then h
      else handoff_effects (h\<lparr>ho_hlsUrl := url, ho_vodProcessing := processing\<rparr>))"
| "handoff_step Handoff_Timer h = (if ho_timer h then handoff_effects (h\<lparr>ho_mode := Vod_Mode\<rparr>) else h)"
| "handoff_step Poll_Tick h = (if ho_interval h then handoff_tick h else h)"
| "handoff_step Replay_Tapped h =
     (if ho_mode h = Vod_Mode then h else handoff_effects (h\<lparr>ho_mode := Vod_Mode\<rparr>))"

definition handoff_start :: "player_props \<Rightarrow> handoff" where
  "handoff_start p = handoff_effects
     \<lparr>ho_status = Live_Idle, ho_mode = pl_mode (player_init p), ho_hlsUrl = pp_hlsUrl p,
      ho_vodProcessing = or_default (pp_vodProcessing p) False, ho_timer = False, ho_tick = 0,
      ho_remaining = None, ho_interval = False, ho_refreshes = 0\<rparr>"

subsection \<open>What the screen shows of the orchestrator\<close>

definition last_state :: "failover_output list \<Rightarrow> failover_state option" where
  "last_state out = foldl (\<lambda>r w. case w of StateChange st _ \<Rightarrow> Some st | StreamOut _ \<Rightarrow> r) None out"

definition last_stream :: "failover_output list \<Rightarrow> failover_candidate option" where
  "last_stream out = foldl (\<lambda>r w. case w of StateChange _ _ \<Rightarrow> r | StreamOut c \<Rightarrow> Some c) None out"

fun status_of :: "failover_state \<Rightarrow> live_status" where
  "status_of Idle = Live_Connecting"
| "status_of Connecting = Live_Connecting"
| "status_of FailingOver = Live_Connecting"
| "status_of Connected = Live_Playing"
| "status_of FailedAll = Live_Error"

definition no_idle :: "failover_output list \<Rightarrow> bool" where
  "no_idle out = (contexts Idle out = [])"

lemma last_state_snoc [simp]:
  "last_state (out @ [StateChange st cx]) = Some st" "last_state (out @ [StreamOut c]) = last_state out" "last_state [] = None"
  by (simp_all add: last_state_def)

lemma last_stream_snoc [simp]:
  "last_stream (out @ [StateChange st cx]) = last_stream out" "last_stream (out @ [StreamOut c]) = Some c" "last_stream [] = None"
  by (simp_all add: last_stream_def)

definition shows_log :: "browser \<Rightarrow> player \<Rightarrow> failover_output list \<Rightarrow> player \<Rightarrow> bool" where
  "shows_log b pl0 out pl =
     (pl_liveStatus pl = (case last_state out of None \<Rightarrow> Live_Connecting | Some st \<Rightarrow> status_of st) \<and>
      pl_liveError pl = (if contexts FailedAll out = [] then None
         else Some (none_served (cx_totalAttempts (last (contexts FailedAll out))))) \<and>
      pl_srcObject pl = (if bw_video b
         then (case last_stream out of None \<Rightarrow> pl_srcObject pl0 | Some c \<Rightarrow> Some (Failover_Stream 0 c))
         else pl_srcObject pl0))"

lemma shows_log_fold:
  assumes "pl_liveStatus pl0 = Live_Connecting" "pl_liveError pl0 = None"
  shows "no_idle out \<Longrightarrow> shows_log b pl0 out (fold (show_failover b 0) out pl0)"
proof (induction out rule: rev_induct)
  case Nil
  with assms show ?case by (simp add: shows_log_def)
next
  case (snoc w out)
  then have "shows_log b pl0 out (fold (show_failover b 0) out pl0)"
    by (simp add: no_idle_def)
  with snoc.prems show ?case
  proof (cases w)
    case (StateChange st cx)
    with \<open>shows_log b pl0 out _\<close> snoc.prems show ?thesis
      by (cases st) (auto simp: shows_log_def no_idle_def live_is_def live_fails_def)
  qed (auto simp: shows_log_def show_stream_def no_idle_def)
qed

lemma loop_at_no_idle: "no_idle (fo_log s) \<Longrightarrow> no_idle (fo_log (loop_at opts i s))"
  by (simp add: no_idle_def loop_at_def Let_def fo_emit_log)

lemma cleanup_no_idle: "no_idle (fo_log s) \<Longrightarrow> no_idle (fo_log (WhepFailover.cleanup opts k s))"
  by (cases k) (auto simp: cleanup_def intro!: loop_at_no_idle split: option.splits)

lemma no_idle_step: "failover_step opts s e t \<Longrightarrow> no_idle (fo_log s) \<Longrightarrow> no_idle (fo_log t)"
proof (induction rule: failover_step.cases)
  case (cleanup_done s k)
  then show ?thesis by (cases k) (auto simp: end_session_def intro!: loop_at_no_idle)
qed (auto simp: failover_ops fo_emit_log no_idle_def Let_def stop_call_def end_session_def
    intro!: cleanup_no_idle [unfolded no_idle_def] split: option.splits)

lemma reachable_no_idle: "reachable opts s \<Longrightarrow> no_idle (fo_log s)"
proof -
  have run: "failover_run opts s es t \<Longrightarrow> no_idle (fo_log s) \<Longrightarrow> no_idle (fo_log t)" for s t es
    by (induction rule: failover_run.induct) (auto dest: no_idle_step)
  have "no_idle (fo_log (playWhepWithFailover opts))"
    by (auto simp: playWhepWithFailover_def Let_def fo_emit_log no_idle_def
        intro!: loop_at_no_idle [unfolded no_idle_def])
  then show "reachable opts s \<Longrightarrow> no_idle (fo_log s)" by (auto simp: reachable_def dest: run)
qed

lemma loop_at_log: "\<exists>out. fo_log (loop_at opts i s) = fo_log s @ out"
  by (simp add: loop_at_def Let_def fo_emit_log)

lemma cleanup_log: "\<exists>out. fo_log (WhepFailover.cleanup opts k s) = fo_log s @ out"
proof (cases k)
  case (Next i)
  have "\<exists>out. fo_log (loop_at opts i (s\<lparr>fo_activeCand := None\<rparr>)) = fo_log s @ out"
    using loop_at_log [of opts i "s\<lparr>fo_activeCand := None\<rparr>"] by simp
  with Next show ?thesis by (auto simp: cleanup_def split: option.splits)
qed (auto simp: cleanup_def split: option.splits)

lemma step_log: "failover_step opts s e t \<Longrightarrow> \<exists>out. fo_log t = fo_log s @ out"
proof (induction rule: failover_step.cases)
  case (play_throws s i)
  then show ?thesis using cleanup_log [of opts "Next (i + 1)" "s\<lparr>fo_open := fo_open s - {i}\<rparr>"] by simp
next
  case (resume s i r)
  then show ?thesis using cleanup_log [of opts _ s] by (auto simp: waited_def)
next
  case (watch_tick s i)
  then show ?thesis
    using cleanup_log [of opts Return s] cleanup_log [of opts "Next (i + 1)" "fo_emit opts FailingOver s"]
    by (auto simp: watched_def fo_emit_log)
next
  case (cleanup_done s k)
  then show ?thesis using loop_at_log [of opts _ "end_session s"] by (cases k) auto
qed (auto simp: played_def pc_state_def connect_timer_def poll_tick_def settle_def fo_emit_log
    stop_call_def end_session_def Let_def split: option.splits)

text \<open>One call of \<open>startLive\<close> and then whatever the orchestrator and the network do.\<close>

definition orchestrated :: "screen_event \<Rightarrow> bool" where
  "orchestrated e = (e = Stream_Refused \<or> (\<exists>ev. e = Failover_Happens 0 ev))"

definition same_shown :: "player \<Rightarrow> player \<Rightarrow> bool" where
  "same_shown a c =
     (pl_liveStatus a = pl_liveStatus c \<and> pl_liveError a = pl_liveError c \<and> pl_srcObject a = pl_srcObject c)"

lemma same_shown_failover: "same_shown a c \<Longrightarrow> same_shown (show_failover b i w a) (show_failover b i w c)"
proof (cases w)
  case (StateChange st cx)
  then show "same_shown a c \<Longrightarrow> ?thesis" by (cases st) (auto simp: same_shown_def live_is_def live_fails_def)
qed (auto simp: same_shown_def show_stream_def)

lemma same_shown_fold:
  "same_shown a c \<Longrightarrow> same_shown (fold (show_failover b i) out a) (fold (show_failover b i) out c)"
  by (induction out arbitrary: a c) (simp_all add: same_shown_failover)

lemma reachable_step: "reachable opts s \<Longrightarrow> failover_step opts s e t \<Longrightarrow> reachable opts t"
proof -
  have "failover_run opts s es u \<Longrightarrow> failover_step opts u e t \<Longrightarrow> failover_run opts s (es @ [e]) t" for s es u
    by (induction rule: failover_run.induct) (auto intro: failover_run.intros)
  then show "reachable opts s \<Longrightarrow> failover_step opts s e t \<Longrightarrow> reachable opts t"
    unfolding reachable_def by blast
qed

definition follows :: "browser \<Rightarrow> player_props \<Rightarrow> player \<Rightarrow> screen \<Rightarrow> bool" where
  "follows b p pl0 s =
     (\<exists>f. sn_handles s = [(failover_opts p, f)] \<and> reachable (failover_opts p) f \<and>
        same_shown (sn_player s) (fold (show_failover b 0) (fo_log f) pl0))"

lemma follows_step:
  assumes "screen_step resolve b p s e t" "orchestrated e" "follows b p pl0 s"
  shows "follows b p pl0 t"
proof -
  obtain f where f: "sn_handles s = [(failover_opts p, f)]" "reachable (failover_opts p) f"
    "same_shown (sn_player s) (fold (show_failover b 0) (fo_log f) pl0)"
    using assms(3) by (auto simp: follows_def)
  from assms(2) consider "e = Stream_Refused" | ev where "e = Failover_Happens 0 ev"
    by (auto simp: orchestrated_def)
  then show ?thesis
  proof cases
    case 1
    then have "t = on_player (\<lambda>pl. pl\<lparr>pl_autoplayBlocked := True\<rparr>) s"
      using assms(1) by (auto elim: screen_stepE)
    with f show ?thesis by (auto simp: follows_def on_player_def same_shown_def)
  next
    case 2
    then obtain g where g: "failover_step (failover_opts p) f ev g"
      and t: "t = on_player (fold (show_failover b 0) (drop (length (fo_log f)) (fo_log g)))
         (s\<lparr>sn_handles := [(failover_opts p, g)]\<rparr>)"
      using assms(1) f(1) by (auto elim!: screen_stepE)
    obtain out where out: "fo_log g = fo_log f @ out" using step_log [OF g] by blast
    have "same_shown (sn_player t) (fold (show_failover b 0) (fo_log g) pl0)"
      using same_shown_fold [OF f(3), of b 0 out] by (simp add: t out on_player_def)
    then show ?thesis using reachable_step [OF f(2) g] by (auto simp: follows_def t on_player_def)
  qed
qed

lemma follows_run: "screen_run resolve b p s es t \<Longrightarrow> list_all orchestrated es \<Longrightarrow> follows b p pl0 s \<Longrightarrow> follows b p pl0 t"
  by (induction rule: screen_run.induct) (auto intro: follows_step)

lemma follows_start:
  "failover_ready p \<Longrightarrow> follows b p (live_connecting (player_init p)) (startLive b p (screen_init p))"
proof -
  have "failover_run (failover_opts p) (playWhepWithFailover (failover_opts p)) [] (playWhepWithFailover (failover_opts p))"
    by (rule run_nil)
  then have "reachable (failover_opts p) (playWhepWithFailover (failover_opts p))"
    unfolding reachable_def by blast
  then show "failover_ready p \<Longrightarrow> ?thesis"
    by (simp add: follows_def startLive_def Let_def screen_init_def on_player_def same_shown_def)
qed

text \<open>
  C26. The screen follows the orchestrator. With candidates and a session one call
  of \<open>startLive\<close> starts exactly one orchestrated playback, and whatever it and the network do, the status shown
  is that of its last announcement (connecting, playing, or failed), the stream in the element is
  the last one it handed over, and the error is shown exactly when it announced that all failed,
  naming the number of the page's candidates.
\<close>

theorem player_shows_failover:
  assumes "failover_ready p" "screen_run resolve b p (screen_init p) (Start_Live # es) t" "list_all orchestrated es"
  shows "\<exists>f. sn_handles t = [(failover_opts p, f)] \<and> reachable (failover_opts p) f \<and>
    pl_liveStatus (sn_player t) = (case last_state (fo_log f) of None \<Rightarrow> Live_Connecting | Some st \<Rightarrow> status_of st) \<and>
    pl_liveError (sn_player t) =
      (if contexts FailedAll (fo_log f) = [] then None else Some (none_served (length (the (pp_candidates p))))) \<and>
    pl_srcObject (sn_player t) =
      (if bw_video b then map_option (Failover_Stream 0) (last_stream (fo_log f)) else None)"
proof -
  let ?pl = "live_connecting (player_init p)"
  from assms(2) have "screen_run resolve b p (startLive b p (screen_init p)) es t"
    by (auto simp: screen_run_Cons elim: screen_stepE)
  from follows_run [OF this assms(3) follows_start [OF assms(1)]]
  obtain f where f: "sn_handles t = [(failover_opts p, f)]" "reachable (failover_opts p) f"
    "same_shown (sn_player t) (fold (show_failover b 0) (fo_log f) ?pl)"
    by (auto simp: follows_def)
  have "shows_log b ?pl (fo_log f) (fold (show_failover b 0) (fo_log f) ?pl)"
    by (rule shows_log_fold) (simp_all add: live_connecting_def reachable_no_idle [OF f(2)])
  moreover have "contexts FailedAll (fo_log f) = [] \<or> contexts FailedAll (fo_log f) = [end_context (failover_opts p)]"
    using reachable_inv [OF f(2)] by (auto simp: failover_inv_def closed_log_def)
  ultimately have "shows_log b ?pl (fo_log f) (sn_player t)"
    using f(3) by (auto simp: shows_log_def same_shown_def)
  with \<open>contexts FailedAll (fo_log f) = [] \<or> _\<close> f show ?thesis
    by (auto simp: shows_log_def end_context_def failover_opts_def live_connecting_def player_init_def
        split: option.splits)
qed

lemma player_shows_failover_witness:
  "\<exists>(t :: screen) f. sn_handles t = [(failover_opts demo_props, f)] \<and> reachable (failover_opts demo_props) f \<and>
     pl_liveError (sn_player t) = Some (none_served 2) \<and> pl_liveStatus (sn_player t) = Live_Error"
proof -
  let ?b = "\<lparr>bw_query = [], bw_video = True, bw_nativeHls = False, bw_hlsJs = False\<rparr>"
  let ?s = "startLive ?b demo_props (screen_init demo_props)"
  note ev = playWhepWithFailover_def loop_at_def fo_emit_def failover_opts_def demo_props_def startLive_def
    failover_ready_def screen_init_def on_player_def WhepFailover.cleanup_def
  have ready: "failover_ready demo_props" by (simp add: failover_ready_def demo_props_def)
  let ?opts = "failover_opts demo_props"
  define f where "f = playWhepWithFailover ?opts"
  define g where "g = WhepFailover.cleanup ?opts (Next 1) (f\<lparr>fo_open := fo_open f - {0}\<rparr>)"
  define h where "h = WhepFailover.cleanup ?opts (Next 2) (g\<lparr>fo_open := fo_open g - {1}\<rparr>)"
  have fg: "failover_step ?opts f PlayThrows g"
    using failover_step.play_throws [of f 0 ?opts] by (simp add: f_def g_def ev)
  have gh: "failover_step ?opts g PlayThrows h"
    using failover_step.play_throws [of g 1 ?opts] by (simp add: f_def g_def h_def ev numeral_2_eq_2)
  have handles: "sn_handles ?s = [(?opts, f)]" by (simp add: startLive_def ready screen_init_def on_player_def f_def Let_def)
  from screen_step.failover [of 0 ?s ?opts f PlayThrows g "\<lambda>l u. Some l" ?b demo_props] fg
  obtain t where t: "screen_step (\<lambda>l u. Some l) ?b demo_props ?s (Failover_Happens 0 PlayThrows) t"
    "sn_handles t = [(?opts, g)]"
    by (auto simp: handles on_player_def)
  from screen_step.failover [of 0 t ?opts g PlayThrows h "\<lambda>l u. Some l" ?b demo_props] gh
  obtain u where u: "screen_step (\<lambda>l u. Some l) ?b demo_props t (Failover_Happens 0 PlayThrows) u"
    "sn_handles u = [(?opts, h)]"
    by (auto simp: t(2) on_player_def)
  have "screen_run (\<lambda>l u. Some l) ?b demo_props (screen_init demo_props)
      [Start_Live, Failover_Happens 0 PlayThrows, Failover_Happens 0 PlayThrows] u"
    by (rule screen_cons [OF start_live], rule screen_cons [OF t(1)], rule screen_cons [OF u(1)], rule screen_nil)
  from player_shows_failover [OF ready this] u(2)
  have "reachable ?opts h \<and> pl_liveStatus (sn_player u) =
      (case last_state (fo_log h) of None \<Rightarrow> Live_Connecting | Some st \<Rightarrow> status_of st) \<and>
    pl_liveError (sn_player u) =
      (if contexts FailedAll (fo_log h) = [] then None else Some (none_served (length (the (pp_candidates demo_props)))))"
    by (auto simp: orchestrated_def)
  moreover have "last_state (fo_log h) = Some FailedAll" "contexts FailedAll (fo_log h) \<noteq> []"
    by (simp_all add: f_def g_def h_def ev last_state_def)
  moreover have "length (the (pp_candidates demo_props)) = 2" by (simp add: demo_props_def)
  ultimately show ?thesis using u(2) by auto
qed

subsection \<open>Sessions\<close>

definition from_attempt :: "nat \<Rightarrow> screen_event \<Rightarrow> bool" where
  "from_attempt i e = (\<exists>ev. e = Whep_Happens i ev)"

lemma whep_step_outputs: "\<exists>out. ws_out (whep_step resolve opts ev w) = ws_out w @ out"
  by (cases ev) (auto simp: whep_ops probe_tick_def probe_stats_def whep_stop_def close_pc_def whep_emit_def Let_def
      split: option.splits whep_stage.splits sum.splits whep_reply.splits)

lemma no_callbacks: "callbacks_of out = [] \<Longrightarrow> fold show_whep out pl = pl"
  by (induction out arbitrary: pl) (auto simp: callbacks_of_def split: whep_output.splits if_splits)

lemma closed_outputs:
  assumes "ws_connectionState w = ''closed''" "finished (ws_stage w)"
  shows "fold show_whep (drop (length (ws_out w)) (ws_out (whep_step resolve opts ev w))) pl = pl"
proof -
  obtain out where out: "ws_out (whep_step resolve opts ev w) = ws_out w @ out"
    using whep_step_outputs by blast
  have "callbacks_of (ws_out w @ out) = callbacks_of (ws_out w)"
    using closed_step [OF assms, of resolve opts ev] out by simp
  then have "callbacks_of out = []" by (simp add: callbacks_of_def)
  with out show ?thesis by (simp add: no_callbacks)
qed

text \<open>The attempt's session was stopped: whatever the network still reports of it changes nothing.\<close>

definition silent :: "nat \<Rightarrow> screen \<Rightarrow> bool" where
  "silent i s =
     (i < length (sn_attempts s) \<and>
      (case wa_play (sn_attempts s ! i) of None \<Rightarrow> False
       | Some (opts, w) \<Rightarrow> ws_connectionState w = ''closed'' \<and> finished (ws_stage w)))"

lemma finished_not_awaiting: "finished st \<Longrightarrow> \<not> awaiting st"
  by (cases st) auto

lemma silent_step:
  assumes "screen_step resolve b p s (Whep_Happens i ev) t" "silent i s"
  shows "silent i t \<and> sn_player t = sn_player s \<and> sn_whepRef t = sn_whepRef s"
proof -
  obtain opts w where w: "i < length (sn_attempts s)" "wa_play (sn_attempts s ! i) = Some (opts, w)"
    "ws_connectionState w = ''closed''" "finished (ws_stage w)"
    using assms(2) by (auto simp: silent_def split: option.splits)
  then have t: "t = whep_happens resolve b i (opts, w) ev s"
    using assms(1) by (auto elim: screen_stepE)
  have "play_settled b i (ws_stage w) st u = u" for st u
    using finished_not_awaiting [OF w(4)] by (simp add: play_settled_def)
  then show ?thesis
    using w closed_outputs [OF w(3,4), of resolve opts ev] closed_step [OF w(3,4), of resolve opts ev]
      session_finished_step [OF w(4), of resolve opts ev]
    by (simp add: t whep_happens_def Let_def silent_def set_play_def on_player_def)
qed

lemma silent_run:
  "screen_run resolve b p s es t \<Longrightarrow> list_all (from_attempt i) es \<Longrightarrow> silent i s \<Longrightarrow>
   silent i t \<and> sn_player t = sn_player s \<and> sn_whepRef t = sn_whepRef s"
proof (induction rule: screen_run.induct)
  case (screen_cons s e t es u)
  then obtain ev where "e = Whep_Happens i ev" by (auto simp: from_attempt_def)
  with screen_cons silent_step [of resolve b p s i ev t] show ?case by simp
qed simp

text \<open>The reference always points at an attempt whose \<open>playWhep\<close> returned a session.\<close>

definition ref_ok :: "screen \<Rightarrow> bool" where
  "ref_ok s =
     ((case sn_whepRef s of None \<Rightarrow> True
       | Some i \<Rightarrow> i < length (sn_attempts s) \<and>
           (case wa_play (sn_attempts s ! i) of Some (opts, w) \<Rightarrow> (\<exists>url. ws_stage w = Live url) | None \<Rightarrow> False)) \<and>
      (case sn_failoverRef s of None \<Rightarrow> True | Some i \<Rightarrow> i < length (sn_handles s)))"

lemma live_stays: "ws_stage w = Live url \<Longrightarrow> ws_stage (whep_step resolve opts ev w) = Live url"
  using session_finished_step [of w resolve opts ev] by simp

lemma ref_ok_on_player [simp]: "ref_ok (on_player f s) = ref_ok s"
  by (cases "sn_whepRef s"; cases "sn_failoverRef s") (simp_all add: ref_ok_def on_player_def)

lemma ref_ok_set_play:
  assumes "ref_ok s" "i < length (sn_attempts s)" "sn_whepRef s = Some i \<Longrightarrow> \<exists>url. ws_stage w = Live url"
  shows "ref_ok (set_play i (opts, w) s)"
  using assms by (cases "sn_whepRef s = Some i") (auto simp: ref_ok_def set_play_def split: option.splits)

lemma ref_ok_settled:
  assumes "ref_ok s" "i < length (sn_attempts s)" "wa_play (sn_attempts s ! i) = Some (opts, w)"
  shows "ref_ok (play_settled b i before (ws_stage w) s)"
proof -
  have "ref_ok (s\<lparr>sn_whepRef := Some i\<rparr>)" if "ws_stage w = Live url" for url
    using assms that by (cases "sn_failoverRef s") (auto simp: ref_ok_def)
  with assms(1) show ?thesis by (cases "ws_stage w") (auto simp: play_settled_def)
qed

lemma ref_ok_step: "screen_step resolve b p s e t \<Longrightarrow> ref_ok s \<Longrightarrow> ref_ok t"
proof (induction rule: screen_step.cases)
  case (start_live s)
  then show ?thesis
    by (auto simp: ref_ok_def startLive_def on_player_def Let_def nth_append split: option.splits)
next
  case (ice s i url servers now)
  then show ?thesis
    by (auto simp: ref_ok_def ice_resolved_def set_play_def waiting_ice_def Let_def nth_list_update split: option.splits)
next
  case (threw s i e)
  then show ?thesis
    by (auto simp: ref_ok_def resolve_threw_def on_player_def waiting_ice_def nth_list_update split: option.splits)
next
  case (whep i s ow ev)
  obtain opts w where ow: "ow = (opts, w)" by (cases ow)
  have "ref_ok (set_play i (opts, whep_step resolve opts ev w) s)"
    using whep ow by (intro ref_ok_set_play) (auto simp: ref_ok_def intro: live_stays)
  then have "ref_ok (on_player f (set_play i (opts, whep_step resolve opts ev w) s))" for f
    by simp
  moreover have "wa_play (sn_attempts (on_player f (set_play i (opts, whep_step resolve opts ev w) s)) ! i) =
      Some (opts, whep_step resolve opts ev w)"
    "i < length (sn_attempts (on_player f (set_play i (opts, whep_step resolve opts ev w) s)))" for f
    using whep by (simp_all add: set_play_def on_player_def)
  ultimately show ?thesis
    unfolding whep ow whep_happens_def Let_def prod.case by (intro ref_ok_settled)
next
  case (failover i s opts f ev g)
  then show ?thesis by (auto simp: ref_ok_def on_player_def split: option.splits)
next
  case (refused s)
  then show ?thesis by (simp only: ref_ok_on_player)
next
  case (cleanup s)
  then show ?thesis
    by (auto simp: ref_ok_def cleanup_live_def stop_session_def stop_failover_def set_play_def
        split: option.splits prod.splits)
qed

lemma ref_ok_run: "screen_run resolve b p s es t \<Longrightarrow> ref_ok s \<Longrightarrow> ref_ok t"
  by (induction rule: screen_run.induct) (auto intro: ref_ok_step)


text \<open>The events of one attempt, one after the other.\<close>

definition whep_all ::
  "(string \<Rightarrow> string \<Rightarrow> string option) \<Rightarrow> browser \<Rightarrow> nat \<Rightarrow> whep_event list \<Rightarrow> screen \<Rightarrow> screen" where
  "whep_all resolve b i es s = foldl (\<lambda>s ev. whep_happens resolve b i (the (wa_play (sn_attempts s ! i))) ev s) s es"

lemma whep_happens_attempt:
  assumes "i < length (sn_attempts s)"
  shows "length (sn_attempts (whep_happens resolve b i ow ev s)) = length (sn_attempts s)"
    "wa_play (sn_attempts (whep_happens resolve b i ow ev s) ! i) \<noteq> None"
  using assms
  by (auto simp: whep_happens_def Let_def play_settled_def on_player_def set_play_def split: prod.splits whep_stage.splits)

lemma whep_all_run:
  "list_all (\<lambda>ev. ev \<noteq> WhepStop) es \<Longrightarrow> i < length (sn_attempts s) \<Longrightarrow> wa_play (sn_attempts s ! i) \<noteq> None \<Longrightarrow>
   screen_run resolve b p s (map (Whep_Happens i) es) (whep_all resolve b i es s)"
proof (induction es arbitrary: s)
  case Nil
  then show ?case by (simp add: whep_all_def screen_nil)
next
  case (Cons ev es)
  let ?t = "whep_happens resolve b i (the (wa_play (sn_attempts s ! i))) ev s"
  have "screen_step resolve b p s (Whep_Happens i ev) ?t"
    using Cons.prems by (intro screen_step.whep) auto
  moreover have "screen_run resolve b p ?t (map (Whep_Happens i) es) (whep_all resolve b i es ?t)"
    using Cons.prems whep_happens_attempt [OF Cons.prems(2)] by (intro Cons.IH) auto
  ultimately show ?case by (simp add: whep_all_def screen_cons)
qed

lemma screen_run_append:
  "screen_run resolve b p s es t \<Longrightarrow> screen_run resolve b p t fs u \<Longrightarrow> screen_run resolve b p s (es @ fs) u"
  by (induction rule: screen_run.induct) (auto intro: screen_cons)

definition demo_browser :: browser where
  "demo_browser = \<lparr>bw_query = [], bw_video = True, bw_nativeHls = False, bw_hlsJs = True\<rparr>"

definition demo_cloudflare :: player_props where
  "demo_cloudflare = demo_props\<lparr>pp_whepUrl := ''https://c/whep'', pp_aeviaSessionId := None, pp_candidates := None\<rparr>"

definition demo_offered :: screen where
  \<comment> \<open>the effect ran, ICE servers are there, and the offer is on its way\<close>
  "demo_offered = whep_all (\<lambda>l u. Some l) demo_browser 0 [OfferReady 1, GatheringDone 2]
     (ice_resolved demo_browser demo_cloudflare 0 [] [] 0
       (startLive demo_browser demo_cloudflare (screen_init demo_cloudflare)))"

definition answered :: "whep_event list" where
  "answered = [Posted (WhepResponse 201 (Inr ''sdp'') (Some ''/r'')) 3, AnswerApplied 4]"

lemma demo_offered_run:
  "screen_run (\<lambda>l u. Some l) demo_browser demo_cloudflare (screen_init demo_cloudflare)
     ([Start_Live, Ice_Resolved 0 [] [] 0] @ map (Whep_Happens 0) [OfferReady 1, GatheringDone 2]) demo_offered"
proof -
  let ?s1 = "startLive demo_browser demo_cloudflare (screen_init demo_cloudflare)"
  let ?s2 = "ice_resolved demo_browser demo_cloudflare 0 [] [] 0 ?s1"
  have s1: "waiting_ice ?s1 0" by code_simp
  have s2: "0 < length (sn_attempts ?s2)" "wa_play (sn_attempts ?s2 ! 0) \<noteq> None"
    using s1 by (simp_all add: waiting_ice_def ice_resolved_def set_play_def Let_def)
  have "screen_run (\<lambda>l u. Some l) demo_browser demo_cloudflare (screen_init demo_cloudflare)
      [Start_Live, Ice_Resolved 0 [] [] 0] ?s2"
    by (rule screen_cons [OF screen_step.start_live], rule screen_cons [OF screen_step.ice [OF s1]], rule screen_nil)
  then show ?thesis
    unfolding demo_offered_def by (rule screen_run_append [OF _ whep_all_run]) (use s2 in simp_all)
qed


text \<open>
  A clean-up while \<open>playWhep\<close> is still negotiating has no session to stop: the answer that arrives
  later is stored as the session, its connection stays open, and its state is shown on.
\<close>

lemma late_session_leaks:
  "let s = whep_all (\<lambda>l u. Some l) demo_browser 0 (answered @ [ConnectionState ''connected'' None 9])
         (cleanup_live (\<lambda>l u. Some l) demo_offered)
   in sn_whepRef s = Some 0 \<and> pl_liveStatus (sn_player s) = Live_Playing \<and>
      map_option (ws_connectionState \<circ> snd) (wa_play (sn_attempts s ! 0)) = Some ''connected''"
  by code_simp

text \<open>
  The retry button starts a second attempt without stopping the session of the first: its connection
  is never closed and its later reports still overwrite the status of the second.
\<close>

lemma retry_leaves_session:
  "let r = (\<lambda>l u :: string. Some (l :: string));
       s1 = whep_all r demo_browser 0 (answered @ [ConnectionState ''failed'' None 9]) demo_offered;
       s2 = ice_resolved demo_browser demo_cloudflare 1 [] [] 10 (startLive demo_browser demo_cloudflare s1);
       s3 = whep_all r demo_browser 1 ([OfferReady 11, GatheringDone 12] @ answered @ [ConnectionState ''connected'' None 13]) s2;
       s4 = whep_all r demo_browser 0 [ConnectionState ''failed'' None 14] (cleanup_live r s3)
   in pl_liveStatus (sn_player s3) = Live_Playing \<and> sn_whepRef s3 = Some 1 \<and>
      pl_liveStatus (sn_player s4) = Live_Error \<and>
      map_option (ws_connectionState \<circ> snd) (wa_play (sn_attempts s4 ! 0)) = Some ''failed''"
  by code_simp

text \<open>
  Comments of the file say the playlist takes over when WHEP fails; the effect only looks at whether
  there is an address, so a failed connection leaves the error and loads nothing.
\<close>

lemma no_playlist_after_failure:
  "truthy (effectiveWhepUrl b p) \<Longrightarrow> start_hls b p (live_fails m s) = (No_Hls, live_fails m s)"
  by (simp add: start_hls_def)

text \<open>With \<open>?hls=1\<close> the retry button still starts the orchestrator, next to the playlist.\<close>

lemma retry_ignores_forced_hls:
  "let b = demo_browser\<lparr>bw_query := [(''hls'', ''1'')]\<rparr>
   in \<not> whep_drives b demo_props (player_init demo_props) \<and> hls_wanted b demo_props (player_init demo_props) \<and>
      sn_failoverRef (startLive b demo_props (screen_init demo_props)) = Some 0"
  by (simp add: Let_def demo_browser_def demo_props_def whep_drives_def hasFailover_def forceHlsPath_def query_is_def
      hls_wanted_def hls_urls_def failover_ready_def startLive_def screen_init_def player_init_def on_player_def)

subsection \<open>The replay\<close>

definition handoff_ok :: "handoff \<Rightarrow> bool" where
  "handoff_ok h =
     (ho_timer h = handoff_ready h \<and>
      ho_refreshes h = min (ho_tick h) (max_ticks - 1) \<and>
      (if waiting_replay h then ho_remaining h \<noteq> None \<and> (ho_interval h \<or> max_ticks \<le> ho_tick h)
       else ho_remaining h = None \<and> \<not> ho_interval h \<and> ho_tick h = 0))"

lemma handoff_effects_ok:
  assumes "ho_refreshes h = min (ho_tick h) (max_ticks - 1)"
  shows "handoff_ok (handoff_effects h)"
  using assms by (auto simp: handoff_ok_def handoff_effects_def handoff_ready_def waiting_replay_def Let_def)

lemma handoff_tick_ok:
  assumes "handoff_ok h" "ho_interval h"
  shows "handoff_ok (handoff_tick h)"
  using assms
  by (auto simp: handoff_ok_def handoff_tick_def handoff_ready_def waiting_replay_def max_ticks_def Let_def split: if_splits)

lemma handoff_step_ok:
  assumes "handoff_ok h"
  shows "handoff_ok (handoff_step e h)"
proof -
  have n: "ho_refreshes h = min (ho_tick h) (max_ticks - 1)" using assms by (simp add: handoff_ok_def)
  show ?thesis
  proof (cases e)
    case Poll_Tick
    with assms show ?thesis by (simp add: handoff_tick_ok)
  qed (use assms n in \<open>simp_all add: handoff_effects_ok\<close>)
qed

lemma handoff_run_ok: "handoff_ok (fold handoff_step es (handoff_start p))"
proof (induction es rule: rev_induct)
  case Nil
  show ?case by (simp add: handoff_start_def handoff_effects_ok)
next
  case (snoc e es)
  then show ?case by (simp add: handoff_step_ok)
qed

lemma poll_ticks:
  "\<not> ho_interval h \<or> max_ticks \<le> ho_tick h + n \<Longrightarrow> 0 < n \<Longrightarrow> \<not> ho_interval (fold handoff_step (replicate n Poll_Tick) h)"
proof (induction n arbitrary: h)
  case (Suc n)
  show ?case
  proof (cases "ho_interval h")
    case True
    show ?thesis
    proof (cases "max_ticks \<le> Suc (ho_tick h)")
      case last: True
      have "fold handoff_step (replicate n Poll_Tick) g = g" if "\<not> ho_interval g" for g
        using that by (induction n) simp_all
      with True last show ?thesis by (simp add: handoff_tick_def)
    next
      case False
      then have "0 < n" using Suc.prems True by (cases n) auto
      with False Suc.prems True show ?thesis
        using Suc.IH [of "handoff_tick h"] by (simp add: handoff_tick_def Let_def)
    qed
  next
    case False
    have "fold handoff_step (replicate k Poll_Tick) h = h" for k
      using False by (induction k) simp_all
    with False show ?thesis by metis
  qed
qed simp

lemma vod_stays: "ho_mode h = Vod_Mode \<Longrightarrow> ho_mode (fold handoff_step es h) = Vod_Mode"
proof (induction es arbitrary: h)
  case (Cons e es)
  have "ho_mode (handoff_step e h) = Vod_Mode"
    using Cons.prems by (cases e) (auto simp: handoff_effects_def handoff_tick_def Let_def)
  with Cons.IH show ?case by simp
qed simp

text \<open>
  C28. Waiting for the replay. Whatever happens, the page is refreshed at most 23 times before the
  screen stops waiting, and 24 ticks of the interval end the polling; the interval runs, until it is
  exhausted, exactly while the live ended without a recording or the recording is still processed.
  The change to the replay is pending exactly when the live ended and the recording is there, it
  then happens when the timer fires, and there is no way back to the live.
\<close>

theorem replay_handoff:
  "(let h = fold handoff_step es (handoff_start p) in
     ho_refreshes h \<le> 23 \<and>
     (ho_remaining h \<noteq> None) = waiting_replay h \<and>
     (ho_interval h \<or> waiting_replay h \<and> 24 \<le> ho_tick h) = waiting_replay h \<and>
     \<not> ho_interval (fold handoff_step (replicate 24 Poll_Tick) h) \<and>
     ho_timer h = (ho_status h = Live_Ended \<and> truthy (ho_hlsUrl h) \<and> ho_mode h = Live_Mode) \<and>
     ho_mode (handoff_step Handoff_Timer h) = (if handoff_ready h then Vod_Mode else ho_mode h) \<and>
     ho_mode (fold handoff_step fs (handoff_step Replay_Tapped h)) = Vod_Mode)"
proof -
  let ?h = "fold handoff_step es (handoff_start p)"
  have ok: "handoff_ok ?h" by (rule handoff_run_ok)
  have "\<not> ho_interval (fold handoff_step (replicate 24 Poll_Tick) ?h)"
    by (rule poll_ticks) (simp_all add: max_ticks_def)
  moreover have "ho_mode (handoff_step Replay_Tapped ?h) = Vod_Mode"
    by (simp add: handoff_effects_def Let_def)
  then have "ho_mode (fold handoff_step fs (handoff_step Replay_Tapped ?h)) = Vod_Mode" by (rule vod_stays)
  moreover have "ho_mode (handoff_step Handoff_Timer ?h) = (if handoff_ready ?h then Vod_Mode else ho_mode ?h)"
    using ok by (simp add: handoff_ok_def handoff_effects_def Let_def)
  ultimately show ?thesis
    using ok by (auto simp: handoff_ok_def handoff_ready_def max_ticks_def Let_def simp del: handoff_step.simps
        split: if_splits)
qed

end
