(* ===== verification/GoLive.thy ===== *)
theory GoLive
  imports LiveRoutes Whip UploadQueue
begin

text \<open>
  The broadcaster's screen (\<open>apps/video/src/components/go-live-screen.tsx\<close>): camera preview, going
  live (creating the live, resolving the ingest address, publishing with the model of theory
  \<open>Whip\<close>, recording), stopping and handing the recording to the upload queue, and the clean-up of
  the screen. Each asynchronous function is a list of its calls and the \<open>await\<close> each stands at; what
  the device, the server, the connection and the recorder answer are events. The user acts through
  the one button of the screen, so a press does what the button offers in that state.
\<close>

subsection \<open>State\<close>

datatype connection_status = Cs_Idle | Cs_Requesting | Cs_Ready | Cs_Connecting | Cs_Live | Cs_Error

record created_live =
  cl_uid :: string
  cl_whipUrl :: string
  cl_whepUrl :: "string option"
  cl_creator :: string
  cl_backend :: live_backend
  cl_playerUrl :: "string option"

record create_live_response =
  al_backend :: live_backend
  al_uid :: "string option"
  al_whipUrl :: string
  al_whepUrl :: "string option"
  al_playerUrl :: "string option"
  al_creator :: string
  al_creatorDid :: string

text \<open>What a call of the application's own API gave: it rejected, it answered outside 2xx with the
  \<open>error\<close> of its body if there is one, or it answered as declared.\<close>

datatype 'a own_reply = Api_Rejected js_error | Api_Refused nat "string option" | Api_Ok 'a

record camera =
  cm_tracks :: "media_track list"
  cm_on :: bool

datatype broadcast =
    Creating "string option" live_backend \<comment> \<open>\<open>POST /api/lives\<close> with its title and backend\<close>
  | Resolving create_live_response
  | Publishing create_live_response whip_options
  | Broadcast_Over

datatype recording = Is_Recording | Recording_Stopped | Recording_Cancelled

datatype stopping =
    Ending "string option" live_backend "nat option" \<comment> \<open>\<open>await whipSessionRef.current?.stop()\<close>\<close>
  | Flushing string nat \<comment> \<open>\<open>await recorder.stop()\<close>\<close>
  | Asking string nat \<comment> \<open>\<open>POST .../direct-upload-url\<close> with the size\<close>
  | Stopping_Over

record go_live =
  gl_status :: connection_status
  gl_error :: "string option"
  gl_created :: "created_live option"
  gl_title :: string
  gl_aupAccepted :: bool
  gl_backend :: live_backend
  gl_previews :: nat \<comment> \<open>calls of \<open>getUserMedia\<close> not answered yet\<close>
  gl_cameras :: "camera list"
  gl_stream :: "nat option" \<comment> \<open>\<open>streamRef.current\<close>\<close>
  gl_video :: "nat option"
  gl_broadcasts :: "broadcast list"
  gl_whips :: "(whip_options \<times> string option \<times> whip_outcome) list"
  gl_session :: "nat option" \<comment> \<open>\<open>whipSessionRef.current\<close>\<close>
  gl_recorders :: "recording list"
  gl_recorder :: "nat option" \<comment> \<open>\<open>recorderRef.current\<close>\<close>
  gl_stops :: "stopping list"
  gl_uploads :: "start_input list"

definition go_live_init :: go_live where
  "go_live_init = \<lparr>gl_status = Cs_Idle, gl_error = None, gl_created = None, gl_title = [], gl_aupAccepted = False,
     gl_backend = Cloudflare, gl_previews = 0, gl_cameras = [], gl_stream = None, gl_video = None,
     gl_broadcasts = [], gl_whips = [], gl_session = None, gl_recorders = [], gl_recorder = None,
     gl_stops = [], gl_uploads = []\<rparr>"

definition gl_fail :: "string \<Rightarrow> go_live \<Rightarrow> go_live" where
  "gl_fail m s = s\<lparr>gl_error := Some m, gl_status := Cs_Error\<rparr>"

subsection \<open>Preview\<close>

definition startPreview :: "go_live \<Rightarrow> go_live" where
  "startPreview s = s\<lparr>gl_status := Cs_Requesting, gl_error := None, gl_previews := gl_previews s + 1\<rparr>"

definition preview_answered :: "media_track list result \<Rightarrow> go_live \<Rightarrow> go_live" where
  "preview_answered r s0 =
     (let s = s0\<lparr>gl_previews := gl_previews s0 - 1\<rparr>; n = length (gl_cameras s0)
      in case r of
           Inl e \<Rightarrow> gl_fail (err_message (''falha ao acessar c'' @ [CHR 0xE2] @ ''mera/mic'') e) s
         | Inr tracks \<Rightarrow> s\<lparr>gl_cameras := gl_cameras s @ [\<lparr>cm_tracks = tracks, cm_on = True\<rparr>],
             gl_stream := Some n, gl_video := Some n, gl_status := Cs_Ready\<rparr>)"

subsection \<open>Going live\<close>

definition aup_missing :: string where
  "aup_missing = ''aceite a responsabilidade aup antes de transmitir.''"

definition goLive :: "go_live \<Rightarrow> go_live" where
  "goLive s =
     (if gl_stream s = None then s
      else if \<not> gl_aupAccepted s then s\<lparr>gl_error := Some aup_missing\<rparr>
      else s\<lparr>gl_status := Cs_Connecting, gl_error := None,
             gl_broadcasts := gl_broadcasts s @
               [Creating (if trim (gl_title s) = [] then None else Some (trim (gl_title s))) (gl_backend s)]\<rparr>)"

definition set_broadcast :: "nat \<Rightarrow> broadcast \<Rightarrow> go_live \<Rightarrow> go_live" where
  "set_broadcast i st s = s\<lparr>gl_broadcasts := (gl_broadcasts s)[i := st]\<rparr>"

definition broadcast_throws :: "nat \<Rightarrow> js_error \<Rightarrow> go_live \<Rightarrow> go_live" where
  "broadcast_throws i e s =
     gl_fail (err_message (''falha ao iniciar transmiss'' @ [CHR 0xE3] @ ''o'') e) (set_broadcast i Broadcast_Over s)"

definition create_failed :: "nat \<Rightarrow> string" where
  "create_failed st = ''falha ao criar transmiss'' @ [CHR 0xE3] @ ''o ('' @ show_nat st @ '')''"

definition live_created :: "nat \<Rightarrow> create_live_response own_reply \<Rightarrow> go_live \<Rightarrow> go_live" where
  "live_created i r s =
     (case r of
        Api_Rejected e \<Rightarrow> broadcast_throws i e s
      | Api_Refused st err \<Rightarrow> broadcast_throws i (Error (or_default err (create_failed st))) s
      | Api_Ok api \<Rightarrow> set_broadcast i (Resolving api) s)"

definition publish_options :: "create_live_response \<Rightarrow> string \<Rightarrow> ice_server list \<Rightarrow> media_track list \<Rightarrow> whip_options" where
  \<comment> \<open>the resolved address counts for Livepeer only\<close>
  "publish_options api url iceServers tracks =
     \<lparr>wp_whipUrl = (if al_backend api = Livepeer then url else al_whipUrl api), wp_stream = tracks,
      wp_iceServers = Some iceServers, wp_did = (if al_backend api = Aevia_Mesh then Some (al_creatorDid api) else None),
      wp_sign = None, wp_maxVideoBitrate = None, wp_simulcastLayers = None,
      wp_skipResourceDelete = (al_backend api = Livepeer)\<rparr>"

definition ingest_resolved :: "nat \<Rightarrow> create_live_response \<Rightarrow> (string \<times> ice_server list) result \<Rightarrow> go_live \<Rightarrow> go_live" where
  \<comment> \<open>publishing the stream of that moment; without one \<open>publishWhip\<close> throws\<close>
  "ingest_resolved i api r s =
     (case r of
        Inl e \<Rightarrow> broadcast_throws i e s
      | Inr (url, iceServers) \<Rightarrow>
          (case gl_stream s of
             None \<Rightarrow> broadcast_throws i Thrown s
           | Some c \<Rightarrow> set_broadcast i (Publishing api (publish_options api url iceServers (cm_tracks (gl_cameras s ! c)))) s))"

definition gl_connection_state :: "string \<Rightarrow> go_live \<Rightarrow> go_live" where
  "gl_connection_state st s =
     (if st = ''connected'' then s\<lparr>gl_status := Cs_Live, gl_error := None\<rparr>
      else if st = ''disconnected''
        then s\<lparr>gl_error := Some (''conex'' @ [CHR 0xE3] @ ''o inst'' @ [CHR 0xE1] @ ''vel '' @ [em_dash] @
               '' aguardando reconex'' @ [CHR 0xE3] @ ''o autom'' @ [CHR 0xE1] @ ''tica'')\<rparr>
      else if st = ''failed'' \<or> st = ''closed''
        then gl_fail (''conex'' @ [CHR 0xE3] @ ''o '' @ (if st = ''failed'' then ''falhou'' else ''encerrada'')) s
      else s)"

definition no_live_id :: string where
  "no_live_id = ''resposta da rede n'' @ [CHR 0xE3] @ ''o trouxe id da transmiss'' @ [CHR 0xE3] @ ''o''"

definition live_uid :: "create_live_response \<Rightarrow> whip_session \<Rightarrow> string option" where
  "live_uid api session = (case al_uid api of None \<Rightarrow> wh_sessionId session | Some u \<Rightarrow> Some u)"

definition start_recording :: "bool \<Rightarrow> go_live \<Rightarrow> go_live" where
  \<comment> \<open>\<open>startRecorder\<close> works, or throws and the live goes on\<close>
  "start_recording works s =
     (if works then s\<lparr>gl_recorders := gl_recorders s @ [Is_Recording], gl_recorder := Some (length (gl_recorders s))\<rparr>
      else s)"

definition published :: "nat \<Rightarrow> create_live_response \<Rightarrow> whip_options \<Rightarrow> whip_outcome \<Rightarrow> bool \<Rightarrow> go_live \<Rightarrow> go_live" where
  "published i api opts out recorderWorks s =
     (case wr_result out of
        Inl e \<Rightarrow> broadcast_throws i e s
      | Inr session \<Rightarrow>
          let s1 = (set_broadcast i Broadcast_Over s)
                \<lparr>gl_whips := gl_whips s @ [(opts, wh_resourceUrl session, out)], gl_session := Some (length (gl_whips s))\<rparr>;
              uid = live_uid api session
          in if \<not> truthy uid then broadcast_throws i (Error no_live_id) s1
             else start_recording recorderWorks (s1\<lparr>gl_created := Some
               \<lparr>cl_uid = the uid, cl_whipUrl = al_whipUrl api, cl_whepUrl = al_whepUrl api, cl_creator = al_creator api,
                cl_backend = al_backend api, cl_playerUrl = al_playerUrl api\<rparr>\<rparr>))"

subsection \<open>Stopping\<close>

definition end_whip :: "go_live \<Rightarrow> go_live" where
  \<comment> \<open>\<open>whipSessionRef.current?.stop()\<close>\<close>
  "end_whip s =
     (case gl_session s of
        None \<Rightarrow> s
      | Some j \<Rightarrow> (case gl_whips s ! j of (opts, url, out) \<Rightarrow>
          s\<lparr>gl_whips := (gl_whips s)[j := (opts, url, whip_stop opts url out)]\<rparr>))"

definition camera_off :: "go_live \<Rightarrow> go_live" where
  "camera_off s =
     (case gl_stream s of
        None \<Rightarrow> s
      | Some c \<Rightarrow> s\<lparr>gl_cameras := (gl_cameras s)[c := (gl_cameras s ! c)\<lparr>cm_on := False\<rparr>]\<rparr>)"

definition set_recorder :: "nat option \<Rightarrow> recording \<Rightarrow> go_live \<Rightarrow> go_live" where
  "set_recorder r st s = (case r of None \<Rightarrow> s | Some k \<Rightarrow> s\<lparr>gl_recorders := (gl_recorders s)[k := st]\<rparr>)"

definition stopLive :: "go_live \<Rightarrow> go_live" where
  "stopLive s =
     (let s1 = end_whip (s\<lparr>gl_recorder := None\<rparr>)
      in s1\<lparr>gl_stops := gl_stops s @ [Ending (map_option cl_uid (gl_created s))
           (or_default (map_option cl_backend (gl_created s)) Cloudflare) (gl_recorder s)]\<rparr>)"

definition set_stop :: "nat \<Rightarrow> stopping \<Rightarrow> go_live \<Rightarrow> go_live" where
  "set_stop i st s = s\<lparr>gl_stops := (gl_stops s)[i := st]\<rparr>"

definition whip_ended :: "nat \<Rightarrow> string option \<Rightarrow> live_backend \<Rightarrow> nat option \<Rightarrow> go_live \<Rightarrow> go_live" where
  "whip_ended i liveUid createdBackend recorder s =
     (let s1 = (camera_off s)\<lparr>gl_session := None, gl_stream := None, gl_video := None, gl_status := Cs_Idle\<rparr>
      in if createdBackend \<noteq> Cloudflare then set_stop i Stopping_Over (set_recorder recorder Recording_Cancelled s1)
         else if recorder \<noteq> None \<and> truthy liveUid
           then set_stop i (Flushing (the liveUid) (the recorder)) (set_recorder recorder Recording_Stopped s1)
         else set_stop i Stopping_Over s1)"

definition upload_url_failed :: "nat \<Rightarrow> string" where
  "upload_url_failed st = ''falha ao obter url de upload ('' @ show_nat st @ '')''"

definition stop_throws :: "nat \<Rightarrow> js_error \<Rightarrow> go_live \<Rightarrow> go_live" where
  "stop_throws i e s = (set_stop i Stopping_Over s)\<lparr>gl_error :=
     Some (err_message (''falha ao finalizar grava'' @ [CHR 0xE7, CHR 0xE3] @ ''o'') e)\<rparr>"

definition blob_ready :: "nat \<Rightarrow> string \<Rightarrow> nat \<Rightarrow> go_live \<Rightarrow> go_live" where
  "blob_ready i liveUid bytes s = set_stop i (if bytes = 0 then Stopping_Over else Asking liveUid bytes) s"

definition upload_url_answered ::
  "nat \<Rightarrow> string \<Rightarrow> string \<Rightarrow> (string \<times> string) own_reply \<Rightarrow> go_live \<Rightarrow> go_live" where
  "upload_url_answered i liveUid blobType r s =
     (case r of
        Api_Rejected e \<Rightarrow> stop_throws i e s
      | Api_Refused st err \<Rightarrow> stop_throws i (Error (or_default err (upload_url_failed st))) s
      | Api_Ok (uploadUrl, videoUid) \<Rightarrow> (set_stop i Stopping_Over s)\<lparr>gl_uploads := gl_uploads s @
          [\<lparr>si_liveInputId = liveUid, si_blobType = blobType, si_uploadUrl = uploadUrl, si_videoUid = videoUid\<rparr>]\<rparr>)"

definition unmount_go_live :: "go_live \<Rightarrow> go_live" where
  "unmount_go_live s = camera_off (set_recorder (gl_recorder s) Recording_Cancelled (end_whip s))"

subsection \<open>The button\<close>

datatype cta = Cta_Disabled | Cta_Start | Cta_Go_Live | Cta_Stop

definition canGoLive :: "go_live \<Rightarrow> bool" where
  "canGoLive s = (gl_status s = Cs_Ready \<and> gl_aupAccepted s)"

fun sticky_cta :: "connection_status \<Rightarrow> bool \<Rightarrow> cta" where
  "sticky_cta Cs_Idle _ = Cta_Start"
| "sticky_cta Cs_Requesting _ = Cta_Disabled"
| "sticky_cta Cs_Ready can = (if can then Cta_Go_Live else Cta_Disabled)"
| "sticky_cta Cs_Connecting _ = Cta_Disabled"
| "sticky_cta Cs_Live _ = Cta_Stop"
| "sticky_cta Cs_Error _ = Cta_Start"

definition press :: "go_live \<Rightarrow> go_live" where
  "press s =
     (case sticky_cta (gl_status s) (canGoLive s) of
        Cta_Disabled \<Rightarrow> s
      | Cta_Start \<Rightarrow> startPreview s
      | Cta_Go_Live \<Rightarrow> goLive s
      | Cta_Stop \<Rightarrow> stopLive s)"

definition liveRouteForBackend :: "live_backend \<Rightarrow> string" where
  "liveRouteForBackend b =
     (case b of Aevia_Mesh \<Rightarrow> ''/live/mesh/'' | Livepeer \<Rightarrow> ''/live/livepeer/'' | Cloudflare \<Rightarrow> ''/live/'')"

definition shareUrl :: "string \<Rightarrow> go_live \<Rightarrow> string option" where
  "shareUrl origin s = map_option (\<lambda>c. origin @ liveRouteForBackend (cl_backend c) @ cl_uid c) (gl_created s)"

subsection \<open>Steps\<close>

datatype go_event =
    Press
  | Edit_Title string
  | Choose_Backend live_backend
  | Accept_Aup bool
  | Preview_Answered "media_track list result"
  | Live_Created nat "create_live_response own_reply"
  | Ingest_Resolved nat "(string \<times> ice_server list) result"
  | Whip_State string
  | Published nat "whip_request \<Rightarrow> whip_reply" whip_browser bool
  | Whip_Ended nat
  | Blob_Ready nat nat
  | Upload_Url_Answered nat string "(string \<times> string) own_reply"

record go_env =
  ge_mesh :: bool \<comment> \<open>\<open>MESH_AVAILABLE\<close>\<close>
  ge_livepeer :: bool \<comment> \<open>\<open>LIVEPEER_AVAILABLE\<close>\<close>

definition go_env_of :: "string option \<Rightarrow> string option \<Rightarrow> go_env" where
  "go_env_of meshUrl livepeer = \<lparr>ge_mesh = (trim (or_default meshUrl []) \<noteq> []), ge_livepeer = (livepeer = Some ''true'')\<rparr>"

definition offered :: "go_env \<Rightarrow> live_backend \<Rightarrow> bool" where
  "offered env b = (case b of Cloudflare \<Rightarrow> True | Livepeer \<Rightarrow> ge_livepeer env | Aevia_Mesh \<Rightarrow> ge_mesh env)"

definition connection_open :: "go_live \<Rightarrow> bool" where
  \<comment> \<open>some connection of the screen can still change its state\<close>
  "connection_open s =
     (list_ex (\<lambda>b. case b of Publishing _ _ \<Rightarrow> True | _ \<Rightarrow> False) (gl_broadcasts s) \<or>
      list_ex (\<lambda>(opts, url, out). \<not> wr_closed out) (gl_whips s))"

definition fields_locked :: "go_live \<Rightarrow> bool" where
  \<comment> \<open>the title, the description and the checkbox are disabled while live; the options of the backend
    are only deaf to the pointer, not to the keyboard\<close>
  "fields_locked s = (gl_status s = Cs_Live)"

fun go_step :: "go_env \<Rightarrow> (string \<Rightarrow> string \<Rightarrow> string option) \<Rightarrow> go_event \<Rightarrow> go_live \<Rightarrow> go_live" where
  \<comment> \<open>an answer that no call waits for does not occur and changes nothing\<close>
  "go_step env resolve Press s = press s"
| "go_step env resolve (Edit_Title t) s = (if fields_locked s then s else s\<lparr>gl_title := t\<rparr>)"
| "go_step env resolve (Choose_Backend b) s = (if \<not> offered env b then s else s\<lparr>gl_backend := b\<rparr>)"
| "go_step env resolve (Accept_Aup a) s = (if fields_locked s then s else s\<lparr>gl_aupAccepted := a\<rparr>)"
| "go_step env resolve (Preview_Answered r) s = (if gl_previews s = 0 then s else preview_answered r s)"
| "go_step env resolve (Live_Created i r) s =
     (if i < length (gl_broadcasts s)
      then (case gl_broadcasts s ! i of Creating _ _ \<Rightarrow> live_created i r s | _ \<Rightarrow> s) else s)"
| "go_step env resolve (Ingest_Resolved i r) s =
     (if i < length (gl_broadcasts s)
      then (case gl_broadcasts s ! i of Resolving api \<Rightarrow> ingest_resolved i api r s | _ \<Rightarrow> s) else s)"
| "go_step env resolve (Whip_State st) s = (if connection_open s then gl_connection_state st s else s)"
| "go_step env resolve (Published i net b works) s =
     (if i < length (gl_broadcasts s)
      then (case gl_broadcasts s ! i of
              Publishing api opts \<Rightarrow> published i api opts (publishWhip resolve net b opts) works s | _ \<Rightarrow> s)
      else s)"
| "go_step env resolve (Whip_Ended i) s =
     (if i < length (gl_stops s)
      then (case gl_stops s ! i of Ending u b r \<Rightarrow> whip_ended i u b r s | _ \<Rightarrow> s) else s)"
| "go_step env resolve (Blob_Ready i n) s =
     (if i < length (gl_stops s)
      then (case gl_stops s ! i of Flushing u k \<Rightarrow> blob_ready i u n s | _ \<Rightarrow> s) else s)"
| "go_step env resolve (Upload_Url_Answered i t r) s =
     (if i < length (gl_stops s)
      then (case gl_stops s ! i of Asking u n \<Rightarrow> upload_url_answered i u t r s | _ \<Rightarrow> s) else s)"

definition go_run :: "go_env \<Rightarrow> (string \<Rightarrow> string \<Rightarrow> string option) \<Rightarrow> go_event list \<Rightarrow> go_live" where
  "go_run env resolve es = fold (go_step env resolve) es go_live_init"

subsection \<open>What a broadcast is allowed to do\<close>

definition publishing_ok :: "broadcast \<Rightarrow> bool" where
  \<comment> \<open>the DID goes to the mesh only, the resource is kept for Livepeer only\<close>
  "publishing_ok b = (case b of
     Publishing api opts \<Rightarrow>
       wp_did opts = (if al_backend api = Aevia_Mesh then Some (al_creatorDid api) else None) \<and>
       wp_skipResourceDelete opts = (al_backend api = Livepeer) \<and>
       (if al_backend api = Livepeer then True else wp_whipUrl opts = al_whipUrl api) \<and> wp_sign opts = None
   | _ \<Rightarrow> True)"

definition stopping_ok :: "stopping \<Rightarrow> bool" where
  "stopping_ok st = (case st of Flushing u k \<Rightarrow> u \<noteq> [] | Asking u n \<Rightarrow> u \<noteq> [] \<and> 0 < n | _ \<Rightarrow> True)"

definition go_ok :: "go_env \<Rightarrow> go_live \<Rightarrow> bool" where
  "go_ok env s =
     ((gl_status s = Cs_Ready \<longrightarrow> gl_stream s \<noteq> None) \<and>
      offered env (gl_backend s) \<and>
      list_all publishing_ok (gl_broadcasts s) \<and> list_all stopping_ok (gl_stops s) \<and>
      list_all (\<lambda>u. si_liveInputId u \<noteq> []) (gl_uploads s))"

lemma list_all_update: "list_all P xs \<Longrightarrow> P x \<Longrightarrow> list_all P (xs[i := x])"
  by (induction xs arbitrary: i) (auto split: nat.splits)

lemmas go_ops = startPreview_def preview_answered_def goLive_def set_broadcast_def broadcast_throws_def gl_fail_def
  live_created_def ingest_resolved_def gl_connection_state_def start_recording_def published_def end_whip_def
  camera_off_def set_recorder_def stopLive_def set_stop_def whip_ended_def stop_throws_def blob_ready_def
  upload_url_answered_def

lemma go_ok_press: "go_ok env s \<Longrightarrow> go_ok env (press s)"
  by (cases "gl_status s")
    (auto simp: press_def go_ok_def go_ops Let_def publishing_ok_def stopping_ok_def canGoLive_def
      split: option.splits prod.splits)

lemma go_ok_broadcast:
  assumes "go_ok env s" "publishing_ok b"
  shows "go_ok env (set_broadcast i b s)"
  using assms by (simp add: go_ok_def set_broadcast_def list_all_update)

lemma go_ok_fail: "go_ok env s \<Longrightarrow> go_ok env (gl_fail m s)"
  by (simp add: go_ok_def gl_fail_def)

lemma go_ok_throws: "go_ok env s \<Longrightarrow> go_ok env (broadcast_throws i e s)"
  by (simp add: broadcast_throws_def go_ok_fail go_ok_broadcast publishing_ok_def)

lemma go_ok_ingest: "go_ok env s \<Longrightarrow> go_ok env (ingest_resolved i api r s)"
  by (auto simp: ingest_resolved_def publish_options_def publishing_ok_def intro!: go_ok_throws go_ok_broadcast
      split: sum.splits option.splits)

lemma go_ok_whips: "go_ok env s \<Longrightarrow> go_ok env (s\<lparr>gl_whips := w, gl_session := j\<rparr>)"
  "go_ok env s \<Longrightarrow> go_ok env (s\<lparr>gl_created := c\<rparr>)"
  by (simp_all add: go_ok_def)

lemma go_ok_recording: "go_ok env s \<Longrightarrow> go_ok env (start_recording w s)"
  by (simp add: go_ok_def start_recording_def)

lemma go_ok_published: "go_ok env s \<Longrightarrow> go_ok env (published i api opts out w s)"
  by (auto simp: published_def Let_def publishing_ok_def
      intro!: go_ok_throws go_ok_recording go_ok_whips go_ok_broadcast split: sum.splits)

lemma go_ok_stop: "go_ok env s \<Longrightarrow> stopping_ok st \<Longrightarrow> go_ok env (set_stop i st s)"
  by (simp add: go_ok_def set_stop_def list_all_update)

lemma go_ok_same:
  assumes "go_ok env s" "gl_status t = Cs_Idle" "gl_backend t = gl_backend s" "gl_broadcasts t = gl_broadcasts s"
    "gl_stops t = gl_stops s" "gl_uploads t = gl_uploads s"
  shows "go_ok env t"
  using assms by (simp add: go_ok_def)

lemma go_ok_ended: "go_ok env s \<Longrightarrow> go_ok env (whip_ended i u b r s)"
proof -
  assume ok: "go_ok env s"
  let ?s = "(camera_off s)\<lparr>gl_session := None, gl_stream := None, gl_video := None, gl_status := Cs_Idle\<rparr>"
  have "go_ok env ?s" by (rule go_ok_same [OF ok]) (simp_all add: camera_off_def split: option.splits)
  moreover have "go_ok env (set_recorder r st ?s)" for st
    by (rule go_ok_same [OF ok]) (simp_all add: camera_off_def set_recorder_def split: option.splits)
  ultimately show ?thesis
    by (auto simp: whip_ended_def Let_def truthy_iff intro!: go_ok_stop simp: stopping_ok_def)
qed

lemma go_ok_step: "go_ok env s \<Longrightarrow> go_ok env (go_step env resolve e s)"
proof (cases e)
  case (Preview_Answered r)
  then show "go_ok env s \<Longrightarrow> ?thesis"
    by (cases r) (auto simp: preview_answered_def Let_def gl_fail_def go_ok_def)
next
  case (Live_Created i r)
  then show "go_ok env s \<Longrightarrow> ?thesis"
    by (auto simp: live_created_def publishing_ok_def intro!: go_ok_throws go_ok_broadcast
        split: broadcast.splits own_reply.splits)
next
  case (Whip_State st)
  then show "go_ok env s \<Longrightarrow> ?thesis" by (auto simp: gl_connection_state_def gl_fail_def go_ok_def)
next
  case (Blob_Ready i n)
  have "list_all stopping_ok xs \<Longrightarrow> i < length xs \<Longrightarrow> xs ! i = Flushing u k \<Longrightarrow> u \<noteq> []" for xs u k
    by (auto simp: list_all_length stopping_ok_def)
  with Blob_Ready show "go_ok env s \<Longrightarrow> ?thesis"
    by (auto simp: blob_ready_def go_ok_def intro!: go_ok_stop [unfolded go_ok_def] list_all_update
        simp: set_stop_def stopping_ok_def split: stopping.splits)
next
  case (Upload_Url_Answered i t r)
  have ask: "list_all stopping_ok xs \<Longrightarrow> i < length xs \<Longrightarrow> xs ! i \<noteq> Asking [] n" for xs n
    by (auto simp: list_all_length stopping_ok_def)
  have over: "list_all stopping_ok xs \<Longrightarrow> list_all stopping_ok (xs[i := Stopping_Over])" for xs
    by (rule list_all_update) (simp_all add: stopping_ok_def)
  from Upload_Url_Answered show "go_ok env s \<Longrightarrow> ?thesis"
    by (auto simp: upload_url_answered_def stop_throws_def set_stop_def go_ok_def ask over
        split: stopping.splits own_reply.splits)
next
  case Press
  then show "go_ok env s \<Longrightarrow> ?thesis" by (simp add: go_ok_press)
next
  case (Ingest_Resolved i r)
  then show "go_ok env s \<Longrightarrow> ?thesis" by (auto intro!: go_ok_ingest split: broadcast.splits)
next
  case (Published i net b w)
  then show "go_ok env s \<Longrightarrow> ?thesis" by (auto intro!: go_ok_published split: broadcast.splits)
next
  case (Whip_Ended i)
  then show "go_ok env s \<Longrightarrow> ?thesis" by (auto intro!: go_ok_ended split: stopping.splits)
qed (auto simp: go_ok_def)

lemma go_ok_run: "go_ok env (go_run env resolve es)"
proof (induction es rule: rev_induct)
  case Nil
  show ?case by (simp add: go_run_def go_ok_def go_live_init_def offered_def)
next
  case (snoc e es)
  then show ?case by (simp add: go_run_def go_ok_step)
qed

lemma begun_same [simp]:
  "length (gl_broadcasts (set_broadcast i b s)) = length (gl_broadcasts s)"
  "gl_broadcasts (gl_fail m s) = gl_broadcasts s" "gl_broadcasts (set_stop i st s) = gl_broadcasts s"
  "gl_broadcasts (start_recording w s) = gl_broadcasts s" "gl_broadcasts (set_recorder r k s) = gl_broadcasts s"
  "gl_broadcasts (camera_off s) = gl_broadcasts s" "gl_broadcasts (end_whip s) = gl_broadcasts s"
  "length (gl_broadcasts (broadcast_throws i e s)) = length (gl_broadcasts s)"
  "gl_broadcasts (stop_throws i e s) = gl_broadcasts s"
  by (simp_all add: set_broadcast_def gl_fail_def set_stop_def start_recording_def set_recorder_def camera_off_def
      end_whip_def broadcast_throws_def stop_throws_def split: option.splits prod.splits)

lemma begun_answers [simp]:
  "gl_broadcasts (preview_answered r s) = gl_broadcasts s" "gl_broadcasts (gl_connection_state st s) = gl_broadcasts s"
  "length (gl_broadcasts (live_created i cr s)) = length (gl_broadcasts s)"
  "length (gl_broadcasts (ingest_resolved i api ir s)) = length (gl_broadcasts s)"
  "length (gl_broadcasts (published i api opts out w s)) = length (gl_broadcasts s)"
  "gl_broadcasts (whip_ended i u b k s) = gl_broadcasts s" "gl_broadcasts (blob_ready i v n s) = gl_broadcasts s"
  "gl_broadcasts (upload_url_answered i v t ur s) = gl_broadcasts s"
  by (simp_all add: preview_answered_def gl_connection_state_def live_created_def ingest_resolved_def published_def
      whip_ended_def blob_ready_def upload_url_answered_def Let_def
      split: sum.splits option.splits prod.splits own_reply.splits)

lemma begun_press:
  "length (gl_broadcasts (press s)) = length (gl_broadcasts s) + (if canGoLive s \<and> gl_stream s \<noteq> None then 1 else 0)"
  by (cases "gl_status s") (auto simp: press_def canGoLive_def startPreview_def goLive_def stopLive_def Let_def)

lemma broadcasts_begun:
  "length (gl_broadcasts (go_step env resolve e s)) = length (gl_broadcasts s) +
     (if e = Press \<and> canGoLive s \<and> gl_stream s \<noteq> None then 1 else 0)"
  by (cases e) (simp_all add: begun_press split: broadcast.splits stopping.splits)

text \<open>
  C29. What it takes to go live. In any state the screen can get into, a broadcast is begun exactly
  when the button is pressed with a camera at hand and the content rules accepted, with a backend the
  deployment offers; what is then published names the broadcaster's DID to the mesh alone, goes to the
  address the API gave unless the backend is Livepeer, and asks for no deletion there; and only
  recordings of a live with an id reach the upload queue.
\<close>

theorem broadcast_guarded:
  "(let s = go_run env resolve es in
     length (gl_broadcasts (go_step env resolve e s)) =
       length (gl_broadcasts s) + (if e = Press \<and> gl_status s = Cs_Ready \<and> gl_aupAccepted s then 1 else 0) \<and>
     offered env (gl_backend s) \<and>
     list_all publishing_ok (gl_broadcasts s) \<and>
     list_all (\<lambda>u. si_liveInputId u \<noteq> []) (gl_uploads s))"
proof -
  have "go_ok env (go_run env resolve es)" by (rule go_ok_run)
  then show ?thesis
    using broadcasts_begun [of env resolve e "go_run env resolve es"]
    by (auto simp: go_ok_def canGoLive_def Let_def split: if_splits)
qed

subsection \<open>Stopping and the recording\<close>

text \<open>The references of the screen point at things it has.\<close>

definition refs_ok :: "go_live \<Rightarrow> bool" where
  "refs_ok s =
     (pred_option (\<lambda>c. c < length (gl_cameras s)) (gl_stream s) \<and>
      pred_option (\<lambda>j. j < length (gl_whips s)) (gl_session s) \<and>
      pred_option (\<lambda>k. k < length (gl_recorders s)) (gl_recorder s))"

lemma index_kept:
  "pred_option (\<lambda>c. c < (m :: nat)) x \<Longrightarrow> m \<le> n \<Longrightarrow> y = x \<or> y = None \<Longrightarrow> pred_option (\<lambda>c. c < n) y"
  by (cases x; cases y) auto

lemma refs_same:
  assumes "refs_ok s" "length (gl_cameras s) \<le> length (gl_cameras t)" "length (gl_whips s) \<le> length (gl_whips t)"
    "length (gl_recorders s) \<le> length (gl_recorders t)"
    "gl_stream t = gl_stream s \<or> gl_stream t = None" "gl_session t = gl_session s \<or> gl_session t = None"
    "gl_recorder t = gl_recorder s \<or> gl_recorder t = None"
  shows "refs_ok t"
  using assms(1) index_kept [OF _ assms(2,5)] index_kept [OF _ assms(3,6)] index_kept [OF _ assms(4,7)]
  by (simp add: refs_ok_def)

lemma refs_throws: "refs_ok s \<Longrightarrow> refs_ok (broadcast_throws i e s)"
  by (erule refs_same) (simp_all add: broadcast_throws_def gl_fail_def set_broadcast_def)

lemma refs_broadcast: "refs_ok s \<Longrightarrow> refs_ok (set_broadcast i b s)"
  by (erule refs_same) (simp_all add: set_broadcast_def)

lemma refs_recording: "refs_ok s \<Longrightarrow> refs_ok (start_recording w s)"
  by (auto simp: start_recording_def refs_ok_def)

lemma refs_published: "refs_ok s \<Longrightarrow> refs_ok (published i api opts out w s)"
proof -
  assume ok: "refs_ok s"
  have "refs_ok ((set_broadcast i Broadcast_Over s)\<lparr>gl_whips := gl_whips s @ [x], gl_session := Some (length (gl_whips s))\<rparr>)" for x
    using ok by (simp add: refs_ok_def set_broadcast_def)
  moreover have "refs_ok (t\<lparr>gl_created := c\<rparr>)" if "refs_ok t" for t c
    using that by (simp add: refs_ok_def)
  ultimately show ?thesis
    using ok by (auto simp: published_def Let_def intro!: refs_throws refs_recording split: sum.splits)
qed

lemma kept_references [simp]:
  "gl_stream (end_whip s) = gl_stream s" "gl_session (end_whip s) = gl_session s" "gl_recorder (end_whip s) = gl_recorder s"
  "length (gl_cameras (end_whip s)) = length (gl_cameras s)" "length (gl_whips (end_whip s)) = length (gl_whips s)"
  "length (gl_recorders (end_whip s)) = length (gl_recorders s)"
  "length (gl_cameras (camera_off s)) = length (gl_cameras s)" "gl_whips (camera_off s) = gl_whips s"
  "gl_recorders (camera_off s) = gl_recorders s" "gl_recorder (camera_off s) = gl_recorder s"
  "length (gl_recorders (set_recorder r st s)) = length (gl_recorders s)" "gl_cameras (set_recorder r st s) = gl_cameras s"
  "gl_whips (set_recorder r st s) = gl_whips s" "gl_stream (set_recorder r st s) = gl_stream s"
  "gl_session (set_recorder r st s) = gl_session s" "gl_recorder (set_recorder r st s) = gl_recorder s"
  by (auto simp: end_whip_def camera_off_def set_recorder_def split: option.splits prod.splits)

lemma refs_press: "refs_ok s \<Longrightarrow> refs_ok (press s)"
proof -
  assume ok: "refs_ok s"
  have "refs_ok (startPreview s)" by (rule refs_same [OF ok]) (simp_all add: startPreview_def)
  moreover have "refs_ok (goLive s)" by (rule refs_same [OF ok]) (simp_all add: goLive_def)
  moreover have "refs_ok (stopLive s)" by (rule refs_same [OF ok]) (simp_all add: stopLive_def Let_def)
  ultimately show ?thesis using ok by (simp add: press_def split: cta.splits)
qed

lemma refs_ended: "refs_ok s \<Longrightarrow> refs_ok (whip_ended i u b r s)"
  by (erule refs_same) (simp_all add: whip_ended_def set_stop_def Let_def)

lemma refs_step: "refs_ok s \<Longrightarrow> refs_ok (go_step env resolve e s)"
proof (cases e)
  case (Preview_Answered r)
  then show "refs_ok s \<Longrightarrow> ?thesis"
    by (cases r) (auto simp: preview_answered_def Let_def gl_fail_def refs_ok_def)
next
  case (Live_Created i r)
  then show "refs_ok s \<Longrightarrow> ?thesis"
    by (auto simp: live_created_def intro!: refs_throws refs_broadcast split: broadcast.splits own_reply.splits)
next
  case (Ingest_Resolved i r)
  then show "refs_ok s \<Longrightarrow> ?thesis"
    by (auto simp: ingest_resolved_def intro!: refs_throws refs_broadcast split: broadcast.splits sum.splits option.splits)
next
  case (Published i net b w)
  then show "refs_ok s \<Longrightarrow> ?thesis" by (auto intro!: refs_published split: broadcast.splits)
next
  case (Whip_Ended i)
  then show "refs_ok s \<Longrightarrow> ?thesis" by (auto intro!: refs_ended split: stopping.splits)
next
  case Press
  then show "refs_ok s \<Longrightarrow> ?thesis" by (simp add: refs_press)
next
  case (Whip_State st)
  then show "refs_ok s \<Longrightarrow> ?thesis" by (auto simp: gl_connection_state_def gl_fail_def refs_ok_def)
qed (auto elim!: refs_same simp: blob_ready_def upload_url_answered_def stop_throws_def set_stop_def
    split: stopping.splits own_reply.splits)

lemma refs_run: "refs_ok (go_run env resolve es)"
proof (induction es rule: rev_induct)
  case Nil
  show ?case by (simp add: go_run_def refs_ok_def go_live_init_def)
next
  case (snoc e es)
  then show ?case by (simp add: go_run_def refs_step)
qed

text \<open>
  C30. Stopping hands the recording over. When the button is pressed on a running broadcast that is
  recorded, then, once the session has ended, camera and connection are off and the screen is idle.
  A recording of a Cloudflare live is stopped and, when it holds anything, uploaded exactly once to
  the address the API gives, under the live's id; an empty one is not. With any other backend the
  recording is thrown away and nothing is asked or uploaded.
\<close>

theorem recording_handed_over:
  assumes "s = go_run env resolve es" "gl_status s = Cs_Live" "gl_created s = Some c" "cl_uid c \<noteq> []"
    "gl_recorder s = Some k" "gl_stream s = Some m" "gl_session s = Some j"
  shows "(let i = length (gl_stops s); t = fold (go_step env resolve) [Press, Whip_Ended i] s;
      u = fold (go_step env resolve) [Blob_Ready i size', Upload_Url_Answered i ty (Api_Ok (url, vid))] t in
    gl_status t = Cs_Idle \<and> gl_stream t = None \<and> gl_session t = None \<and> gl_recorder t = None \<and>
    \<not> cm_on (gl_cameras t ! m) \<and> wr_closed (snd (snd (gl_whips t ! j))) \<and>
    gl_recorders t ! k = (if cl_backend c = Cloudflare then Recording_Stopped else Recording_Cancelled) \<and>
    gl_uploads u = gl_uploads s @
      (if cl_backend c = Cloudflare \<and> 0 < size'
       then [\<lparr>si_liveInputId = cl_uid c, si_blobType = ty, si_uploadUrl = url, si_videoUid = vid\<rparr>] else []))"
proof -
  have refs: "m < length (gl_cameras s)" "j < length (gl_whips s)" "k < length (gl_recorders s)"
    using refs_run [of env resolve es] assms by (simp_all add: refs_ok_def)
  obtain opts r out where w: "gl_whips s ! j = (opts, r, out)" by (cases "gl_whips s ! j")
  note ops = press_def canGoLive_def stopLive_def end_whip_def whip_ended_def camera_off_def set_recorder_def
    set_stop_def Let_def
  show ?thesis
    using assms(2-7) refs w
    by (cases "cl_backend c = Cloudflare"; cases "0 < size'")
      (simp_all add: ops whip_stop_def blob_ready_def upload_url_answered_def)
qed

definition demo_api :: create_live_response where
  "demo_api = \<lparr>al_backend = Cloudflare, al_uid = Some ''l1'', al_whipUrl = ''w'', al_whepUrl = None, al_playerUrl = None,
     al_creator = [], al_creatorDid = []\<rparr>"

definition demo_device :: whip_browser where
  "demo_device = \<lparr>wb_userAgent = None, wb_acceptsSimulcast = (\<lambda>t. True), wb_senderEncodings = (\<lambda>t. None),
     wb_acceptsParameters = (\<lambda>t. True), wb_offer = None, wb_localSdp = Some ''o'', wb_setRemote = None\<rparr>"

definition demo_live_run :: "go_event list" where
  "demo_live_run = [Press, Preview_Answered (Inr [\<lparr>mt_kind = ''video'', mt_label = []\<rparr>]), Accept_Aup True, Press,
     Live_Created 0 (Api_Ok demo_api), Ingest_Resolved 0 (Inr ([], [])),
     Published 0 (\<lambda>req. WhipResponse 201 (Inr ''a'') None None) demo_device True, Whip_State ''connected'']"

definition demo_env :: go_env where
  "demo_env = \<lparr>ge_mesh = False, ge_livepeer = False\<rparr>"

definition demo_live_state :: go_live where
  "demo_live_state = go_run demo_env (\<lambda>l u. Some l) demo_live_run"

lemma demo_live_refs:
  "gl_status demo_live_state = Cs_Live" "gl_recorder demo_live_state = Some 0" "gl_stream demo_live_state = Some 0"
  "gl_session demo_live_state = Some 0" "gl_stops demo_live_state = []" "gl_uploads demo_live_state = []"
  "map_option cl_uid (gl_created demo_live_state) = Some ''l1''"
  "map_option cl_backend (gl_created demo_live_state) = Some Cloudflare"
  by code_simp+

lemma recording_handed_over_witness:
  "gl_uploads (fold (go_step demo_env (\<lambda>l u. Some l)) [Blob_Ready 0 9, Upload_Url_Answered 0 ''video/webm'' (Api_Ok (''x'', ''y''))]
     (fold (go_step demo_env (\<lambda>l u. Some l)) [Press, Whip_Ended 0] demo_live_state)) =
   [\<lparr>si_liveInputId = ''l1'', si_blobType = ''video/webm'', si_uploadUrl = ''x'', si_videoUid = ''y''\<rparr>]"
proof -
  obtain c where c: "gl_created demo_live_state = Some c" "cl_uid c = ''l1''" "cl_backend c = Cloudflare"
    using demo_live_refs(7,8) by (cases "gl_created demo_live_state") auto
  from recording_handed_over [OF demo_live_state_def demo_live_refs(1) c(1) _ demo_live_refs(2,3,4),
      where size' = 9 and ty = "''video/webm''" and url = "''x''" and vid = "''y''"] c demo_live_refs
  show ?thesis by (simp only: Let_def list.size) simp
qed

text \<open>
  After a failed connection the button starts the preview again. The session of the failed broadcast,
  its camera and its recording are left behind: the connection is not closed, the camera stays on
  beside the new one, and once the new broadcast is live, stopping it uploads the second recording
  only.
\<close>

lemma retry_abandons_broadcast:
  "let s = fold (go_step demo_env (\<lambda>l u. Some l)) ([Whip_State ''failed'', Press] @
         tl (map (\<lambda>e. case e of Live_Created i r \<Rightarrow> Live_Created 1 r | Ingest_Resolved i r \<Rightarrow> Ingest_Resolved 1 r
                | Published i n b w \<Rightarrow> Published 1 n b w | x \<Rightarrow> x) demo_live_run) @ [Press, Whip_Ended 0]) demo_live_state
   in gl_status s = Cs_Idle \<and> map cm_on (gl_cameras s) = [True, False] \<and>
      map (\<lambda>w. wr_closed (snd (snd w))) (gl_whips s) = [False, True] \<and>
      gl_recorders s = [Is_Recording, Recording_Stopped]"
  by code_simp

text \<open>When no id comes back, the screen reports an error while the broadcast is on the air.\<close>

lemma nameless_live_stays_on_air:
  "let s = go_run demo_env (\<lambda>l u. Some l) [Press, Preview_Answered (Inr []), Accept_Aup True, Press,
         Live_Created 0 (Api_Ok (demo_api\<lparr>al_uid := None\<rparr>)), Ingest_Resolved 0 (Inr ([], [])),
         Published 0 (\<lambda>req. WhipResponse 201 (Inr ''a'') None None) demo_device True]
   in gl_error s = Some no_live_id \<and> gl_status s = Cs_Error \<and> gl_created s = None \<and>
      map (\<lambda>w. wr_closed (snd (snd w))) (gl_whips s) = [False]"
  by code_simp

end
