(* ===== verification/RegisterFlow.thy ===== *)
theory RegisterFlow
  imports Relayer
begin

text \<open>
  The registration flows of a dashboard row (\<open>apps/video/src/app/dashboard/live-row.tsx\<close>): the
  creator pays (\<open>handleRegister\<close>) or the relayer does (\<open>handleRegisterSponsored\<close>). The row's
  state changes as the handler runs, so it is part of the world the handler works on. The wallet
  library (Privy), the chain client (viem), the clock, \<open>keccak256\<close> and \<open>fetch\<close> are parameters; a
  manifest identifier \<open>keccak256\<close> gives has 64 lower-case hex digits, as viem documents. The last
  section runs the request of the sponsored flow through the model of the route that receives it.
\<close>

subsection \<open>State and services\<close>

datatype register_step = Step_Nonce | Step_Sign | Step_Send | Step_Confirm | Step_Persist

datatype register_state =
    Reg_Idle
  | Reg_Running register_step
  | Reg_Success "json option" "json option" \<comment> \<open>block and transaction hash\<close>
  | Reg_Error string

datatype sponsorship = Sponsor_Available | Sponsor_Exhausted json json

record 'w row_ui =
  ru_state :: register_state
  ru_sponsorship :: sponsorship
  ru_refreshes :: nat
  ru_world :: 'w

record 'w wallet =
  wl_type :: string
  wl_address :: string
  wl_chainId :: string
  wl_switchChain :: "nat \<Rightarrow> ('w, unit) io"

record register_call =
  rg_registry :: string
  rg_owner :: string
  rg_manifestCid :: string
  rg_parentCid :: string
  rg_policyFlags :: jsnum
  rg_signature :: string
  rg_chainId :: nat

record 'w register_env =
  rv_walletsReady :: bool
  rv_wallets :: "'w wallet list"
  rv_appEnv :: "string option"
  rv_numText :: "jsnum \<Rightarrow> string"
  rv_text :: "real \<Rightarrow> string"
  rv_nonces :: "string \<Rightarrow> string \<Rightarrow> ('w, nat) io" \<comment> \<open>of the registry, for an owner\<close>
  rv_now :: "('w, nat) io" \<comment> \<open>\<open>Math.floor(Date.now() / 1000)\<close>\<close>
  rv_keccak256 :: "string \<Rightarrow> string"
  rv_getAccessToken :: "('w, unit) io"
  rv_signTypedData :: "typed_data \<Rightarrow> string \<Rightarrow> ('w, string) io"
  rv_sendTransaction :: "register_call \<Rightarrow> string \<Rightarrow> ('w, string) io"
  rv_waitReceipt :: "string \<Rightarrow> ('w, receipt) io"
  rv_fetch :: "'w fetch"

record register_row =
  rx_uid :: string
  rx_recordingVideoUid :: "string option"
  rx_manifestCid :: "string option"
  rx_registerTxHash :: "string option"
  rx_registerBlock :: "jsnum option"

definition register_init :: "register_row \<Rightarrow> register_state" where
  "register_init live =
     (if truthy (rx_manifestCid live) \<and> truthy (rx_registerTxHash live) \<and> rx_registerBlock live \<noteq> None
      then Reg_Success (map_option JNum (rx_registerBlock live)) (map_option JStr (rx_registerTxHash live))
      else Reg_Idle)"

definition canRegister :: "register_row \<Rightarrow> register_state \<Rightarrow> bool" where
  "canRegister live st =
     (truthy (rx_recordingVideoUid live) \<and> \<not> truthy (rx_manifestCid live) \<and>
      (case st of Reg_Running _ \<Rightarrow> False | Reg_Success _ _ \<Rightarrow> False | _ \<Rightarrow> True))"

definition setRegisterState :: "register_state \<Rightarrow> ('w row_ui, unit) io" where
  "setRegisterState st = (\<lambda>u. (Inr (), u\<lparr>ru_state := st\<rparr>))"

definition setSponsorship :: "sponsorship \<Rightarrow> ('w row_ui, unit) io" where
  "setSponsorship sp = (\<lambda>u. (Inr (), u\<lparr>ru_sponsorship := sp\<rparr>))"

definition router_refresh :: "('w row_ui, unit) io" where
  "router_refresh = (\<lambda>u. (Inr (), u\<lparr>ru_refreshes := ru_refreshes u + 1\<rparr>))"

definition beyond :: "('w, 'a) io \<Rightarrow> ('w row_ui, 'a) io" where
  \<comment> \<open>a call to the outside\<close>
  "beyond m = (\<lambda>u. case m (ru_world u) of (r, w) \<Rightarrow> (r, u\<lparr>ru_world := w\<rparr>))"

definition io_swallow :: "('w, unit) io \<Rightarrow> ('w, unit) io" where
  "io_swallow m = io_catch m (\<lambda>_. io_return ())"

subsection \<open>What both flows share\<close>

definition zero_cid :: string where
  "zero_cid = ''0x'' @ replicate 64 CHR ''0''"

definition privy_wallet :: "'w register_env \<Rightarrow> 'w wallet option" where
  "privy_wallet env = find (\<lambda>w. wl_type w = ''privy'') (rv_wallets env)"

definition signing_args :: "'w register_env \<Rightarrow> string \<Rightarrow> string \<Rightarrow> string \<Rightarrow> nat \<Rightarrow> typed_data_args" where
  "signing_args env registry owner manifestCid nonce =
     \<lparr>ta_owner = owner, ta_manifestCid = manifestCid, ta_parentCid = zero_cid, ta_policyFlags = Fin 0,
      ta_chainId = appChainId (rv_appEnv env), ta_nonce = int nonce, ta_verifyingContract = registry\<rparr>"

definition sign_registration ::
  "'w register_env \<Rightarrow> string \<Rightarrow> string \<Rightarrow> string \<Rightarrow> ('w row_ui, string \<times> string) io" where
  \<comment> \<open>nonce, identifier, typed data and signature: the manifest identifier and what was signed for it\<close>
  "sign_registration env registry owner videoUid =
     io_bind (setRegisterState (Reg_Running Step_Nonce)) (\<lambda>_.
     io_bind (beyond (rv_nonces env registry owner)) (\<lambda>nonce.
     io_bind (beyond (rv_now env)) (\<lambda>now.
     let manifestCid = sprint2PlaceholderManifestCid (rv_keccak256 env) videoUid owner now in
     io_bind (io_lift (buildRegisterContentTypedData (rv_numText env) (signing_args env registry owner manifestCid nonce))) (\<lambda>typedData.
     io_bind (setRegisterState (Reg_Running Step_Sign)) (\<lambda>_.
     io_bind (io_swallow (beyond (rv_getAccessToken env))) (\<lambda>_.
     io_bind (beyond (rv_signTypedData env typedData owner)) (\<lambda>signature.
     io_return (manifestCid, signature))))))))"

definition refusal_text :: "(real \<Rightarrow> string) \<Rightarrow> http_response \<Rightarrow> string list \<Rightarrow> string \<Rightarrow> js_error" where
  \<comment> \<open>\<open>new Error(body.a ?? body.b ?? dflt)\<close> with \<open>body = await res.json().catch(() => ({}))\<close>\<close>
  "refusal_text nt res ks dflt =
     (let body = (case hp_json res of Inl _ \<Rightarrow> JObj [] | Inr j \<Rightarrow> j)
      in case jprop (Some body) (hd ks) of
           Inl e \<Rightarrow> e
         | Inr _ \<Rightarrow> Error (case find (\<lambda>k. \<not> nullish (jget body k)) ks of
             None \<Rightarrow> dflt | Some k \<Rightarrow> value_string nt (jget body k)))"

definition post_row :: "'w register_env \<Rightarrow> register_row \<Rightarrow> string \<Rightarrow> json \<Rightarrow> ('w row_ui, http_response) io" where
  "post_row env live route body = beyond (rv_fetch env
     \<lparr>hr_method = ''POST'', hr_url = ''/api/lives/'' @ rx_uid live @ route,
      hr_headers = [(''Content-Type'', ''application/json'')], hr_body = Json_Body body\<rparr>)"

definition report_failure :: "('w row_ui, unit) io \<Rightarrow> ('w row_ui, unit) io" where
  "report_failure m = io_catch m (\<lambda>e. setRegisterState (Reg_Error (err_message ''erro desconhecido'' e)))"

definition with_wallet ::
  "'w register_env \<Rightarrow> register_row \<Rightarrow> ('w wallet \<Rightarrow> string \<Rightarrow> string \<Rightarrow> string \<Rightarrow> ('w row_ui, unit) io) \<Rightarrow> ('w row_ui, unit) io" where
  \<comment> \<open>the checks before the \<open>try\<close>; the look-up of the registry throws outside it\<close>
  "with_wallet env live k =
     (if \<not> rv_walletsReady env then io_return ()
      else case privy_wallet env of
        None \<Rightarrow> setRegisterState (Reg_Error (''carteira indispon'' @ [CHR 0xED] @ ''vel''))
      | Some wallet \<Rightarrow>
          io_bind (io_lift (contentRegistryAddress (appChainId (rv_appEnv env)))) (\<lambda>registry.
            if \<not> truthy (rx_recordingVideoUid live)
            then setRegisterState (Reg_Error (''grava'' @ [CHR 0xE7, CHR 0xE3] @ ''o ausente''))
            else report_failure (k wallet registry (to_lower (wl_address wallet)) (the (rx_recordingVideoUid live)))))"

subsection \<open>The creator pays\<close>

definition reverted :: "receipt \<Rightarrow> js_error" where
  "reverted rec = Error (''transaction reverted at block '' @ show_nat (rc_blockNumber rec))"

definition persist_body :: "string \<Rightarrow> string \<Rightarrow> nat \<Rightarrow> json" where
  "persist_body manifestCid txHash block =
     JObj [(''manifestCid'', JStr manifestCid), (''registerTxHash'', JStr txHash), (''registerBlock'', jnat block)]"

definition handleRegister :: "'w register_env \<Rightarrow> register_row \<Rightarrow> ('w row_ui, unit) io" where
  "handleRegister env live = with_wallet env live (\<lambda>wallet registry owner videoUid.
     let chainId = appChainId (rv_appEnv env) in
     io_bind (sign_registration env registry owner videoUid) (\<lambda>(manifestCid, signature).
     io_bind (setRegisterState (Reg_Running Step_Send)) (\<lambda>_.
     io_bind (if wl_chainId wallet \<noteq> ''eip155:'' @ show_nat chainId
              then io_swallow (beyond (wl_switchChain wallet chainId)) else io_return ()) (\<lambda>_.
     io_bind (beyond (rv_sendTransaction env
        \<lparr>rg_registry = registry, rg_owner = owner, rg_manifestCid = manifestCid, rg_parentCid = zero_cid,
         rg_policyFlags = Fin 0, rg_signature = signature, rg_chainId = chainId\<rparr> owner)) (\<lambda>txHash.
     io_bind (setRegisterState (Reg_Running Step_Confirm)) (\<lambda>_.
     io_bind (beyond (rv_waitReceipt env txHash)) (\<lambda>receipt.
     if rc_status receipt \<noteq> ''success'' then io_lift (Inl (reverted receipt))
     else
       io_bind (setRegisterState (Reg_Running Step_Persist)) (\<lambda>_.
       io_bind (post_row env live ''/register'' (persist_body manifestCid txHash (rc_blockNumber receipt))) (\<lambda>res.
       if \<not> res_ok res
       then io_lift (Inl (refusal_text (rv_text env) res [''error''] (''persist failed with '' @ show_nat (hp_status res))))
       else io_bind (setRegisterState (Reg_Success (Some (jnat (rc_blockNumber receipt))) (Some (JStr txHash)))) (\<lambda>_.
            router_refresh))))))))))"

subsection \<open>The relayer pays\<close>

definition sponsored_body :: "string \<Rightarrow> string \<Rightarrow> string \<Rightarrow> json" where
  "sponsored_body owner manifestCid signature =
     JObj [(''owner'', JStr owner), (''manifestCid'', JStr manifestCid), (''parentCid'', JStr zero_cid),
           (''policyFlags'', jnat 0), (''signature'', JStr signature)]"

definition sponsor_exhausted :: string where
  "sponsor_exhausted = ''patroc'' @ [CHR 0xED] @ ''nio esgotado '' @ [em_dash] @ '' registros gr'' @ [CHR 0xE1] @
     ''tis consumidos (10/10).''"

definition cap_reached :: "http_response \<Rightarrow> ('w row_ui, unit) io" where
  "cap_reached res =
     (let body = (case hp_json res of Inl _ \<Rightarrow> JObj [] | Inr j \<Rightarrow> j)
      in io_bind (io_lift (jprop (Some body) ''limit'')) (\<lambda>limit.
         io_bind (setSponsorship (Sponsor_Exhausted (jelse limit (jnat 10)) (jelse (jget body ''used'') (jnat 10)))) (\<lambda>_.
         setRegisterState (Reg_Error sponsor_exhausted))))"

definition handleRegisterSponsored :: "'w register_env \<Rightarrow> register_row \<Rightarrow> ('w row_ui, unit) io" where
  "handleRegisterSponsored env live = with_wallet env live (\<lambda>wallet registry owner videoUid.
     io_bind (sign_registration env registry owner videoUid) (\<lambda>(manifestCid, signature).
     io_bind (setRegisterState (Reg_Running Step_Send)) (\<lambda>_.
     io_bind (post_row env live ''/register-relayed'' (sponsored_body owner manifestCid signature)) (\<lambda>res.
     if hp_status res = 402 then cap_reached res
     else if \<not> res_ok res
     then io_lift (Inl (refusal_text (rv_text env) res [''reason'', ''error''] (''relayer failed with '' @ show_nat (hp_status res))))
     else io_bind (io_lift (hp_json res)) (\<lambda>body.
          io_bind (io_lift (jprop (Some body) ''block'')) (\<lambda>block.
          io_bind (setRegisterState (Reg_Success block (jget body ''txHash''))) (\<lambda>_.
          router_refresh)))))))"

subsection \<open>Every run ends\<close>

definition settled :: "'w row_ui \<Rightarrow> 'w row_ui \<Rightarrow> bool" where
  \<comment> \<open>an error is shown, or the success with one refresh of the page\<close>
  "settled u v =
     ((\<exists>m. ru_state v = Reg_Error m) \<and> ru_refreshes v = ru_refreshes u \<or>
      (\<exists>b h. ru_state v = Reg_Success b h) \<and> ru_refreshes v = ru_refreshes u + 1)"

definition keeps :: "('w row_ui, 'a) io \<Rightarrow> bool" where
  "keeps m = (\<forall>u. ru_refreshes (snd (m u)) = ru_refreshes u)"

definition settles :: "('w row_ui, unit) io \<Rightarrow> bool" where
  "settles m = (\<forall>u. ru_refreshes (snd (m u)) = ru_refreshes u \<and> (\<exists>e. fst (m u) = Inl e) \<or>
     fst (m u) = Inr () \<and> settled u (snd (m u)))"

lemma keeps_basic [intro]:
  "keeps (setRegisterState st)" "keeps (setSponsorship sp)" "keeps (beyond m)" "keeps (io_return x)" "keeps (io_lift r)"
  by (simp_all add: keeps_def setRegisterState_def setSponsorship_def beyond_def io_defs split: prod.splits)

lemma keeps_bind [intro]: "keeps m \<Longrightarrow> (\<And>x. keeps (f x)) \<Longrightarrow> keeps (io_bind m f)"
  unfolding keeps_def io_bind_def by (auto split: prod.splits sum.splits) (metis snd_conv)+

lemma keeps_swallow [intro]: "keeps m \<Longrightarrow> keeps (io_swallow m)"
  unfolding keeps_def io_swallow_def io_catch_def io_return_def by (auto split: prod.splits sum.splits) (metis snd_conv)+

lemma keeps_sign [intro]: "keeps (sign_registration env registry owner videoUid)"
  unfolding sign_registration_def Let_def by (intro keeps_bind keeps_basic keeps_swallow)

lemma keeps_post [intro]: "keeps (post_row env live route body)"
  unfolding post_row_def by (rule keeps_basic)

lemma settles_bind:
  assumes "keeps m" "\<And>x. settles (f x)"
  shows "settles (io_bind m f)"
  unfolding settles_def
proof
  fix u
  have k: "ru_refreshes (snd (m u)) = ru_refreshes u" using assms(1) by (simp add: keeps_def)
  show "ru_refreshes (snd (io_bind m f u)) = ru_refreshes u \<and> (\<exists>e. fst (io_bind m f u) = Inl e) \<or>
      fst (io_bind m f u) = Inr () \<and> settled u (snd (io_bind m f u))"
  proof (cases "m u")
    case (Pair r v)
    show ?thesis
    proof (cases r)
      case (Inr x)
      have "ru_refreshes (snd (f x v)) = ru_refreshes v \<and> (\<exists>e. fst (f x v) = Inl e) \<or>
          fst (f x v) = Inr () \<and> settled v (snd (f x v))"
        using assms(2) by (simp add: settles_def)
      with Pair Inr k show ?thesis by (simp add: io_bind_def settled_def)
    qed (use Pair k in \<open>simp add: io_bind_def\<close>)
  qed
qed

lemma settles_throw: "settles (io_lift (Inl e))"
  by (simp add: settles_def io_lift_def)

lemma settles_error: "settles (setRegisterState (Reg_Error m))"
  by (simp add: settles_def setRegisterState_def settled_def)

lemma settles_success: "settles (io_bind (setRegisterState (Reg_Success b h)) (\<lambda>_. router_refresh))"
  by (simp add: settles_def setRegisterState_def router_refresh_def settled_def io_bind_def)

lemma settles_cap: "settles (cap_reached res)"
  unfolding cap_reached_def Let_def by (intro settles_bind keeps_basic settles_error)

lemma report_settles: "settles m \<Longrightarrow> \<exists>v. report_failure m u = (Inr (), v) \<and> settled u v"
proof -
  assume s: "settles m"
  obtain r v where m: "m u = (r, v)" by fastforce
  with s have "ru_refreshes v = ru_refreshes u \<and> (\<exists>e. r = Inl e) \<or> r = Inr () \<and> settled u v"
    by (metis fst_conv settles_def snd_conv)
  with m show ?thesis
    by (cases r) (auto simp: report_failure_def io_catch_def setRegisterState_def settled_def)
qed

lemma settles_register:
  "settles (io_bind (sign_registration env registry owner videoUid) (\<lambda>(manifestCid, signature).
     io_bind (setRegisterState (Reg_Running Step_Send)) (\<lambda>_. k manifestCid signature)))"
  if "\<And>c s. settles (k c s)"
  using that by (intro settles_bind keeps_sign) (auto intro!: settles_bind)

lemma with_wallet_ends:
  assumes "\<And>w r ow v. settles (k w r ow v)"
  shows "(case with_wallet env live k u of
      (Inl e, v) \<Rightarrow> v = u \<and> contentRegistryAddress (appChainId (rv_appEnv env)) = Inl e
    | (Inr _, v) \<Rightarrow> if rv_walletsReady env then settled u v else v = u)"
proof -
  have err: "setRegisterState (Reg_Error m) u = (Inr (), u\<lparr>ru_state := Reg_Error m\<rparr>)" for m
    by (simp add: setRegisterState_def)
  show ?thesis
  proof (cases "rv_walletsReady env")
    case ready: True
    show ?thesis
    proof (cases "privy_wallet env")
      case None
      with ready show ?thesis by (simp add: with_wallet_def err settled_def)
    next
      case (Some w)
      show ?thesis
      proof (cases "contentRegistryAddress (appChainId (rv_appEnv env))")
        case (Inl e)
        with ready Some show ?thesis by (simp add: with_wallet_def io_lift_def)
      next
        case (Inr r)
        obtain v where "report_failure (k w r (to_lower (wl_address w)) (the (rx_recordingVideoUid live))) u = (Inr (), v)"
          "settled u v"
          using report_settles [OF assms] by blast
        with ready Some Inr show ?thesis by (simp add: with_wallet_def err) (simp add: settled_def)
      qed
    qed
  qed (simp add: with_wallet_def io_return_def)
qed

lemma handlers_end:
  "case handleRegister env live u of
      (Inl e, v) \<Rightarrow> v = u \<and> contentRegistryAddress (appChainId (rv_appEnv env)) = Inl e
    | (Inr _, v) \<Rightarrow> if rv_walletsReady env then settled u v else v = u"
  "case handleRegisterSponsored env live u of
      (Inl e, v) \<Rightarrow> v = u \<and> contentRegistryAddress (appChainId (rv_appEnv env)) = Inl e
    | (Inr _, v) \<Rightarrow> if rv_walletsReady env then settled u v else v = u"
  unfolding handleRegister_def handleRegisterSponsored_def Let_def
  by (intro with_wallet_ends settles_register;
      auto intro!: settles_bind settles_cap settles_throw settles_success)+

lemma handler_outcome:
  "snd (handleRegister env live u) = u \<or> settled u (snd (handleRegister env live u))"
  "snd (handleRegisterSponsored env live u) = u \<or> settled u (snd (handleRegisterSponsored env live u))"
  using handlers_end(1) [where env = env and live = live and u = u] handlers_end(2) [where env = env and live = live and u = u]
  by (auto split: prod.splits sum.splits if_splits)


subsection \<open>The server verifies what the creator signed\<close>

text \<open>
  C32. The two sides of a sponsored registration agree. For a wallet with a well-formed address, an
  identifier of 64 lower-case digits, a signature of at least 65 bytes and a nonce that is a safe
  integer, the body the row posts passes the checks of the route, and the typed data the route
  rebuilds from it, with the same chain, registry and nonce, is the one the creator signed; so the
  route's own check refuses exactly the signatures the chain client does not accept for it.
\<close>

theorem sponsored_request_verifies:
  assumes "hex0x 40 address" "lower_hex0x 64 manifestCid" "sig_hex signature" "132 \<le> length signature"
    "int nonce \<le> max_safe_integer" "owner = to_lower address"
  shows "\<exists>req td. parseBody (sponsored_body owner manifestCid signature) = Inr req \<and>
    buildRegisterContentTypedData (rv_numText env) (signing_args env registry owner manifestCid nonce) = Inr td \<and>
    relay_typed_data (appChainId (rv_appEnv env)) registry nonce req = td \<and>
    rq_owner req = owner \<and> rq_manifestCid req = manifestCid \<and> rq_signature req = signature \<and>
    (signature_check cc (appChainId (rv_appEnv env)) registry nonce req = None) =
      (cc_verifyTypedData cc owner td signature = Inr True)"
proof -
  have owner: "hex0x 40 owner" "to_lower owner = owner"
    using lower_address_ok [OF address_lower] assms(1,6) by (auto simp: address_ok_def)
  have cid: "hex0x 64 manifestCid" "to_lower manifestCid = manifestCid"
    using assms(2) lower_address_fix by (auto simp: hex0x_def lower_hex0x_def list_all_iff intro: lower_hex_is_hex)
  have zero: "hex0x 64 zero_cid" "to_lower zero_cid = zero_cid" by code_simp+
  let ?req = "\<lparr>rq_owner = owner, rq_manifestCid = manifestCid, rq_parentCid = zero_cid, rq_policyFlags = Fin 0,
     rq_signature = signature\<rparr>"
  have parse: "parseBody (sponsored_body owner manifestCid signature) = Inr ?req"
    using owner cid zero assms(3,4)
    by (simp add: parseBody_def sponsored_body_def is_object_def Let_def jnat_def)
  let ?td = "relay_typed_data (appChainId (rv_appEnv env)) registry nonce ?req"
  have build: "buildRegisterContentTypedData (rv_numText env) (signing_args env registry owner manifestCid nonce) = Inr ?td"
    using assms(5)
    by (simp add: buildRegisterContentTypedData_def signing_args_def relay_typed_data_def domain_name_def domain_version_def)
  have "(signature_check cc (appChainId (rv_appEnv env)) registry nonce ?req = None) =
      (cc_verifyTypedData cc owner ?td signature = Inr True)"
    by (auto simp: signature_check_def split: sum.splits)
  with parse build show ?thesis by fastforce
qed

definition demo_signature :: string where
  "demo_signature = ''0x'' @ replicate 130 CHR ''1''"

definition demo_register_env :: "unit register_env" where
  "demo_register_env =
     \<lparr>rv_walletsReady = True,
      rv_wallets = [\<lparr>wl_type = ''privy'', wl_address = ''0x'' @ replicate 40 CHR ''A'', wl_chainId = [],
        wl_switchChain = (\<lambda>_. io_return ())\<rparr>],
      rv_appEnv = None, rv_numText = (\<lambda>_. []), rv_text = (\<lambda>_. []), rv_nonces = (\<lambda>_ _. io_return 0), rv_now = io_return 1,
      rv_keccak256 = (\<lambda>_. ''0x'' @ replicate 64 CHR ''c''), rv_getAccessToken = io_return (),
      rv_signTypedData = (\<lambda>_ _. io_return demo_signature), rv_sendTransaction = (\<lambda>_ _. io_return ''0x1''),
      rv_waitReceipt = (\<lambda>_. io_return \<lparr>rc_status = ''success'', rc_blockNumber = 7\<rparr>),
      rv_fetch = (\<lambda>_. io_return \<lparr>hp_status = 502, hp_statusText = [], hp_url = [], hp_headers = [], hp_text = Inr [],
        hp_json = Inl Thrown\<rparr>)\<rparr>"

lemma sponsored_request_verifies_witness:
  "\<exists>req. parseBody (sponsored_body (''0x'' @ replicate 40 CHR ''a'') (''0x'' @ replicate 64 CHR ''c'') demo_signature) = Inr req \<and>
     rq_owner req = ''0x'' @ replicate 40 CHR ''a''"
proof -
  have "hex0x 40 (''0x'' @ replicate 40 CHR ''A'')" "lower_hex0x 64 (''0x'' @ replicate 64 CHR ''c'')"
    "sig_hex demo_signature" "132 \<le> length demo_signature" "int 0 \<le> max_safe_integer"
    "''0x'' @ replicate 40 CHR ''a'' = to_lower (''0x'' @ replicate 40 CHR ''A'')"
    by code_simp+
  from sponsored_request_verifies [OF this, of demo_register_env] show ?thesis by blast
qed

text \<open>
  When the transaction was confirmed and only the row's own server refuses to store it, the row shows
  an error and offers the registration again, which would register a second identifier.
\<close>

definition demo_row :: register_row where
  "demo_row = \<lparr>rx_uid = ''l'', rx_recordingVideoUid = Some ''v'', rx_manifestCid = None, rx_registerTxHash = None,
     rx_registerBlock = None\<rparr>"

definition demo_ui :: "unit row_ui" where
  "demo_ui = \<lparr>ru_state = register_init demo_row, ru_sponsorship = Sponsor_Available, ru_refreshes = 0, ru_world = ()\<rparr>"

lemmas demo_register = demo_register_env_def demo_row_def demo_ui_def with_wallet_def privy_wallet_def register_init_def
  contentRegistryAddress_def content_registry_address_def appChainId_def chain_id_sepolia_def chain_id_mainnet_def

lemma unstored_registration_offered_again:
  "ru_state (snd (handleRegister demo_register_env demo_row demo_ui)) = Reg_Error (''persist failed with '' @ show_nat 502) \<and>
   canRegister demo_row (ru_state (snd (handleRegister demo_register_env demo_row demo_ui)))"
  by (simp add: demo_register handleRegister_def sign_registration_def signing_args_def Let_def io_defs beyond_def
      setRegisterState_def io_swallow_def report_failure_def buildRegisterContentTypedData_def post_row_def
      max_safe_integer_def res_ok_def refusal_text_def jprop_def nullish_def canRegister_def)

text \<open>On the production chain, where the registry is not deployed, a press throws and shows nothing.\<close>

lemma production_press_is_silent:
  "snd (handleRegister (demo_register_env\<lparr>rv_appEnv := Some ''production''\<rparr>) demo_row demo_ui) = demo_ui"
  by (simp add: demo_register handleRegister_def io_bind_def io_lift_def)

end
