(* ===== verification/LivePages.thy ===== *)
theory LivePages
  imports LiveRoutes MeshRank MeshResolve MeshP2p PlayerScreen Catalog
begin

text \<open>
  The pages that open the player (\<open>app/live/[id]/page.tsx\<close>, \<open>app/live/mesh/[id]/page.tsx\<close>,
  \<open>app/live/livepeer/[id]/page.tsx\<close>) and the server actions of the dashboard
  (\<open>app/actions.ts\<close>). A page is what it hands to the player screen, or the refusal
  \<open>notFound()\<close>; a page that throws is \<open>Inl\<close>. What the video service answers is JSON nobody
  validates, so the values stay JSON. A form, the environment variables, the relays and
  \<open>revalidatePath\<close> are parameters. The last sections prove which recording the viewer gets, what
  the mesh page makes the player do, and that the actions change nothing for strangers.
\<close>

subsection \<open>Values of unknown type\<close>

fun prim_text :: "(real \<Rightarrow> string) \<Rightarrow> json option \<Rightarrow> string option" where
  \<comment> \<open>the primitive a value is compared as, when that is a text\<close>
  "prim_text nt (Some (JStr s)) = Some s"
| "prim_text nt (Some (JArr xs)) = Some (json_string nt (JArr xs))"
| "prim_text nt (Some (JObj kvs)) = Some (json_string nt (JObj kvs))"
| "prim_text nt _ = None"

fun json_number :: "(real \<Rightarrow> string) \<Rightarrow> json option \<Rightarrow> jsnum" where
  \<comment> \<open>\<open>Number(v)\<close>\<close>
  "json_number nt None = NaN"
| "json_number nt (Some JNull) = Fin 0"
| "json_number nt (Some (JBool b)) = Fin (if b then 1 else 0)"
| "json_number nt (Some (JNum x)) = x"
| "json_number nt v = js_Number (the (prim_text nt v))"

definition js_less :: "(real \<Rightarrow> string) \<Rightarrow> json option \<Rightarrow> json option \<Rightarrow> bool" where
  \<comment> \<open>\<open>a < b\<close>: by code units for two texts, as numbers otherwise\<close>
  "js_less nt a b =
     (case (prim_text nt a, prim_text nt b) of
        (Some s, Some t) \<Rightarrow> s < t
      | _ \<Rightarrow> js_gt (json_number nt b) (json_number nt a))"

fun filter_result :: "('a \<Rightarrow> bool result) \<Rightarrow> 'a list \<Rightarrow> 'a list result" where
  "filter_result f [] = Inr []"
| "filter_result f (x # xs) =
     (case f x of
        Inl e \<Rightarrow> Inl e
      | Inr b \<Rightarrow> map_sum id (\<lambda>ys. if b then x # ys else ys) (filter_result f xs))"

definition url_segment :: "(real \<Rightarrow> string) \<Rightarrow> json option \<Rightarrow> string" where
  \<comment> \<open>an element of \<open>segments.join('/')\<close>\<close>
  "url_segment nt v = (if nullish v then [] else value_string nt v)"

datatype 'a page = Not_Found | Rendered 'a

subsection \<open>The recording of a live input\<close>

definition ready_video :: "json option \<Rightarrow> bool result" where
  \<comment> \<open>\<open>v.readyToStream && v.status.state === 'ready'\<close>\<close>
  "ready_video v =
     (case jprop v ''readyToStream'' of
        Inl e \<Rightarrow> Inl e
      | Inr r \<Rightarrow>
          if \<not> truthy_json r then Inr False
          else map_sum id (\<lambda>st. st = Some (JStr ''ready'')) (jprop (jchain v ''status'') ''state''))"

definition ensurePublicPlayback :: "'w server \<Rightarrow> json option \<Rightarrow> ('w, unit) io" where
  "ensurePublicPlayback sv video =
     io_bind (io_lift (jprop video ''requireSignedURLs'')) (\<lambda>signed.
       if signed = Some (JBool False) then io_return ()
       else io_catch
         (io_bind (updateVideo sv (url_segment (sv_numText sv) (jchain video ''uid''))
            (JObj [(''requireSignedURLs'', JBool False)])) (\<lambda>_. io_return ()))
         (\<lambda>_. io_return ()))"

definition playable :: "'w server \<Rightarrow> json option \<Rightarrow> ('w, json option) io" where
  \<comment> \<open>\<open>await ensurePublicPlayback(video); vodHlsUrl = video.playback.hls\<close>\<close>
  "playable sv video =
     io_bind (ensurePublicPlayback sv video) (\<lambda>_. io_lift (jprop (jchain video ''playback'') ''hls''))"

definition recorded_vod :: "'w server \<Rightarrow> json option \<Rightarrow> ('w, json option \<times> bool) io" where
  \<comment> \<open>the recording uploaded from the browser: address and whether it is still processed\<close>
  "recorded_vod sv recordingUid =
     io_catch
       (io_bind (getVideo sv (url_segment (sv_numText sv) recordingUid)) (\<lambda>video.
        io_bind (io_lift (ready_video video)) (\<lambda>ready.
        if ready then io_bind (playable sv video) (\<lambda>url. io_return (url, False))
        else io_return (Some JNull, True))))
       (\<lambda>_. io_return (Some JNull, False))"

definition newest_first :: "(real \<Rightarrow> string) \<Rightarrow> json \<Rightarrow> json \<Rightarrow> sign" where
  "newest_first nt a b = (if js_less nt (jget a ''created'') (jget b ''created'') then Pos else Neg)"

definition listed_vod :: "'w server \<Rightarrow> string \<Rightarrow> json option \<Rightarrow> ('w, json option \<times> bool) io" where
  \<comment> \<open>the recordings the service made itself; \<open>unset\<close> is the address so far\<close>
  "listed_vod sv i unset =
     io_catch
       (io_bind (listLiveInputVideos sv i) (\<lambda>videos.
        case videos of
          JArr vs \<Rightarrow>
            io_bind (io_lift (filter_result (\<lambda>v. ready_video (Some v)) vs)) (\<lambda>ready.
            case js_sort (newest_first (sv_numText sv)) ready of
              v # _ \<Rightarrow> io_bind (playable sv (Some v)) (\<lambda>url. io_return (url, False))
            | [] \<Rightarrow> io_return (unset, vs \<noteq> []))
        | _ \<Rightarrow> io_lift (Inl (Error ''videos.filter is not a function''))))
       (\<lambda>_. io_return (unset, False))"

definition vod_of :: "'w server \<Rightarrow> string \<Rightarrow> json \<Rightarrow> json \<Rightarrow> ('w, json option \<times> bool) io" where
  \<comment> \<open>\<open>vodHlsUrl\<close> and \<open>vodProcessing\<close> for a live input in a state\<close>
  "vod_of sv i live state =
     (if state = JStr ''connected'' then io_return (Some JNull, False)
      else let recordingUid = live_meta live ''recordingVideoUid'' in
        io_bind (if truthy_json recordingUid then recorded_vod sv recordingUid else io_return (Some JNull, False))
          (\<lambda>(url, processing).
            if \<not> truthy_json url \<and> \<not> processing then listed_vod sv i url else io_return (url, processing)))"

subsection \<open>The Cloudflare page\<close>

record cloudflare_view =
  cv_uid :: "json option"
  cv_title :: json
  cv_whepUrl :: "json option"
  cv_hlsUrl :: "json option"
  cv_vodProcessing :: bool
  cv_creatorDisplayName :: json
  cv_creatorAddress :: "string option"
  cv_state :: json
  cv_startedISO :: "json option"
  cv_manifestCid :: json
  cv_registerBlock :: "jsnum option"
  cv_registerTxHash :: json

definition live_state :: "json option \<Rightarrow> json result" where
  \<comment> \<open>\<open>live.status?.current?.state ?? 'unknown'\<close>\<close>
  "live_state live =
     map_sum id (\<lambda>st. jelse (jchain (jchain st ''current'') ''state'') (JStr ''unknown'')) (jprop live ''status'')"

definition creator_lower :: "json \<Rightarrow> string result" where
  \<comment> \<open>\<open>(live.meta?.creatorAddress ?? live.defaultCreator ?? '').toLowerCase()\<close>\<close>
  "creator_lower live =
     (case jelse (live_meta live ''creatorAddress'') (jelse (jget live ''defaultCreator'') (JStr [])) of
        JStr s \<Rightarrow> Inr (to_lower s)
      | _ \<Rightarrow> Inl (Error ''toLowerCase is not a function''))"

definition LiveViewerPage :: "'w server \<Rightarrow> string \<Rightarrow> ('w, cloudflare_view page) io" where
  "LiveViewerPage sv i =
     io_bind (io_try (getLiveInput sv i)) (\<lambda>looked_up.
     case looked_up of
       Inl _ \<Rightarrow> io_return Not_Found
     | Inr live \<Rightarrow>
         io_bind (io_lift (live_state live)) (\<lambda>state.
         let l = the live in
         io_bind (vod_of sv i l state) (\<lambda>(url, processing).
         io_bind (io_lift (creator_lower l)) (\<lambda>creatorAddress.
         io_bind (io_lift (jprop (jget l ''webRTCPlayback'') ''url'')) (\<lambda>whep.
         io_return (Rendered
           \<lparr>cv_uid = jget l ''uid'', cv_title = jelse (live_meta l ''name'') (JStr untitled),
            cv_whepUrl = whep, cv_hlsUrl = url, cv_vodProcessing = processing,
            cv_creatorDisplayName = jelse (live_meta l ''creator'')
              (JStr (if creatorAddress \<noteq> [] then shortAddress creatorAddress 6 4 else ''aevia'')),
            cv_creatorAddress = (if creatorAddress = [] then None else Some creatorAddress),
            cv_state = state, cv_startedISO = jget l ''created'',
            cv_manifestCid = jelse (live_meta l ''manifestCid'') JNull,
            cv_registerBlock =
              (if truthy_json (live_meta l ''registerBlock'')
               then Some (json_number (sv_numText sv) (live_meta l ''registerBlock'')) else None),
            cv_registerTxHash = jelse (live_meta l ''registerTxHash'') JNull\<rparr>))))))"

subsection \<open>The mesh page\<close>

record mesh_env =
  me_meshUrl :: "string option"
  me_dhtRelays :: "string option"
  me_providerRegistry :: "string option"
  me_libp2pBootstraps :: "string option"

definition parseLibp2pBootstrapsInline :: "string \<Rightarrow> string list" where
  "parseLibp2pBootstrapsInline raw = filter (\<lambda>s. s \<noteq> []) (map trim (split_on CHR '','' raw))"

definition no_geo :: viewer_geo where
  "no_geo = \<lparr>vg_region = None, vg_lat = None, vg_lng = None\<rparr>"

definition resolved_meta :: "resolved_provider \<Rightarrow> provider_meta" where
  "resolved_meta p =
     \<lparr>pm_peerId = rp_peerId p, pm_httpsBase = rp_httpsBase p, pm_region = None, pm_lat = None, pm_lng = None\<rparr>"

definition page_candidates ::
  "(string \<Rightarrow> registry option) \<Rightarrow> (string \<Rightarrow> string) \<Rightarrow> relay_net \<Rightarrow> mesh_env \<Rightarrow> string \<Rightarrow> string \<Rightarrow> failover_candidate list" where
  \<comment> \<open>\<open>failoverCandidates\<close>, with \<open>JSON.parse\<close>, the identifier of a session and the relays\<close>
  "page_candidates JSON_parse cid_of net env base i =
     (let relays = parseRelayList (or_default (me_dhtRelays env) []);
          registry = parseProviderRegistry JSON_parse (or_default (me_providerRegistry env) [])
      in if relays \<noteq> [] \<and> registry \<noteq> [] then
           (case resolveSessionProviders cid_of net i
               \<lparr>ro_relayUrls = relays, ro_peerRegistry = registry, ro_fallbackHttpsBase = base, ro_timeoutMs = Some 2500\<rparr> of
              Inl _ \<Rightarrow> []
            | Inr ps \<Rightarrow> map (\<lambda>p. \<lparr>fc_peerId = pm_peerId p, fc_httpsBase = pm_httpsBase p\<rparr>)
                (rankProvidersByRegion (map resolved_meta ps) no_geo))
         else [])"

definition mesh_title :: string where
  "mesh_title = ''transmiss'' @ [CHR 0xE3] @ ''o ao vivo '' @ [CHR 0xB7] @ '' rede aevia''"

definition MeshLiveViewerPage ::
  "(string \<Rightarrow> registry option) \<Rightarrow> (string \<Rightarrow> string) \<Rightarrow> relay_net \<Rightarrow> mesh_env \<Rightarrow> string \<Rightarrow> player_props page" where
  "MeshLiveViewerPage JSON_parse cid_of net env i =
     (let fallbackBase = map_option trim (me_meshUrl env) in
      if \<not> truthy fallbackBase then Not_Found
      else let base = strip_slashes (the fallbackBase) in
        Rendered
          \<lparr>pp_uid = i, pp_title = mesh_title, pp_whepUrl = [], pp_hlsUrl = None,
           pp_aeviaHlsUrl = Some (base @ ''/live/'' @ i @ ''/hls/index.m3u8''),
           pp_aeviaWhepUrl = Some (base @ ''/whep/'' @ i), pp_aeviaSessionId = Some i,
           pp_candidates = Some (page_candidates JSON_parse cid_of net env base i),
           pp_bootstraps = Some (parseLibp2pBootstrapsInline (or_default (me_libp2pBootstraps env) [])),
           pp_vodProcessing = Some False, pp_backend = None, pp_state = ''connected''\<rparr>)"

subsection \<open>The Livepeer page\<close>

record livepeer_view =
  lw_uid :: "json option"
  lw_title :: "json option"
  lw_whepUrl :: string
  lw_playerUrl :: string
  lw_creatorDisplayName :: json
  lw_creatorAddress :: json
  lw_state :: string
  lw_startedISO :: string

definition stream_object :: "livepeer_stream \<Rightarrow> json" where
  \<comment> \<open>the fields \<open>normaliseStream\<close> keeps\<close>
  "stream_object s = JObj
     (opt_field ''id'' (ls_id s) @ opt_field ''name'' (ls_name s) @ opt_field ''streamKey'' (ls_streamKey s) @
      opt_field ''playbackId'' (ls_playbackId s) @ [(''record'', ls_record s)] @ opt_field ''createdAt'' (ls_createdAt s))"

definition livepeer_creator :: "json option \<Rightarrow> json option \<Rightarrow> json result" where
  \<comment> \<open>\<open>creatorDid ?? (creatorAddress ? shortAddress(creatorAddress) : 'aevia')\<close>\<close>
  "livepeer_creator creatorDid creatorAddress =
     (if \<not> nullish creatorDid then Inr (the creatorDid)
      else if truthy_json creatorAddress
      then (case creatorAddress of
          Some (JStr a) \<Rightarrow> Inr (JStr (shortAddress a 6 4))
        | _ \<Rightarrow> Inl (Error ''address.slice is not a function''))
      else Inr (JStr ''aevia''))"

definition LivepeerViewerPage ::
  "'w server \<Rightarrow> (json option \<Rightarrow> string result) \<Rightarrow> string \<Rightarrow> ('w, livepeer_view page) io" where
  \<comment> \<open>with \<open>new Date(v).toISOString()\<close>, which throws on an invalid date\<close>
  "LivepeerViewerPage sv toISO i =
     io_bind (getLivepeerStream sv i) (\<lambda>found.
     case found of
       None \<Rightarrow> io_return Not_Found
     | Some stream \<Rightarrow>
         let nt = sv_numText sv; userTags = jelse (jget (stream_object stream) ''userTags'') (JObj []);
             creatorAddress = jget userTags ''creatorAddress''; creatorDid = jget userTags ''creatorDid''
         in io_bind (io_lift (livepeer_creator creatorDid creatorAddress)) (\<lambda>creator.
            io_bind (io_lift (toISO (ls_createdAt stream))) (\<lambda>started.
            io_return (Rendered
              \<lparr>lw_uid = ls_id stream, lw_title = ls_name stream,
               lw_whepUrl = livepeerPlaybackUrl (value_string nt (ls_playbackId stream)),
               lw_playerUrl = livepeerPlayerUrl (value_string nt (ls_playbackId stream)),
               lw_creatorDisplayName = creator, lw_creatorAddress = jelse creatorAddress JNull,
               lw_state = ''connected'', lw_startedISO = started\<rparr>))))"

subsection \<open>The actions of the dashboard\<close>

definition with_own_live ::
  "'w server \<Rightarrow> aevia_session option result \<Rightarrow> string \<Rightarrow> (json \<Rightarrow> ('w, unit) io) \<Rightarrow> ('w, unit) io" where
  "with_own_live sv session uid k =
     io_bind (io_lift session) (\<lambda>s.
     case s of
       None \<Rightarrow> io_return ()
     | Some me \<Rightarrow>
         io_bind (resolveLiveOwnership sv uid (as_address me)) (\<lambda>ownership.
         case ownership of
           None \<Rightarrow> io_return ()
         | Some own \<Rightarrow> if \<not> ow_owned own then io_return () else k (ow_live own)))"

definition deleteLiveAction ::
  "'w server \<Rightarrow> (string \<Rightarrow> ('w, unit) io) \<Rightarrow> aevia_session option result \<Rightarrow> (string \<times> string) list \<Rightarrow> ('w, unit) io" where
  "deleteLiveAction sv revalidatePath session formData =
     (let uid = map_of formData ''uid'' in
      if \<not> truthy uid then io_return ()
      else with_own_live sv session (the uid) (\<lambda>live.
        let recordingVideoUid = live_meta live ''recordingVideoUid'' in
        io_bind (if truthy_json recordingVideoUid
           then io_catch (deleteVideo sv (url_segment (sv_numText sv) recordingVideoUid)) (\<lambda>_. io_return ())
           else io_return ()) (\<lambda>_.
        io_bind (deleteLiveInput sv (the uid)) (\<lambda>_. revalidatePath ''/dashboard''))))"

definition renameLiveAction ::
  "'w server \<Rightarrow> (string \<Rightarrow> ('w, unit) io) \<Rightarrow> aevia_session option result \<Rightarrow> (string \<times> string) list \<Rightarrow> ('w, unit) io" where
  "renameLiveAction sv revalidatePath session formData =
     (let uid = map_of formData ''uid''; name = map_option trim (map_of formData ''name'') in
      if \<not> truthy uid \<or> \<not> truthy name then io_return ()
      else if length (the name) > 120 then io_return ()
      else with_own_live sv session (the uid) (\<lambda>live.
        io_bind (updateLiveInput sv (the uid) \<lparr>lp_meta = Some [(''name'', the name)], lp_defaultCreator = None\<rparr>) (\<lambda>_.
        io_bind (revalidatePath ''/dashboard'') (\<lambda>_. revalidatePath (''/live/'' @ the uid)))))"

subsection \<open>Which recording the viewer gets\<close>

lemma filter_result_Inr:
  "filter_result f xs = Inr ys \<Longrightarrow> ys = filter (\<lambda>x. f x = Inr True) xs"
proof (induction xs arbitrary: ys)
  case (Cons x xs)
  then show ?case
    by (cases "f x"; cases "filter_result f xs") (auto split: if_splits)
qed simp

definition dated :: "json \<Rightarrow> bool" where
  "dated v = (as_str (jget v ''created'') \<noteq> None)"

definition ready_of :: "json list \<Rightarrow> json list" where
  "ready_of vs = filter (\<lambda>v. ready_video (Some v) = Inr True) vs"

definition newest :: "(real \<Rightarrow> string) \<Rightarrow> json \<Rightarrow> json list \<Rightarrow> bool" where
  \<comment> \<open>when all of them carry a date, \<open>v\<close> has the latest\<close>
  "newest nt v vs =
     (v \<in> set vs \<and> (list_all dated vs \<longrightarrow> list_all (\<lambda>x. \<not> js_less nt (jget v ''created'') (jget x ''created'')) vs))"

definition offers :: "json option \<Rightarrow> json option \<Rightarrow> bool" where
  \<comment> \<open>the video is ready and this is its playlist\<close>
  "offers video url = (ready_video video = Inr True \<and> jprop (jchain video ''playback'') ''hls'' = Inr url)"

definition vod_source :: "'w server \<Rightarrow> string \<Rightarrow> json \<Rightarrow> json option \<Rightarrow> bool" where
  "vod_source sv i live url =
     ((\<exists>w video w1. getVideo sv (url_segment (sv_numText sv) (live_meta live ''recordingVideoUid'')) w = (Inr video, w1) \<and>
         offers video url) \<or>
      (\<exists>w vs w1 v. listLiveInputVideos sv i w = (Inr (JArr vs), w1) \<and> newest (sv_numText sv) v (ready_of vs) \<and>
         offers (Some v) url))"

lemma dated_less:
  assumes "dated a" "dated b"
  shows "js_less nt (jget a ''created'') (jget b ''created'') =
    (the (as_str (jget a ''created'')) < the (as_str (jget b ''created'')))"
  using assms by (auto simp: dated_def js_less_def elim!: as_str.elims)

lemma newest_head:
  assumes "js_sort (newest_first nt) vs = v # rest"
  shows "newest nt v vs"
proof -
  have v: "v \<in> set vs" using arg_cong [OF assms, of set] by simp
  moreover have "\<not> js_less nt (jget v ''created'') (jget x ''created'')"
    if dated: "\<forall>y \<in> set vs. dated y" and x: "x \<in> set vs" for x
  proof -
    let ?f = "\<lambda>y. the (as_str (jget y ''created''))"
    let ?c = "\<lambda>a b. if ?f a < ?f b then Pos else Neg"
    have "js_sort ?c vs = v # rest"
      unfolding assms [symmetric] using dated by (intro js_sort_cong) (simp add: newest_first_def dated_less)
    with sort_created [of ?c ?f vs] have "sorted_wrt (\<lambda>a b. ?f b \<le> ?f a) (v # rest)" by simp
    moreover have "x \<in> set (v # rest)" using x arg_cong [OF assms, of set] by simp
    ultimately have "?f x \<le> ?f v" by auto
    with dated v x show ?thesis by (simp add: dated_less not_less)
  qed
  ultimately show ?thesis by (auto simp: newest_def list_all_iff)
qed

lemma ensure_public_ok:
  assumes "ready_video video = Inr True"
  shows "\<exists>w1. ensurePublicPlayback sv video w = (Inr (), w1)"
proof -
  obtain signed where "jprop video ''requireSignedURLs'' = Inr signed"
    using assms by (auto simp: ready_video_def jprop_def split: option.splits json.splits)
  then show ?thesis
    by (auto simp: ensurePublicPlayback_def io_defs split: prod.splits sum.splits)
qed

definition vod_found :: "('w, json option \<times> bool) io \<Rightarrow> (json option \<Rightarrow> bool) \<Rightarrow> 'w \<Rightarrow> bool" where
  \<comment> \<open>a search that never throws: an address comes from \<open>src\<close> and is not still processed\<close>
  "vod_found m src w = (case m w of
       (Inl _, _) \<Rightarrow> False
     | (Inr (url, processing), _) \<Rightarrow> truthy_json url \<longrightarrow> \<not> processing \<and> src url)"

lemma playable_offers:
  assumes "ready_video video = Inr True"
  shows "\<exists>w1. playable sv video w = (jprop (jchain video ''playback'') ''hls'', w1)"
  using ensure_public_ok [OF assms, of sv w] by (auto simp: playable_def io_bind_def io_lift_def)

lemma recorded_found:
  "vod_found (recorded_vod sv r)
     (\<lambda>url. \<exists>w video w1. getVideo sv (url_segment (sv_numText sv) r) w = (Inr video, w1) \<and> offers video url) w"
proof (cases "getVideo sv (url_segment (sv_numText sv) r) w")
  case (Pair got w1)
  show ?thesis
  proof (cases got)
    case (Inr video)
    show ?thesis
    proof (cases "ready_video video = Inr True")
      case True
      then obtain w2 where "playable sv video w1 = (jprop (jchain video ''playback'') ''hls'', w2)"
        using playable_offers [of video sv w1] by blast
      with Pair Inr True show ?thesis
        by (cases "jprop (jchain video ''playback'') ''hls''")
          (auto simp: vod_found_def recorded_vod_def io_defs offers_def)
    next
      case False
      with Pair Inr show ?thesis
        by (cases "ready_video video") (auto simp: vod_found_def recorded_vod_def io_defs)
    qed
  qed (use Pair in \<open>simp add: vod_found_def recorded_vod_def io_defs\<close>)
qed

lemma listed_found:
  assumes "\<not> truthy_json unset"
  shows "vod_found (listed_vod sv i unset)
     (\<lambda>url. \<exists>w vs w1 v. listLiveInputVideos sv i w = (Inr (JArr vs), w1) \<and>
        newest (sv_numText sv) v (ready_of vs) \<and> offers (Some v) url) w"
proof (cases "listLiveInputVideos sv i w")
  case (Pair got w1)
  show ?thesis
  proof (cases "\<exists>vs ready v rest. got = Inr (JArr vs) \<and> filter_result (\<lambda>v. ready_video (Some v)) vs = Inr ready \<and>
      js_sort (newest_first (sv_numText sv)) ready = v # rest")
    case True
    then obtain vs ready v rest where got: "got = Inr (JArr vs)"
      and ready: "filter_result (\<lambda>v. ready_video (Some v)) vs = Inr ready"
      and sorted: "js_sort (newest_first (sv_numText sv)) ready = v # rest" by blast
    have r: "ready = ready_of vs" using filter_result_Inr [OF ready] by (simp add: ready_of_def)
    have newest: "newest (sv_numText sv) v (ready_of vs)" using newest_head [OF sorted] r by simp
    then have "ready_video (Some v) = Inr True" by (simp add: newest_def ready_of_def)
    moreover from playable_offers [OF this, of sv w1] obtain w2
      where "playable sv (Some v) w1 = (jprop (jchain (Some v) ''playback'') ''hls'', w2)" by blast
    moreover have "jprop (jchain (Some v) ''playback'') ''hls'' = Inr url \<Longrightarrow>
        \<exists>w vs w1 v. listLiveInputVideos sv i w = (Inr (JArr vs), w1) \<and>
          newest (sv_numText sv) v (ready_of vs) \<and> offers (Some v) url" for url
      using Pair got newest calculation(1) unfolding offers_def by blast
    ultimately show ?thesis
      using Pair got ready sorted assms
      by (cases "jprop (jchain (Some v) ''playback'') ''hls''") (simp_all add: vod_found_def listed_vod_def io_defs)
  next
    case False
    with Pair assms show ?thesis
      by (cases got) (auto simp: vod_found_def listed_vod_def io_defs split: json.splits sum.splits list.splits)
  qed
qed

lemma vod_of_found: "state \<noteq> JStr ''connected'' \<Longrightarrow> vod_found (vod_of sv i live state) (vod_source sv i live) w"
proof -
  assume state: "state \<noteq> JStr ''connected''"
  let ?r = "live_meta live ''recordingVideoUid''"
  let ?first = "if truthy_json ?r then recorded_vod sv ?r else io_return (Some JNull, False)"
  have first: "vod_found ?first
      (\<lambda>url. \<exists>w video w1. getVideo sv (url_segment (sv_numText sv) ?r) w = (Inr video, w1) \<and> offers video url) w"
    using recorded_found [of sv ?r w] by (cases "truthy_json ?r") (simp_all add: vod_found_def io_return_def)
  then obtain url processing w1 where f: "?first w = (Inr (url, processing), w1)"
    by (cases "?first w"; cases "fst (?first w)") (auto simp: vod_found_def)
  show ?thesis
  proof (cases "\<not> truthy_json url \<and> \<not> processing")
    case True
    then have "vod_of sv i live state w = listed_vod sv i url w1"
      using state f by (simp add: vod_of_def Let_def io_bind_def)
    with listed_found [of url sv i w1] True show ?thesis
      unfolding vod_found_def by (simp add: vod_source_def split: prod.splits sum.splits)
  next
    case False
    then have "vod_of sv i live state w = (Inr (url, processing), w1)"
      using state f by (auto simp: vod_of_def Let_def io_bind_def io_return_def)
    with first f show ?thesis by (simp add: vod_found_def vod_source_def)
  qed
qed

text \<open>
  C33. The live page finds the recording, and the search never breaks the page. An unknown live input
  is refused with \<open>notFound()\<close>; the page throws only over the live input itself (its state, creator
  or playback address). While the live is connected no recording is looked for. Otherwise the
  replay offered is that of a video the service reports as ready, the creator's own upload or the
  newest of the ready recordings, and it is never announced as still processing.
\<close>

theorem viewer_page_vod:
  "case getLiveInput sv i w of
     (Inl e, w1) \<Rightarrow> LiveViewerPage sv i w = (Inr Not_Found, w1)
   | (Inr live, w1) \<Rightarrow>
      (case LiveViewerPage sv i w of
         (Inl e, _) \<Rightarrow> live_state live = Inl e \<or> creator_lower (the live) = Inl e \<or>
           jprop (jget (the live) ''webRTCPlayback'') ''url'' = Inl e
       | (Inr Not_Found, _) \<Rightarrow> False
       | (Inr (Rendered v), w2) \<Rightarrow>
           live_state live = Inr (cv_state v) \<and>
           (if cv_state v = JStr ''connected''
            then cv_hlsUrl v = Some JNull \<and> \<not> cv_vodProcessing v \<and> w2 = w1
            else if truthy_json (cv_hlsUrl v)
            then \<not> cv_vodProcessing v \<and> vod_source sv i (the live) (cv_hlsUrl v) else True))"
proof (cases "getLiveInput sv i w")
  case (Pair got w1)
  show ?thesis
  proof (cases got)
    case Inl
    with Pair show ?thesis by (simp add: LiveViewerPage_def io_defs)
  next
    case (Inr live)
    show ?thesis
    proof (cases "live_state live")
      case Inl
      with Pair Inr show ?thesis by (simp add: LiveViewerPage_def io_defs)
    next
      case state: (Inr st)
      let ?m = "vod_of sv i (the live) st"
      have "\<exists>url pr w2. ?m w1 = (Inr (url, pr), w2) \<and>
          (if st = JStr ''connected'' then url = Some JNull \<and> \<not> pr \<and> w2 = w1
           else truthy_json url \<longrightarrow> \<not> pr \<and> vod_source sv i (the live) url)"
        using vod_of_found [of st sv i "the live" w1]
        by (cases "st = JStr ''connected''"; cases "?m w1"; cases "fst (?m w1)")
          (auto simp: vod_found_def vod_of_def io_return_def)
      then obtain url pr w2 where vod: "?m w1 = (Inr (url, pr), w2)"
        and ok: "if st = JStr ''connected'' then url = Some JNull \<and> \<not> pr \<and> w2 = w1
           else truthy_json url \<longrightarrow> \<not> pr \<and> vod_source sv i (the live) url" by blast
      show ?thesis
        using Pair Inr state vod ok
        by (cases "creator_lower (the live)"; cases "jprop (jget (the live) ''webRTCPlayback'') ''url''")
          (auto simp: LiveViewerPage_def io_defs Let_def split: if_splits)
    qed
  qed
qed

subsection \<open>What the mesh page makes the player do\<close>

lemma rank_no_geo: "rankProvidersByRegion ps no_geo = ps"
proof -
  have never: "provider_cmp no_geo p q \<noteq> Pos" for p q
    by (simp add: provider_cmp_def no_geo_def scoreMatch_def haversineKm_def num_cmp_def)
  have "js_sort (provider_cmp no_geo) ps = ps"
  proof (induction ps)
    case (Cons p ps)
    then show ?case using never by (cases ps) simp_all
  qed simp
  then show ?thesis by (simp add: rank_sort)
qed

definition provider_pair :: "resolved_provider \<Rightarrow> failover_candidate" where
  "provider_pair r = \<lparr>fc_peerId = rp_peerId r, fc_httpsBase = rp_httpsBase r\<rparr>"

lemma page_candidates_resolved:
  "page_candidates JSON_parse cid_of net env base i =
    (let relays = parseRelayList (or_default (me_dhtRelays env) []);
         registry = parseProviderRegistry JSON_parse (or_default (me_providerRegistry env) [])
     in if relays = [] \<or> registry = [] \<or> i = [] then []
        else map provider_pair (case filter (\<lambda>relay. answer 10 net registry (cid_of i) relay \<noteq> []) relays of
          [] \<Rightarrow> [] | relay # _ \<Rightarrow> uniq_peers {} (answer 10 net registry (cid_of i) relay)))"
  by (auto simp: page_candidates_def Let_def rank_no_geo resolveSessionProviders_def sessionIdToCid_def
      resolve_all_answer provider_pair_def resolved_meta_def)

lemma uniq_peers_sub: "set (uniq_peers seen rs) \<subseteq> set rs"
  by (induction rs arbitrary: seen) auto

lemma answer_registered: "r \<in> set (answer n net reg cid relay) \<Longrightarrow> registered reg (rp_peerId r) = Some (rp_httpsBase r)"
  by (auto simp: answer_def known_def resolved_def split: relay_reply.splits if_splits)

lemma page_candidates_sound:
  fixes env :: mesh_env and JSON_parse :: "string \<Rightarrow> registry option"
  defines "reg \<equiv> parseProviderRegistry JSON_parse (or_default (me_providerRegistry env) [])"
  shows "distinct (map fc_peerId (page_candidates JSON_parse cid_of net env base i)) \<and>
    list_all (\<lambda>c. registered reg (fc_peerId c) = Some (fc_httpsBase c)) (page_candidates JSON_parse cid_of net env base i)"
proof -
  have "distinct (map fc_peerId (map provider_pair (uniq_peers {} rs)))" for rs
    using uniq_peers_distinct [of "{}" rs] by (simp add: provider_pair_def o_def)
  moreover have "list_all (\<lambda>c. registered reg (fc_peerId c) = Some (fc_httpsBase c))
      (map provider_pair (uniq_peers {} (answer 10 net reg cid relay)))" for relay cid
    using uniq_peers_sub [of "{}"] by (auto simp: list_all_iff provider_pair_def dest!: answer_registered subsetD)
  ultimately show ?thesis
    unfolding page_candidates_resolved Let_def reg_def by (auto split: list.splits)
qed


subsection \<open>The Livepeer page never names its creator\<close>

text \<open>
  The stream the client returns has no \<open>userTags\<close> any more, so the page shows the name
  \<open>aevia\<close> and no address, whatever was recorded when the stream was created.
\<close>

lemma livepeer_creator_lost:
  assumes "LivepeerViewerPage sv toISO i w = (Inr (Rendered v), w1)"
  shows "lw_creatorDisplayName v = JStr ''aevia'' \<and> lw_creatorAddress v = JNull"
proof -
  have "jget (stream_object s) ''userTags'' = None" for s
    by (simp add: stream_object_def opt_field_def split: option.splits)
  with assms show ?thesis
    by (auto simp: LivepeerViewerPage_def Let_def io_defs jelse_def livepeer_creator_def nullish_def
        split: prod.splits sum.splits option.splits)
qed

subsection \<open>The actions change nothing for strangers\<close>

lemma stranger_stops:
  assumes "getLiveInput sv uid w = (Inr (Some live), w1)" "truthy_json (Some live)"
    "owned_by (as_address me) live = Inr False"
  shows "with_own_live sv (Inr (Some me)) uid k w = (Inr (), w1)"
  using assms by (simp add: with_own_live_def io_bind_def resolve_ownership io_return_def)

lemma actions_guarded:
  assumes "getLiveInput sv uid w = (Inr (Some live), w1)" "truthy_json (Some live)"
    "owned_by (as_address me) live = Inr False" "map_of form ''uid'' = Some uid" "uid \<noteq> []"
  shows "deleteLiveAction sv rv (Inr (Some me)) form w = (Inr (), w1) \<and>
    renameLiveAction sv rv (Inr (Some me)) form w \<in> {(Inr (), w), (Inr (), w1)}"
  using assms by (simp add: deleteLiveAction_def renameLiveAction_def Let_def stranger_stops io_return_def)

text \<open>A rename sends a name of 1 to 120 characters without surrounding white space, or nothing.\<close>

lemma rename_bounds:
  assumes "\<not> (\<exists>name. map_option trim (map_of form ''name'') = Some name \<and> 0 < length name \<and> length name \<le> 120)"
  shows "renameLiveAction sv rv session form w = (Inr (), w)"
  using assms by (cases "map_of form ''name''") (auto simp: renameLiveAction_def Let_def io_return_def)

end
