(* ===== verification/NetworkStatus.thy ===== *)
theory NetworkStatus
  imports Http
begin

text \<open>
  The status of the provider network on \<open>aevia.network\<close>: the registered providers
  (\<open>apps/network/src/data/providers.ts\<close>), the route that probes them
  (\<open>app/api/network/providers/route.ts\<close>), the page that reads it (\<open>app/[locale]/network/page.tsx\<close>)
  and the map that draws them (\<open>components/network-map.tsx\<close>). What a probe meets is a function of
  the URL, since the probes run side by side; the projection of the map (d3) is a parameter.
\<close>

subsection \<open>Providers\<close>

datatype net_region = US_VA | US_FL | BR_PB | BR_SP | EU_DE | EU_NL | AS_SG

record net_provider =
  np_id :: string
  np_name :: string
  np_hardware :: string
  np_region :: net_region
  np_lat :: jsnum
  np_lng :: jsnum
  np_healthzUrl :: string
  np_peerId :: string

definition middle_dot :: string where
  "middle_dot = '' '' @ [CHR 0xB7] @ '' ''"

definition net_providers :: "net_provider list" where
  "net_providers =
    [\<lparr>np_id = ''relay-1'', np_name = ''Relay 1'',
      np_hardware = ''Lambda Labs'' @ middle_dot @ ''NVIDIA GH200 (ARM + H100)'', np_region = US_VA,
      np_lat = Fin (3904 / 100), np_lng = Fin (- 7749 / 100),
      np_healthzUrl = ''https://provider.aevia.network/healthz'',
      np_peerId = ''12D3KooWSvprtPXxXHEASpKux1vLyxWpBRYTps39GQrTEpccMjyh''\<rparr>,
     \<lparr>np_id = ''relay-2'', np_name = ''Relay 2'',
      np_hardware = ''ReliableSite'' @ middle_dot @ ''AMD64'', np_region = US_FL,
      np_lat = Fin (2577 / 100), np_lng = Fin (- 8019 / 100),
      np_healthzUrl = ''https://provider-fl.aevia.network/healthz'',
      np_peerId = ''12D3KooWEs9TrvY9Bq59bqLAYxZ3yWJpw33CAggDJ6YpekNvQXSS''\<rparr>,
     \<lparr>np_id = ''mac-br-pb'', np_name = ''Mac'',
      np_hardware = ''Apple Silicon (esta'' @ [CHR 0xE7, CHR 0xE3] @ ''o pessoal)'', np_region = BR_PB,
      np_lat = Fin (- 712 / 100), np_lng = Fin (- 3485 / 100),
      np_healthzUrl = ''https://provider-br.aevia.network/healthz'',
      np_peerId = ''12D3KooW9pUVkXXXXXXXXXXXXXXXXXXXXXXXXXXXXXXXXMm2k''\<rparr>,
     \<lparr>np_id = ''rtx4090-br-sp'', np_name = ''rtx4090'',
      np_hardware = ''Nobara'' @ middle_dot @ ''NVIDIA RTX 4090'', np_region = BR_SP,
      np_lat = Fin (- 2355 / 100), np_lng = Fin (- 4663 / 100),
      np_healthzUrl = ''https://provider-sp.aevia.network/healthz'',
      np_peerId = ''12D3KooWQkJuSNJds2QFTBH9sq3LEHLLd4nLWAki2J5i6UUpD9hf''\<rparr>,
     \<lparr>np_id = ''rtx2080-br-sp'', np_name = ''rtx2080'',
      np_hardware = ''Nobara'' @ middle_dot @ ''NVIDIA RTX 2080'', np_region = BR_SP,
      np_lat = Fin (- 2365 / 100), np_lng = Fin (- 465 / 10),
      np_healthzUrl = ''https://provider-sp2.aevia.network/healthz'',
      np_peerId = ''12D3KooWPHNiqYokjg33w8QWFGQkhkHywBBb3M73eGquqF5Wjzw7''\<rparr>,
     \<lparr>np_id = ''gh200-2-us-va'', np_name = ''GH200-2'',
      np_hardware = ''Lambda Labs'' @ middle_dot @ ''2'' @ [CHR 0xBA] @ '' Grace Hopper ARM'', np_region = US_VA,
      np_lat = Fin (3918 / 100), np_lng = Fin (- 7762 / 100),
      np_healthzUrl = ''https://provider-va2.aevia.network/healthz'',
      np_peerId = ''12D3KooWPDncJvmsrqE4cQcYLESzVr5nsjJAc3QRCBQkDHTmRFNA''\<rparr>]"

subsection \<open>Probing\<close>

record net_health = net_provider +
  nq_online :: bool
  nq_activeSessions :: jsnum
  nq_liveOverride :: bool
  nq_rttMs :: "real option"
  nq_probedAt :: string

text \<open>A probe: when it started and its ISO form, what \<open>fetch\<close> gave (it rejects on a network error
  and on the abort after 4 seconds), and when that was.\<close>

record probe_event =
  pe_started :: real
  pe_probedAt :: string
  pe_reply :: "http_response result"
  pe_ended :: real

definition with_health :: "net_provider \<Rightarrow> bool \<Rightarrow> jsnum \<Rightarrow> bool \<Rightarrow> real option \<Rightarrow> string \<Rightarrow> net_health" where
  \<comment> \<open>\<open>{ ...provider, online, activeSessions, liveOverride, rttMs, probedAt }\<close>\<close>
  "with_health p online sessions live rtt at_iso =
     \<lparr>np_id = np_id p, np_name = np_name p, np_hardware = np_hardware p, np_region = np_region p,
      np_lat = np_lat p, np_lng = np_lng p, np_healthzUrl = np_healthzUrl p, np_peerId = np_peerId p,
      nq_online = online, nq_activeSessions = sessions, nq_liveOverride = live, nq_rttMs = rtt, nq_probedAt = at_iso\<rparr>"

definition probe_answer :: "net_provider \<Rightarrow> probe_event \<Rightarrow> http_response \<Rightarrow> net_health result" where
  \<comment> \<open>the body of the \<open>try\<close> once \<open>fetch\<close> answered\<close>
  "probe_answer p ev res =
     (let rttMs = pe_ended ev - pe_started ev in
      if \<not> res_ok res then Inr (with_health p False (Fin 0) False (Some rttMs) (pe_probedAt ev))
      else (case hp_json res of
          Inl e \<Rightarrow> Inl e
        | Inr body \<Rightarrow> (case jprop (Some body) ''lat'' of
              Inl e \<Rightarrow> Inl e
            | Inr lat \<Rightarrow>
                let liveLat = as_num lat; liveLng = as_num (jget body ''lng'') in
                Inr (with_health
                  (p\<lparr>np_lat := or_default liveLat (np_lat p), np_lng := or_default liveLng (np_lng p)\<rparr>)
                  (jget body ''status'' = Some (JStr ''ok''))
                  (or_default (as_num (jget body ''active_sessions'')) (Fin 0))
                  (liveLat \<noteq> None \<and> liveLng \<noteq> None) (Some rttMs) (pe_probedAt ev)))))"

definition net_probe :: "(string \<Rightarrow> probe_event) \<Rightarrow> net_provider \<Rightarrow> net_health" where
  "net_probe net p =
     (let ev = net (np_healthzUrl p) in
      case (case pe_reply ev of Inl e \<Rightarrow> Inl e | Inr res \<Rightarrow> probe_answer p ev res) of
        Inr h \<Rightarrow> h
      | Inl _ \<Rightarrow> with_health p False (Fin 0) False None (pe_probedAt ev))"

subsection \<open>The route\<close>

fun js_add :: "jsnum \<Rightarrow> jsnum \<Rightarrow> jsnum" where
  "js_add (Fin x) (Fin y) = Fin (x + y)"
| "js_add NaN _ = NaN"
| "js_add _ NaN = NaN"
| "js_add PInf NInf = NaN"
| "js_add NInf PInf = NaN"
| "js_add PInf _ = PInf"
| "js_add _ PInf = PInf"
| "js_add NInf _ = NInf"
| "js_add _ NInf = NInf"

record net_status =
  ns_providers :: "net_health list"
  ns_total :: nat
  ns_online :: nat
  ns_offline :: int
  ns_totalActiveSessions :: jsnum
  ns_probedAt :: string

definition get_providers :: "(string \<Rightarrow> probe_event) \<Rightarrow> net_provider list \<Rightarrow> string \<Rightarrow> net_status" where
  "get_providers net ps nowISO =
     (let probes = map (net_probe net) ps; onlineCount = length (filter nq_online probes) in
      \<lparr>ns_providers = probes, ns_total = length probes, ns_online = onlineCount,
       ns_offline = int (length probes) - int onlineCount,
       ns_totalActiveSessions = foldl (\<lambda>s p. js_add s (nq_activeSessions p)) (Fin 0) probes,
       ns_probedAt = nowISO\<rparr>)"

definition region_name :: "net_region \<Rightarrow> string" where
  "region_name r =
     (case r of US_VA \<Rightarrow> ''US-VA'' | US_FL \<Rightarrow> ''US-FL'' | BR_PB \<Rightarrow> ''BR-PB'' | BR_SP \<Rightarrow> ''BR-SP''
      | EU_DE \<Rightarrow> ''EU-DE'' | EU_NL \<Rightarrow> ''EU-NL'' | AS_SG \<Rightarrow> ''AS-SG'')"

definition wire_num :: "jsnum \<Rightarrow> json" where
  \<comment> \<open>\<open>JSON.stringify\<close> writes a number that is not finite as \<open>null\<close>\<close>
  "wire_num x = (if is_finite x then JNum x else JNull)"

definition health_json :: "net_health \<Rightarrow> json" where
  "health_json h = JObj
     [(''id'', JStr (np_id h)), (''name'', JStr (np_name h)), (''hardware'', JStr (np_hardware h)),
      (''region'', JStr (region_name (np_region h))), (''lat'', wire_num (np_lat h)), (''lng'', wire_num (np_lng h)),
      (''healthzUrl'', JStr (np_healthzUrl h)), (''peerId'', JStr (np_peerId h)),
      (''online'', JBool (nq_online h)), (''activeSessions'', wire_num (nq_activeSessions h)),
      (''liveOverride'', JBool (nq_liveOverride h)),
      (''rttMs'', case nq_rttMs h of None \<Rightarrow> JNull | Some x \<Rightarrow> JNum (Fin x)), (''probedAt'', JStr (nq_probedAt h))]"

definition status_json :: "net_status \<Rightarrow> json" where
  "status_json s = JObj
     [(''providers'', JArr (map health_json (ns_providers s))),
      (''summary'', JObj
        [(''total'', jnat (ns_total s)), (''online'', jnat (ns_online s)),
         (''offline'', JNum (Fin (of_int (ns_offline s)))),
         (''totalActiveSessions'', wire_num (ns_totalActiveSessions s)), (''probedAt'', JStr (ns_probedAt s))])]"

definition status_headers :: "(string \<times> string) list" where
  "status_headers = [(''cache-control'', ''public, s-maxage=30, stale-while-revalidate=60'')]"

subsection \<open>The page\<close>

definition empty_status :: json where
  "empty_status = status_json
     \<lparr>ns_providers = [], ns_total = 0, ns_online = 0, ns_offline = 0, ns_totalActiveSessions = Fin 0, ns_probedAt = []\<rparr>"

definition fetchProviders :: "'w fetch \<Rightarrow> string \<Rightarrow> string \<Rightarrow> ('w, json) io" where
  "fetchProviders do_fetch host proto =
     io_catch
       (io_bind (do_fetch \<lparr>hr_method = ''GET'', hr_url = proto @ ''://'' @ host @ ''/api/network/providers'',
            hr_headers = [], hr_body = No_Body\<rparr>) (\<lambda>res.
        if \<not> res_ok res then io_lift (Inl (Error (''status '' @ show_nat (hp_status res))))
        else io_lift (hp_json res)))
       (\<lambda>_. io_return empty_status)"

definition network_initial :: "'w fetch \<Rightarrow> (string \<times> string) list \<Rightarrow> ('w, json) io" where
  \<comment> \<open>\<open>initial\<close> of the page, from the headers of its request\<close>
  "network_initial do_fetch hdrs =
     (let host = or_default (get_header ''host'' hdrs) ''aevia.network'';
          proto = or_default (get_header ''x-forwarded-proto'' hdrs) (if contains ''localhost'' host then ''http'' else ''https'')
      in fetchProviders do_fetch host proto)"

definition map_tick :: "http_response result \<Rightarrow> json \<Rightarrow> json" where
  \<comment> \<open>one poll of the map: the last payload stays unless a new one came\<close>
  "map_tick reply data =
     (case reply of
        Inl _ \<Rightarrow> data
      | Inr res \<Rightarrow> if \<not> res_ok res then data else (case hp_json res of Inl _ \<Rightarrow> data | Inr next_data \<Rightarrow> next_data))"

subsection \<open>The map\<close>

type_synonym point = "real \<times> real"

definition phase_offset :: "nat \<Rightarrow> nat \<Rightarrow> real" where
  "phase_offset i j = real ((i * 7 + j * 11) mod 30) / 10"

definition arc_pairs :: "'a list \<Rightarrow> ('a \<times> 'a \<times> real) list" where
  "arc_pairs ps =
     concat (map (\<lambda>i. map (\<lambda>j. (ps ! i, ps ! j, phase_offset i j)) [Suc i..<length ps]) [0..<length ps])"

definition map_pairs :: "net_health list \<Rightarrow> (net_health \<times> net_health \<times> real) list" where
  "map_pairs ps = arc_pairs (filter nq_online ps)"

definition arc_dist :: "point \<Rightarrow> point \<Rightarrow> real" where
  "arc_dist a b = sqrt ((fst b - fst a)\<^sup>2 + (snd b - snd a)\<^sup>2)"

definition arc_control :: "point \<Rightarrow> point \<Rightarrow> point option" where
  \<comment> \<open>\<open>None\<close>: both coordinates are \<open>NaN\<close>, since the distance divides\<close>
  "arc_control a b =
     (let mx = (fst a + fst b) / 2; my = (snd a + snd b) / 2; dx = fst b - fst a; dy = snd b - snd a;
          dist = arc_dist a b; curveAmp = min 80 (dist * (1 / 4))
      in if dist = 0 then None
         else Some (mx - dy / dist * curveAmp, my - dx / dist * curveAmp - 15))"

definition js_rem :: "real \<Rightarrow> real \<Rightarrow> real" where
  \<comment> \<open>\<open>x % y\<close>, with the sign of \<open>x\<close>\<close>
  "js_rem x y = (if 0 \<le> x / y then x - y * of_int \<lfloor>x / y\<rfloor> else x - y * of_int \<lceil>x / y\<rceil>)"

definition arc_phase :: "real \<Rightarrow> real \<Rightarrow> real" where
  "arc_phase now off = js_rem (now + off) 3 / 3"

definition bezier :: "real \<Rightarrow> real \<Rightarrow> real \<Rightarrow> real \<Rightarrow> real" where
  "bezier t a c b = (let u = 1 - t in u * u * a + 2 * u * t * c + t * t * b)"

definition packet_opacity :: "real \<Rightarrow> real" where
  "packet_opacity phase = min (min 1 (phase * 4)) (min 1 ((1 - phase) * 4)) * (9 / 10)"

definition arc_packet :: "point \<Rightarrow> point \<Rightarrow> real \<Rightarrow> real \<Rightarrow> (point \<times> real) option" where
  \<comment> \<open>where the packet is drawn and how opaque; \<open>None\<close> for \<open>NaN\<close>\<close>
  "arc_packet a b now off =
     map_option (\<lambda>(cx, cy). let t = arc_phase now off in
       ((bezier t (fst a) cx (fst b), bezier t (snd a) cy (snd b)), packet_opacity t)) (arc_control a b)"

definition map_packets ::
  "(jsnum \<times> jsnum \<Rightarrow> point option) \<Rightarrow> real \<Rightarrow> net_health list \<Rightarrow> (point \<times> real) option list" where
  \<comment> \<open>the arcs drawn, in order; a pair the projection does not place is left out\<close>
  "map_packets projection now ps =
     concat (map (\<lambda>(p, q, off).
       case (projection (np_lng p, np_lat p), projection (np_lng q, np_lat q)) of
         (Some a, Some b) \<Rightarrow> [arc_packet a b now off]
       | _ \<Rightarrow> []) (map_pairs ps))"

definition pulse :: "bool \<Rightarrow> real \<Rightarrow> real \<Rightarrow> real \<times> real" where
  \<comment> \<open>radius and opacity of a provider's halo\<close>
  "pulse online now lat =
     (let pulsePhase = (sin (now * (16 / 10) + lat) + 1) / 2
      in (if online then 10 + pulsePhase * 6 else 9, if online then 4 / 10 - pulsePhase * (25 / 100) else 4 / 10))"

subsection \<open>What the route reports\<close>

definition healthy :: "http_response result \<Rightarrow> bool" where
  \<comment> \<open>a 2xx answer whose JSON body says \<open>status: 'ok'\<close>\<close>
  "healthy reply =
     (case reply of
        Inl _ \<Rightarrow> False
      | Inr res \<Rightarrow> res_ok res \<and>
          (case hp_json res of Inl _ \<Rightarrow> False | Inr body \<Rightarrow> jget body ''status'' = Some (JStr ''ok'')))"

lemma with_health_fields [simp]:
  "np_id (with_health p b n l r t) = np_id p" "np_peerId (with_health p b n l r t) = np_peerId p"
  "np_region (with_health p b n l r t) = np_region p" "np_healthzUrl (with_health p b n l r t) = np_healthzUrl p"
  "np_lat (with_health p b n l r t) = np_lat p" "np_lng (with_health p b n l r t) = np_lng p"
  "nq_online (with_health p b n l r t) = b" "nq_activeSessions (with_health p b n l r t) = n"
  "nq_liveOverride (with_health p b n l r t) = l" "nq_rttMs (with_health p b n l r t) = r"
  by (simp_all add: with_health_def)

lemmas probe_defs = net_probe_def probe_answer_def Let_def

lemma probe_identity [simp]:
  "np_id (net_probe net p) = np_id p" "np_peerId (net_probe net p) = np_peerId p"
  "np_region (net_probe net p) = np_region p" "np_healthzUrl (net_probe net p) = np_healthzUrl p"
  by (auto simp: probe_defs split: sum.splits)

lemma probe_online [simp]: "nq_online (net_probe net p) = healthy (pe_reply (net (np_healthzUrl p)))"
  by (auto simp: probe_defs healthy_def jprop_def split: sum.splits option.splits json.splits)

lemma probe_silent:
  "if nq_rttMs (net_probe net p) = None
   then nq_activeSessions (net_probe net p) = Fin 0 \<and> \<not> nq_online (net_probe net p) \<and>
     np_lat (net_probe net p) = np_lat p \<and> np_lng (net_probe net p) = np_lng p
   else nq_rttMs (net_probe net p) = Some (pe_ended (net (np_healthzUrl p)) - pe_started (net (np_healthzUrl p)))"
  by (auto simp: probe_defs healthy_def split: sum.splits)

lemma filter_split: "int (length (filter P xs)) + int (length (filter (\<lambda>x. \<not> P x) xs)) = int (length xs)"
  using sum_length_filter_compl [of P xs] by linarith

text \<open>
  C35. The status of the network is that of its providers. Every registered provider is reported once,
  in its place and under its own identity, and as online exactly when its own health check answered
  2xx with a JSON body that says \<open>ok\<close>; the counts are those of the rows, online and offline adding
  up to all; a provider that did not answer at all counts no sessions and stands at its registered
  place, any other row carries the time its probe took.
\<close>

theorem status_route:
  "let s = get_providers net ps nowISO; up = (\<lambda>p. healthy (pe_reply (net (np_healthzUrl p)))) in
     map (\<lambda>h. (np_id h, np_peerId h, np_region h)) (ns_providers s) = map (\<lambda>p. (np_id p, np_peerId p, np_region p)) ps \<and>
     map nq_online (ns_providers s) = map up ps \<and>
     ns_total s = length ps \<and> ns_online s = length (filter up ps) \<and>
     ns_offline s = int (length (filter (\<lambda>p. \<not> up p) ps)) \<and>
     list_all2 (\<lambda>p h. if nq_rttMs h = None
       then nq_activeSessions h = Fin 0 \<and> \<not> nq_online h \<and> np_lat h = np_lat p \<and> np_lng h = np_lng p
       else nq_rttMs h = Some (pe_ended (net (np_healthzUrl p)) - pe_started (net (np_healthzUrl p)))) ps (ns_providers s)"
proof -
  let ?up = "\<lambda>p. healthy (pe_reply (net (np_healthzUrl p)))"
  have "length (filter nq_online (map (net_probe net) ps)) = length (filter ?up ps)"
    by (simp add: filter_map o_def)
  moreover have "int (length ps) - int (length (filter ?up ps)) = int (length (filter (\<lambda>p. \<not> ?up p) ps))"
    using filter_split [of ?up ps] by linarith
  moreover have "list_all2 (\<lambda>p h. if nq_rttMs h = None
       then nq_activeSessions h = Fin 0 \<and> \<not> nq_online h \<and> np_lat h = np_lat p \<and> np_lng h = np_lng p
       else nq_rttMs h = Some (pe_ended (net (np_healthzUrl p)) - pe_started (net (np_healthzUrl p))))
     ps (map (net_probe net) ps)"
    unfolding list.rel_map(2) by (rule list.rel_refl) (rule probe_silent)
  ultimately show ?thesis by (simp add: get_providers_def Let_def o_def)
qed

text \<open>The sessions of a provider that answers but is not \<open>ok\<close> are in the total all the same, and its
  row is offline. A provider that publishes one coordinate is drawn at that one and the registered
  other, with \<open>liveOverride\<close> false; published coordinates are not held against any bound.\<close>

definition demo_reply :: "(string \<times> json) list \<Rightarrow> probe_event" where
  "demo_reply kvs = \<lparr>pe_started = 0, pe_probedAt = [],
     pe_reply = Inr \<lparr>hp_status = 200, hp_statusText = [], hp_url = [], hp_headers = [], hp_text = Inr [], hp_json = Inr (JObj kvs)\<rparr>,
     pe_ended = 12\<rparr>"

definition demo_provider :: net_provider where
  "demo_provider = \<lparr>np_id = ''a'', np_name = ''a'', np_hardware = [], np_region = US_VA, np_lat = Fin 39, np_lng = Fin (- 77),
     np_healthzUrl = ''u'', np_peerId = ''p''\<rparr>"

lemma half_published_place:
  "let h = net_probe (\<lambda>_. demo_reply [(''lat'', JNum (Fin 500))]) demo_provider
   in np_lat h = Fin 500 \<and> np_lng h = Fin (- 77) \<and> \<not> nq_liveOverride h"
  by (simp add: probe_defs demo_reply_def demo_provider_def res_ok_def jprop_def with_health_def)

lemma offline_sessions_counted:
  "let s = get_providers (\<lambda>_. demo_reply [(''status'', JStr ''draining''), (''active_sessions'', JNum (Fin 4))])
     [demo_provider] [] in ns_online s = 0 \<and> ns_totalActiveSessions s = Fin 4"
  by (simp add: get_providers_def probe_defs demo_reply_def demo_provider_def res_ok_def jprop_def with_health_def)

text \<open>One of the registered peer identifiers is a place-holder: it lacks the 52 characters of the others.\<close>

lemma placeholder_peer_id:
  "map (\<lambda>p. length (np_peerId p)) net_providers = [52, 52, 49, 52, 52, 52]"
  by (simp add: net_providers_def)

lemma registered_providers: "distinct (map np_id net_providers) \<and> distinct (map np_healthzUrl net_providers)"
  by (simp add: net_providers_def)

subsection \<open>The arcs of the map\<close>

lemma gauss_below: "2 * (\<Sum>i<n. i) = n * (n - 1)"
  for n :: nat
proof (induction n)
  case (Suc n)
  then show ?case by (cases n) simp_all
qed simp

lemma length_arc_pairs: "2 * length (arc_pairs ps) = length ps * (length ps - 1)"
proof -
  have "length (arc_pairs ps) = (\<Sum>i<length ps. length ps - Suc i)"
    by (simp add: arc_pairs_def length_concat o_def atLeast0LessThan interv_sum_list_conv_sum_set_nat)
  also have "\<dots> = (\<Sum>i<length ps. i)" by (rule sum.nat_diff_reindex)
  finally show ?thesis by (simp add: gauss_below)
qed

lemma js_rem_pos:
  assumes "0 \<le> x" "0 < y"
  shows "0 \<le> js_rem x y \<and> js_rem x y < y"
proof -
  have "of_int \<lfloor>x / y\<rfloor> * y \<le> x" "x < (of_int \<lfloor>x / y\<rfloor> + 1) * y"
    using assms(2) by (rule floor_divide_lower, rule floor_divide_upper)
  moreover have "0 \<le> x / y" using assms by simp
  ultimately show ?thesis by (simp add: js_rem_def algebra_simps)
qed

lemma arc_phase_range:
  assumes "0 \<le> now + off"
  shows "0 \<le> arc_phase now off \<and> arc_phase now off < 1"
  using js_rem_pos [of "now + off" 3] assms by (simp add: arc_phase_def)

lemma bezier_between:
  assumes t: "0 \<le> t" "t \<le> 1" and lo: "l \<le> a" "l \<le> c" "l \<le> b" and hi: "a \<le> h" "c \<le> h" "b \<le> h"
  shows "l \<le> bezier t a c b \<and> bezier t a c b \<le> h"
proof -
  have w: "(1 - t) * (1 - t) + 2 * (1 - t) * t + t * t = 1" by algebra
  have n: "0 \<le> (1 - t) * (1 - t)" "0 \<le> 2 * (1 - t) * t" "0 \<le> t * t" using t by simp_all
  have "l = (1 - t) * (1 - t) * l + 2 * (1 - t) * t * l + t * t * l"
    using w by (simp flip: distrib_right)
  also have "\<dots> \<le> bezier t a c b"
    unfolding bezier_def Let_def by (intro add_mono mult_left_mono lo n)
  finally have "l \<le> bezier t a c b" .
  moreover have "bezier t a c b \<le> (1 - t) * (1 - t) * h + 2 * (1 - t) * t * h + t * t * h"
    unfolding bezier_def Let_def by (intro add_mono mult_left_mono hi n)
  moreover have "\<dots> = h" using w by (simp flip: distrib_right)
  ultimately show ?thesis by simp
qed

lemma part_of_dist:
  assumes "arc_dist a b \<noteq> 0" "0 \<le> amp"
  shows "\<bar>(snd b - snd a) / arc_dist a b * amp\<bar> \<le> amp" "\<bar>(fst b - fst a) / arc_dist a b * amp\<bar> \<le> amp"
proof -
  have d: "0 < arc_dist a b" using assms(1) by (simp add: arc_dist_def less_le)
  have "\<bar>snd b - snd a\<bar> \<le> arc_dist a b" "\<bar>fst b - fst a\<bar> \<le> arc_dist a b"
    by (simp_all add: arc_dist_def real_sqrt_sum_squares_ge1 real_sqrt_sum_squares_ge2 flip: real_sqrt_abs)
  then have "\<bar>(snd b - snd a) / arc_dist a b\<bar> \<le> 1" "\<bar>(fst b - fst a) / arc_dist a b\<bar> \<le> 1"
    using d by simp_all
  then show "\<bar>(snd b - snd a) / arc_dist a b * amp\<bar> \<le> amp" "\<bar>(fst b - fst a) / arc_dist a b * amp\<bar> \<le> amp"
    unfolding abs_mult using assms(2) by (simp_all add: mult_left_le_one_le del: abs_divide)
qed

lemma mid_within:
  fixes d p q :: real
  assumes "\<bar>d\<bar> \<le> 80"
  shows "min p q - 80 \<le> (p + q) / 2 - d \<and> (p + q) / 2 - d \<le> max p q + 80"
  using assms by (cases "p \<le> q") (simp_all add: abs_le_iff field_simps)

text \<open>
  The traffic the map draws. There is one arc for each unordered pair of online providers. At any
  time after the first frame the packet of a visible arc has a phase in [0, 1) and an opacity
  between 0 and 0.9, and it stays near its two ends: within the box they span, widened by 80
  pixels, and by 95 at the top. An arc between providers at one and the same place has no
  coordinates at all.
\<close>

lemma map_arcs:
  assumes "0 \<le> now + off" "a \<noteq> b"
  shows "2 * length (map_pairs ps) = length (filter nq_online ps) * (length (filter nq_online ps) - 1) \<and>
    arc_packet a a now off = None \<and>
    (\<exists>x y opacity. arc_packet a b now off = Some ((x, y), opacity) \<and>
      0 \<le> arc_phase now off \<and> arc_phase now off < 1 \<and> 0 \<le> opacity \<and> opacity \<le> 9 / 10 \<and>
      min (fst a) (fst b) - 80 \<le> x \<and> x \<le> max (fst a) (fst b) + 80 \<and>
      min (snd a) (snd b) - 95 \<le> y \<and> y \<le> max (snd a) (snd b) + 80)"
proof -
  define t where "t = arc_phase now off"
  have t: "0 \<le> t" "t < 1" using arc_phase_range [OF assms(1)] by (simp_all add: t_def)
  have d: "arc_dist a b \<noteq> 0"
    using assms(2) by (auto simp: arc_dist_def sum_power2_eq_zero_iff prod_eq_iff)
  define amp where "amp = min 80 (arc_dist a b * (1 / 4))"
  have "0 \<le> arc_dist a b" by (simp add: arc_dist_def)
  then have amp: "0 \<le> amp" "amp \<le> 80" by (simp_all add: amp_def)
  define cx where "cx = (fst a + fst b) / 2 - (snd b - snd a) / arc_dist a b * amp"
  define cy where "cy = (snd a + snd b) / 2 - (fst b - fst a) / arc_dist a b * amp - 15"
  have c: "arc_control a b = Some (cx, cy)"
    using d by (simp add: arc_control_def Let_def cx_def cy_def amp_def)
  have "min (fst a) (fst b) - 80 \<le> cx" "cx \<le> max (fst a) (fst b) + 80"
      "min (snd a) (snd b) - 95 \<le> cy" "cy \<le> max (snd a) (snd b) + 80"
    using mid_within [of "(snd b - snd a) / arc_dist a b * amp" "fst a" "fst b"]
      mid_within [of "(fst b - fst a) / arc_dist a b * amp" "snd a" "snd b"]
      part_of_dist [OF d amp(1)] amp(2) by (simp_all add: cx_def cy_def)
  then have "min (fst a) (fst b) - 80 \<le> bezier t (fst a) cx (fst b) \<and> bezier t (fst a) cx (fst b) \<le> max (fst a) (fst b) + 80"
      "min (snd a) (snd b) - 95 \<le> bezier t (snd a) cy (snd b) \<and> bezier t (snd a) cy (snd b) \<le> max (snd a) (snd b) + 80"
    using t by (intro bezier_between; linarith)+
  moreover have "0 \<le> packet_opacity t \<and> packet_opacity t \<le> 9 / 10"
    using t by (simp add: packet_opacity_def min_def)
  moreover have "arc_packet a b now off = Some ((bezier t (fst a) cx (fst b), bezier t (snd a) cy (snd b)), packet_opacity t)"
    by (simp add: arc_packet_def c t_def Let_def)
  moreover have "arc_packet a a now off = None" by (simp add: arc_packet_def arc_control_def arc_dist_def)
  ultimately show ?thesis
    using t unfolding t_def by (simp add: map_pairs_def length_arc_pairs)
qed

lemma map_arcs_witness:
  "\<exists>x y opacity. arc_packet (0, 0) (30, 40) 1 (1 / 2) = Some ((x, y), opacity) \<and> opacity \<le> 9 / 10"
  using map_arcs [of 1 "1 / 2" "(0, 0)" "(30, 40)" "[]"] by auto

end
