(* ===== verification/WireTypes.thy ===== *)
theory WireTypes
  imports GoLive Relayer NetworkStatus
begin

text \<open>
  The types of the application's own API. Browser code reads the answers of the routes through a
  type assertion (\<open>(await res.json()) as CreateLiveResponse\<close>), which checks nothing. Here the
  declared interfaces are shapes of JSON values, and the routes are proved to answer with values of
  the shape their readers declare: the asserted type on success, an object with a text \<open>error\<close>
  otherwise. What the video services answer is taken to have the types the clients of the
  services declare (\<open>lib/cloudflare/types.ts\<close>, \<open>lib/livepeer/stream-client.ts\<close>).
\<close>

subsection \<open>Shapes\<close>

datatype shape =
    T_Str
  | T_Num
  | T_Bool
  | T_Null
  | T_Lit string
  | T_Any
  | T_Union shape shape
  | T_Arr shape
  | T_Rec shape \<comment> \<open>\<open>Record<string, t>\<close>\<close>
  | T_Obj "(string \<times> bool \<times> shape) list" \<comment> \<open>fields, each required or not; further ones are allowed\<close>

fun conforms :: "json \<Rightarrow> shape \<Rightarrow> bool" where
  "conforms v T_Str = (case v of JStr _ \<Rightarrow> True | _ \<Rightarrow> False)"
| "conforms v T_Num = (case v of JNum _ \<Rightarrow> True | _ \<Rightarrow> False)"
| "conforms v T_Bool = (case v of JBool _ \<Rightarrow> True | _ \<Rightarrow> False)"
| "conforms v T_Null = (v = JNull)"
| "conforms v (T_Lit s) = (v = JStr s)"
| "conforms v T_Any = True"
| "conforms v (T_Union a b) = (conforms v a \<or> conforms v b)"
| "conforms v (T_Arr t) = (case v of JArr xs \<Rightarrow> list_all (\<lambda>x. conforms x t) xs | _ \<Rightarrow> False)"
| "conforms v (T_Rec t) = (case v of JObj kvs \<Rightarrow> list_all (\<lambda>(k, x). conforms x t) kvs | _ \<Rightarrow> False)"
| "conforms v (T_Obj fs) =
     (is_object v \<and>
      list_all (\<lambda>(k, req, t). case jget v k of None \<Rightarrow> \<not> req | Some x \<Rightarrow> conforms x t) fs)"

abbreviation required :: "string \<Rightarrow> shape \<Rightarrow> string \<times> bool \<times> shape" where
  "required k t \<equiv> (k, True, t)"

abbreviation optional :: "string \<Rightarrow> shape \<Rightarrow> string \<times> bool \<times> shape" where
  "optional k t \<equiv> (k, False, t)"

definition nullable :: "shape \<Rightarrow> shape" where
  "nullable t = T_Union t T_Null"

definition live_backend_shape :: shape where
  "live_backend_shape = T_Union (T_Lit ''cloudflare'') (T_Union (T_Lit ''aevia-mesh'') (T_Lit ''livepeer''))"

definition create_live_shape :: shape where
  "create_live_shape = T_Obj
     [required ''backend'' live_backend_shape, required ''uid'' (nullable T_Str), required ''whipUrl'' T_Str,
      required ''whepUrl'' (nullable T_Str), required ''hlsBaseUrl'' (nullable T_Str),
      required ''playbackId'' (nullable T_Str), required ''playerUrl'' (nullable T_Str),
      required ''creator'' T_Str, required ''creatorAddress'' T_Str, required ''creatorDid'' T_Str,
      required ''title'' (nullable T_Str)]"

definition direct_upload_shape :: shape where
  "direct_upload_shape = T_Obj [required ''uploadUrl'' T_Str, required ''videoUid'' T_Str]"

definition publisher_token_shape :: shape where
  "publisher_token_shape = T_Obj
     [required ''token'' T_Str, required ''jti'' T_Str, required ''expiresAt'' T_Num, required ''ingestUrl'' T_Str,
      required ''liveId'' T_Str, required ''liveName'' (nullable T_Str)]"

definition relayed_shape :: shape where
  "relayed_shape = T_Obj
     [required ''ok'' T_Bool, required ''manifestCid'' T_Str, required ''txHash'' T_Str, required ''block'' T_Num]"

definition refusal_shape :: shape where
  \<comment> \<open>what the screens read of a refusal: \<open>{ error?, reason?, txHash? }\<close> and \<open>{ limit?, used? }\<close>\<close>
  "refusal_shape = T_Obj
     [required ''error'' T_Str, optional ''reason'' T_Str, optional ''txHash'' T_Str, optional ''limit'' T_Num,
      optional ''used'' T_Num]"

definition map_provider_shape :: shape where
  "map_provider_shape = T_Obj
     [required ''id'' T_Str, required ''name'' T_Str, required ''hardware'' T_Str, required ''region'' T_Str,
      required ''lat'' T_Num, required ''lng'' T_Num, required ''online'' T_Bool, required ''activeSessions'' T_Num,
      required ''rttMs'' (nullable T_Num), required ''peerId'' T_Str]"

definition map_status_shape :: shape where
  "map_status_shape = T_Obj
     [required ''providers'' (T_Arr map_provider_shape),
      required ''summary'' (T_Obj
        [required ''total'' T_Num, required ''online'' T_Num, required ''offline'' T_Num,
         required ''totalActiveSessions'' T_Num, required ''probedAt'' T_Str])]"

subsection \<open>The services\<close>

definition url_shape :: shape where
  "url_shape = T_Obj [required ''url'' T_Str]"

definition live_input_shape :: shape where
  \<comment> \<open>\<open>LiveInput\<close>, without the RTMPS and SRT addresses nobody reads\<close>
  "live_input_shape = T_Obj
     [required ''uid'' T_Str, required ''webRTC'' url_shape, required ''webRTCPlayback'' url_shape,
      required ''created'' T_Str, required ''modified'' T_Str, required ''meta'' (T_Rec T_Str),
      optional ''defaultCreator'' T_Str,
      required ''recording'' (T_Obj [required ''mode'' (T_Union (T_Lit ''off'') (T_Lit ''automatic''))]),
      required ''status'' (nullable (T_Obj [required ''current'' (T_Obj [required ''state'' T_Str])]))]"

definition raw_livepeer_shape :: shape where
  "raw_livepeer_shape = T_Obj
     [required ''id'' T_Str, required ''name'' T_Str, required ''streamKey'' T_Str, required ''playbackId'' T_Str,
      optional ''record'' T_Bool, required ''createdAt'' T_Num]"

subsection \<open>What a computation can give\<close>

definition yields :: "('a \<Rightarrow> bool) \<Rightarrow> ('w, 'a) io \<Rightarrow> bool" where
  "yields P m = (\<forall>w. case m w of (Inl _, _) \<Rightarrow> True | (Inr x, _) \<Rightarrow> P x)"

definition answers :: "nat \<Rightarrow> shape \<Rightarrow> route_response \<Rightarrow> bool" where
  \<comment> \<open>the shape on that status, a refusal otherwise\<close>
  "answers n t resp =
     (case rr_body resp of
        Json_Body j \<Rightarrow> conforms j (if rr_status resp = n then t else refusal_shape)
      | _ \<Rightarrow> False)"

definition typed_live :: "http_response \<Rightarrow> bool" where
  \<comment> \<open>an envelope with \<open>success\<close> carries a live input\<close>
  "typed_live res =
     (case hp_json res of
        Inl _ \<Rightarrow> True
      | Inr j \<Rightarrow> truthy_json (jget j ''success'') \<longrightarrow>
          (case jget j ''result'' of None \<Rightarrow> False | Some live \<Rightarrow> conforms live live_input_shape))"

definition typed_stream :: "http_response \<Rightarrow> bool" where
  "typed_stream res =
     (res_ok res \<longrightarrow> (case hp_json res of Inl _ \<Rightarrow> True | Inr j \<Rightarrow> conforms j raw_livepeer_shape))"

definition typed_services :: "'w server \<Rightarrow> bool" where
  \<comment> \<open>the services answer with the types their documentation gives\<close>
  "typed_services sv =
     ((\<forall>body. yields typed_live (cf_fetch sv ''POST'' [''live_inputs''] body)) \<and>
      (\<forall>i. yields typed_live (cf_fetch sv ''GET'' [''live_inputs'', i] No_Body)) \<and>
      (\<forall>body. yields typed_stream (lp_fetch sv ''POST'' ''/stream'' body)))"

definition typed_title :: "json result \<Rightarrow> bool" where
  \<comment> \<open>the title of the posted body, if there is one, is a text or \<open>null\<close>\<close>
  "typed_title body =
     (case body of Inl _ \<Rightarrow> True | Inr b \<Rightarrow>
        (case jget b ''title'' of None \<Rightarrow> True | Some t \<Rightarrow> conforms t (nullable T_Str)))"

subsection \<open>Rules\<close>

named_theorems yielding \<open>what the computations of the routes give\<close>

lemma yields_lift [yielding]: "(\<And>x. r = Inr x \<Longrightarrow> P x) \<Longrightarrow> yields P (io_lift r)"
  by (cases r) (simp_all add: yields_def io_lift_def)

lemma yields_return [yielding]: "P x \<Longrightarrow> yields P (io_return x)"
  by (simp add: yields_def io_return_def)

lemma yields_bind:
  assumes "yields Q m" "\<And>x. Q x \<Longrightarrow> yields P (f x)"
  shows "yields P (io_bind m f)"
proof -
  have "case io_bind m f w of (Inl _, _) \<Rightarrow> True | (Inr y, _) \<Rightarrow> P y" for w
  proof (cases "m w")
    case (Pair r w1)
    then show ?thesis
      using assms spec [OF assms(1) [unfolded yields_def], of w]
      by (cases r) (auto simp: io_bind_def yields_def)
  qed
  then show ?thesis by (simp add: yields_def)
qed

lemma yields_any [yielding]: "(\<And>x. P x) \<Longrightarrow> yields P m"
  by (auto simp: yields_def split: prod.splits sum.splits)

lemma yields_bind_any: "(\<And>x. yields P (f x)) \<Longrightarrow> yields P (io_bind m f)"
  by (rule yields_bind [where Q = "\<lambda>_. True"]) (auto intro: yields_any)

lemma yields_bind_lift: "(\<And>x. r = Inr x \<Longrightarrow> yields P (f x)) \<Longrightarrow> yields P (io_bind (io_lift r) f)"
  by (rule yields_bind [where Q = "\<lambda>x. r = Inr x"]) (auto intro: yields_lift)

lemma yields_catch: "yields P m \<Longrightarrow> (\<And>e. yields P (h e)) \<Longrightarrow> yields P (io_catch m h)"
  by (fastforce simp: yields_def io_catch_def split: prod.splits sum.splits)

lemma yields_try: "yields P m \<Longrightarrow> yields (\<lambda>r. case r of Inl _ \<Rightarrow> True | Inr x \<Rightarrow> P x) (io_try m)"
  by (auto simp: yields_def io_try_def split: prod.splits sum.splits)

lemma yields_or_null: "yields P m \<Longrightarrow> P (Some JNull) \<Longrightarrow> yields P (or_null m)"
  unfolding or_null_def by (intro yields_catch yields_return)

lemma yields_respond: "answers n t (json_response s kvs) \<Longrightarrow> yields (answers n t) (respond s kvs)"
  by (simp add: respond_def yields_return)

lemma refusal_text_only [simp]: "conforms (JObj [(''error'', JStr m)]) refusal_shape"
  by (simp add: refusal_shape_def is_object_def)

lemma answers_refusal [simp]: "s \<noteq> n \<Longrightarrow> answers n t (json_response s kvs) = conforms (JObj kvs) refusal_shape"
  by (simp add: answers_def json_response_def)

lemma answers_success [simp]: "answers n t (json_response n kvs) = conforms (JObj kvs) t"
  by (simp add: answers_def json_response_def)

lemma yields_error [yielding]: "s \<noteq> n \<Longrightarrow> yields (answers n t) (respond_error s m)"
  by (simp add: respond_error_def yields_respond)

lemma yields_caught [yielding]: "s \<noteq> n \<Longrightarrow> yields (answers n t) (caught_error s m e)"
  by (simp add: caught_error_def yields_error)

lemma yields_session:
  "n \<noteq> 401 \<Longrightarrow> (\<And>s. session = Inr (Some s) \<Longrightarrow> yields (answers n t) (k s)) \<Longrightarrow> yields (answers n t) (with_session session k)"
  unfolding with_session_def by (rule yields_bind_lift) (auto intro!: yields_error split: option.splits)

lemma nullable_iff [simp]: "conforms v (nullable t) = (conforms v t \<or> v = JNull)"
  by (simp add: nullable_def)

lemma conforms_obj_field:
  "conforms v (T_Obj fs) \<Longrightarrow> (k, True, t) \<in> set fs \<Longrightarrow> \<exists>x. jget v k = Some x \<and> conforms x t"
  by (force simp: list_all_iff split: option.splits)

lemma conforms_atom [simp]:
  "conforms v T_Str = (\<exists>s. v = JStr s)" "conforms v T_Num = (\<exists>x. v = JNum x)"
  by (cases v; simp)+

declare conforms.simps(1,2) [simp del]

subsection \<open>The services' values\<close>

lemma handle_success:
  assumes "handle nt res = Inr r"
  shows "\<exists>j. hp_json res = Inr j \<and> truthy_json (jget j ''success'') \<and> r = jget j ''result''"
  using assms by (auto simp: handle_def jprop_def split: sum.splits if_splits option.splits json.splits)

lemma typed_call:
  assumes "yields typed_live (cf_fetch sv m segs body)"
  shows "yields (\<lambda>r. \<exists>live. r = Some live \<and> conforms live live_input_shape) (cf_call sv m segs body)"
  unfolding cf_call_def
  by (rule yields_bind [OF assms], rule yields_lift)
    (auto simp: typed_live_def dest!: handle_success split: option.splits)

lemma live_fields:
  assumes "conforms live live_input_shape"
  shows "\<exists>uid whip whep meta. jget live ''uid'' = Some (JStr uid) \<and>
    jprop (jget live ''webRTC'') ''url'' = Inr (Some (JStr whip)) \<and>
    jprop (jget live ''webRTCPlayback'') ''url'' = Inr (Some (JStr whep)) \<and>
    jget live ''meta'' = Some meta \<and> conforms meta (T_Rec T_Str)"
proof -
  note field = conforms_obj_field [OF assms [unfolded live_input_shape_def]]
  obtain uid where uid: "jget live ''uid'' = Some uid" "conforms uid T_Str" using field [of "''uid''" T_Str] by auto
  obtain a where a: "jget live ''webRTC'' = Some a" "conforms a url_shape" using field [of "''webRTC''" url_shape] by auto
  obtain b where b: "jget live ''webRTCPlayback'' = Some b" "conforms b url_shape"
    using field [of "''webRTCPlayback''" url_shape] by auto
  obtain m where m: "jget live ''meta'' = Some m" "conforms m (T_Rec T_Str)" using field [of "''meta''" "T_Rec T_Str"] by auto
  have url: "\<exists>s. jprop (Some v) ''url'' = Inr (Some (JStr s))" if "conforms v url_shape" for v
    using conforms_obj_field [OF that [unfolded url_shape_def], of "''url''" T_Str]
    by (cases v) (auto simp: jprop_def)
  from url [OF a(2)] url [OF b(2)] uid a(1) b(1) m show ?thesis by auto
qed

lemma record_text: "conforms m (T_Rec T_Str) \<Longrightarrow> jget m k = Some v \<Longrightarrow> conforms v T_Str"
  by (cases m) (auto simp: list_all_iff dest!: map_of_SomeD)

subsection \<open>The routes\<close>

definition text_or_null :: "json option \<Rightarrow> bool" where
  "text_or_null v = (case v of None \<Rightarrow> True | Some x \<Rightarrow> conforms x (nullable T_Str))"

lemma text_or_null_cases: "text_or_null v = (nullish v \<or> (\<exists>s. v = Some (JStr s)))"
  by (auto simp: text_or_null_def nullish_def split: option.splits)

lemma title_param: "typed_title body \<Longrightarrow> text_or_null (fst (create_params body))"
  by (auto simp: typed_title_def create_params_def text_or_null_def jprop_def split: sum.splits option.splits json.splits)

lemma else_null: "text_or_null v \<Longrightarrow> (\<exists>s. jelse v JNull = JStr s) \<or> jelse v JNull = JNull"
  by (auto simp: text_or_null_cases nullish_def jelse_def)

lemma mesh_answers: "text_or_null title \<Longrightarrow> yields (answers 201 create_live_shape) (create_mesh meshEnv s title)"
  using else_null [of title]
  by (auto simp: create_mesh_def Let_def backend_name_def creator_fields_def create_live_shape_def live_backend_shape_def
      is_object_def intro!: yields_error yields_respond)

lemma cloudflare_answers:
  assumes "typed_services sv" "text_or_null title"
  shows "yields (answers 201 create_live_shape) (create_cloudflare sv now s title)"
proof -
  have live: "yields (\<lambda>r. \<exists>live. r = Some live \<and> conforms live live_input_shape) (createLiveInput sv now opts)" for opts
    unfolding createLiveInput_def using assms(1) by (intro typed_call) (simp add: typed_services_def)
  show ?thesis
    unfolding create_cloudflare_def
    by (intro yields_catch yields_caught yields_bind [OF live] yields_bind_lift yields_respond)
      (use else_null [OF assms(2)] in \<open>auto simp: jprop_def jchain_def opt_field_def backend_name_def creator_fields_def
        create_live_shape_def live_backend_shape_def is_object_def dest!: live_fields split: option.splits json.splits\<close>)
qed

definition typed_livepeer :: "livepeer_stream \<Rightarrow> bool" where
  "typed_livepeer s =
     (\<exists>i name key playback. ls_id s = Some (JStr i) \<and> ls_name s = Some (JStr name) \<and>
        ls_streamKey s = Some (JStr key) \<and> ls_playbackId s = Some (JStr playback))"

lemma raw_stream_typed:
  assumes "conforms raw raw_livepeer_shape" "normaliseStream raw = Inr s"
  shows "typed_livepeer s"
proof -
  have fld: "\<exists>x. jget raw k = Some (JStr x)" if "(k, True, T_Str) \<in> set
      [required ''id'' T_Str, required ''name'' T_Str, required ''streamKey'' T_Str, required ''playbackId'' T_Str]" for k
  proof -
    have "(k, True, T_Str) \<in> set [required ''id'' T_Str, required ''name'' T_Str, required ''streamKey'' T_Str,
        required ''playbackId'' T_Str, optional ''record'' T_Bool, required ''createdAt'' T_Num]"
      using that by (simp only: set_simps insert_iff) blast
    from conforms_obj_field [OF assms(1) [unfolded raw_livepeer_shape_def] this] show ?thesis by auto
  qed
  have "jprop (Some raw) ''id'' = Inr (jget raw ''id'')"
    using assms(2) by (auto simp: normaliseStream_def jprop_def split: sum.splits json.splits)
  with assms(2) show ?thesis
    using fld [of "''id''"] fld [of "''name''"] fld [of "''streamKey''"] fld [of "''playbackId''"]
    by (auto simp: normaliseStream_def typed_livepeer_def)
qed

lemma livepeer_answers:
  assumes "typed_services sv" "text_or_null title"
  shows "yields (answers 201 create_live_shape) (create_livepeer sv now s title)"
proof -
  have fetched: "yields typed_stream (lp_fetch sv ''POST'' ''/stream'' body)" for body
    using assms(1) by (simp add: typed_services_def)
  have "yields typed_livepeer (createLivepeerStream sv opts)" for opts
    unfolding createLivepeerStream_def
    by (rule yields_bind [OF fetched], intro yields_bind_lift yields_lift)
      (auto simp: typed_stream_def lp_handle_def split: if_splits sum.splits intro: raw_stream_typed)
  then have body: "yields (answers 201 create_live_shape)
      (io_bind (createLivepeerStream sv opts) (\<lambda>stream.
        let key = value_string (sv_numText sv) (ls_streamKey stream); playback = value_string (sv_numText sv) (ls_playbackId stream)
        in respond 201
          ([(''backend'', JStr (backend_name Livepeer))] @ opt_field ''uid'' (ls_id stream) @
           [(''whipUrl'', JStr (livepeerIngestUrl key)), (''whepUrl'', JStr (livepeerPlaybackUrl playback)),
            (''hlsBaseUrl'', JNull)] @
           opt_field ''playbackId'' (ls_playbackId stream) @
           [(''playerUrl'', JStr (livepeerPlayerUrl playback))] @ creator_fields s @
           opt_field ''title'' (if nullish title then ls_name stream else title))))" for opts
    by (rule yields_bind)
      (use assms(2) in \<open>auto simp: typed_livepeer_def Let_def opt_field_def backend_name_def creator_fields_def
        create_live_shape_def live_backend_shape_def is_object_def text_or_null_cases nullish_def intro!: yields_respond\<close>)
  show ?thesis
    unfolding create_livepeer_def by (intro yields_catch yields_caught yields_bind_lift body) simp
qed

lemma owned_answers:
  assumes "n \<notin> {403, 404}" "\<And>live. yields (answers n t) (k live)"
  shows "yields (answers n t) (with_owned_live sv s i k)"
  unfolding with_owned_live_def
  by (rule yields_bind_any) (use assms in \<open>auto intro!: yields_bind_any yields_error\<close>)

lemma upload_answers: "yields (answers 201 direct_upload_shape) (post_direct_upload_url sv session i body)"
proof -
  have made: "yields (answers 201 direct_upload_shape)
      (io_bind (createDirectUpload sv opts) (\<lambda>r.
         respond 201 [(''uploadUrl'', JStr (dr_uploadUrl r)), (''videoUid'', JStr (dr_videoUid r))]))" for opts
    by (rule yields_bind_any) (simp add: yields_respond direct_upload_shape_def is_object_def)
  show ?thesis
    unfolding post_direct_upload_url_def
    by (intro yields_session owned_answers; simp split: sum.splits add: yields_caught yields_catch made)
qed

lemma ownership_typed:
  assumes "typed_services sv"
  shows "yields (\<lambda>r. case r of None \<Rightarrow> True | Some own \<Rightarrow> conforms (ow_live own) live_input_shape)
    (resolveLiveOwnership sv uid addr)"
proof -
  have "yields (\<lambda>r. \<exists>live. r = Some live \<and> conforms live live_input_shape) (getLiveInput sv uid)"
    unfolding getLiveInput_def using assms by (intro typed_call) (simp add: typed_services_def)
  then have "yields (\<lambda>r. r = Some JNull \<or> (\<exists>live. r = Some live \<and> conforms live live_input_shape))
      (or_null (getLiveInput sv uid))"
    unfolding or_null_def by (intro yields_catch yields_return) (auto simp: yields_def split: prod.splits sum.splits)
  then show ?thesis
    unfolding resolveLiveOwnership_def
    by (rule yields_bind) (auto intro!: yields_return yields_bind_lift)
qed

lemma meta_text: "conforms live live_input_shape \<Longrightarrow> text_or_null (live_meta live k)"
  using live_fields [of live] record_text [of _ k]
  by (fastforce simp: live_meta_def jchain_def text_or_null_def split: option.splits)

lemma token_answers:
  assumes "typed_services sv"
  shows "yields (answers 200 publisher_token_shape) (post_publisher_token sv J secret bytes now session i)"
proof -
  have minted: "answers 200 publisher_token_shape
      \<lparr>rr_status = 200, rr_body = Json_Body (JObj
          [(''token'', JStr (mk_token m)), (''jti'', JStr (mk_jti m)), (''expiresAt'', jnat (mk_expiresAt m)),
           (''ingestUrl'', JStr url), (''liveId'', JStr i), (''liveName'', jelse (live_meta live ''name'') JNull)]),
        rr_headers = hs\<rparr>" if "conforms live live_input_shape" for m url live hs
    using else_null [OF meta_text [OF that, of "''name''"]]
    by (auto simp: answers_def publisher_token_shape_def is_object_def jnat_def)
  show ?thesis
    unfolding post_publisher_token_def
    by (rule yields_session, simp, rule yields_bind [OF ownership_typed [OF assms]])
      (auto split: option.splits sum.splits intro!: yields_error yields_return minted)
qed

lemma relay_answers:
  "yields (answers 200 relayed_shape) (post_register_relayed sv cc raw renv chainId session i body)"
proof -
  note shapes = relayed_shape_def refusal_shape_def is_object_def jnat_def
  have timed_out: "answers 200 relayed_shape (json_response 504
      [(''error'', JStr ''relayer_timeout''), (''reason'', JStr m), (''txHash'', JStr h)])" for m h
    by (simp add: shapes)
  have capped: "answers 200 relayed_shape (json_response 402
      [(''error'', JStr ''sponsorship_cap_exceeded''), (''limit'', jnat n), (''used'', JNum x)])" for n x
    by (simp add: shapes)
  have failed: "yields (answers 200 relayed_shape) (submission_failed m extra)"
    if "extra = [] \<or> (\<exists>h. extra = [(''txHash'', JStr h)])" for m and extra :: "(string \<times> json) list"
    using that by (auto simp: submission_failed_def shapes intro!: yields_respond)
  have settle: "yields (answers 200 relayed_shape) (relay_settle sv inc i req used h b)" for inc req used h b
    unfolding relay_settle_def Let_def by (intro yields_bind_any yields_respond) (simp add: shapes)
  have confirm: "yields (answers 200 relayed_shape) (relay_confirm sv cc inc i req used h)" for inc req used h
    unfolding relay_confirm_def Let_def
    by (rule yields_bind_any) (auto split: sum.splits intro!: failed settle yields_respond timed_out)
  have submit: "yields (answers 200 relayed_shape) (relay_submit sv cc inc re registry i req used)" for inc re registry req used
    unfolding relay_submit_def Let_def
    by (rule yields_bind_lift, rule yields_bind_any) (auto split: sum.splits intro!: failed confirm yields_error)
  have check: "answers 200 relayed_shape r" if "signature_check cc c registry n req = Some r" for r c registry n req
    using that by (auto simp: signature_check_def shapes split: sum.splits if_splits)
  have verify: "yields (answers 200 relayed_shape) (relay_verify sv cc inc re c i req used)" for inc re c req used
    unfolding relay_verify_def
    by (rule yields_bind_lift, rule yields_bind_any)
      (auto split: sum.splits option.splits intro!: failed submit yields_bind_any yields_return check)
  have budget: "yields (answers 200 relayed_shape) (relay_budget sv cc rd inc re c i req)" for rd inc re c req
    unfolding relay_budget_def
    by (rule yields_bind_any) (auto intro!: verify yields_respond capped)
  show ?thesis
    unfolding post_register_relayed_def relay_route_def
    by (rule yields_session, simp)
      (auto split: option.splits sum.splits intro!: yields_bind_any yields_error budget)
qed

lemma status_typed:
  assumes "is_finite (ns_totalActiveSessions s)"
    "list_all (\<lambda>h. is_finite (np_lat h) \<and> is_finite (np_lng h) \<and> is_finite (nq_activeSessions h)) (ns_providers s)"
  shows "conforms (status_json s) map_status_shape"
proof -
  have "conforms (health_json h) map_provider_shape"
    if "is_finite (np_lat h) \<and> is_finite (np_lng h) \<and> is_finite (nq_activeSessions h)" for h
    using that by (auto simp: health_json_def map_provider_shape_def wire_num_def is_object_def split: option.splits)
  then have "list_all (\<lambda>j. conforms j map_provider_shape) (map health_json (ns_providers s))"
    using assms(2) by (auto simp: list_all_iff)
  then show ?thesis
    using assms(1) by (simp add: status_json_def map_status_shape_def wire_num_def is_object_def jnat_def)
qed

text \<open>
  C36. The routes answer what their callers declare. If the two video services answer with the types
  their clients declare and the posted title is a text, then whatever the session, the body and the
  outside world, an answer of the routes that create a live, open an upload, mint a publisher token
  or register on the relayer's account is either of the interface the calling screen asserts, with
  the status of success, or an object with a text \<open>error\<close> whose other fields have the types the
  screens read.
\<close>

theorem wire_types:
  assumes "typed_services sv" "typed_title body"
  shows "yields (answers 201 create_live_shape) (post_lives sv mesh now session body) \<and>
    yields (answers 201 direct_upload_shape) (post_direct_upload_url sv session i upload) \<and>
    yields (answers 200 publisher_token_shape) (post_publisher_token sv J secret bytes secs session i) \<and>
    yields (answers 200 relayed_shape) (post_register_relayed sv cc raw renv chainId session i request)"
proof -
  have title: "text_or_null t" if "create_params body = (t, b)" for t b
    using title_param [OF assms(2)] that by simp
  have "yields (answers 201 create_live_shape) (post_lives sv mesh now session body)"
    unfolding post_lives_def
    by (rule yields_session)
      (auto simp: Let_def split: prod.splits live_backend.splits
        intro!: mesh_answers livepeer_answers cloudflare_answers title assms(1))
  then show ?thesis
    using upload_answers token_answers [OF assms(1)] relay_answers by blast
qed

definition typed_reply :: json where
  \<comment> \<open>an answer of either service\<close>
  "typed_reply = JObj
     [(''success'', JBool True),
      (''result'', JObj
        [(''uid'', JStr ''u1''), (''webRTC'', JObj [(''url'', JStr ''https://in'')]),
         (''webRTCPlayback'', JObj [(''url'', JStr ''https://out'')]), (''created'', JStr ''2026''), (''modified'', JStr ''2026''),
         (''meta'', JObj [(''name'', JStr ''n'')]), (''recording'', JObj [(''mode'', JStr ''automatic'')]),
         (''status'', JNull)]),
      (''id'', JStr ''s1''), (''name'', JStr ''n''), (''streamKey'', JStr ''k''), (''playbackId'', JStr ''p''),
      (''createdAt'', JNum (Fin 1))]"

definition typed_server :: "nat server" where
  "typed_server = (demo_server JNull)\<lparr>sv_fetch := \<lambda>req n.
     (Inr \<lparr>hp_status = 200, hp_statusText = [], hp_url = [], hp_headers = [], hp_text = Inr [], hp_json = Inr typed_reply\<rparr>, Suc n)\<rparr>"

lemma typed_server_ok: "typed_services typed_server"
proof -
  have live: "typed_live res" "typed_stream res" if "hp_json res = Inr typed_reply" for res
    using that
    by (simp_all add: typed_live_def typed_stream_def typed_reply_def live_input_shape_def url_shape_def is_object_def
        raw_livepeer_shape_def)
  have "yields typed_live (cf_fetch typed_server m segs body)" "yields typed_stream (lp_fetch typed_server m path body)"
    for m segs path body
    unfolding cf_fetch_def lp_fetch_def
    by (intro yields_bind_lift, simp add: yields_def typed_server_def live)+
  then show ?thesis by (simp add: typed_services_def)
qed

lemma wire_types_witness:
  "yields (answers 201 create_live_shape)
     (post_lives typed_server None 0 (Inr (Some demo_session)) (Inr (JObj [(''title'', JStr ''hello'')])))"
  using wire_types [OF typed_server_ok, of "Inr (JObj [(''title'', JStr ''hello'')])"]
  by (simp add: typed_title_def)

text \<open>A posted title that is not a text comes back as it was, against the declared type.\<close>

lemma untyped_title_echoed:
  "case fst (post_lives sv (Some ''https://m'') now (Inr (Some s))
      (Inr (JObj [(''backend'', JStr ''aevia-mesh''), (''title'', JNum (Fin 5))])) w) of
     Inl _ \<Rightarrow> False
   | Inr r \<Rightarrow> rr_status r = 201 \<and> \<not> answers 201 create_live_shape r"
proof -
  have "trim ''https://m'' = ''https://m''" by code_simp
  then show ?thesis
    by (simp add: post_lives_def create_params_def jprop_def create_mesh_def Let_def create_live_shape_def creator_fields_def
        is_object_def jelse_def answers_def json_response_def)
qed

end
