(* ===== verification/Locales.thy ===== *)
theory Locales
  imports Prelude
begin

text \<open>
  The addresses of the two-language site \<open>aevia.network\<close>: its locales (\<open>apps/network/src/i18n/config.ts\<close>),
  the paths of a page in a locale (\<open>navigation.ts\<close>), its routes (\<open>routes.ts\<close>), the metadata and
  alternates of a page (\<open>metadata.ts\<close>), the redirect of the root (\<open>middleware.ts\<close>), the site map
  (\<open>app/sitemap.ts\<close>) and which specification pages exist (\<open>app/[locale]/spec/[slug]/page.tsx\<close>).
  \<open>NEXT_PUBLIC_APP_URL\<close> is a parameter, the dictionaries of the texts are not modelled.
\<close>

subsection \<open>Locales and paths\<close>

datatype site_locale = Pt_BR | En

definition locales :: "site_locale list" where
  "locales = [Pt_BR, En]"

definition defaultLocale :: site_locale where
  "defaultLocale = Pt_BR"

definition locale_name :: "site_locale \<Rightarrow> string" where
  "locale_name l = (case l of Pt_BR \<Rightarrow> ''pt-BR'' | En \<Rightarrow> ''en'')"

definition isLocale :: "string \<Rightarrow> bool" where
  "isLocale v = (v \<in> set (map locale_name locales))"

definition localePath :: "site_locale \<Rightarrow> string \<Rightarrow> string" where
  "localePath l path =
     (let normalized = (if starts_with ''/'' path then path else ''/'' @ path) in
      if normalized = ''/'' then ''/'' @ locale_name l else ''/'' @ locale_name l @ normalized)"

definition path_segments :: "string \<Rightarrow> string list" where
  \<comment> \<open>\<open>path.split('/').filter(Boolean)\<close>\<close>
  "path_segments path = filter (\<lambda>s. s \<noteq> []) (split_on CHR ''/'' path)"

definition switchLocalePath :: "site_locale \<Rightarrow> string \<Rightarrow> string" where
  "switchLocalePath targetLocale currentPath =
     (case path_segments currentPath of
        [] \<Rightarrow> ''/'' @ locale_name targetLocale
      | _ # rest \<Rightarrow> ''/'' @ join_with ''/'' (locale_name targetLocale # rest))"

definition pathWithoutLocale :: "string \<Rightarrow> site_locale \<Rightarrow> string" where
  "pathWithoutLocale pathname l =
     (let prefix = ''/'' @ locale_name l in
      if pathname = prefix then ''/''
      else if starts_with (prefix @ ''/'') pathname then drop (length prefix) pathname else pathname)"

definition network_middleware :: "string \<Rightarrow> (nat \<times> string) option" where
  \<comment> \<open>status and target of the redirect, for the path of a request; \<open>None\<close> is \<open>NextResponse.next()\<close>\<close>
  "network_middleware pathname =
     (if pathname = ''/'' then Some (307, ''/'' @ locale_name defaultLocale) else None)"

subsection \<open>Routes\<close>

definition top_routes :: "string list" where
  "top_routes =
     [''/'', ''/whitepaper'', ''/manifesto'', ''/roadmap'', ''/providers'', ''/spec'', ''/aup'', ''/faq'',
      ''/network'', ''/privacy'', ''/terms'', ''/transparency'']"

definition spec_slugs :: "string list" where
  "spec_slugs = [''rfc-0'', ''rfc-1'', ''rfc-2'', ''rfc-3'', ''rfc-4'', ''rfc-5'']"

definition allRoutes :: "string list" where
  "allRoutes = top_routes @ map (\<lambda>slug. ''/spec/'' @ slug) spec_slugs"

record alternates =
  al_canonical :: string
  al_languages :: "(string \<times> string) list"

definition alternatesFor :: "string \<Rightarrow> alternates" where
  "alternatesFor path =
     (let clean = (if path = ''/'' then [] else path) in
      \<lparr>al_canonical = ''/'' @ locale_name (hd locales) @ clean,
       al_languages = map (\<lambda>l. (locale_name l, ''/'' @ locale_name l @ clean)) locales @
         [(''x-default'', ''/'' @ locale_name (hd locales) @ clean)]\<rparr>)"

subsection \<open>Metadata of a page\<close>

datatype meta_text = Meta_String string | Meta_Other

fun meta_string :: "meta_text option \<Rightarrow> string option" where
  \<comment> \<open>\<open>typeof v === 'string' ? v : undefined\<close>\<close>
  "meta_string (Some (Meta_String s)) = Some s"
| "meta_string _ = None"

record page_meta =
  pg_base :: "meta_text option \<times> meta_text option"
  pg_alternates :: alternates
  pg_url :: string
  pg_locale :: string
  pg_alternateLocale :: "string list"
  pg_title :: "string option"
  pg_description :: "string option"

fun underscore :: "string \<Rightarrow> string" where
  \<comment> \<open>\<open>s.replace('-', '_')\<close>: the first one\<close>
  "underscore [] = []"
| "underscore (c # s) = (if c = CHR ''-'' then CHR ''_'' # s else c # underscore s)"

definition network_base :: "string option \<Rightarrow> string" where
  "network_base appUrl = or_default appUrl ''https://aevia.network''"

definition pageMetadata ::
  "string option \<Rightarrow> site_locale \<Rightarrow> string \<Rightarrow> meta_text option \<Rightarrow> meta_text option \<Rightarrow> page_meta" where
  "pageMetadata appUrl l path title description =
     (let b = network_base appUrl;
          clean = (if path = ''/'' then [] else if starts_with ''/'' path then path else ''/'' @ path);
          canonical = b @ ''/'' @ locale_name l @ clean
      in \<lparr>pg_base = (title, description),
          pg_alternates = \<lparr>al_canonical = canonical,
            al_languages = map (\<lambda>a. (locale_name a, b @ ''/'' @ locale_name a @ clean)) locales @
              [(''x-default'', b @ ''/'' @ locale_name (hd locales) @ clean)]\<rparr>,
          pg_url = canonical, pg_locale = underscore (locale_name l),
          pg_alternateLocale = map (\<lambda>a. underscore (locale_name a)) (filter (\<lambda>a. a \<noteq> l) locales),
          pg_title = meta_string title, pg_description = meta_string description\<rparr>)"

subsection \<open>The site map\<close>

record map_entry =
  mp_url :: string
  mp_priority :: real
  mp_languages :: "(string \<times> string) list"

definition locale_url :: "string \<Rightarrow> string \<Rightarrow> site_locale \<Rightarrow> string" where
  \<comment> \<open>\<open>BASE_URL\<close> and the path of a route in a locale\<close>
  "locale_url b route l = b @ (if route = ''/'' then ''/'' @ locale_name l else ''/'' @ locale_name l @ route)"

definition sitemap :: "string option \<Rightarrow> map_entry list" where
  "sitemap appUrl =
     (let b = network_base appUrl in
      concat (map (\<lambda>route. map (\<lambda>l.
        \<lparr>mp_url = locale_url b route l, mp_priority = (if route = ''/'' then 1 else 7 / 10),
         mp_languages = map (\<lambda>a. (locale_name a, locale_url b route a)) locales\<rparr>) locales) allRoutes))"

subsection \<open>Specification pages\<close>

definition rfc_slugs :: "string list" where
  "rfc_slugs =
     [''rfc-0'', ''rfc-1'', ''rfc-2'', ''rfc-3'', ''rfc-4'', ''rfc-5'', ''rfc-6'', ''rfc-7'', ''rfc-8'']"

definition rfc_dot :: string where
  "rfc_dot = '' '' @ [CHR 0xB7] @ '' ''"

definition rfc_eyebrows :: "(string \<times> string) list" where
  "rfc_eyebrows =
     [(''rfc-0'', ''rfc-0'' @ rfc_dot @ ''overview''), (''rfc-1'', ''rfc-1'' @ rfc_dot @ ''schema''),
      (''rfc-2'', ''rfc-2'' @ rfc_dot @ ''addressing''), (''rfc-3'', ''rfc-3'' @ rfc_dot @ ''auth''),
      (''rfc-4'', ''rfc-4'' @ rfc_dot @ ''aup''), (''rfc-5'', ''rfc-5'' @ rfc_dot @ ''persistence''),
      (''rfc-6'', ''rfc-6'' @ rfc_dot @ ''risk score''), (''rfc-7'', ''rfc-7'' @ rfc_dot @ ''moderation''),
      (''rfc-8'', ''rfc-8'' @ rfc_dot @ ''economic architecture'')]"

definition rfc_updated :: "(string \<times> string) list" where
  "rfc_updated =
     [(''rfc-0'', ''2026-04-14''), (''rfc-1'', ''2026-04-15''), (''rfc-2'', ''2026-04-15''),
      (''rfc-3'', ''2026-04-16''), (''rfc-4'', ''2026-04-16''), (''rfc-5'', ''2026-04-16''),
      (''rfc-6'', ''2026-04-18''), (''rfc-7'', ''2026-04-18''), (''rfc-8'', ''2026-04-18'')]"

record spec_view =
  sw_title :: string
  sw_eyebrow :: "string option"
  sw_updated :: "string option"
  sw_pathname :: string

definition SpecSlug :: "(string \<Rightarrow> string option) \<Rightarrow> string \<Rightarrow> string \<Rightarrow> spec_view option" where
  \<comment> \<open>\<open>None\<close> is \<open>notFound()\<close>; the titles of the dictionary's rows are a parameter\<close>
  "SpecSlug row_title l slug =
     (if \<not> isLocale l \<or> slug \<notin> set rfc_slugs then None
      else Some \<lparr>sw_title = or_default (row_title slug) slug, sw_eyebrow = map_of rfc_eyebrows slug,
        sw_updated = map_of rfc_updated slug, sw_pathname = ''/'' @ l @ ''/spec/'' @ slug\<rparr>)"

subsection \<open>Switching the language\<close>

definition clean_path :: "string \<Rightarrow> bool" where
  \<comment> \<open>\<open>/\<close>, or non-empty segments, each after a slash\<close>
  "clean_path p =
     (case split_on CHR ''/'' p of
        [] # ss \<Rightarrow> ss = [[]] \<or> ss \<noteq> [] \<and> list_all (\<lambda>s. s \<noteq> []) ss
      | _ \<Rightarrow> False)"

lemma locale_name_plain: "CHR ''/'' \<notin> set (locale_name l)" "locale_name l \<noteq> []"
  by (cases l; simp add: locale_name_def)+

lemma clean_cases:
  assumes "clean_path p"
  obtains "p = ''/''" | ss where "p = ''/'' @ join_with ''/'' ss" "ss \<noteq> []" "split_on CHR ''/'' p = [] # ss"
    "list_all (\<lambda>s. s \<noteq> []) ss" "p \<noteq> ''/''"
proof -
  from assms obtain ss where ss: "split_on CHR ''/'' p = [] # ss" "ss = [[]] \<or> ss \<noteq> [] \<and> list_all (\<lambda>s. s \<noteq> []) ss"
    by (auto simp: clean_path_def split: list.splits)
  then have "ss \<noteq> []" by auto
  with join_split_on [of "CHR ''/''" p] ss(1) have p: "p = ''/'' @ join_with ''/'' ss"
    by (cases ss) auto
  show ?thesis
  proof (cases "ss = [[]]")
    case True
    with p that(1) show ?thesis by simp
  next
    case False
    with ss(2) have "list_all (\<lambda>s. s \<noteq> []) ss" by simp
    moreover have "p \<noteq> ''/''" using ss(1) False by auto
    ultimately show ?thesis using that(2) p ss(1) \<open>ss \<noteq> []\<close> by blast
  qed
qed

lemma clean_starts: "clean_path p \<Longrightarrow> starts_with ''/'' p"
  by (erule clean_cases) (simp_all add: starts_with_def)

lemma localePath_clean: "clean_path p \<Longrightarrow> localePath l p = ''/'' @ locale_name l @ (if p = ''/'' then [] else p)"
  using clean_starts [of p] by (simp add: localePath_def Let_def)

lemma segments_locale:
  assumes "clean_path p"
  shows "path_segments (localePath l p) = locale_name l # (if p = ''/'' then [] else path_segments p)"
  using assms
proof (cases rule: clean_cases)
  case 1
  then show ?thesis
    using assms locale_name_plain [of l] by (simp add: localePath_clean path_segments_def split_on_single)
next
  case (2 ss)
  have "split_on CHR ''/'' (locale_name l @ p) = locale_name l # ss"
    using split_on_append [OF locale_name_plain(1), of l "join_with ''/'' ss"] 2(1,3) by (simp split: list.splits)
  with 2 assms locale_name_plain [of l] show ?thesis
    by (simp add: localePath_clean path_segments_def)
qed

lemma switch_locale:
  assumes "clean_path p"
  shows "switchLocalePath a (localePath b p) = localePath a p"
proof -
  have joined: "switchLocalePath a (localePath b p) =
      ''/'' @ join_with ''/'' (locale_name a # (if p = ''/'' then [] else path_segments p))"
    by (simp only: switchLocalePath_def segments_locale [OF assms] list.case)
  show ?thesis
    using assms
  proof (cases rule: clean_cases)
    case 1
    then show ?thesis using localePath_clean [OF assms, of a] joined by simp
  next
    case (2 ss)
    then have "path_segments p = ss" by (simp add: path_segments_def list_all_iff)
    with 2 localePath_clean [OF assms, of a] joined show ?thesis by (cases ss) simp_all
  qed
qed

text \<open>
  C37. A page keeps its address in every language. For a path of non-empty segments, the path of a
  page in a locale starts with that locale, leads back to the page's own path, and switching the
  language there gives the path of the same page in the other language; switching twice changes
  nothing.
\<close>

theorem locale_addresses:
  assumes "clean_path p"
  shows "path_segments (localePath l p) = locale_name l # (if p = ''/'' then [] else path_segments p) \<and>
    pathWithoutLocale (localePath l p) l = p \<and>
    switchLocalePath l' (localePath l p) = localePath l' p \<and>
    switchLocalePath l (switchLocalePath l' (localePath l p)) = localePath l p"
proof -
  have "pathWithoutLocale (localePath l p) l = p"
    using assms
  proof (cases rule: clean_cases)
    case 1
    with assms show ?thesis by (simp add: pathWithoutLocale_def localePath_clean)
  next
    case (2 ss)
    with assms show ?thesis
      by (simp add: pathWithoutLocale_def localePath_clean Let_def starts_with_def)
  qed
  with switch_locale [OF assms] segments_locale [OF assms] show ?thesis by simp
qed

lemma locale_addresses_witness:
  "switchLocalePath En ''/pt-BR/spec/rfc-1'' = ''/en/spec/rfc-1'' \<and> pathWithoutLocale ''/pt-BR/spec/rfc-1'' Pt_BR = ''/spec/rfc-1''"
proof -
  have "clean_path ''/spec/rfc-1''" by code_simp
  from locale_addresses [OF this, of Pt_BR En] show ?thesis
    using localePath_clean [OF \<open>clean_path _\<close>] by (simp add: locale_name_def)
qed

subsection \<open>The site map and the pages agree\<close>

lemma routes_clean: "list_all clean_path allRoutes" "distinct allRoutes"
  by code_simp+

lemma sitemap_agrees:
  "map mp_url (sitemap appUrl) =
     concat (map (\<lambda>route. map (\<lambda>l. pg_url (pageMetadata appUrl l route t d)) locales) allRoutes) \<and>
   map mp_languages (sitemap appUrl) =
     concat (map (\<lambda>route. map (\<lambda>l. butlast (al_languages (pg_alternates (pageMetadata appUrl l route t d)))) locales) allRoutes) \<and>
   length (sitemap appUrl) = 36"
proof -
  have "locale_url b route l = pg_url (pageMetadata appUrl l route t d)"
      "map (\<lambda>a. (locale_name a, locale_url b route a)) locales =
        butlast (al_languages (pg_alternates (pageMetadata appUrl l route t d)))"
    if "route \<in> set allRoutes" "b = network_base appUrl" for route l b
    using that clean_starts [of route] routes_clean(1)
    by (auto simp: list_all_iff pageMetadata_def Let_def locale_url_def)
  then show ?thesis
    by (simp add: sitemap_def Let_def map_concat o_def cong: map_cong)
      (simp add: locales_def allRoutes_def top_routes_def spec_slugs_def)
qed

text \<open>The site map stops at the sixth of the nine specification pages that exist.\<close>

lemma sitemap_misses_pages:
  "filter (\<lambda>slug. ''/spec/'' @ slug \<notin> set allRoutes) rfc_slugs = [''rfc-6'', ''rfc-7'', ''rfc-8''] \<and>
   SpecSlug titles ''en'' ''rfc-8'' \<noteq> None"
proof -
  have "filter (\<lambda>slug. ''/spec/'' @ slug \<notin> set allRoutes) rfc_slugs = [''rfc-6'', ''rfc-7'', ''rfc-8'']" by code_simp
  moreover have "isLocale ''en''" "''rfc-8'' \<in> set rfc_slugs" by code_simp+
  ultimately show ?thesis by (simp add: SpecSlug_def)
qed

lemma spec_pages_complete:
  "map fst rfc_eyebrows = rfc_slugs \<and> map fst rfc_updated = rfc_slugs"
  by (simp add: rfc_eyebrows_def rfc_updated_def rfc_slugs_def)

end
