(* ===== verification/Panels.thy ===== *)
theory Panels
  imports UploadQueue
begin

text \<open>
  Two panels over state kept elsewhere. The OBS panel of a dashboard row
  (\<open>app/dashboard/obs-broadcast-panel.tsx\<close>) mints a publisher token, hides it until asked and
  copies it out; what the server answers and when the clipboard and the timers are done are
  events. The upload banner (\<open>components/upload-banner.tsx\<close>) shows the rows of the upload
  provider of \<open>UploadQueue\<close> and may only take finished ones away.
\<close>

subsection \<open>The OBS panel\<close>

text \<open>The fields of the route's answer that the panel uses.\<close>

record token_response =
  tr_token :: string
  tr_expiresAt :: real
  tr_ingestUrl :: string

record panel_state =
  ps_loading :: bool
  ps_error :: "string option"
  ps_data :: "token_response option"
  ps_revealed :: bool
  ps_copied :: "string \<Rightarrow> bool"

datatype panel_event =
    Mint_Pressed \<comment> \<open>on mount, for another live, and by the buttons\<close>
  | Mint_Answered "http_response result"
  | Reveal_Pressed
  | Clipboard_Written string
  | Copied_Over string \<comment> \<open>1.5 s after\<close>

definition panel_initial :: panel_state where
  "panel_initial = \<lparr>ps_loading = False, ps_error = None, ps_data = None, ps_revealed = False, ps_copied = (\<lambda>_. False)\<rparr>"

definition token_response_of :: "json \<Rightarrow> token_response option" where
  \<comment> \<open>\<open>res.json() as PublisherTokenResponse\<close>: \<open>null\<close> is no data; other bodies have the asserted fields\<close>
  "token_response_of j =
     (case (as_str (jget j ''token''), as_num (jget j ''expiresAt''), as_str (jget j ''ingestUrl'')) of
        (Some t, Some (Fin e), Some u) \<Rightarrow> Some \<lparr>tr_token = t, tr_expiresAt = e, tr_ingestUrl = u\<rparr>
      | _ \<Rightarrow> None)"

definition mint_request :: "string \<Rightarrow> http_request" where
  "mint_request liveUid =
     \<lparr>hr_method = ''POST'', hr_url = ''/api/lives/'' @ liveUid @ ''/publisher-token'',
      hr_headers = [(''content-type'', ''application/json'')], hr_body = Text_Body ''{}''\<rparr>"

definition mint_pressed :: "panel_state \<Rightarrow> panel_state" where
  "mint_pressed st = st\<lparr>ps_loading := True, ps_error := None\<rparr>"

definition mint_failed :: "js_error \<Rightarrow> panel_state \<Rightarrow> panel_state" where
  "mint_failed e st = st\<lparr>ps_loading := False, ps_error := Some (err_message ''falha ao gerar token'' e)\<rparr>"

definition mint_answered :: "http_response result \<Rightarrow> panel_state \<Rightarrow> panel_state" where
  "mint_answered r st =
     (case r of
        Inl e \<Rightarrow> mint_failed e st
      | Inr res \<Rightarrow>
          if \<not> res_ok res
          then mint_failed (Error (''HTTP '' @ show_nat (hp_status res) @ '' '' @ slice_text 200 res)) st
          else (case hp_json res of
              Inl e \<Rightarrow> mint_failed e st
            | Inr j \<Rightarrow> \<lparr>ps_loading = False, ps_error = None, ps_data = token_response_of j,
                ps_revealed = False, ps_copied = (\<lambda>_. False)\<rparr>))"

definition copy_flag :: "string \<Rightarrow> bool \<Rightarrow> panel_state \<Rightarrow> panel_state" where
  "copy_flag name b st = st\<lparr>ps_copied := (ps_copied st)(name := b)\<rparr>"

fun panel_step :: "panel_event \<Rightarrow> panel_state \<Rightarrow> panel_state" where
  "panel_step Mint_Pressed st = mint_pressed st"
| "panel_step (Mint_Answered r) st = mint_answered r st"
| "panel_step Reveal_Pressed st =
     (case ps_data st of None \<Rightarrow> st | Some _ \<Rightarrow> st\<lparr>ps_revealed := \<not> ps_revealed st\<rparr>)"
| "panel_step (Clipboard_Written name) st = copy_flag name True st"
| "panel_step (Copied_Over name) st = copy_flag name False st"

definition mask_token :: "string \<Rightarrow> string" where
  "mask_token token = take 12 token @ [ellipsis] @ slice_end 8 token"

definition expires_in_min :: "real \<Rightarrow> real \<Rightarrow> int" where
  \<comment> \<open>of the expiry in seconds and the clock in milliseconds\<close>
  "expires_in_min expiresAt now = max 0 \<lfloor>(expiresAt * 1000 - now) / 60000 + 1 / 2\<rfloor>"

datatype panel_view =
    Minting
  | Mint_Error string
  | No_Panel
  | Configured string string int bool bool bool
      \<comment> \<open>server, token text, minutes left, busy, url copied, token copied\<close>

definition panel_view_of :: "real \<Rightarrow> panel_state \<Rightarrow> panel_view" where
  "panel_view_of now st =
     (case ps_data st of
        None \<Rightarrow>
          if ps_loading st then Minting
          else if truthy (ps_error st) then Mint_Error (the (ps_error st))
          else No_Panel
      | Some d \<Rightarrow>
          Configured (tr_ingestUrl d)
            (if ps_revealed st then tr_token d else mask_token (tr_token d))
            (expires_in_min (tr_expiresAt d) now) (ps_loading st) (ps_copied st ''url'') (ps_copied st ''token''))"

definition panel_run :: "panel_event list \<Rightarrow> panel_state" where
  "panel_run es = fold panel_step es panel_initial"

subsection \<open>The token stays hidden\<close>

fun fresh_token :: "panel_event \<Rightarrow> bool" where
  \<comment> \<open>an answer that replaces the data\<close>
  "fresh_token (Mint_Answered (Inr res)) = (res_ok res \<and> (case hp_json res of Inl _ \<Rightarrow> False | Inr _ \<Rightarrow> True))"
| "fresh_token _ = False"

lemma unpressed_step: "e \<noteq> Reveal_Pressed \<Longrightarrow> \<not> ps_revealed st \<Longrightarrow> \<not> ps_revealed (panel_step e st)"
  by (cases e) (auto simp: mint_pressed_def mint_answered_def mint_failed_def copy_flag_def split: sum.splits)

lemma unpressed: "Reveal_Pressed \<notin> set fs \<Longrightarrow> \<not> ps_revealed st \<Longrightarrow> \<not> ps_revealed (fold panel_step fs st)"
proof (induction fs arbitrary: st)
  case (Cons e fs)
  have "\<not> ps_revealed (panel_step e st)" using Cons.prems by (intro unpressed_step) auto
  with Cons show ?case by simp
qed simp

lemma fresh_hides: "fresh_token e \<Longrightarrow> \<not> ps_revealed (panel_step e st)"
  by (cases e rule: fresh_token.cases) (auto simp: mint_answered_def split: sum.splits)

text \<open>
  From every fresh token until the eye is next pressed the panel shows at most its first twelve
  and its last eight characters, whatever is copied or minted again in between.
\<close>

lemma token_masked:
  assumes "fresh_token e" "Reveal_Pressed \<notin> set fs"
    and "panel_view_of now (panel_run (es @ e # fs)) = Configured url shown mins busy cu ct"
  shows "\<exists>d. ps_data (panel_run (es @ e # fs)) = Some d \<and> shown = mask_token (tr_token d) \<and> length shown \<le> 21"
proof -
  have "\<not> ps_revealed (panel_run (es @ e # fs))"
    using unpressed [OF assms(2) fresh_hides [OF assms(1)]] by (simp add: panel_run_def)
  with assms(3) show ?thesis
    by (auto simp: panel_view_of_def mask_token_def slice_end_def split: option.splits if_splits)
qed

text \<open>
  Once there is a token, minting another one that fails looks like nothing happened: the error is
  kept but not shown, and the old token stays on display.
\<close>

lemma failed_rotation_unseen:
  "ps_data st \<noteq> None \<Longrightarrow>
   panel_view_of now (mint_failed e (mint_pressed st)) = panel_view_of now (st\<lparr>ps_loading := False\<rparr>)"
  by (auto simp: panel_view_of_def mint_failed_def mint_pressed_def)

subsection \<open>The upload banner\<close>

text \<open>What the banner may do, besides showing rows: the timer of a finished row, and its two buttons.\<close>

datatype banner_event = Auto_Dismiss string | Dismiss_Pressed string | Retry_Pressed string

definition is_terminal :: "upload_status \<Rightarrow> bool" where
  "is_terminal s = (s = Done \<or> s = Failed)"

definition auto_dismiss :: "string \<Rightarrow> upload_provider \<Rightarrow> upload_provider" where
  \<comment> \<open>the timer is set while the row is \<open>done\<close> and cleared when it leaves that\<close>
  "auto_dismiss i st = (if row_status i (up_uploads st) = Some Done then dismissUpload i st else st)"

definition dismiss_pressed :: "string \<Rightarrow> upload_provider \<Rightarrow> upload_provider" where
  "dismiss_pressed i st =
     (case row_status i (up_uploads st) of
        None \<Rightarrow> st
      | Some s \<Rightarrow> if \<not> is_terminal s then st else dismissUpload i st)"

definition handleRetry :: "string \<Rightarrow> upload_provider \<Rightarrow> upload_provider \<times> string option" where
  \<comment> \<open>offered by failed rows; with the page to go to\<close>
  "handleRetry i st =
     (if row_status i (up_uploads st) = Some Failed then (dismissUpload i st, Some (''/live/'' @ i)) else (st, None))"

fun banner_step :: "banner_event \<Rightarrow> upload_provider \<Rightarrow> upload_provider" where
  "banner_step (Auto_Dismiss i) st = auto_dismiss i st"
| "banner_step (Dismiss_Pressed i) st = dismiss_pressed i st"
| "banner_step (Retry_Pressed i) st = fst (handleRetry i st)"

datatype status_icon = Cloud | Spinner | Tick | Alert

fun StatusIcon :: "upload_status \<Rightarrow> status_icon" where
  "StatusIcon Queued = Cloud"
| "StatusIcon Uploading = Cloud"
| "StatusIcon Linking = Spinner"
| "StatusIcon Done = Tick"
| "StatusIcon Failed = Alert"

definition dash_text :: string where
  "dash_text = '' '' @ [em_dash] @ '' ''"

definition StatusLabel :: "upload_row \<Rightarrow> string \<Rightarrow> string" where
  "StatusLabel u shortUid =
     (case ur_status u of
        Queued \<Rightarrow> ''na fila'' @ dash_text @ ''aevia-'' @ shortUid
      | Uploading \<Rightarrow> ''enviando grava'' @ [CHR 0xE7, CHR 0xE3] @ ''o'' @ dash_text @ shortUid @
          '' '' @ [CHR 0xB7] @ '' '' @ show_nat (ur_progress u) @ ''%''
      | Linking \<Rightarrow> ''finalizando com cloudflare'' @ dash_text @ shortUid
      | Done \<Rightarrow> ''grava'' @ [CHR 0xE7, CHR 0xE3] @ ''o salva'' @ dash_text @ shortUid
      | Failed \<Rightarrow> ''falha ao enviar'' @ dash_text @ shortUid)"

record banner_row =
  bw_label :: string
  bw_icon :: status_icon
  bw_review :: "string option" \<comment> \<open>target of the \<open>rever\<close> link\<close>
  bw_retry :: bool
  bw_error :: "string option"
  bw_progress :: "nat option"
  bw_dismissable :: bool

definition UploadRow :: "upload_row \<Rightarrow> banner_row" where
  "UploadRow u =
     \<lparr>bw_label = StatusLabel u (take 8 (ur_videoUid u)), bw_icon = StatusIcon (ur_status u),
      bw_review = (if ur_status u = Done then Some (''/live/'' @ ur_liveInputId u) else None),
      bw_retry = (ur_status u = Failed),
      bw_error = (if ur_status u = Failed \<and> truthy (ur_error u) then ur_error u else None),
      bw_progress = (if ur_status u = Uploading then Some (ur_progress u) else None),
      bw_dismissable = is_terminal (ur_status u)\<rparr>"

definition UploadBanner :: "upload_provider \<Rightarrow> banner_row list option" where
  "UploadBanner st = (if length (up_uploads st) = 0 then None else Some (map UploadRow (up_uploads st)))"

lemma terminal_inactive: "is_terminal s \<longleftrightarrow> \<not> isActive s"
  by (cases s) (simp_all add: is_terminal_def isActive_def)

lemma dismiss_keeps_others:
  assumes "matched st" "row_status i (up_uploads st) = Some s" "\<not> isActive s" "works_for st j n"
  shows "row_status j (up_uploads (dismissUpload i st)) = row_status j (up_uploads st) \<and>
    up_tasks (dismissUpload i st) ! n = up_tasks st ! n"
proof -
  have ij: "i \<noteq> j"
  proof
    assume "i = j"
    with assms(1,2,4) have "fits (tk_phase (up_tasks st ! n)) s" by (simp add: matched_def)
    with assms(3) fits_active show False by blast
  qed
  have inst: "up_instances st i \<noteq> Some n"
  proof
    assume "up_instances st i = Some n"
    with assms(1) have "task_id (up_tasks st ! n) = i" by (simp add: matched_def)
    with assms(4) ij show False by (simp add: works_for_def)
  qed
  show ?thesis
    using inst assms(4) ij
    by (auto simp: dismissUpload_def Let_def row_status_filter works_for_def nth_list_update split: option.splits)
qed

text \<open>
  The banner never stops work: whatever it does in a reachable state of the provider, the rows
  of uploads at work stay as they are and their tasks are untouched.
\<close>

lemma banner_keeps_work:
  assumes "upload_reach st" "works_for st j n"
  shows "row_status j (up_uploads (banner_step e st)) = row_status j (up_uploads st) \<and>
    up_tasks (banner_step e st) ! n = up_tasks st ! n"
proof -
  have st: "matched st" using reach_matched [OF assms(1)] by simp
  have inactive: "\<not> isActive Done" "\<not> isActive Failed" by (simp_all add: isActive_def)
  show ?thesis
  proof (cases e)
    case (Auto_Dismiss i)
    then show ?thesis
      using dismiss_keeps_others [OF st _ inactive(1) assms(2), of i] by (simp add: auto_dismiss_def)
  next
    case (Dismiss_Pressed i)
    then show ?thesis
      using dismiss_keeps_others [OF st _ _ assms(2), of i]
      by (simp add: dismiss_pressed_def terminal_inactive split: option.splits)
  next
    case (Retry_Pressed i)
    then show ?thesis
      using dismiss_keeps_others [OF st _ inactive(2) assms(2), of i] by (simp add: handleRetry_def)
  qed
qed

end
