(* ===== verification/MeshBoot.thy ===== *)
theory MeshBoot
  imports MeshP2p
begin

text \<open>
  \<open>apps/video/src/components/mesh-boot.tsx\<close>: the component that owns the browser's libp2p node
  while the player is on screen. Each pass of its effect is a run, numbered by its place in the
  list of all passes; loading the module, starting the node and the timers are events, the node
  itself is the one of \<open>MeshP2p\<close>. A pass that is cleaned up while it still waits for the module
  or for the node goes on in the background: that is what the \<open>cancelled\<close> flag is for.
\<close>

subsection \<open>State\<close>

record boot_props =
  bp_sessionId :: string
  bp_bootstraps :: "string list"
  bp_heartbeatIntervalMs :: "int option"

datatype boot_phase = Importing | Starting | Settled

record boot_run =
  br_props :: boot_props
  br_phase :: boot_phase
  br_cancelled :: bool
  br_statusPoll :: bool
  br_node :: "mesh_node option" \<comment> \<open>the node it started\<close>

record mesh_boot =
  mb_runs :: "boot_run list"
  mb_current :: "nat option" \<comment> \<open>the run whose cleanup is still to be called\<close>
  mb_handleRef :: "nat option" \<comment> \<open>the run whose handle is stored\<close>
  mb_onStatus :: "(nat \<times> nat) list" \<comment> \<open>the calls of \<open>onStatus\<close>: connected, topic peers\<close>
  mb_errors :: nat \<comment> \<open>lines on the console\<close>

datatype boot_event =
    Effect boot_props \<comment> \<open>mounted, or a property changed\<close>
  | Unmounted
  | Imported nat
  | Import_Failed nat
  | Node_Answered nat "string result" "string \<Rightarrow> bool" nat nat nat
      \<comment> \<open>of run, peer id or rejection, dials, clock, connections, subscribers\<close>
  | Poll_Tick nat nat nat
  | Node_Event nat mesh_event \<comment> \<open>a heartbeat tick or a message\<close>

definition boot_init :: mesh_boot where
  "boot_init = \<lparr>mb_runs = [], mb_current = None, mb_handleRef = None, mb_onStatus = [], mb_errors = 0\<rparr>"

subsection \<open>Operations\<close>

definition upd_run :: "nat \<Rightarrow> (boot_run \<Rightarrow> boot_run) \<Rightarrow> mesh_boot \<Rightarrow> mesh_boot" where
  "upd_run n f st = st\<lparr>mb_runs := (mb_runs st)[n := f (mb_runs st ! n)]\<rparr>"

definition stop_run :: "boot_run \<Rightarrow> boot_run" where
  \<comment> \<open>\<open>handle.stop()\<close>\<close>
  "stop_run r = r\<lparr>br_node := map_option mesh_stop (br_node r)\<rparr>"

definition boot_cleanup :: "mesh_boot \<Rightarrow> mesh_boot" where
  "boot_cleanup st =
     (case mb_current st of
        None \<Rightarrow> st
      | Some n \<Rightarrow>
          let st1 = upd_run n (\<lambda>r. r\<lparr>br_cancelled := True, br_statusPoll := False\<rparr>) st;
              st2 = (case mb_handleRef st1 of None \<Rightarrow> st1 | Some m \<Rightarrow> upd_run m stop_run st1)
          in st2\<lparr>mb_handleRef := None, mb_current := None\<rparr>)"

definition boot_effect :: "boot_props \<Rightarrow> mesh_boot \<Rightarrow> mesh_boot" where
  \<comment> \<open>the cleanup of the pass before, then the next pass\<close>
  "boot_effect props st0 =
     (let st = boot_cleanup st0 in
      if bp_sessionId props = [] then st
      else if length (bp_bootstraps props) = 0 then st
      else st\<lparr>mb_runs := mb_runs st @ [\<lparr>br_props = props, br_phase = Importing, br_cancelled = False,
                                       br_statusPoll = False, br_node = None\<rparr>],
              mb_current := Some (length (mb_runs st))\<rparr>)"

definition boot_options :: "boot_props \<Rightarrow> init_mesh_options" where
  "boot_options props =
     \<lparr>im_sessionId = bp_sessionId props, im_bootstraps = bp_bootstraps props,
      im_heartbeatIntervalMs = Some (or_default (bp_heartbeatIntervalMs props) 5000)\<rparr>"

definition boot_imported :: "nat \<Rightarrow> boot_run \<Rightarrow> mesh_boot \<Rightarrow> mesh_boot" where
  "boot_imported n r = upd_run n (\<lambda>r. r\<lparr>br_phase := (if br_cancelled r then Settled else Starting)\<rparr>)"

definition boot_failed :: "nat \<Rightarrow> mesh_boot \<Rightarrow> mesh_boot" where
  "boot_failed n st = (upd_run n (\<lambda>r. r\<lparr>br_phase := Settled\<rparr>) st)\<lparr>mb_errors := mb_errors st + 1\<rparr>"

definition report_status :: "mesh_status \<Rightarrow> mesh_boot \<Rightarrow> mesh_boot" where
  "report_status s st =
     st\<lparr>mb_onStatus := mb_onStatus st @ [(connectedPeerCount s, topicPeerCount s)]\<rparr>"

definition boot_answered ::
  "nat \<Rightarrow> string result \<Rightarrow> (string \<Rightarrow> bool) \<Rightarrow> nat \<Rightarrow> nat \<Rightarrow> nat \<Rightarrow> boot_run \<Rightarrow> mesh_boot \<Rightarrow> mesh_boot" where
  "boot_answered n answer dial now connections subscribers r st =
     (case initMesh (boot_options (br_props r)) answer dial now of
        Inl e \<Rightarrow> boot_failed n st
      | Inr handle \<Rightarrow>
          if br_cancelled r
          then upd_run n (\<lambda>r. stop_run (r\<lparr>br_phase := Settled, br_node := Some handle\<rparr>)) st
          else report_status (mesh_status_of connections subscribers handle)
            ((upd_run n (\<lambda>r. r\<lparr>br_phase := Settled, br_node := Some handle, br_statusPoll := True\<rparr>) st)
              \<lparr>mb_handleRef := Some n\<rparr>))"

definition boot_poll :: "nat \<Rightarrow> nat \<Rightarrow> boot_run \<Rightarrow> mesh_boot \<Rightarrow> mesh_boot" where
  "boot_poll connections subscribers r st =
     (case br_node r of
        None \<Rightarrow> st
      | Some node \<Rightarrow>
          if br_statusPoll r then report_status (mesh_status_of connections subscribers node) st else st)"

definition with_run ::
  "nat \<Rightarrow> (boot_run \<Rightarrow> bool) \<Rightarrow> (boot_run \<Rightarrow> mesh_boot \<Rightarrow> mesh_boot) \<Rightarrow> mesh_boot \<Rightarrow> mesh_boot" where
  "with_run n P f st = (if n < length (mb_runs st) \<and> P (mb_runs st ! n) then f (mb_runs st ! n) st else st)"

fun from_outside :: "mesh_event \<Rightarrow> bool" where
  "from_outside HeartbeatTick = True"
| "from_outside (PubsubMessage _ _ _) = True"
| "from_outside _ = False"

fun boot_step :: "boot_event \<Rightarrow> mesh_boot \<Rightarrow> mesh_boot" where
  "boot_step (Effect props) st = boot_effect props st"
| "boot_step Unmounted st = boot_cleanup st"
| "boot_step (Imported n) st = with_run n (\<lambda>r. br_phase r = Importing) (boot_imported n) st"
| "boot_step (Import_Failed n) st = with_run n (\<lambda>r. br_phase r = Importing) (\<lambda>r. boot_failed n) st"
| "boot_step (Node_Answered n answer dial now c s) st =
     with_run n (\<lambda>r. br_phase r = Starting) (boot_answered n answer dial now c s) st"
| "boot_step (Poll_Tick n c s) st = with_run n (\<lambda>_. True) (boot_poll c s) st"
| "boot_step (Node_Event n e) st =
     with_run n (\<lambda>_. from_outside e)
       (\<lambda>r. upd_run n (\<lambda>r. r\<lparr>br_node := map_option (mesh_step e) (br_node r)\<rparr>)) st"

definition boot_run_all :: "boot_event list \<Rightarrow> mesh_boot \<Rightarrow> mesh_boot" where
  "boot_run_all es st = fold boot_step es st"

subsection \<open>One node at most\<close>

definition run_ok :: "mesh_boot \<Rightarrow> nat \<Rightarrow> boot_run \<Rightarrow> bool" where
  \<comment> \<open>the run is the current one or cancelled; its node is stored and running, or stopped\<close>
  "run_ok st n r =
     ((br_cancelled r \<longleftrightarrow> mb_current st \<noteq> Some n) \<and>
      (br_statusPoll r \<longrightarrow> mb_handleRef st = Some n) \<and>
      (br_phase r \<noteq> Settled \<longrightarrow> br_node r = None) \<and>
      (mb_handleRef st = Some n \<longrightarrow> br_node r \<noteq> None \<and> br_phase r = Settled) \<and>
      (case br_node r of None \<Rightarrow> True
       | Some node \<Rightarrow> mn_stops node = (if mb_handleRef st = Some n then 0 else 1) \<and>
           (mn_heartbeatTimer node \<longrightarrow> mb_handleRef st = Some n)))"

definition boot_ok :: "mesh_boot \<Rightarrow> bool" where
  "boot_ok st =
     ((\<forall>n < length (mb_runs st). run_ok st n (mb_runs st ! n)) \<and>
      (\<forall>n. mb_current st = Some n \<longrightarrow> n < length (mb_runs st)) \<and>
      (\<forall>n. mb_handleRef st = Some n \<longrightarrow> mb_current st = Some n))"

lemma runs_upd [simp]:
  "length (mb_runs (upd_run n f st)) = length (mb_runs st)"
  "mb_current (upd_run n f st) = mb_current st" "mb_handleRef (upd_run n f st) = mb_handleRef st"
  "mb_onStatus (upd_run n f st) = mb_onStatus st" "mb_errors (upd_run n f st) = mb_errors st"
  by (simp_all add: upd_run_def)

lemma nth_upd [simp]: "m < length (mb_runs st) \<Longrightarrow>
  mb_runs (upd_run n f st) ! m = (if n = m then f (mb_runs st ! n) else mb_runs st ! m)"
  by (simp add: upd_run_def)

lemma report_simps [simp]:
  "mb_runs (report_status s st) = mb_runs st" "mb_current (report_status s st) = mb_current st"
  "mb_handleRef (report_status s st) = mb_handleRef st" "mb_errors (report_status s st) = mb_errors st"
  by (simp_all add: report_status_def)

lemma mesh_stop_simps [simp]:
  "mn_stops (mesh_stop n) = mn_stops n + 1" "\<not> mn_heartbeatTimer (mesh_stop n)"
  "mn_published (mesh_stop n) = mn_published n"
  by (simp_all add: mesh_stop_def Let_def)

lemma outside_step:
  "from_outside e \<Longrightarrow> mn_stops (mesh_step e n) = mn_stops n \<and>
     mn_heartbeatTimer (mesh_step e n) = mn_heartbeatTimer n"
  by (cases e) (simp_all add: mesh_ops)

lemma run_ok_same:
  "mb_current st' = mb_current st \<Longrightarrow> mb_handleRef st' = mb_handleRef st \<Longrightarrow> run_ok st' n r = run_ok st n r"
  by (simp add: run_ok_def split: option.splits)

lemma boot_ok_upd:
  \<comment> \<open>a step that changes one run\<close>
  assumes "boot_ok st" "m < length (mb_runs st)"
    and "mb_runs st' = (mb_runs st)[m := r]" "mb_current st' = mb_current st"
    and "mb_handleRef st' = mb_handleRef st \<or> mb_handleRef st = None \<and> mb_handleRef st' = Some m \<and> mb_current st = Some m"
    and "run_ok st' m r"
  shows "boot_ok st'"
proof -
  have "run_ok st' n (mb_runs st' ! n)" if n: "n < length (mb_runs st')" for n
  proof (cases "n = m")
    case True
    then show ?thesis using assms(2,3,6) by simp
  next
    case False
    have ok: "run_ok st n (mb_runs st ! n)" using assms(1,3) n by (simp add: boot_ok_def)
    from assms(5) show ?thesis
    proof
      assume "mb_handleRef st' = mb_handleRef st"
      with ok False assms(3,4) show ?thesis by (simp add: run_ok_same [of st' st])
    next
      assume "mb_handleRef st = None \<and> mb_handleRef st' = Some m \<and> mb_current st = Some m"
      with ok False assms(3,4) show ?thesis by (simp add: run_ok_def split: option.splits)
    qed
  qed
  moreover have "\<forall>n. mb_current st' = Some n \<longrightarrow> n < length (mb_runs st')"
    using assms by (simp add: boot_ok_def)
  moreover have "\<forall>n. mb_handleRef st' = Some n \<longrightarrow> mb_current st' = Some n"
    using assms(1,4,5) by (auto simp: boot_ok_def)
  ultimately show ?thesis by (simp add: boot_ok_def)
qed

lemma cleanup_run:
  assumes "boot_ok st" "mb_current st = Some c" "n < length (mb_runs st)"
  shows "run_ok (boot_cleanup st) n (mb_runs (boot_cleanup st) ! n)"
proof -
  have n: "run_ok st n (mb_runs st ! n)" and h: "mb_handleRef st = None \<or> mb_handleRef st = Some c"
    using assms by (auto simp: boot_ok_def) (metis not_Some_eq)
  from h show ?thesis
  proof
    assume "mb_handleRef st = None"
    with n assms show ?thesis
      by (simp add: boot_cleanup_def Let_def run_ok_def split: option.splits)
  next
    assume "mb_handleRef st = Some c"
    with n assms show ?thesis
      by (cases "n = c") (auto simp: boot_cleanup_def Let_def run_ok_def stop_run_def split: option.splits)
  qed
qed

lemma cleanup_refs [simp]:
  "mb_current (boot_cleanup st) = None"
  "mb_onStatus (boot_cleanup st) = mb_onStatus st" "length (mb_runs (boot_cleanup st)) = length (mb_runs st)"
  by (simp_all add: boot_cleanup_def Let_def split: option.splits)

lemma cleanup_handle: "boot_ok st \<Longrightarrow> mb_handleRef (boot_cleanup st) = None"
  by (auto simp: boot_cleanup_def Let_def boot_ok_def split: option.splits)

lemma boot_ok_cleanup: "boot_ok st \<Longrightarrow> boot_ok (boot_cleanup st)"
proof (cases "mb_current st")
  case None
  assume "boot_ok st"
  with None show ?thesis by (simp add: boot_cleanup_def)
next
  case (Some c)
  assume ok: "boot_ok st"
  show ?thesis
    unfolding boot_ok_def using cleanup_run [OF ok Some] cleanup_handle [OF ok] by simp
qed

lemma boot_ok_effect: "boot_ok st \<Longrightarrow> boot_ok (boot_effect props st)"
proof -
  assume "boot_ok st"
  then have ok: "boot_ok (boot_cleanup st)" and h: "mb_handleRef (boot_cleanup st) = None"
    by (simp_all add: boot_ok_cleanup cleanup_handle)
  have "run_ok (boot_cleanup st) n (mb_runs (boot_cleanup st) ! n)" if "n < length (mb_runs st)" for n
    using ok that by (simp add: boot_ok_def)
  with ok h show ?thesis
    by (auto simp: boot_effect_def Let_def boot_ok_def nth_append run_ok_def split: option.splits)
qed

lemma boot_ok_run:
  "boot_ok st \<Longrightarrow> n < length (mb_runs st) \<Longrightarrow> run_ok st n (mb_runs st ! n)"
  by (simp add: boot_ok_def)

lemma boot_ok_failed:
  assumes "boot_ok st" "n < length (mb_runs st)" "br_phase (mb_runs st ! n) \<noteq> Settled"
  shows "boot_ok (boot_failed n st)"
  using assms boot_ok_run [OF assms(1,2)]
  by (intro boot_ok_upd [OF assms(1,2), where r = "(mb_runs st ! n)\<lparr>br_phase := Settled\<rparr>"])
    (auto simp: boot_failed_def upd_run_def run_ok_def split: option.splits)

lemma initMesh_fresh:
  "initMesh opts node dial now = Inr n \<Longrightarrow> mn_stops n = 0 \<and> mn_published n = [] \<and> mn_messageHandlers n = []"
  by (auto simp: initMesh_def Let_def split: if_splits sum.splits)

lemma boot_ok_answered:
  assumes ok: "boot_ok st" "n < length (mb_runs st)" and ph: "br_phase (mb_runs st ! n) = Starting"
  shows "boot_ok (boot_answered n answer dial now c s (mb_runs st ! n) st)"
proof (cases "initMesh (boot_options (br_props (mb_runs st ! n))) answer dial now")
  case (Inl e)
  with assms show ?thesis by (simp add: boot_answered_def boot_ok_failed)
next
  case (Inr handle)
  let ?r = "mb_runs st ! n"
  have r: "run_ok st n ?r" by (rule boot_ok_run [OF ok])
  then have none: "br_node ?r = None" "mb_handleRef st \<noteq> Some n" using ph by (auto simp: run_ok_def)
  show ?thesis
  proof (cases "br_cancelled ?r")
    case True
    with r none initMesh_fresh [OF Inr] show ?thesis
      by (intro boot_ok_upd [OF ok, where r = "stop_run (?r\<lparr>br_phase := Settled, br_node := Some handle\<rparr>)"])
        (auto simp: boot_answered_def Inr upd_run_def run_ok_def stop_run_def split: option.splits)
  next
    case False
    with r have cur: "mb_current st = Some n" by (simp add: run_ok_def)
    then have "mb_handleRef st = None" using ok none(2) by (auto simp: boot_ok_def) (metis not_Some_eq)
    with False r none cur initMesh_fresh [OF Inr] show ?thesis
      by (intro boot_ok_upd [OF ok, where r = "?r\<lparr>br_phase := Settled, br_node := Some handle, br_statusPoll := True\<rparr>"])
        (auto simp: boot_answered_def Inr upd_run_def run_ok_def split: option.splits)
  qed
qed

lemma boot_ok_step: "boot_ok st \<Longrightarrow> boot_ok (boot_step e st)"
proof (cases e)
  case (Imported n)
  assume ok: "boot_ok st"
  show ?thesis
  proof (cases "n < length (mb_runs st) \<and> br_phase (mb_runs st ! n) = Importing")
    case True
    with boot_ok_run [OF ok, of n] show ?thesis
      by (intro boot_ok_upd [OF ok, of n _ "(mb_runs st ! n)\<lparr>br_phase :=
            (if br_cancelled (mb_runs st ! n) then Settled else Starting)\<rparr>"])
        (auto simp: Imported with_run_def boot_imported_def upd_run_def run_ok_def split: option.splits)
  next
    case False
    with ok show ?thesis by (auto simp: Imported with_run_def)
  qed
next
  case (Poll_Tick n c s)
  assume ok: "boot_ok st"
  have "boot_ok (report_status x st)" for x
    using ok by (simp add: boot_ok_def run_ok_same [of "report_status x st" st])
  with ok show ?thesis by (auto simp: Poll_Tick with_run_def boot_poll_def split: option.splits)
next
  case (Node_Event n x)
  assume ok: "boot_ok st"
  show ?thesis
  proof (cases "n < length (mb_runs st) \<and> from_outside x")
    case True
    with boot_ok_run [OF ok, of n] outside_step [of x] show ?thesis
      by (intro boot_ok_upd [OF ok, of n _ "(mb_runs st ! n)\<lparr>br_node := map_option (mesh_step x) (br_node (mb_runs st ! n))\<rparr>"])
        (auto simp: Node_Event with_run_def upd_run_def run_ok_def split: option.splits)
  next
    case False
    with ok show ?thesis by (auto simp: Node_Event with_run_def)
  qed
qed (simp_all add: boot_ok_effect boot_ok_cleanup with_run_def boot_ok_failed boot_ok_answered)

lemma boot_ok_run_all: "boot_ok st \<Longrightarrow> boot_ok (boot_run_all es st)"
  by (induction es arbitrary: st) (simp_all add: boot_run_all_def boot_ok_step)

lemma boot_init_ok: "boot_ok boot_init"
  by (simp add: boot_ok_def boot_init_def)

subsection \<open>Silence after the end\<close>

definition node_published :: "boot_run \<Rightarrow> (string \<times> string) list" where
  "node_published r = (case br_node r of None \<Rightarrow> [] | Some n \<Rightarrow> mn_published n)"

definition boot_published :: "mesh_boot \<Rightarrow> (string \<times> string) list" where
  \<comment> \<open>all that any of its nodes ever published\<close>
  "boot_published st = concat (map node_published (mb_runs st))"

fun is_effect :: "boot_event \<Rightarrow> bool" where
  "is_effect (Effect _) = True"
| "is_effect _ = False"

lemma published_upd:
  assumes "n < length (mb_runs st)" "node_published r = node_published (mb_runs st ! n)"
  shows "concat (map node_published ((mb_runs st)[n := r])) = boot_published st"
  using assms(2) map_update [of node_published "mb_runs st" n r] list_update_id [of "map node_published (mb_runs st)" n]
    assms(1)
  by (simp add: boot_published_def)

lemma published_upd_run:
  "n < length (mb_runs st) \<Longrightarrow> node_published (f (mb_runs st ! n)) = node_published (mb_runs st ! n) \<Longrightarrow>
   boot_published (upd_run n f st) = boot_published st"
  using published_upd [of n st "f (mb_runs st ! n)"] by (simp add: boot_published_def upd_run_def)

lemma published_same [simp]:
  "boot_published (st\<lparr>mb_handleRef := a, mb_current := b\<rparr>) = boot_published st"
  "boot_published (st\<lparr>mb_errors := k\<rparr>) = boot_published st"
  "boot_published (report_status s st) = boot_published st"
  by (simp_all add: boot_published_def)

lemma node_published_simps [simp]:
  "node_published (r\<lparr>br_phase := p\<rparr>) = node_published r"
  "node_published (r\<lparr>br_cancelled := c, br_statusPoll := d\<rparr>) = node_published r"
  "node_published (stop_run r) = node_published r"
  by (simp_all add: node_published_def stop_run_def split: option.splits)

lemma published_cleanup: "boot_ok st \<Longrightarrow> boot_published (boot_cleanup st) = boot_published st"
  by (auto simp: boot_cleanup_def Let_def published_upd_run boot_ok_def split: option.splits)

lemma off_run:
  \<comment> \<open>without a current run every run is cancelled and quiet\<close>
  assumes "boot_ok st" "mb_current st = None" "n < length (mb_runs st)"
  shows "br_cancelled (mb_runs st ! n) \<and> \<not> br_statusPoll (mb_runs st ! n) \<and>
    (br_phase (mb_runs st ! n) \<noteq> Settled \<longrightarrow> br_node (mb_runs st ! n) = None) \<and>
    (\<forall>node. br_node (mb_runs st ! n) = Some node \<longrightarrow> \<not> mn_heartbeatTimer node)"
  using boot_ok_run [OF assms(1,3)] assms(1,2) by (auto simp: run_ok_def boot_ok_def split: option.splits)

lemma silent_answered:
  assumes "boot_ok st" "mb_current st = None" "n < length (mb_runs st)" "br_phase (mb_runs st ! n) = Starting"
    and "st1 = boot_answered n answer dial now c s (mb_runs st ! n) st"
  shows "mb_current st1 = None \<and> mb_onStatus st1 = mb_onStatus st \<and> boot_published st1 = boot_published st"
proof (cases "initMesh (boot_options (br_props (mb_runs st ! n))) answer dial now")
  case (Inl e)
  with assms(2,3) show ?thesis by (simp add: assms(5) boot_answered_def boot_failed_def published_upd_run)
next
  case (Inr handle)
  have r: "br_cancelled (mb_runs st ! n)" "br_node (mb_runs st ! n) = None"
    using off_run [OF assms(1,2,3)] assms(4) by auto
  have "node_published (stop_run ((mb_runs st ! n)\<lparr>br_phase := Settled, br_node := Some handle\<rparr>)) =
      node_published (mb_runs st ! n)"
    using initMesh_fresh [OF Inr] r(2) by (simp add: node_published_def stop_run_def)
  with Inr r assms(2,3) show ?thesis by (simp add: assms(5) boot_answered_def published_upd_run)
qed

lemma silent_node_event:
  assumes "boot_ok st" "mb_current st = None" "n < length (mb_runs st)" "from_outside x"
  shows "node_published ((mb_runs st ! n)\<lparr>br_node := map_option (mesh_step x) (br_node (mb_runs st ! n))\<rparr>) =
    node_published (mb_runs st ! n)"
  using off_run [OF assms(1,2,3)] assms(4)
  by (cases x) (auto simp: node_published_def mesh_ops split: option.splits)

lemma boot_silent_step:
  assumes ok: "boot_ok st" and off: "mb_current st = None" and e: "\<not> is_effect e"
  shows "mb_current (boot_step e st) = None \<and> mb_onStatus (boot_step e st) = mb_onStatus st \<and>
    boot_published (boot_step e st) = boot_published st"
proof (cases e)
  case (Effect p)
  with e show ?thesis by simp
next
  case Unmounted
  with off show ?thesis by (simp add: boot_cleanup_def)
next
  case (Node_Answered n answer dial now c s)
  with off silent_answered [OF ok off _ _ refl] show ?thesis by (simp add: with_run_def)
next
  case (Poll_Tick n c s)
  with off off_run [OF ok off, of n] show ?thesis
    by (auto simp: with_run_def boot_poll_def split: option.splits)
next
  case (Node_Event n x)
  with off silent_node_event [OF ok off, of n x] show ?thesis
    by (simp add: with_run_def published_upd_run)
qed (use off in \<open>simp_all add: with_run_def boot_imported_def boot_failed_def published_upd_run\<close>)

lemma boot_silent_run:
  "boot_ok st \<Longrightarrow> mb_current st = None \<Longrightarrow> list_all (\<lambda>e. \<not> is_effect e) fs \<Longrightarrow>
     mb_onStatus (boot_run_all fs st) = mb_onStatus st \<and> boot_published (boot_run_all fs st) = boot_published st"
  by (induction fs arbitrary: st) (simp_all add: boot_run_all_def boot_silent_step boot_ok_step)

subsection \<open>Property\<close>

definition node_stops :: "mesh_boot \<Rightarrow> nat \<Rightarrow> nat option" where
  "node_stops st n = map_option mn_stops (br_node (mb_runs st ! n))"

text \<open>
  C38. The node follows the component. Whatever order the module, the nodes, the timers, changed
  properties and the unmounting come in, each node that was ever started has been stopped
  exactly once, but for the one whose handle is stored, which is never stopped while it is
  stored; a stored handle is the one of the pass that has not been cleaned up; and from the
  unmounting until the component mounts again no node publishes anything and nothing is reported
  to the player, also not by a node that finishes starting only then.
\<close>

theorem mesh_boot_one_node:
  assumes "list_all (\<lambda>e. \<not> is_effect e) fs"
  shows "let st = boot_run_all es boot_init;
             st1 = boot_run_all fs (boot_step Unmounted st)
         in list_all (\<lambda>n. case node_stops st n of None \<Rightarrow> mb_handleRef st \<noteq> Some n
              | Some k \<Rightarrow> k = (if mb_handleRef st = Some n then 0 else 1)) [0..<length (mb_runs st)] \<and>
            (case mb_handleRef st of None \<Rightarrow> True | Some n \<Rightarrow> mb_current st = Some n) \<and>
            mb_onStatus st1 = mb_onStatus st \<and> boot_published st1 = boot_published st"
proof -
  let ?st = "boot_run_all es boot_init"
  have ok: "boot_ok ?st" by (rule boot_ok_run_all [OF boot_init_ok])
  have "case node_stops ?st n of None \<Rightarrow> mb_handleRef ?st \<noteq> Some n
       | Some k \<Rightarrow> k = (if mb_handleRef ?st = Some n then 0 else 1)" if "n < length (mb_runs ?st)" for n
    using boot_ok_run [OF ok that] by (auto simp: run_ok_def node_stops_def split: option.splits)
  moreover have "case mb_handleRef ?st of None \<Rightarrow> True | Some n \<Rightarrow> mb_current ?st = Some n"
    using ok by (auto simp: boot_ok_def split: option.splits)
  moreover have "boot_published (boot_cleanup ?st) = boot_published ?st"
    by (rule published_cleanup [OF ok])
  ultimately show ?thesis
    using boot_silent_run [OF boot_ok_cleanup [OF ok] _ assms]
    by (auto simp: Let_def list_all_iff)
qed

definition demo_boot_events :: "boot_event list" where
  \<comment> \<open>the session changes while the first node is starting\<close>
  "demo_boot_events =
     [Effect \<lparr>bp_sessionId = ''a'', bp_bootstraps = [''/b''], bp_heartbeatIntervalMs = None\<rparr>, Imported 0,
      Effect \<lparr>bp_sessionId = ''b'', bp_bootstraps = [''/b''], bp_heartbeatIntervalMs = None\<rparr>, Imported 1,
      Node_Answered 1 (Inr ''p1'') (\<lambda>_. True) 7 3 2, Node_Answered 0 (Inr ''p0'') (\<lambda>_. True) 8 1 1,
      Node_Event 0 HeartbeatTick, Node_Event 1 HeartbeatTick]"

theorem mesh_boot_one_node_witness:
  "let st = boot_run_all demo_boot_events boot_init;
       st1 = boot_run_all [Node_Event 1 HeartbeatTick, Poll_Tick 1 5 5] (boot_step Unmounted st)
   in mb_handleRef st = Some 1 \<and> node_stops st 0 = Some 1 \<and> node_stops st 1 = Some 0 \<and>
      mb_onStatus st1 = mb_onStatus st \<and> boot_published st1 = boot_published st"
proof -
  have "mb_handleRef (boot_run_all demo_boot_events boot_init) = Some 1 \<and>
    node_stops (boot_run_all demo_boot_events boot_init) 0 = Some 1 \<and>
    node_stops (boot_run_all demo_boot_events boot_init) 1 = Some 0"
    by (simp add: demo_boot_events_def boot_run_all_def boot_init_def boot_effect_def boot_cleanup_def Let_def
        with_run_def boot_imported_def boot_answered_def initMesh_def boot_options_def upd_run_def stop_run_def
        report_status_def mesh_ops node_stops_def)
  then show ?thesis
    using mesh_boot_one_node [of "[Node_Event 1 HeartbeatTick, Poll_Tick 1 5 5]" demo_boot_events]
    by (simp add: Let_def)
qed

end
