(* ===== verification/Screens.thy ===== *)
theory Screens
  imports AuthSession Catalog MeshHealth MeshResolve Http
begin

text \<open>
  What the screens compute before they draw: the transparency page with its live picture of the
  mesh (\<open>app/trust/page.tsx\<close>, \<open>components/trust-screen.tsx\<close>), the dashboard and the wallet
  (\<open>app/dashboard/page.tsx\<close>, \<open>app/wallet/page.tsx\<close>, \<open>components/studio-screen.tsx\<close>,
  \<open>components/wallet-screen.tsx\<close>), a creator's channel (\<open>components/creator-screen.tsx\<close>), the
  small texts of the player (\<open>components/player-screen.tsx\<close>) and the bottom navigation. The
  markup is left out. \<open>new URL(..).host\<close> and \<open>Date.parse\<close> are parameters.
\<close>

subsection \<open>Numbers and words as text\<close>

definition show_int :: "int \<Rightarrow> string" where
  "show_int n = (if n < 0 then ''-'' @ show_nat (nat (- n)) else show_nat (nat n))"

definition round_half_up :: "real \<Rightarrow> int" where
  \<comment> \<open>\<open>Math.round\<close>\<close>
  "round_half_up x = \<lfloor>x + 1 / 2\<rfloor>"

definition fixed_units :: "nat \<Rightarrow> real \<Rightarrow> nat" where
  "fixed_units f x = nat \<lfloor>\<bar>x\<bar> * 10 ^ f + 1 / 2\<rfloor>"

definition to_fixed :: "nat \<Rightarrow> real \<Rightarrow> string" where
  \<comment> \<open>\<open>x.toFixed(f)\<close> for \<open>0 < f\<close>, below \<open>10 ^ 21\<close>\<close>
  "to_fixed f x =
     (let p = pad_start (f + 1) CHR ''0'' (show_nat (fixed_units f x));
          k = length p - f
      in (if x < 0 then ''-'' else []) @ take k p @ ''.'' @ drop k p)"

fun num_fixed :: "nat \<Rightarrow> jsnum \<Rightarrow> string" where
  "num_fixed f (Fin x) = to_fixed f x"
| "num_fixed f PInf = ''Infinity''"
| "num_fixed f NInf = ''-Infinity''"
| "num_fixed f NaN = ''NaN''"

fun split_by :: "(char \<Rightarrow> bool) \<Rightarrow> string \<Rightarrow> string list" where
  "split_by P [] = [[]]"
| "split_by P (c # s) =
     (if P c then [] # split_by P s
      else (case split_by P s of [] \<Rightarrow> [[c]] | w # ws \<Rightarrow> (c # w) # ws))"

definition word_fields :: "(char \<Rightarrow> bool) \<Rightarrow> string \<Rightarrow> string list" where
  \<comment> \<open>\<open>s.split(/[..]+/).filter(Boolean)\<close>\<close>
  "word_fields P s = filter (\<lambda>w. w \<noteq> []) (split_by P s)"

definition upper_char :: "char \<Rightarrow> string" where
  \<comment> \<open>sharp s becomes two letters; the capitals of \<open>0xB5\<close> and \<open>0xFF\<close> lie beyond the model's code units\<close>
  "upper_char c = (let n = code c in
     if 97 \<le> n \<and> n \<le> 122 \<or> 224 \<le> n \<and> n \<le> 254 \<and> n \<noteq> 247 then [char_of (n - 32)]
     else if n = 223 then ''SS'' else [c])"

definition to_upper :: "string \<Rightarrow> string" where
  "to_upper s = concat (map upper_char s)"

definition middle_dot :: char where
  "middle_dot = CHR 0xB7"

definition no_initials :: string where
  "no_initials = [middle_dot, middle_dot]"

subsection \<open>The transparency page\<close>

record trust_viewer =
  tv_did :: string
  tv_shortAddress :: string

record grafo_entry =
  ge_health :: provider_health
  ge_latency :: "round_trip_result option"

definition session_viewer :: "aevia_session \<Rightarrow> trust_viewer result" where
  \<comment> \<open>the chain id is written out, here and on the dashboard\<close>
  "session_viewer s =
     (case addressToDid (as_address s) 84532 of
        Inl e \<Rightarrow> Inl e
      | Inr did \<Rightarrow> Inr \<lparr>tv_did = did, tv_shortAddress = shortAddress (as_address s) 6 4\<rparr>)"

definition grafo_entry_of :: "(nat \<Rightarrow> probe_event) \<Rightarrow> provider_health \<Rightarrow> grafo_entry" where
  "grafo_entry_of probes h =
     \<lparr>ge_health = h,
      ge_latency = (case h of
          HealthUnreachable _ \<Rightarrow> None
        | HealthOk p \<Rightarrow>
            Some (measureRoundTrip (ok_httpsBase p) \<lparr>rt_samples = Some 5, rt_timeoutMs = Some 1500\<rparr> probes))\<rparr>"

definition loadMeshSnapshot ::
  "(string \<Rightarrow> registry option) \<Rightarrow> string option \<Rightarrow> (nat \<Rightarrow> string \<Rightarrow> health_event) \<Rightarrow>
   (nat \<Rightarrow> nat \<Rightarrow> probe_event) \<Rightarrow> grafo_entry list" where
  \<comment> \<open>of the registry variable; what the network did is given per provider\<close>
  "loadMeshSnapshot JSON_parse registry_env nets probes =
     (let registry = parseProviderRegistry JSON_parse (or_default registry_env []);
          health = fetchMeshHealth registry \<lparr>ho_timeoutMs = Some 2000, ho_peerId = None\<rparr> nets
      in map2 (\<lambda>n. grafo_entry_of (probes n)) [0..<length health] health)"

definition TrustPage ::
  "aevia_session option result \<Rightarrow> grafo_entry list \<Rightarrow> (trust_viewer option \<times> grafo_entry list) result" where
  \<comment> \<open>a session that cannot be read is none\<close>
  "TrustPage session mesh =
     (case session of
        Inr (Some s) \<Rightarrow> map_sum id (\<lambda>v. (Some v, mesh)) (session_viewer s)
      | _ \<Rightarrow> Inr (None, mesh))"

fun is_reachable :: "provider_health \<Rightarrow> bool" where
  "is_reachable (HealthOk _) = True"
| "is_reachable (HealthUnreachable _) = False"

fun health_peerId :: "provider_health \<Rightarrow> string option" where
  "health_peerId (HealthOk p) = Some (ok_peerId p)"
| "health_peerId (HealthUnreachable p) = un_peerId p"

definition hostOf :: "(string \<Rightarrow> string option) \<Rightarrow> string \<Rightarrow> string" where
  "hostOf url_host url = or_default (url_host url) url"

fun reason_text :: "unreachable_reason \<Rightarrow> string" where
  "reason_text Timeout = ''timeout''"
| "reason_text Network = ''network''"
| "reason_text BadJson = ''bad-json''"
| "reason_text BadShape = ''bad-shape''"
| "reason_text Non2xx = ''non-2xx''"

definition coords_text :: "provider_health_ok \<Rightarrow> string list" where
  "coords_text p =
     (case (ok_lat p, ok_lng p) of
        (Some lat, Some lng) \<Rightarrow> [num_fixed 2 lat @ [CHR 0xB0] @ '', '' @ num_fixed 2 lng @ [CHR 0xB0]]
      | _ \<Rightarrow> [])"

definition rtt_text :: "round_trip_result option \<Rightarrow> string" where
  "rtt_text latency =
     (case latency of
        None \<Rightarrow> ''rtt n/a''
      | Some r \<Rightarrow>
          (if 0 < rr_okCount r then
             (case (rr_p50 r, rr_p95 r) of
                (Some p50, Some p95) \<Rightarrow>
                  ''rtt p50 '' @ show_int (round_half_up p50) @ ''ms '' @ [middle_dot] @ '' p95 '' @
                  show_int (round_half_up p95) @ ''ms '' @ [middle_dot] @ '' n='' @ show_nat (rr_okCount r)
              | _ \<Rightarrow> ''rtt n/a'')
           else ''rtt n/a''))"

definition MeshRowMeta :: "grafo_entry \<Rightarrow> string list" where
  \<comment> \<open>the texts of the line below a provider's name\<close>
  "MeshRowMeta entry =
     (case ge_health entry of
        HealthUnreachable p \<Rightarrow>
          [un_httpsBase p @ '' '' @ [middle_dot] @ '' motivo '' @ reason_text (un_reason p)]
      | HealthOk p \<Rightarrow>
          [or_default (ok_region p) (''sem regi'' @ [CHR 0xE3] @ ''o declarada'')] @
          coords_text p @ [rtt_text (ge_latency entry)])"

definition row_title :: "(string \<Rightarrow> string option) \<Rightarrow> provider_health \<Rightarrow> string" where
  "row_title url_host h =
     (if truthy (health_peerId h) then shortPeerId (the (health_peerId h)) else hostOf url_host (health_base h))"

record grafo_row =
  gw_title :: string
  gw_reachable :: bool
  gw_meta :: "string list"

definition MeshGrafo :: "(string \<Rightarrow> string option) \<Rightarrow> grafo_entry list \<Rightarrow> (string \<times> grafo_row list) option" where
  \<comment> \<open>\<open>None\<close>: nothing is registered\<close>
  "MeshGrafo url_host mesh =
     (let reachable = length (filter (\<lambda>m. is_reachable (ge_health m)) mesh) in
      if length mesh = 0 then None
      else Some (show_nat reachable @ ''/'' @ show_nat (length mesh),
        map (\<lambda>e. \<lparr>gw_title = row_title url_host (ge_health e),
                  gw_reachable = is_reachable (ge_health e), gw_meta = MeshRowMeta e\<rparr>) mesh))"

definition viewer_did_text :: "trust_viewer \<Rightarrow> string" where
  "viewer_did_text v = take 22 (tv_did v) @ [ellipsis] @ slice_end 6 (tv_shortAddress v)"

subsection \<open>Dashboard and wallet\<close>

record studio_viewer =
  sv_displayName :: string
  sv_shortAddress :: string
  sv_did :: string
  sv_loginMethod :: string

fun login_text :: "login_method \<Rightarrow> string" where
  "login_text Email = ''email''"
| "login_text Google = ''google''"
| "login_text Apple = ''apple''"
| "login_text Passkey = ''passkey''"
| "login_text Wallet = ''wallet''"
| "login_text Unknown = ''conectado''"

text \<open>What a page for members answers: a redirect, what it shows, or a throw of its own.\<close>

datatype 'a page = Redirected string | Shown 'a | Page_Threw js_error

definition DashboardPage ::
  "aevia_session option result \<Rightarrow> live_item list result \<Rightarrow> (studio_viewer \<times> live_row list) page" where
  \<comment> \<open>with the answer of \<open>listLiveInputs\<close>\<close>
  "DashboardPage session all =
     (case session of
        Inl e \<Rightarrow> Page_Threw e
      | Inr None \<Rightarrow> Redirected ''/''
      | Inr (Some s) \<Rightarrow>
          let myLives = (case all of Inl _ \<Rightarrow> [] | Inr items \<Rightarrow> dashboard_lives (as_address s) items)
          in (case addressToDid (as_address s) 84532 of
                Inl e \<Rightarrow> Page_Threw e
              | Inr did \<Rightarrow> Shown
                  (\<lparr>sv_displayName = as_displayName s, sv_shortAddress = shortAddress (as_address s) 6 4,
                    sv_did = did, sv_loginMethod = login_text (as_loginMethod s)\<rparr>, myLives)))"

record studio_kpis =
  sk_published :: nat
  sk_anchored :: nat
  sk_liveNow :: nat

definition studio_counts :: "live_row list \<Rightarrow> studio_kpis" where
  "studio_counts lives =
     \<lparr>sk_published = length lives,
      sk_anchored = length (filter (\<lambda>l. truthy (lr_manifestCid l)) lives),
      sk_liveNow = length (filter (\<lambda>l. lr_state l = ''connected'') lives)\<rparr>"

definition skeleton_rows :: "nat \<Rightarrow> nat" where
  "skeleton_rows n = min n 4"

record wallet_props =
  wp_did :: string
  wp_address :: string
  wp_shortAddress :: string
  wp_rpcUrl :: string

definition WalletPage ::
  "viem_chains \<Rightarrow> string option \<Rightarrow> aevia_session option result \<Rightarrow> wallet_props page" where
  "WalletPage viem app_env session =
     (case session of
        Inl e \<Rightarrow> Page_Threw e
      | Inr None \<Rightarrow> Redirected ''/''
      | Inr (Some s) \<Rightarrow> Shown
          \<lparr>wp_did = as_did s, wp_address = as_address s, wp_shortAddress = shortAddress (as_address s) 6 4,
           wp_rpcUrl = defaultRpcUrl viem app_env\<rparr>)"

definition balance_request :: "string option \<Rightarrow> string \<Rightarrow> http_request option" where
  \<comment> \<open>what the effect fetches, if it has an address to fetch from\<close>
  "balance_request rpcUrl address =
     (if \<not> truthy rpcUrl then None
      else Some \<lparr>hr_method = ''POST'', hr_url = the rpcUrl,
        hr_headers = [(''content-type'', ''application/json'')],
        hr_body = Json_Body (JObj
          [(''jsonrpc'', JStr ''2.0''), (''id'', jnat 1), (''method'', JStr ''eth_getBalance''),
           (''params'', JArr [JStr address, JStr ''latest''])])\<rparr>)"

definition bigint_of :: "string \<Rightarrow> nat option" where
  \<comment> \<open>\<open>BigInt(s)\<close> on what a node may answer: hexadecimal or decimal digits; \<open>None\<close> throws\<close>
  "bigint_of str =
     (let s = trim str in
      if s = [] then Some 0
      else if take 2 s = ''0x'' \<or> take 2 s = ''0X'' then
        (if drop 2 s \<noteq> [] \<and> list_all is_hex (drop 2 s) then Some (read_hex (drop 2 s)) else None)
      else if list_all is_digit s then Some (read_nat s) else None)"

definition eth_text :: "nat \<Rightarrow> string" where
  "eth_text wei = to_fixed 4 (of_nat wei / 10 ^ 18)"

definition balance_answered :: "bool \<Rightarrow> http_response result \<Rightarrow> string option \<Rightarrow> string option" where
  \<comment> \<open>the shown balance after the answer; \<open>cancelled\<close> once the effect was cleaned up\<close>
  "balance_answered cancelled r shown =
     (case r of
        Inl _ \<Rightarrow> shown
      | Inr res \<Rightarrow>
          if \<not> res_ok res then shown
          else (case hp_json res of
              Inl _ \<Rightarrow> shown
            | Inr j \<Rightarrow>
                (case jprop (Some j) ''result'' of
                   Inl _ \<Rightarrow> shown
                 | Inr v \<Rightarrow>
                     (case as_str v of
                        None \<Rightarrow> shown
                      | Some s \<Rightarrow>
                          if s = [] \<or> cancelled then shown
                          else (case bigint_of s of None \<Rightarrow> shown | Some wei \<Rightarrow> Some (eth_text wei))))))"

definition wallet_split :: "nat \<Rightarrow> nat \<Rightarrow> real \<times> real" where
  \<comment> \<open>the widths of the bar of credits received and sent, in percent\<close>
  "wallet_split received sent =
     (if 0 < received + sent
      then (of_nat received / of_nat (received + sent) * 100, of_nat sent / of_nat (received + sent) * 100)
      else (100, 0))"

subsection \<open>A creator's channel\<close>

record channel_receipts =
  ch_livesPublished :: nat
  ch_onChainAnchored :: nat
  ch_creditsLast30d :: nat

definition channel_receipts_of :: "creator_live list \<Rightarrow> channel_receipts" where
  "channel_receipts_of lives =
     \<lparr>ch_livesPublished = length lives,
      ch_onChainAnchored = length (filter (\<lambda>l. truthy (cl_manifestCid l)) lives), ch_creditsLast30d = 0\<rparr>"

definition isSelf :: "string option \<Rightarrow> string \<Rightarrow> bool" where
  "isSelf viewerAddress address = (map_option to_lower viewerAddress = Some (to_lower address))"

text \<open>\<open>navigator.share\<close> may be missing or be cancelled; \<open>navigator.clipboard\<close> may be missing.\<close>

datatype share_support = No_Share | Share_Done | Share_Cancelled

datatype share_effect = Shared string string | Copied string

definition shareChannel :: "string \<Rightarrow> string \<Rightarrow> string \<Rightarrow> share_support \<Rightarrow> bool \<Rightarrow> share_effect list" where
  \<comment> \<open>of origin, address, display name, sharing and whether there is a clipboard\<close>
  "shareChannel origin address displayName sharing clipboard =
     (let url = origin @ ''/creator/'' @ address;
          title = displayName @ '' '' @ [middle_dot] @ '' aevia'';
          copy = (if clipboard then [Copied url] else [])
      in case sharing of
           No_Share \<Rightarrow> copy
         | Share_Done \<Rightarrow> [Shared title url]
         | Share_Cancelled \<Rightarrow> copy)"

definition manifest_text :: "(real \<Rightarrow> string) \<Rightarrow> jsnum option \<Rightarrow> string" where
  "manifest_text nt lastRegisterBlock =
     (case lastRegisterBlock of
        None \<Rightarrow> ''nenhum manifesto on-chain ainda''
      | Some b \<Rightarrow> [CHR 0xFA] @ ''ltimo manifesto em bloco '' @ num_string nt b)"

definition avatar_initials :: "string \<Rightarrow> string" where
  "avatar_initials name =
     (let bare = (if starts_with ''0x'' name then drop 2 name else name);
          ws = take 2 (word_fields (\<lambda>c. is_ws c \<or> c = CHR ''@'' \<or> c = CHR ''.'') bare);
          letters = take 2 (concat (map (\<lambda>w. to_upper (take 1 w)) ws))
      in if letters = [] then no_initials else letters)"

definition formatDuration :: "real option \<Rightarrow> string option" where
  "formatDuration seconds =
     (case seconds of
        None \<Rightarrow> None
      | Some s \<Rightarrow>
          if s < 0 then None
          else
            let mins = nat \<lfloor>s / 60\<rfloor>;
                secs = pad_start 2 CHR ''0'' (show_nat (nat \<lfloor>s - 60 * of_int \<lfloor>s / 60\<rfloor>\<rfloor>))
            in Some (show_nat mins @ '':'' @ secs))"

subsection \<open>Small texts of the player\<close>

definition began :: string where
  "began = ''come'' @ [CHR 0xE7] @ ''ou ''"

definition ago :: string where
  "ago = ''h'' @ [CHR 0xE1] @ '' ''"

definition formatTimeSince :: "(string \<Rightarrow> real option) \<Rightarrow> real \<Rightarrow> string \<Rightarrow> string" where
  \<comment> \<open>with \<open>Date.parse\<close> (\<open>None\<close> for \<open>NaN\<close>) and the clock\<close>
  "formatTimeSince parse now started =
     (case parse started of
        None \<Rightarrow> []
      | Some since \<Rightarrow>
          let mins = \<lfloor>(now - since) / 60000\<rfloor> in
          if mins < 1 then began @ ''agora''
          else if mins < 60 then began @ ago @ show_int mins @ '' min''
          else
            let hours = mins div 60 in
            if hours < 24 then began @ ago @ show_int hours @ '' h''
            else
              let days = hours div 24
              in ago @ show_int days @ '' '' @ (if days = 1 then ''dia'' else ''dias''))"

text \<open>The label after the first render, the effect and the ticks of its timer, one a minute.\<close>

fun useElapsedSince :: "(string \<Rightarrow> real option) \<Rightarrow> string \<Rightarrow> real list \<Rightarrow> string" where
  "useElapsedSince parse started [] = []"
| "useElapsedSince parse started (now # ticks) =
     (if ticks = [] then formatTimeSince parse now started else useElapsedSince parse started ticks)"

definition initials :: "string \<Rightarrow> string" where
  "initials name =
     (let parts = word_fields is_ws (trim name) in
      if length parts = 0 then no_initials
      else
        let front = take 1 (parts ! 0);
            back = (if 1 < length parts then take 1 (parts ! (length parts - 1)) else take 1 (drop 1 (parts ! 0)))
        in to_upper (front @ back))"

subsection \<open>The bottom navigation\<close>

definition nav_slots :: "(string \<times> string \<times> (string \<Rightarrow> bool)) list" where
  \<comment> \<open>label, target and when it is highlighted; \<open>ao vivo\<close> in the middle never is\<close>
  "nav_slots =
     [(''in'' @ [CHR 0xED] @ ''cio'', ''/feed'', \<lambda>p. p = ''/feed''),
      (''descobrir'', ''/discover'', \<lambda>p. p = ''/discover''),
      (''ao vivo'', ''/live/new'', \<lambda>p. False),
      (''criadores'', ''/creators'', \<lambda>p. p = ''/creators'' \<or> starts_with ''/creator/'' p),
      (''perfil'', ''/dashboard'', \<lambda>p. p = ''/dashboard'' \<or> p = ''/wallet'')]"

definition active_slots :: "string \<Rightarrow> string list" where
  "active_slots pathname =
     map (\<lambda>(label, href, active). href) (filter (\<lambda>(label, href, active). active pathname) nav_slots)"

subsection \<open>Numbers\<close>

lemma fixed_units_close: "\<bar>of_nat (fixed_units f x) / 10 ^ f - \<bar>x\<bar>\<bar> \<le> 1 / (2 * 10 ^ f)"
proof -
  let ?y = "\<bar>x\<bar> * 10 ^ f"
  have pos: "(0::real) < 10 ^ f" by simp
  have "0 \<le> \<lfloor>?y + 1 / 2\<rfloor>" by (simp add: zero_le_floor add_nonneg_nonneg)
  then have "of_nat (fixed_units f x) = real_of_int \<lfloor>?y + 1 / 2\<rfloor>" by (simp add: fixed_units_def)
  moreover have "real_of_int \<lfloor>?y + 1 / 2\<rfloor> \<le> ?y + 1 / 2" "?y + 1 / 2 < real_of_int \<lfloor>?y + 1 / 2\<rfloor> + 1"
    by linarith+
  ultimately have "\<bar>of_nat (fixed_units f x) - ?y\<bar> \<le> 1 / 2" by linarith
  moreover have "of_nat (fixed_units f x) / 10 ^ f - \<bar>x\<bar> = (of_nat (fixed_units f x) - ?y) / 10 ^ f"
    using pos by (simp add: field_simps)
  ultimately show ?thesis using pos by (simp add: abs_divide field_simps)
qed

lemma bigint_of_hex: "bigint_of (''0x'' @ show_hex n) = Some n"
proof -
  have hex: "list_all is_hex (show_hex n)"
    using show_hex_lower [of n] by (auto simp: list_all_iff is_lower_hex_def is_hex_def Let_def)
  have "\<not> is_ws c" if "c \<in> set (''0x'' @ show_hex n)" for c
    using that show_hex_lower [of n] by (auto simp: list_all_iff is_lower_hex_def is_ws_def Let_def code_def)
  then have "trim (''0x'' @ show_hex n) = ''0x'' @ show_hex n" by (rule trim_id)
  moreover have "show_hex n \<noteq> []" by (subst show_hex.simps) simp
  ultimately show ?thesis using hex by (simp add: bigint_of_def)
qed

text \<open>
  An account balance that the node answers as a hexadecimal quantity is shown to within half of
  the last of its four decimals, unless the effect has been cleaned up; any other answer, and a
  failed request, leave what is shown.
\<close>

lemma balance_shown:
  assumes "res_ok res" "hp_json res = Inr (JObj [(''result'', JStr (''0x'' @ show_hex wei))])"
  shows "balance_answered cancelled (Inr res) shown = (if cancelled then shown else Some (eth_text wei)) \<and>
    \<bar>of_nat (fixed_units 4 (of_nat wei / 10 ^ 18)) / 10 ^ 4 - of_nat wei / 10 ^ 18\<bar> \<le> (1 / 20000 :: real)"
  using assms fixed_units_close [of 4 "of_nat wei / 10 ^ 18"]
  by (simp add: balance_answered_def jprop_def bigint_of_hex [simplified])

subsection \<open>Words\<close>

lemma nav_one_slot: "length (active_slots p) \<le> 1"
  by (auto simp: active_slots_def nav_slots_def starts_with_def)

lemma avatar_initials_length: "avatar_initials name \<noteq> [] \<and> length (avatar_initials name) \<le> 2"
  by (simp add: avatar_initials_def no_initials_def Let_def min_def)

lemma initials_ne: "initials name \<noteq> []"
proof (cases "word_fields is_ws (trim name)")
  case Nil
  then show ?thesis by (simp add: initials_def no_initials_def)
next
  case (Cons w ws)
  then have "w \<in> set (word_fields is_ws (trim name))" by simp
  then have "w \<noteq> []" by (simp add: word_fields_def)
  moreover have "upper_char c \<noteq> []" for c by (simp add: upper_char_def Let_def)
  ultimately show ?thesis using Cons by (cases w) (auto simp: initials_def Let_def to_upper_def)
qed

subsection \<open>The mesh on the transparency page\<close>

lemma five_probes: "rr_okCount (measureRoundTrip base \<lparr>rt_samples = Some 5, rt_timeoutMs = t\<rparr> net) \<le> 4"
proof -
  let ?r = "measureRoundTrip base \<lparr>rt_samples = Some 5, rt_timeoutMs = t\<rparr> net"
  have five: "samples_count \<lparr>rt_samples = Some 5, rt_timeoutMs = t\<rparr> = 5" by (simp add: samples_count_def)
  have "rr_okCount ?r + rr_errorCount ?r = 5 - (if probeOnce (net 0) \<noteq> None then 1 else 0)"
    using round_trip_counts [of base "\<lparr>rt_samples = Some 5, rt_timeoutMs = t\<rparr>" net] by (simp add: five)
  moreover have "1 \<le> rr_errorCount ?r" if "probeOnce (net 0) = None"
    using that by (simp add: measure_fields five failed_def upt_rec)
  ultimately show ?thesis by (cases "probeOnce (net 0)") auto
qed

lemma snapshot_nth:
  "n < length (loadMeshSnapshot JSON_parse env nets probes) \<Longrightarrow>
   loadMeshSnapshot JSON_parse env nets probes ! n =
     grafo_entry_of (probes n) (fetchProviderHealth (snd (parseProviderRegistry JSON_parse (or_default env []) ! n))
       \<lparr>ho_timeoutMs = Some 2000, ho_peerId = Some (fst (parseProviderRegistry JSON_parse (or_default env []) ! n))\<rparr> (nets n))"
  by (simp add: loadMeshSnapshot_def Let_def fetchMeshHealth_nth)

lemma snapshot_length [simp]:
  "length (loadMeshSnapshot JSON_parse env nets probes) = length (parseProviderRegistry JSON_parse (or_default env []))"
  by (simp add: loadMeshSnapshot_def Let_def)

lemma reachable_base: "is_reachable h \<longleftrightarrow> health_reason h = None"
  by (cases h) simp_all

text \<open>
  The transparency page shows one line per registered provider, in the registry's order,
  for the provider's own base URL. A line carries measured round trips exactly when the
  provider's health check succeeded; they are measured against that base URL and rest on at most
  four samples (the page's text says five: the first of the five requests is never one). The
  figure above the lines counts the providers whose health check succeeded, out of all, and only
  an empty registry shows no figure.
\<close>

lemma trust_page:
  "let reg = parseProviderRegistry JSON_parse (or_default env []);
       mesh = loadMeshSnapshot JSON_parse env nets probes
   in length mesh = length reg \<and>
      list_all (\<lambda>n.
        let h = ge_health (mesh ! n); base = strip_slashes (snd (reg ! n)) in
        health_base h = base \<and>
        (case ge_latency (mesh ! n) of
           None \<Rightarrow> \<not> is_reachable h
         | Some r \<Rightarrow> is_reachable h \<and> r = measureRoundTrip base \<lparr>rt_samples = Some 5, rt_timeoutMs = Some 1500\<rparr> (probes n) \<and>
             rr_okCount r \<le> 4)) [0..<length reg] \<and>
      map_option fst (MeshGrafo url_host mesh) =
        (if reg = [] then None
         else Some (show_nat (length (filter (\<lambda>n. health_reason (fetchProviderHealth (snd (reg ! n))
             \<lparr>ho_timeoutMs = Some 2000, ho_peerId = Some (fst (reg ! n))\<rparr> (nets n)) = None) [0..<length reg])) @
           ''/'' @ show_nat (length reg)))"
proof -
  let ?reg = "parseProviderRegistry JSON_parse (or_default env [])"
  let ?mesh = "loadMeshSnapshot JSON_parse env nets probes"
  let ?h = "\<lambda>n. fetchProviderHealth (snd (?reg ! n)) \<lparr>ho_timeoutMs = Some 2000, ho_peerId = Some (fst (?reg ! n))\<rparr> (nets n)"
  have nth: "?mesh ! n = grafo_entry_of (probes n) (?h n)" if "n < length ?reg" for n
    using that by (simp add: snapshot_nth)
  have line: "health_base (ge_health (?mesh ! n)) = strip_slashes (snd (?reg ! n)) \<and>
      (case ge_latency (?mesh ! n) of
         None \<Rightarrow> \<not> is_reachable (ge_health (?mesh ! n))
       | Some r \<Rightarrow> is_reachable (ge_health (?mesh ! n)) \<and>
           r = measureRoundTrip (strip_slashes (snd (?reg ! n))) \<lparr>rt_samples = Some 5, rt_timeoutMs = Some 1500\<rparr> (probes n) \<and>
           rr_okCount r \<le> 4)" if "n < length ?reg" for n
    using health_base_fetch [of "snd (?reg ! n)" "\<lparr>ho_timeoutMs = Some 2000, ho_peerId = Some (fst (?reg ! n))\<rparr>" "nets n"]
    by (cases "?h n") (simp_all add: nth [OF that] grafo_entry_of_def five_probes)
  have mesh: "?mesh = map (\<lambda>n. grafo_entry_of (probes n) (?h n)) [0..<length ?reg]"
    by (rule nth_equalityI) (simp_all add: nth)
  have "length (filter (\<lambda>m. is_reachable (ge_health m)) ?mesh) =
      length (filter (\<lambda>n. health_reason (?h n) = None) [0..<length ?reg])"
    by (simp add: mesh filter_map comp_def grafo_entry_of_def reachable_base)
  moreover have "?mesh = [] \<longleftrightarrow> ?reg = []"
    using snapshot_length [of JSON_parse env nets probes] by (metis length_0_conv)
  ultimately show ?thesis
    using line by (simp add: Let_def list_all_iff MeshGrafo_def)
qed

subsection \<open>Identifiers shown to members\<close>

text \<open>
  The dashboard and the transparency page write out the chain of the test network: what they
  show is the DID of the session (and of the wallet page) exactly where the application does not
  run in production.
\<close>

lemma two_chains [simp]: "chain_id_mainnet = 8453" "chain_id_sepolia = 84532"
  by (simp_all add: chain_id_mainnet_def chain_id_sepolia_def)

lemma addressToDid_chain: "addressToDid a c = Inr x \<Longrightarrow> (addressToDid a d = Inr x) = (c = d)"
  by (auto simp: addressToDid_def show_nat_inj split: if_splits)

lemma shown_did:
  assumes "addressToDid (as_address s) (appChainId app_env) = Inr (as_did s)"
  shows "session_viewer s = Inr v \<Longrightarrow> (tv_did v = as_did s) = (app_env \<noteq> Some ''production'')"
    and "DashboardPage (Inr (Some s)) all = Shown (d, lives) \<Longrightarrow> (sv_did d = as_did s) = (app_env \<noteq> Some ''production'')"
    and "WalletPage viem app_env (Inr (Some s)) = Shown w \<Longrightarrow> wp_did w = as_did s"
  using assms
  by (auto simp: session_viewer_def DashboardPage_def WalletPage_def two_chains addressToDid_chain appChainId_def
      split: sum.splits if_splits)

end
