(* ===== verification/Entry.thy ===== *)
theory Entry
  imports AuthSession AppShell
begin

text \<open>
  The way in and out: the front page (\<open>app/page.tsx\<close>) and the page of a new live
  (\<open>app/live/new/page.tsx\<close>), the sign-in screen and the login and logout buttons
  (\<open>components/signin-screen.tsx\<close>, \<open>login-button.tsx\<close>, \<open>logout-button.tsx\<close>), the gate that holds
  the identity provider's hooks back until the component is mounted (\<open>client-only.tsx\<close>), the tree of
  providers (\<open>providers.tsx\<close>, \<open>packages/auth/src/client.tsx\<close>), the service worker
  (\<open>register-sw.tsx\<close>) and the stub of the pubsub tracker (\<open>lib/p2p/pubsub-tracker.ts\<close>). The
  identity provider (Privy) is outside: what its hooks report and when its callbacks fire are
  events.
\<close>

subsection \<open>Pages\<close>

datatype 'a entry_page = Go_To string | Render 'a | Throws js_error

definition LandingPage :: "aevia_session option result \<Rightarrow> string option \<Rightarrow> string option entry_page" where
  \<comment> \<open>of the session and \<open>searchParams.next\<close>; the sign-in screen is rendered with it\<close>
  "LandingPage session nxt =
     (case session of
        Inl e \<Rightarrow> Throws e
      | Inr (Some _) \<Rightarrow> Go_To (safeNextPath nxt ''/feed'')
      | Inr None \<Rightarrow> Render nxt)"

definition NewLivePage :: "aevia_session option result \<Rightarrow> (string \<times> string \<times> string) entry_page" where
  \<comment> \<open>the broadcaster's screen with name, address and DID\<close>
  "NewLivePage session =
     (case session of
        Inl e \<Rightarrow> Throws e
      | Inr None \<Rightarrow> Go_To ''/''
      | Inr (Some s) \<Rightarrow> Render (as_displayName s, as_address s, as_did s))"

subsection \<open>Mounting\<close>

definition ClientOnly :: "client_env \<Rightarrow> bool \<Rightarrow> 'a \<Rightarrow> 'a \<Rightarrow> 'a" where
  \<comment> \<open>\<open>mounted\<close> is set by the effect of the first render in a browser\<close>
  "ClientOnly env mounted children fallback =
     (if ce_devBypassAuth env then fallback else if mounted then children else fallback)"

record privy_config =
  pc_appId :: string
  pc_loginMethods :: "string list"
  pc_createOnLogin :: string
  pc_defaultChain :: viem_chain
  pc_supportedChains :: "viem_chain list"

definition AeviaPrivyProvider :: "viem_chains \<Rightarrow> string option \<Rightarrow> string \<Rightarrow> privy_config" where
  "AeviaPrivyProvider viem app_env appId =
     \<lparr>pc_appId = appId, pc_loginMethods = [''email'', ''google'', ''apple'', ''passkey''],
      pc_createOnLogin = ''all-users'', pc_defaultChain = defaultChain viem app_env,
      pc_supportedChains = [vc_base viem, vc_baseSepolia viem]\<rparr>"

datatype provider_tree = Upload_Provider | Privy_Provider privy_config provider_tree

definition Providers :: "viem_chains \<Rightarrow> string option \<Rightarrow> client_env \<Rightarrow> provider_tree" where
  "Providers viem app_env env =
     (if ce_devBypassAuth env then Upload_Provider
      else if \<not> truthy (ce_privyAppId env) then Upload_Provider
      else Privy_Provider (AeviaPrivyProvider viem app_env (the (ce_privyAppId env))) Upload_Provider)"

definition register_sw :: "bool \<Rightarrow> string option \<Rightarrow> (string \<times> string) option" where
  \<comment> \<open>the script and the scope it registers, of whether the browser has service workers\<close>
  "register_sw supported node_env =
     (if \<not> supported then None
      else if node_env \<noteq> Some ''production'' then None
      else Some (''/sw.js'', ''/''))"

subsection \<open>Signing in\<close>

datatype login_call = Login_With string | Login_All

record sign_in =
  sg_ready :: bool
  sg_authenticated :: bool
  sg_mounted :: bool
  sg_navigatedRef :: bool
  sg_calls :: "login_call list" \<comment> \<open>of Privy's \<open>login\<close>\<close>
  sg_replaced :: "string list" \<comment> \<open>\<open>window.location.replace\<close>\<close>
  sg_errors :: "json option list" \<comment> \<open>logged on the console\<close>

datatype sign_in_event =
    Mounted
  | Privy_Reports bool bool \<comment> \<open>ready, authenticated\<close>
  | Button_Pressed login_call
  | Login_Complete
  | Login_Error "json option"

definition sign_in_init :: sign_in where
  "sign_in_init =
     \<lparr>sg_ready = False, sg_authenticated = False, sg_mounted = False, sg_navigatedRef = False,
      sg_calls = [], sg_replaced = [], sg_errors = []\<rparr>"

definition login_disabled :: "sign_in \<Rightarrow> bool" where
  "login_disabled s = (\<not> sg_ready s \<or> sg_authenticated s)"

definition shown_disabled :: "client_env \<Rightarrow> sign_in \<Rightarrow> bool" where
  \<comment> \<open>of the buttons on screen: those of the fallback never work\<close>
  "shown_disabled env s = ClientOnly env (sg_mounted s) (login_disabled s) True"

definition onComplete :: "string option \<Rightarrow> sign_in \<Rightarrow> sign_in" where
  "onComplete nxt s =
     (if sg_navigatedRef s then s
      else s\<lparr>sg_navigatedRef := True, sg_replaced := sg_replaced s @ [safeNextPath nxt ''/dashboard'']\<rparr>)"

definition exited_auth_flow :: "json option \<Rightarrow> bool" where
  "exited_auth_flow err =
     (case err of
        Some (JStr m) \<Rightarrow> m = ''exited_auth_flow''
      | Some (JObj kvs) \<Rightarrow> map_of kvs ''message'' = Some (JStr ''exited_auth_flow'')
      | _ \<Rightarrow> False)"

definition login_onError :: "json option \<Rightarrow> sign_in \<Rightarrow> sign_in" where
  "login_onError err s = (if exited_auth_flow err then s else s\<lparr>sg_errors := sg_errors s @ [err]\<rparr>)"

fun sign_in_step :: "client_env \<Rightarrow> string option \<Rightarrow> sign_in_event \<Rightarrow> sign_in \<Rightarrow> sign_in" where
  "sign_in_step env nxt Mounted s = s\<lparr>sg_mounted := True\<rparr>"
| "sign_in_step env nxt (Privy_Reports r a) s = s\<lparr>sg_ready := r, sg_authenticated := a\<rparr>"
| "sign_in_step env nxt (Button_Pressed c) s =
     (if shown_disabled env s then s else s\<lparr>sg_calls := sg_calls s @ [c]\<rparr>)"
| "sign_in_step env nxt Login_Complete s = onComplete nxt s"
| "sign_in_step env nxt (Login_Error err) s = login_onError err s"

definition sign_in_run :: "client_env \<Rightarrow> string option \<Rightarrow> sign_in_event list \<Rightarrow> sign_in" where
  "sign_in_run env nxt es = fold (sign_in_step env nxt) es sign_in_init"

definition logout_onSuccess :: string where
  "logout_onSuccess = ''/''"

subsection \<open>The tracker that is not there yet\<close>

definition tryEnablePubsubTracker :: "string \<Rightarrow> string \<times> bool" where
  \<comment> \<open>the line it logs, and its answer\<close>
  "tryEnablePubsubTracker sessionId =
     (''[p2p:tracker] pubsub tracker deferred '' @ [em_dash] @ '' see pubsub-tracker.ts (session='' @ sessionId @ '')'',
      False)"

datatype pubsub_tracker_message =
    Pubsub_Announce string string "string list" nat \<comment> \<open>peer, info hash, segments, clock\<close>
  | Pubsub_Want string string string nat
  | Pubsub_Peer string string string string bool nat \<comment> \<open>to, from, info hash, SDP, whether an offer, clock\<close>

subsection \<open>Facts\<close>

lemma sign_in_snoc [simp]:
  "sign_in_run env nxt [] = sign_in_init"
  "sign_in_run env nxt (es @ [e]) = sign_in_step env nxt e (sign_in_run env nxt es)"
  by (simp_all add: sign_in_run_def)

lemma step_navigated:
  "sg_replaced s = (if sg_navigatedRef s then [safeNextPath nxt ''/dashboard''] else []) \<Longrightarrow>
   sg_replaced (sign_in_step env nxt e s) =
     (if sg_navigatedRef (sign_in_step env nxt e s) then [safeNextPath nxt ''/dashboard''] else []) \<and>
   sg_navigatedRef (sign_in_step env nxt e s) = (sg_navigatedRef s \<or> e = Login_Complete)"
  by (cases e) (auto simp: onComplete_def login_onError_def)

lemma run_navigated:
  "sg_replaced (sign_in_run env nxt es) =
     (if sg_navigatedRef (sign_in_run env nxt es) then [safeNextPath nxt ''/dashboard''] else []) \<and>
   sg_navigatedRef (sign_in_run env nxt es) = (Login_Complete \<in> set es)"
proof (induction es rule: rev_induct)
  case Nil
  then show ?case by (simp add: sign_in_init_def)
next
  case (snoc e es)
  with step_navigated [of "sign_in_run env nxt es" nxt env e] show ?case by auto
qed

text \<open>Nothing is asked of the identity provider before it is ready, once someone is signed in, or in the bypass.\<close>

lemma login_called_when_ready:
  "sg_calls (sign_in_run env nxt (es @ [e])) = sg_calls (sign_in_run env nxt es) \<or>
   (\<exists>c. e = Button_Pressed c \<and> sg_calls (sign_in_run env nxt (es @ [e])) = sg_calls (sign_in_run env nxt es) @ [c] \<and>
     sg_ready (sign_in_run env nxt es) \<and> \<not> sg_authenticated (sign_in_run env nxt es) \<and> \<not> ce_devBypassAuth env)"
  by (cases e) (auto simp: onComplete_def login_onError_def shown_disabled_def ClientOnly_def login_disabled_def
      split: if_splits)

subsection \<open>Property\<close>

text \<open>
  C39. Who is turned away from a protected page comes back to it. The gate turns away exactly the
  requests for a protected page that carry no Privy cookie, outside the bypass and the OAuth
  callback. It sends them to the front page, which without a session shows the sign-in screen;
  whatever happens there, the browser leaves for the page that was asked for when a login
  completes, and once only however often it does; and with a session the front page leads there
  at once.
\<close>

theorem sign_in_returns:
  "case middleware penv req of
     PassThrough \<Rightarrow>
       gate_bypass penv \<or> truthy (map_of (gr_searchParams req) ''privy_oauth_code'') \<or>
       is_protected (gr_pathname req) = False \<or> list_ex (\<lambda>name. truthy (gr_cookies req name)) privy_cookie_names
   | RedirectTo target params \<Rightarrow>
       (gate_bypass penv \<or> truthy (map_of (gr_searchParams req) ''privy_oauth_code'') \<or>
        list_ex (\<lambda>name. truthy (gr_cookies req name)) privy_cookie_names) = False \<and>
       is_protected (gr_pathname req) \<and> target = ''/'' \<and>
       (let nxt = map_of params ''next'' in
          LandingPage (Inr None) nxt = Render (Some (gr_pathname req)) \<and>
          LandingPage (Inr (Some s)) nxt = Go_To (gr_pathname req) \<and>
          sg_replaced (sign_in_run env nxt es) = (if Login_Complete \<in> set es then [gr_pathname req] else []))"
proof (cases "middleware penv req")
  case PassThrough
  then show ?thesis by (auto simp: middleware_def split: if_splits)
next
  case (RedirectTo target params)
  then have "target = ''/'' \<and> map_of params ''next'' = Some (gr_pathname req) \<and>
      safeNextPath (Some (gr_pathname req)) f = gr_pathname req" for f
    by (rule gate_target)
  moreover have "(gate_bypass penv \<or> truthy (map_of (gr_searchParams req) ''privy_oauth_code'') \<or>
        list_ex (\<lambda>name. truthy (gr_cookies req name)) privy_cookie_names) = False \<and> is_protected (gr_pathname req)"
    using RedirectTo by (auto simp: middleware_def split: if_splits)
  ultimately show ?thesis
    using run_navigated [of env "Some (gr_pathname req)" es] by (simp add: LandingPage_def RedirectTo)
qed

end
