(* ===== verification/PlayerView.thy ===== *)
theory PlayerView
  imports PlayerScreen MeshBoot Screens Entry
begin

text \<open>
  What the player draws from its state (\<open>apps/video/src/components/player-screen.tsx\<close>): whether the
  mesh component is mounted and with which properties, the chips and overlays of the frame, the
  line below it, the byline and the permanence receipt. The state is that of \<open>PlayerScreen\<close>; of the
  markup only what is shown and when.
\<close>

subsection \<open>The mesh component\<close>

definition mounted_boot :: "browser \<Rightarrow> player_props \<Rightarrow> player \<Rightarrow> boot_props option" where
  \<comment> \<open>the properties \<open>MeshBoot\<close> is rendered with\<close>
  "mounted_boot b p s =
     (if meshEnabled b p s \<and> truthy (pp_aeviaSessionId p) then
        (case pp_bootstraps p of
           None \<Rightarrow> None
         | Some bootstraps \<Rightarrow> Some
             \<lparr>bp_sessionId = the (pp_aeviaSessionId p), bp_bootstraps = bootstraps, bp_heartbeatIntervalMs = None\<rparr>)
      else None)"

definition boot_event_of :: "browser \<Rightarrow> player_props \<Rightarrow> player \<Rightarrow> boot_event" where
  \<comment> \<open>what a render that changes it means for the component\<close>
  "boot_event_of b p s = (case mounted_boot b p s of None \<Rightarrow> Unmounted | Some props \<Rightarrow> Effect props)"

definition pubsub_preview :: "browser \<Rightarrow> player_props \<Rightarrow> string option" where
  \<comment> \<open>the line logged for \<open>?tracker=pubsub\<close>; the answer is not used\<close>
  "pubsub_preview b p =
     (if use_chunk_relay b p \<and> query_is b ''tracker'' ''pubsub'' \<and> truthy (pp_aeviaSessionId p)
      then Some (fst (tryEnablePubsubTracker (the (pp_aeviaSessionId p)))) else None)"

subsection \<open>The frame\<close>

definition isLivePlaying :: "player \<Rightarrow> bool" where
  "isLivePlaying s = (pl_mode s = Live_Mode \<and> pl_liveStatus s = Live_Playing)"

definition isVodPlaying :: "player \<Rightarrow> bool" where
  "isVodPlaying s = (pl_mode s = Vod_Mode \<and> pl_vodStatus s = Vod_Playing)"

definition isIdleBuffering :: "player \<Rightarrow> bool" where
  "isIdleBuffering s =
     (pl_mode s = Live_Mode \<and> (pl_liveStatus s = Live_Idle \<or> pl_liveStatus s = Live_Connecting) \<or>
      pl_mode s = Vod_Mode \<and> (pl_vodStatus s = Vod_Idle \<or> pl_vodStatus s = Vod_Loading))"

definition drop_first :: "string \<Rightarrow> string \<Rightarrow> string" where
  \<comment> \<open>\<open>s.replace(p, '')\<close>, for a \<open>p\<close> that can only stand at the start\<close>
  "drop_first p s = (if starts_with p s then drop (length p) s else s)"

record player_frame =
  pf_liveChip :: "string option"
  pf_viewersChip :: bool
  pf_meshChip :: "string option"
  pf_relayChip :: "string option"
  pf_autoplayGate :: bool
  pf_idleOverlay :: bool

definition mesh_chip :: "nat \<times> nat \<Rightarrow> string" where
  "mesh_chip stats =
     ''p2p '' @ [middle_dot] @ '' '' @ show_nat (fst stats) @ '' conectado '' @ [middle_dot] @ '' '' @
     show_nat (snd stats) @ '' na sala''"

definition relay_chip :: "chunk_relay_stats \<Rightarrow> string" where
  "relay_chip c =
     show_int (round_half_up (ratio c * 100)) @ ''% via peers '' @ [middle_dot] @ '' '' @ show_nat (peerCount c) @ '' pares''"

definition PlayerFrame :: "string \<Rightarrow> (nat \<times> nat) option \<Rightarrow> player \<Rightarrow> player_frame" where
  \<comment> \<open>with the elapsed label and the mesh's figures, connected and in the topic\<close>
  "PlayerFrame elapsed meshStats s =
     \<lparr>pf_liveChip = (if isLivePlaying s
          then Some (''ao vivo '' @ [middle_dot] @ '' '' @ drop_first (began @ ago) elapsed) else None),
      pf_viewersChip = (isLivePlaying s \<or> isVodPlaying s),
      pf_meshChip = map_option mesh_chip meshStats,
      pf_relayChip = (case pl_chunkRelayStats s of
          None \<Rightarrow> None
        | Some c \<Rightarrow> if 0 < bytesFromPeers c + bytesFromHttp c then Some (relay_chip c) else None),
      pf_autoplayGate = pl_autoplayBlocked s,
      pf_idleOverlay = (isIdleBuffering s \<and> \<not> pl_autoplayBlocked s)\<rparr>"

subsection \<open>The line below\<close>

datatype status_row =
    Opening_Replay
  | Replay_Pending "string option"
  | Live_Failed string
  | Vod_Failed string
  | Still_Processing "string option"
  | No_Recording

definition poll_note :: "string \<Rightarrow> int option \<Rightarrow> string option" where
  \<comment> \<open>the countdown, or what is said once it is over\<close>
  "poll_note given_up pollRemaining =
     (case pollRemaining of
        None \<Rightarrow> None
      | Some n \<Rightarrow>
          if 0 < n then Some (''pr'' @ [CHR 0xF3] @ ''xima checagem em '' @ [at_most_sign] @ '' 5 s '' @ [middle_dot] @
            '' '' @ show_int n @ '' restantes'')
          else if n = 0 then Some given_up
          else None)"

definition PlaybackStatusRow :: "player_props \<Rightarrow> int option \<Rightarrow> player \<Rightarrow> status_row option" where
  "PlaybackStatusRow p pollRemaining s =
     (let live = (pl_mode s = Live_Mode); hls = truthy (pp_hlsUrl p);
          processing = or_default (pp_vodProcessing p) False;
          reload = '' '' @ [em_dash] @ '' recarregue em alguns minutos''
      in if isLivePlaying s \<or> isVodPlaying s then None
         else if live \<and> pl_liveStatus s = Live_Ended \<and> hls then Some Opening_Replay
         else if live \<and> pl_liveStatus s = Live_Ended \<and> \<not> hls
           then Some (Replay_Pending (poll_note (''replay ainda n'' @ [CHR 0xE3] @ ''o dispon'' @ [CHR 0xED] @ ''vel'' @ reload) pollRemaining))
         else if live \<and> truthy (pl_liveError s) then Some (Live_Failed (the (pl_liveError s)))
         else if \<not> live \<and> truthy (pl_vodError s) then Some (Vod_Failed (the (pl_vodError s)))
         else if \<not> live \<and> \<not> hls \<and> processing
           then Some (Still_Processing (poll_note (''ainda processando'' @ reload) pollRemaining))
         else if \<not> live \<and> \<not> hls \<and> \<not> processing then Some No_Recording
         else None)"

definition retry_offered :: "player_props \<Rightarrow> int option \<Rightarrow> player \<Rightarrow> bool" where
  "retry_offered p pollRemaining s =
     (case PlaybackStatusRow p pollRemaining s of Some (Live_Failed _) \<Rightarrow> True | _ \<Rightarrow> False)"

subsection \<open>Byline and permanence\<close>

definition creatorHref :: "string option \<Rightarrow> string" where
  "creatorHref creatorAddress =
     (if truthy creatorAddress then ''/creator/'' @ the creatorAddress else ''/discover'')"

definition byline_time :: "bool \<Rightarrow> string \<Rightarrow> string" where
  "byline_time isLive elapsed = (if isLive then elapsed else ''replay'')"

record permanence =
  pm_layers :: "string list"
  pm_label :: string
  pm_manifest :: "(string \<times> jsnum \<times> string) option" \<comment> \<open>CID, block and explorer address, if anchored\<close>

definition PermanenceBlock ::
  "viem_chains \<Rightarrow> string option \<Rightarrow> bool \<Rightarrow> string option \<Rightarrow> jsnum option \<Rightarrow> string option \<Rightarrow> permanence" where
  "PermanenceBlock viem app_env isLive manifestCid registerBlock registerTxHash =
     \<lparr>pm_layers = (if isLive then [''providers'', ''edge''] else [''edge'']),
      pm_label = (if isLive then ''edge + provider nodes'' else ''edge gateway (hls)''),
      pm_manifest =
        (if truthy manifestCid \<and> truthy_json (map_option JNum registerBlock) \<and> truthy registerTxHash
         then Some (take 18 (the manifestCid) @ [ellipsis], the registerBlock,
           explorerTxUrl viem app_env (the registerTxHash))
         else None)\<rparr>"

definition player_permanence ::
  "viem_chains \<Rightarrow> string option \<Rightarrow> string option \<Rightarrow> jsnum option \<Rightarrow> string option \<Rightarrow> player \<Rightarrow> permanence" where
  "player_permanence viem app_env manifestCid registerBlock registerTxHash s =
     PermanenceBlock viem app_env (isLivePlaying s \<or> isVodPlaying s) manifestCid registerBlock registerTxHash"

subsection \<open>Facts\<close>

text \<open>The node is only ever asked to start with a session and with addresses to dial, and, mounted
  in live mode only, is stopped when the viewer goes on to the recording.\<close>

lemma mounted_boot_valid:
  "mounted_boot b p s = Some props \<Longrightarrow>
     pl_mode s = Live_Mode \<and> bp_sessionId props \<noteq> [] \<and> bp_bootstraps props \<noteq> [] \<and>
     initMesh (boot_options props) (Inr peer) dial now \<noteq> Inl e"
  by (auto simp: mounted_boot_def meshEnabled_def truthy_iff boot_options_def initMesh_def Let_def
      split: if_splits option.splits)

text \<open>
  What the player shows of its state fits together: a playing picture has no line below it and no
  overlay of waiting; the two overlays exclude each other; and the retry button appears exactly
  for a live that failed with a message.
\<close>

lemma player_view_consistent:
  "let f = PlayerFrame elapsed mesh s; row = PlaybackStatusRow p n s in
     (pf_viewersChip f = (isLivePlaying s \<or> isVodPlaying s)) \<and>
     (if pf_viewersChip f then row = None \<and> \<not> pf_idleOverlay f else pf_liveChip f = None) \<and>
     \<not> (pf_autoplayGate f \<and> pf_idleOverlay f) \<and>
     retry_offered p n s = (pl_mode s = Live_Mode \<and> pl_liveStatus s \<notin> {Live_Playing, Live_Ended} \<and> truthy (pl_liveError s))"
  by (cases "pl_mode s"; cases "pl_liveStatus s"; cases "pl_vodStatus s")
    (simp_all add: PlayerFrame_def PlaybackStatusRow_def retry_offered_def isLivePlaying_def isVodPlaying_def
      isIdleBuffering_def Let_def)

text \<open>When every provider has been tried in vain, the viewer reads how many there were and may try again.\<close>

lemma all_failed_shown:
  assumes "pl_mode s = Live_Mode"
  shows "PlaybackStatusRow p n (onStateChange FailedAll cx s) = Some (Live_Failed (none_served (cx_totalAttempts cx)))"
  using assms by (simp add: PlaybackStatusRow_def live_fails_def isLivePlaying_def isVodPlaying_def none_served_def Let_def)

text \<open>
  The receipt is told that the picture is live whenever anything plays: a recording that plays
  claims the layers of a live, and \<open>edge gateway (hls)\<close> is only read while nothing plays.
\<close>

lemma recording_claims_providers:
  "isVodPlaying s \<Longrightarrow> pm_label (player_permanence viem app_env cid blk hash s) = ''edge + provider nodes''"
  by (simp add: player_permanence_def PermanenceBlock_def)

end
