(* ===== verification/Widgets.thy ===== *)
theory Widgets
  imports Screens
begin

text \<open>
  The shared widgets of \<open>packages/ui/src/components\<close> and the mobile menu of the protocol site
  (\<open>apps/network/src/components/mobile-menu.tsx\<close>): what they count, abbreviate and light up, and the
  lock the open menu puts on the scrolling of the page. Classes and icons are left out.
\<close>

subsection \<open>Abbreviated counts\<close>

definition drop_zero :: "string \<Rightarrow> string" where
  \<comment> \<open>\<open>s.replace(/\.0$/, '')\<close>\<close>
  "drop_zero s = (if slice_end 2 s = ''.0'' then take (length s - 2) s else s)"

definition thousands :: "nat \<Rightarrow> string" where
  "thousands n = drop_zero (to_fixed 1 (of_nat n / 1000)) @ ''k''"

definition formatViewers :: "nat \<Rightarrow> string" where
  \<comment> \<open>\<open>formatCount\<close> of the reaction strip is the same function\<close>
  "formatViewers n =
     (if 1000000 \<le> n then drop_zero (to_fixed 1 (of_nat n / 1000000)) @ ''m''
      else if 1000 \<le> n then thousands n
      else show_nat n)"

definition boostCount :: "nat \<Rightarrow> string" where
  \<comment> \<open>of the floating button, which stops at thousands\<close>
  "boostCount n = (if 1000 \<le> n then thousands n else show_nat n)"

subsection \<open>The tile of a live\<close>

record live_tile =
  lt_thumbnail :: "string option"
  lt_border :: bool
  lt_liveChip :: bool
  lt_duration :: "string option"
  lt_viewers :: "string option"
  lt_href :: "string option"

definition LiveTile :: "string option \<Rightarrow> bool \<Rightarrow> string option \<Rightarrow> nat option \<Rightarrow> string option \<Rightarrow> live_tile" where
  "LiveTile thumbnailUrl live duration viewers href =
     \<lparr>lt_thumbnail = (if truthy thumbnailUrl then thumbnailUrl else None), lt_border = live, lt_liveChip = live,
      lt_duration = (if \<not> live \<and> truthy duration then duration else None),
      lt_viewers = (if live then map_option (\<lambda>n. formatViewers n @ '' assistindo'') viewers else None),
      lt_href = (if truthy href then href else None)\<rparr>"

subsection \<open>Presence\<close>

record presence_viewer =
  pv_id :: string
  pv_avatarUrl :: "string option"
  pv_name :: string

datatype avatar = Picture string | Letters string

definition avatar_of :: "presence_viewer \<Rightarrow> avatar" where
  \<comment> \<open>the initials are those of the player\<close>
  "avatar_of v = (if truthy (pv_avatarUrl v) then Picture (the (pv_avatarUrl v)) else Letters (initials (pv_name v)))"

definition PresenceRow ::
  "presence_viewer list \<Rightarrow> nat option \<Rightarrow> nat option \<Rightarrow> (avatar list \<times> nat option) option" where
  \<comment> \<open>the avatars, and the figure of the overflow chip if there is one\<close>
  "PresenceRow viewers maxVisible0 totalCount =
     (if length viewers = 0 then None
      else
        let maxVisible = or_default maxVisible0 5;
            effectiveTotal = or_default totalCount (length viewers);
            remaining = effectiveTotal - maxVisible
        in Some (map avatar_of (take maxVisible viewers), if 0 < remaining then Some remaining else None))"

subsection \<open>Layers and reactions\<close>

datatype permanence_layer = Mesh_Layer | Providers_Layer | Edge_Layer | Cold_Layer

text \<open>The layers of the waterfall are ordered, from the peers outwards.\<close>

fun layer_depth :: "permanence_layer \<Rightarrow> nat" where
  "layer_depth Mesh_Layer = 0"
| "layer_depth Providers_Layer = 1"
| "layer_depth Edge_Layer = 2"
| "layer_depth Cold_Layer = 3"

instantiation permanence_layer :: linorder
begin

definition less_eq_permanence_layer :: "permanence_layer \<Rightarrow> permanence_layer \<Rightarrow> bool" where
  "less_eq_permanence_layer a b = (layer_depth a \<le> layer_depth b)"

definition less_permanence_layer :: "permanence_layer \<Rightarrow> permanence_layer \<Rightarrow> bool" where
  "less_permanence_layer a b = (layer_depth a < layer_depth b)"

instance
proof
  fix a b :: permanence_layer
  assume "a \<le> b" "b \<le> a"
  then show "a = b" by (cases a; cases b) (simp_all add: less_eq_permanence_layer_def)
qed (auto simp: less_eq_permanence_layer_def less_permanence_layer_def)

end

definition layer_order :: "permanence_layer list" where
  "layer_order = [Mesh_Layer, Providers_Layer, Edge_Layer, Cold_Layer]"

fun layer_color :: "permanence_layer \<Rightarrow> string" where
  "layer_color Mesh_Layer = ''#A8C3B5''"
| "layer_color Providers_Layer = ''#3F6B5C''"
| "layer_color Edge_Layer = ''rgba(243, 238, 228, 0.4)''"
| "layer_color Cold_Layer = ''#E8B86D''"

fun layer_dim :: "permanence_layer \<Rightarrow> string" where
  "layer_dim Mesh_Layer = ''rgba(168, 195, 181, 0.15)''"
| "layer_dim Providers_Layer = ''rgba(63, 107, 92, 0.15)''"
| "layer_dim Edge_Layer = ''rgba(243, 238, 228, 0.08)''"
| "layer_dim Cold_Layer = ''rgba(232, 184, 109, 0.15)''"

definition PermanenceStrip :: "permanence_layer list \<Rightarrow> string list" where
  "PermanenceStrip layers = map (\<lambda>l. if l \<in> set layers then layer_color l else layer_dim l) layer_order"

datatype reaction_kind = Boost | Salvar | Compartilhar

definition reaction_order :: "reaction_kind list" where
  "reaction_order = [Boost, Salvar, Compartilhar]"

definition ReactionStrip ::
  "reaction_kind list \<Rightarrow> (reaction_kind \<Rightarrow> nat option) \<Rightarrow> (reaction_kind \<times> bool \<times> string option) list" where
  \<comment> \<open>kind, pressed, count\<close>
  "ReactionStrip active counts =
     map (\<lambda>k. (k, k \<in> set active,
       case counts k of None \<Rightarrow> None | Some n \<Rightarrow> if 0 < n then Some (formatViewers n) else None)) reaction_order"

datatype ranking_template = Comunidade | Padrao | Foco

definition RankingSwitcher :: "ranking_template \<Rightarrow> (ranking_template \<times> bool) list" where
  "RankingSwitcher selected = map (\<lambda>k. (k, k = selected)) [Comunidade, Padrao, Foco]"

subsection \<open>The mobile menu\<close>

record mobile_menu =
  mm_open :: bool
  mm_saved :: "string option" \<comment> \<open>\<open>previousOverflow\<close>, while the effect of the open menu is on\<close>
  mm_overflow :: string \<comment> \<open>\<open>document.body.style.overflow\<close>\<close>

datatype menu_event = Menu_Opened | Menu_Closed | Key_Pressed string | Menu_Unmounted

definition menu_cleanup :: "mobile_menu \<Rightarrow> mobile_menu" where
  "menu_cleanup m =
     (case mm_saved m of None \<Rightarrow> m | Some previousOverflow \<Rightarrow> m\<lparr>mm_overflow := previousOverflow, mm_saved := None\<rparr>)"

definition set_open :: "bool \<Rightarrow> mobile_menu \<Rightarrow> mobile_menu" where
  \<comment> \<open>the effect runs again when \<open>open\<close> changes\<close>
  "set_open b m =
     (if b = mm_open m then m
      else
        let m1 = menu_cleanup (m\<lparr>mm_open := b\<rparr>)
        in if b then m1\<lparr>mm_saved := Some (mm_overflow m1), mm_overflow := ''hidden''\<rparr> else m1)"

fun menu_step :: "menu_event \<Rightarrow> mobile_menu \<Rightarrow> mobile_menu" where
  "menu_step Menu_Opened m = set_open True m"
| "menu_step Menu_Closed m = set_open False m"
| "menu_step (Key_Pressed k) m = (if mm_saved m \<noteq> None \<and> k = ''Escape'' then set_open False m else m)"
| "menu_step Menu_Unmounted m = (menu_cleanup m)\<lparr>mm_open := False\<rparr>"

definition menu_run :: "string \<Rightarrow> menu_event list \<Rightarrow> mobile_menu" where
  "menu_run overflow es = fold menu_step es \<lparr>mm_open = False, mm_saved = None, mm_overflow = overflow\<rparr>"

subsection \<open>Facts\<close>

text \<open>Whatever is pressed, a closed menu leaves the page scrolling as it was, and an open one locks it.\<close>

lemma menu_step_lock:
  assumes "mm_saved m = (if mm_open m then Some overflow else None) \<and> mm_overflow m = (if mm_open m then ''hidden'' else overflow)"
  shows "mm_saved (menu_step e m) = (if mm_open (menu_step e m) then Some overflow else None) \<and>
    mm_overflow (menu_step e m) = (if mm_open (menu_step e m) then ''hidden'' else overflow)"
  using assms by (cases e) (auto simp: set_open_def menu_cleanup_def Let_def split: if_splits option.splits)

lemma menu_locks_scroll:
  "mm_saved (menu_run overflow es) = (if mm_open (menu_run overflow es) then Some overflow else None) \<and>
   mm_overflow (menu_run overflow es) = (if mm_open (menu_run overflow es) then ''hidden'' else overflow)"
proof (induction es rule: rev_induct)
  case Nil
  then show ?case by (simp add: menu_run_def)
next
  case (snoc e es)
  then show ?case using menu_step_lock [of "menu_run overflow es" overflow e] by (simp add: menu_run_def)
qed

text \<open>
  Counts are abbreviated to a tenth of their unit, but rounding does not carry into the next
  unit: the last fifty counts below a million are shown as \<open>1000k\<close>.
\<close>

lemma thousands_carry:
  assumes "999950 \<le> n" "n < 1000000"
  shows "formatViewers n = ''1000k''"
proof -
  have "fixed_units 1 (of_nat n / 1000) = 10000"
  proof -
    have "\<lfloor>(of_nat n / 1000 :: real) * 10 + 1 / 2\<rfloor> = 10000"
      using assms by (intro floor_unique) (auto simp: field_simps)
    then show ?thesis by (simp add: fixed_units_def)
  qed
  moreover have "show_nat 10000 = ''10000''"
    by (simp add: show_nat.simps [of 10000] show_nat.simps [of 1000] show_nat.simps [of 100] show_nat.simps [of 10]
        show_nat.simps [of "Suc 0"] show_nat.simps [of 0])
  ultimately have "to_fixed 1 (of_nat n / 1000) = ''1000.0''" by (simp add: to_fixed_def Let_def pad_start_def)
  with assms show ?thesis by (simp add: formatViewers_def thousands_def drop_zero_def slice_end_def)
qed

text \<open>The chip counts what lies beyond \<open>maxVisible\<close>: with fewer avatars than that it leaves some out.\<close>

lemma presence_adds_up:
  assumes "PresenceRow viewers (Some m) (Some t) = Some (avatars, chip)" "length viewers \<le> t"
  shows "length avatars + or_default chip 0 = (if m \<le> t then t - (m - min m (length viewers)) else length viewers)"
  using assms by (auto simp: PresenceRow_def Let_def split: if_splits)

lemma player_presence_short:
  "\<exists>avatars. length avatars = 4 \<and>
     PresenceRow (map (\<lambda>n. \<lparr>pv_id = show_nat n, pv_avatarUrl = None, pv_name = ''x''\<rparr>) [1, 2, 3, 4]) None (Some 22) =
       Some (avatars, Some 17)"
  by (simp add: PresenceRow_def Let_def)

text \<open>
  Each layer has its segment, in the order of the waterfall, and a segment is lit exactly for the
  layers given, however often and in whatever order they are given.
\<close>

lemma layer_order_sorted: "sorted layer_order \<and> distinct layer_order \<and> set layer_order = UNIV"
proof -
  have "l \<in> set layer_order" for l by (cases l) (simp_all add: layer_order_def)
  then show ?thesis by (auto simp: layer_order_def less_eq_permanence_layer_def)
qed

lemma strip_set: "set layers = set layers' \<Longrightarrow> PermanenceStrip layers = PermanenceStrip layers'"
  by (simp add: PermanenceStrip_def)

lemma one_ranking_pressed: "map fst (filter snd (RankingSwitcher t)) = [t]"
  by (cases t) (simp_all add: RankingSwitcher_def)

end
