(* ===== verification/RowPanel.thy ===== *)
theory RowPanel
  imports RegisterFlow LivePages Widgets
begin

text \<open>
  The row of a live on the dashboard (\<open>apps/video/src/app/dashboard/live-row.tsx\<close>) as the creator
  uses it: renaming, the OBS panel, deleting after a confirmation and the two registration buttons,
  over the server actions (theory LivePages) and the registration flows (theory RegisterFlow). What
  the row shows is a view; an event can happen when the view offers it. The properties of the live
  come from the page, which may draw the row again with others at any time, so every event carries
  the ones on display. The format of dates is a parameter. A handler runs to its end before the next
  event: while one runs, the row shows its step and no button of the other.
\<close>

subsection \<open>State and view\<close>

record 'w row_panel =
  rp_editing :: bool
  rp_obsOpen :: bool
  rp_draft :: string
  rp_ui :: "'w row_ui"

definition register_row_of :: "live_row \<Rightarrow> register_row" where
  "register_row_of live =
     \<lparr>rx_uid = lr_uid live, rx_recordingVideoUid = lr_recordingVideoUid live, rx_manifestCid = lr_manifestCid live,
      rx_registerTxHash = lr_registerTxHash live, rx_registerBlock = lr_registerBlock live\<rparr>"

definition row_init :: "live_row \<Rightarrow> 'w \<Rightarrow> 'w row_panel" where
  "row_init live w =
     \<lparr>rp_editing = False, rp_obsOpen = False, rp_draft = lr_name live,
      rp_ui = \<lparr>ru_state = register_init (register_row_of live), ru_sponsorship = Sponsor_Available,
        ru_refreshes = 0, ru_world = w\<rparr>\<rparr>"

datatype anchor_chip =
    No_Chip
  | Anchored "json option" "json option" \<comment> \<open>block and transaction hash\<close>
  | Working string
  | Failed_Chip string

definition dots :: "string \<Rightarrow> string" where
  "dots s = s @ [ellipsis]"

fun step_text :: "register_step \<Rightarrow> string" where
  "step_text Step_Nonce = dots ''lendo nonce on-chain''"
| "step_text Step_Sign = dots ''assinando manifesto eip-712''"
| "step_text Step_Send = dots (''enviando transa'' @ [CHR 0xE7, CHR 0xE3] @ ''o'')"
| "step_text Step_Confirm = dots (''aguardando confirma'' @ [CHR 0xE7, CHR 0xE3] @ ''o'')"
| "step_text Step_Persist = dots ''gravando meta''"

fun hash_text :: "json option \<Rightarrow> json option" where
  \<comment> \<open>\<open>shortAddress(txHash, 6, 4)\<close>, which returns what does not look like an address\<close>
  "hash_text (Some (JStr h)) = Some (JStr (shortAddress h 6 4))"
| "hash_text v = v"

fun chip_of :: "register_state \<Rightarrow> anchor_chip" where
  "chip_of Reg_Idle = No_Chip"
| "chip_of (Reg_Running st) = Working (step_text st)"
| "chip_of (Reg_Success b h) = Anchored b (hash_text h)"
| "chip_of (Reg_Error m) = Failed_Chip m"

datatype title_block = Title_Form string | Title_Text string

record row_view =
  rw_href :: string
  rw_thumb :: "string option"
  rw_live :: bool
  rw_title :: title_block
  rw_strip :: "string list"
  rw_meta :: string
  rw_obs :: "string option" \<comment> \<open>the live input of the OBS panel\<close>
  rw_chip :: anchor_chip
  rw_free :: "bool option" \<comment> \<open>the sponsored button, when there, and whether it is disabled\<close>
  rw_pay :: "(bool \<times> string) option" \<comment> \<open>the other button: disabled, title\<close>

definition own_gas :: string where
  "own_gas = ''registre pagando o pr'' @ [CHR 0xF3] @ ''prio g'' @ [CHR 0xE1] @ ''s''"

definition pay_title :: "sponsorship \<Rightarrow> string" where
  "pay_title sp =
     (case sp of
        Sponsor_Exhausted _ _ \<Rightarrow> ''patroc'' @ [CHR 0xED] @ ''nio esgotado '' @ [em_dash] @ '' '' @ own_gas
      | Sponsor_Available \<Rightarrow> own_gas)"

definition LiveRow ::
  "client_env \<Rightarrow> (string \<Rightarrow> string) \<Rightarrow> bool \<Rightarrow> live_row \<Rightarrow> 'w row_panel \<Rightarrow> row_view" where
  \<comment> \<open>with the date format and whether the wallets are ready\<close>
  "LiveRow env formatDateTime walletsReady live s =
     (let isLive = (lr_state live = ''connected''); ui = rp_ui s;
          can = canRegister (register_row_of live) (ru_state ui)
      in \<lparr>rw_href = ''/live/'' @ lr_uid live,
          rw_thumb = streamThumbnailUrl env (lr_recordingVideoUid live) (Some 240) None,
          rw_live = isLive,
          rw_title =
            (if rp_editing s then Title_Form (rp_draft s)
             else Title_Text (if lr_name live \<noteq> [] then lr_name live else untitled)),
          rw_strip = PermanenceStrip (if isLive then [Providers_Layer, Edge_Layer] else [Edge_Layer]),
          rw_meta = formatDateTime (lr_created live) @ '' '' @ [CHR 0xB7] @ '' '' @ take 8 (lr_uid live),
          rw_obs = (if rp_obsOpen s then Some (lr_uid live) else None),
          rw_chip = chip_of (ru_state ui),
          rw_free = (if can \<and> ru_sponsorship ui = Sponsor_Available then Some (\<not> walletsReady) else None),
          rw_pay = (if can then Some (\<not> walletsReady, pay_title (ru_sponsorship ui)) else None)\<rparr>)"

subsection \<open>Events\<close>

datatype row_event =
    Pencil
  | Typed string
  | Save
  | Cancel_Edit
  | Toggle_Obs
  | Delete_Pressed bool \<comment> \<open>the answer to \<open>window.confirm\<close>\<close>
  | Register_Free
  | Register_Paid

definition on_ui :: "('w row_ui, 'a) io \<Rightarrow> ('w row_panel, 'a) io" where
  "on_ui m = (\<lambda>s. case m (rp_ui s) of (r, u) \<Rightarrow> (r, s\<lparr>rp_ui := u\<rparr>))"

definition rename_form :: "live_row \<Rightarrow> string \<Rightarrow> (string \<times> string) list" where
  "rename_form live draft = [(''name'', draft), (''uid'', lr_uid live)]"

definition saveDraft ::
  "'w server \<Rightarrow> (string \<Rightarrow> ('w, unit) io) \<Rightarrow> aevia_session option result \<Rightarrow> live_row \<Rightarrow> ('w row_panel, unit) io" where
  \<comment> \<open>\<open>void renameLiveAction(formData)\<close>: nobody looks at how the action ends\<close>
  "saveDraft sv revalidatePath session live = (\<lambda>s.
     (Inr (), (snd (on_ui (beyond (renameLiveAction sv revalidatePath session (rename_form live (rp_draft s)))) s))
        \<lparr>rp_editing := False\<rparr>))"

definition confirmAndDelete ::
  "'w server \<Rightarrow> (string \<Rightarrow> ('w, unit) io) \<Rightarrow> aevia_session option result \<Rightarrow> live_row \<Rightarrow> bool \<Rightarrow> ('w row_panel, unit) io" where
  "confirmAndDelete sv revalidatePath session live ok =
     (if \<not> ok then io_return ()
      else on_ui (beyond (deleteLiveAction sv revalidatePath session [(''uid'', lr_uid live)])))"

definition typeable :: "string \<Rightarrow> string \<Rightarrow> bool" where
  \<comment> \<open>\<open>maxLength={120}\<close>: typing never makes a text longer than that, unless it shortens one that is\<close>
  "typeable old new = (length new \<le> 120 \<or> length new \<le> length old)"

record 'w row_env =
  re_server :: "'w server"
  re_revalidate :: "string \<Rightarrow> ('w, unit) io"
  re_session :: "aevia_session option result" \<comment> \<open>of the requests the row makes\<close>
  re_register :: "'w register_env"
  re_client :: client_env
  re_date :: "string \<Rightarrow> string"

definition row_offers :: "'w row_env \<Rightarrow> live_row \<Rightarrow> row_event \<Rightarrow> 'w row_panel \<Rightarrow> bool" where
  \<comment> \<open>the control is there and not disabled\<close>
  "row_offers E live ev s =
     (let v = LiveRow (re_client E) (re_date E) (rv_walletsReady (re_register E)) live s in
      case ev of
        Pencil \<Rightarrow> (case rw_title v of Title_Text _ \<Rightarrow> True | _ \<Rightarrow> False)
      | Typed t \<Rightarrow> (case rw_title v of Title_Form d \<Rightarrow> typeable d t | _ \<Rightarrow> False)
      | Save \<Rightarrow> (case rw_title v of Title_Form _ \<Rightarrow> True | _ \<Rightarrow> False)
      | Cancel_Edit \<Rightarrow> (case rw_title v of Title_Form _ \<Rightarrow> True | _ \<Rightarrow> False)
      | Toggle_Obs \<Rightarrow> True
      | Delete_Pressed _ \<Rightarrow> True
      | Register_Free \<Rightarrow> rw_free v = Some False
      | Register_Paid \<Rightarrow> (case rw_pay v of Some (disabled, _) \<Rightarrow> \<not> disabled | None \<Rightarrow> False))"

fun row_do :: "'w row_env \<Rightarrow> live_row \<Rightarrow> row_event \<Rightarrow> ('w row_panel, unit) io" where
  "row_do E live Pencil s = (Inr (), s\<lparr>rp_editing := True\<rparr>)"
| "row_do E live (Typed t) s = (Inr (), s\<lparr>rp_draft := t\<rparr>)"
| "row_do E live Save s = saveDraft (re_server E) (re_revalidate E) (re_session E) live s"
| "row_do E live Cancel_Edit s = (Inr (), s\<lparr>rp_draft := lr_name live, rp_editing := False\<rparr>)"
| "row_do E live Toggle_Obs s = (Inr (), s\<lparr>rp_obsOpen := \<not> rp_obsOpen s\<rparr>)"
| "row_do E live (Delete_Pressed ok) s = confirmAndDelete (re_server E) (re_revalidate E) (re_session E) live ok s"
| "row_do E live Register_Free s = on_ui (handleRegisterSponsored (re_register E) (register_row_of live)) s"
| "row_do E live Register_Paid s = on_ui (handleRegister (re_register E) (register_row_of live)) s"

text \<open>
  The states of a row from when it is mounted, on a page that may hand it other properties before
  every event, with an outside world and a browser that change on their own.
\<close>

inductive row_reach :: "'w row_panel \<Rightarrow> bool" where
  mounted: "row_reach (row_init live w)"
| event: "row_reach s \<Longrightarrow> row_offers E live ev s \<Longrightarrow> row_reach (snd (row_do E live ev s))"
| elsewhere: "row_reach s \<Longrightarrow> row_reach (s\<lparr>rp_ui := (rp_ui s)\<lparr>ru_world := w\<rparr>\<rparr>)"


subsection \<open>What the creator can do\<close>

lemmas row_defs = LiveRow_def row_offers_def on_ui_def saveDraft_def confirmAndDelete_def beyond_def

lemma offers_register:
  "row_offers E live Register_Free s \<longleftrightarrow>
     canRegister (register_row_of live) (ru_state (rp_ui s)) \<and> ru_sponsorship (rp_ui s) = Sponsor_Available \<and>
     rv_walletsReady (re_register E)"
  "row_offers E live Register_Paid s \<longleftrightarrow>
     canRegister (register_row_of live) (ru_state (rp_ui s)) \<and> rv_walletsReady (re_register E)"
  by (auto simp: row_defs Let_def)

lemma offers_editing:
  "row_offers E live Pencil s = (\<not> rp_editing s)"
  "row_offers E live (Typed t) s = (rp_editing s \<and> typeable (rp_draft s) t)"
  "row_offers E live Save s = rp_editing s"
  "row_offers E live Cancel_Edit s = rp_editing s"
  by (auto simp: row_defs Let_def)

definition row_settled :: "'w row_ui \<Rightarrow> bool" where
  \<comment> \<open>nothing is running, and the page was refreshed at most once, for a success that stays\<close>
  "row_settled u =
     (case ru_state u of
        Reg_Running _ \<Rightarrow> False
      | Reg_Success _ _ \<Rightarrow> ru_refreshes u \<le> 1
      | _ \<Rightarrow> ru_refreshes u = 0)"

lemma row_settled_world [simp]: "row_settled (u\<lparr>ru_world := w\<rparr>) = row_settled u"
  by (simp add: row_settled_def split: register_state.splits)

lemma settled_row:
  assumes "settled u v" "row_settled u" "canRegister live (ru_state u)"
  shows "row_settled v"
  using assms by (auto simp: settled_def row_settled_def canRegister_def split: register_state.splits)

lemma row_do_settled:
  assumes "row_settled (rp_ui s)" "row_offers E live ev s"
  shows "row_settled (rp_ui (snd (row_do E live ev s)))"
proof (cases ev)
  case Register_Free
  with assms have "row_settled (snd (handleRegisterSponsored (re_register E) (register_row_of live) (rp_ui s)))"
    using handler_outcome(2) settled_row by (metis offers_register(1))
  with Register_Free show ?thesis by (auto simp: on_ui_def split: prod.splits)
next
  case Register_Paid
  with assms have "row_settled (snd (handleRegister (re_register E) (register_row_of live) (rp_ui s)))"
    using handler_outcome(1) settled_row by (metis offers_register(2))
  with Register_Paid show ?thesis by (auto simp: on_ui_def split: prod.splits)
qed (use assms(1) in \<open>simp_all add: row_defs io_return_def split: prod.splits\<close>)

lemma row_reach_settled: "row_reach s \<Longrightarrow> row_settled (rp_ui s)"
proof (induction rule: row_reach.induct)
  case (mounted live w)
  show ?case by (simp add: row_init_def row_settled_def register_init_def)
qed (simp_all add: row_do_settled)

lemma row_world:
  assumes "ru_world (rp_ui (snd (row_do E live ev s))) \<noteq> ru_world (rp_ui s)"
  shows "ev \<in> {Save, Delete_Pressed True, Register_Free, Register_Paid}"
  using assms by (cases ev) (auto simp: row_defs io_return_def split: if_splits)

lemma success_stays:
  assumes "ru_state (rp_ui s) = Reg_Success b h" "row_offers E live ev s"
  shows "ru_state (rp_ui (snd (row_do E live ev s))) = Reg_Success b h"
proof -
  have "ev \<notin> {Register_Free, Register_Paid}"
    using assms by (auto simp: offers_register canRegister_def)
  then show ?thesis
    using assms(1) by (cases ev) (auto simp: on_ui_def saveDraft_def confirmAndDelete_def beyond_def io_return_def split: prod.splits)
qed

lemma offered_unregistered:
  assumes "row_settled (rp_ui s)" "row_offers E live ev s" "ev \<in> {Register_Free, Register_Paid}"
  shows "ru_refreshes (rp_ui s) = 0 \<and> \<not> truthy (lr_manifestCid live) \<and> truthy (lr_recordingVideoUid live)"
  using assms
  by (auto simp: offers_register canRegister_def row_settled_def register_row_of_def split: register_state.splits)


definition demo_panel_live :: live_row where
  "demo_panel_live =
     \<lparr>lr_uid = ''l'', lr_state = ''disconnected'', lr_name = ''a'', lr_created = [], lr_recordingVideoUid = Some ''v'',
      lr_manifestCid = None, lr_registerTxHash = None, lr_registerBlock = None\<rparr>"

definition demo_row_env :: "unit row_env" where
  "demo_row_env =
     (let client = \<lparr>ce_appUrl = [], ce_appEnv = [], ce_streamCustomerCode = None, ce_privyAppId = None,
        ce_devBypassAuth = False, ce_livepeerAvailable = False\<rparr> in
      \<lparr>re_server = \<lparr>sv_fetch = rv_fetch demo_register_env, sv_env = Inl Thrown, sv_client = client, sv_numText = (\<lambda>_. [])\<rparr>,
       re_revalidate = (\<lambda>_. io_return ()), re_session = Inr None, re_register = demo_register_env,
       re_client = client, re_date = id\<rparr>)"


subsection \<open>Names\<close>

text \<open>
  The box of the name starts from the name the row was mounted with, or was last typed: when the
  live was renamed elsewhere, the page shows the new name, the box the old one, and saving it
  unchanged puts the old one back.
\<close>

lemma rename_box_is_stale:
  "rw_title (LiveRow env date ready live' (row_init live w)) =
     Title_Text (if lr_name live' \<noteq> [] then lr_name live' else untitled) \<and>
   rw_title (LiveRow env date ready live' (snd (row_do E live' Pencil (row_init live w)))) = Title_Form (lr_name live) \<and>
   row_do E live' Save (snd (row_do E live' Pencil (row_init live w))) =
     saveDraft (re_server E) (re_revalidate E) (re_session E) live' ((row_init live w)\<lparr>rp_editing := True\<rparr>) \<and>
   rename_form live' (rp_draft ((row_init live w)\<lparr>rp_editing := True\<rparr>)) = [(''name'', lr_name live), (''uid'', lr_uid live')]"
  by (simp add: LiveRow_def Let_def row_init_def rename_form_def)

text \<open>Saving ends the editing whatever becomes of the rename; a blank name is dropped without a word.\<close>

lemma save_is_silent:
  "fst (row_do E live Save s) = Inr () \<and> \<not> rp_editing (snd (row_do E live Save s)) \<and>
   rp_draft (snd (row_do E live Save s)) = rp_draft s"
  by (simp add: row_defs split: prod.splits)

lemma blank_name_dropped:
  assumes "trim (rp_draft s) = []"
  shows "row_do E live Save s = (Inr (), s\<lparr>rp_editing := False\<rparr>)"
  using assms by (simp add: row_defs rename_form_def renameLiveAction_def Let_def io_return_def)

lemma cancel_restores:
  "rp_draft (snd (row_do E live Cancel_Edit s)) = lr_name live \<and> rp_ui (snd (row_do E live Cancel_Edit s)) = rp_ui s"
  by simp

subsection \<open>Deleting\<close>

lemma delete_needs_confirmation:
  "row_do E live (Delete_Pressed False) s = (Inr (), s)"
  by (simp add: row_defs io_return_def)

text \<open>In a session that does not own the live, a confirmed deletion and a saved name only read it.\<close>

lemma row_guarded:
  assumes "getLiveInput (re_server E) (lr_uid live) (ru_world (rp_ui s)) = (Inr (Some l), w1)" "truthy_json (Some l)"
    "owned_by (as_address me) l = Inr False" "re_session E = Inr (Some me)" "lr_uid live \<noteq> []"
    "ev \<in> {Save, Delete_Pressed True}"
  shows "ru_world (rp_ui (snd (row_do E live ev s))) \<in> {ru_world (rp_ui s), w1}"
proof -
  note guarded = actions_guarded [OF assms(1-3) _ assms(5), where rv = "re_revalidate E"]
  have "renameLiveAction (re_server E) (re_revalidate E) (Inr (Some me)) (rename_form live (rp_draft s)) (ru_world (rp_ui s))
      \<in> {(Inr (), ru_world (rp_ui s)), (Inr (), w1)}"
    using guarded [of "rename_form live (rp_draft s)"] by (simp add: rename_form_def)
  moreover have "deleteLiveAction (re_server E) (re_revalidate E) (Inr (Some me)) [(''uid'', lr_uid live)] (ru_world (rp_ui s))
      = (Inr (), w1)"
    using guarded [of "[(''uid'', lr_uid live)]"] by simp
  ultimately show ?thesis using assms(4,6) by (auto simp: on_ui_def saveDraft_def confirmAndDelete_def beyond_def)
qed

subsection \<open>The anchor\<close>

text \<open>\<open>shortAddress\<close> shortens addresses only: a transaction hash is shown in full.\<close>

lemma anchor_hash_in_full:
  assumes "hex0x 64 h"
  shows "chip_of (Reg_Success b (Some (JStr h))) = Anchored b (Some (JStr h))"
  using assms by (simp add: shortAddress_def address_ok_def hex0x_def)

lemma sponsorship_shown_while_offered:
  "rw_free (LiveRow env date ready live s) \<noteq> None \<Longrightarrow> rw_pay (LiveRow env date ready live s) \<noteq> None"
  by (simp add: LiveRow_def Let_def split: if_splits)

end
