(* ===== verification/SitePages.thy ===== *)
theory SitePages
  imports Locales
begin

text \<open>
  The pages of \<open>aevia.network\<close> as a web of links: the navigation (\<open>apps/network/src/components/nav.tsx\<close>,
  whose items the mobile menu shares), the footer (\<open>footer.tsx\<close>), what each page of \<open>app/[locale]\<close>
  checks and links to, the index of the specification with the rows and cards of both dictionaries,
  and the title the layout gives a page. The running texts are left out. \<open>page_at\<close> is the file
  router on the directories of \<open>app/[locale]\<close>. The lemmas show that no link of the site is dead,
  which pages no link leads to, and that the two languages list the same documents.
\<close>

subsection \<open>Navigation and footer\<close>

datatype nav_slug = Nav_Whitepaper | Nav_Spec | Nav_Aup | Nav_Roadmap | Nav_Manifesto | Nav_Faq | Nav_Network

fun nav_name :: "nav_slug \<Rightarrow> string" where
  "nav_name Nav_Whitepaper = ''whitepaper''"
| "nav_name Nav_Spec = ''spec''"
| "nav_name Nav_Aup = ''aup''"
| "nav_name Nav_Roadmap = ''roadmap''"
| "nav_name Nav_Manifesto = ''manifesto''"
| "nav_name Nav_Faq = ''faq''"
| "nav_name Nav_Network = ''network''"

definition nav_items :: "nav_slug list" where
  "nav_items = [Nav_Whitepaper, Nav_Spec, Nav_Aup, Nav_Roadmap, Nav_Manifesto, Nav_Faq, Nav_Network]"

record nav_view =
  nv_home :: string
  nv_items :: "(string \<times> bool) list" \<comment> \<open>target, highlighted\<close>
  nv_en :: "string \<times> bool"
  nv_pt :: "string \<times> bool"
  nv_video :: string

definition Nav :: "nav_slug option \<Rightarrow> site_locale \<Rightarrow> string \<Rightarrow> nav_view" where
  "Nav active l pathname =
     \<lparr>nv_home = localePath l ''/'',
      nv_items = map (\<lambda>s. (localePath l (''/'' @ nav_name s), Some s = active)) nav_items,
      nv_en = (switchLocalePath En pathname, l = En), nv_pt = (switchLocalePath Pt_BR pathname, l = Pt_BR),
      nv_video = ''https://aevia.video''\<rparr>"

definition mobile_links :: "nav_view \<Rightarrow> (string \<times> bool) list" where
  \<comment> \<open>the same items, the video site and the two languages\<close>
  "mobile_links v = nv_items v @ [(nv_video v, False), nv_en v, nv_pt v]"

definition source_url :: string where
  "source_url = ''https://github.com/aevia-network/aevia''"

definition contact_mail :: string where
  "contact_mail = ''mailto:contact@aevia.network''"

definition Footer :: "site_locale \<Rightarrow> string list" where
  "Footer l =
     map (localePath l) [''/spec'', ''/manifesto'', ''/roadmap'', ''/providers'', ''/aup'', ''/privacy'', ''/terms''] @
     [contact_mail @ ''?subject=dmca takedown'', contact_mail, source_url]"

subsection \<open>The dictionaries' specification index\<close>

record spec_row =
  sr_slug :: string
  sr_title :: string
  sr_status :: string
  sr_updated :: string

record spec_card =
  sd_n :: nat
  sd_slug :: string
  sd_title :: string
  sd_abstract :: string
  sd_sections :: string

definition spec_rows_pt :: "spec_row list" where
  "spec_rows_pt =
     [\<lparr>sr_slug = ''rfc-0'', sr_title = ''vis'' @ [CHR 0xE3] @ ''o geral do protocolo'', sr_status = ''published'', sr_updated = ''2026-04-14''\<rparr>,
      \<lparr>sr_slug = ''rfc-1'', sr_title = ''manifest schema'', sr_status = ''published'', sr_updated = ''2026-04-15''\<rparr>,
      \<lparr>sr_slug = ''rfc-2'', sr_title = ''content addressing'', sr_status = ''published'', sr_updated = ''2026-04-15''\<rparr>,
      \<lparr>sr_slug = ''rfc-3'', sr_title = ''autentica'' @ [CHR 0xE7] @ [CHR 0xE3] @ ''o e assinatura'', sr_status = ''published'', sr_updated = ''2026-04-16''\<rparr>,
      \<lparr>sr_slug = ''rfc-4'', sr_title = ''acceptable use policy'', sr_status = ''published'', sr_updated = ''2026-04-16''\<rparr>,
      \<lparr>sr_slug = ''rfc-5'', sr_title = ''persistence pool'', sr_status = ''published'', sr_updated = ''2026-04-16''\<rparr>,
      \<lparr>sr_slug = ''rfc-6'', sr_title = ''risk score'', sr_status = ''published'', sr_updated = ''2026-04-18''\<rparr>,
      \<lparr>sr_slug = ''rfc-7'', sr_title = ''modera'' @ [CHR 0xE7] @ [CHR 0xE3] @ ''o e conselho'', sr_status = ''published'', sr_updated = ''2026-04-18''\<rparr>,
      \<lparr>sr_slug = ''rfc-8'', sr_title = ''arquitetura econ'' @ [CHR 0xF4] @ ''mica'', sr_status = ''published'', sr_updated = ''2026-04-18''\<rparr>]"

definition spec_cards_pt :: "spec_card list" where
  "spec_cards_pt =
     [\<lparr>sd_n = 0, sd_slug = ''rfc-0'', sd_title = ''vis'' @ [CHR 0xE3] @ ''o geral'',
       sd_abstract = ''como as camadas se encaixam. qual a tese. o que est'' @ [CHR 0xE1] @ '' em escopo e o que n'' @ [CHR 0xE3] @ ''o est'' @ [CHR 0xE1] @ ''.'',
       sd_sections = ''14 se'' @ [CHR 0xE7] @ [CHR 0xF5] @ ''es''\<rparr>,
      \<lparr>sd_n = 1, sd_slug = ''rfc-1'', sd_title = ''manifest schema'',
       sd_abstract = ''estrutura json assinada que descreve cada conte'' @ [CHR 0xFA] @ ''do: cid, criador, segmentos, metadados, assinatura.'',
       sd_sections = ''14 se'' @ [CHR 0xE7] @ [CHR 0xF5] @ ''es''\<rparr>,
      \<lparr>sd_n = 2, sd_slug = ''rfc-2'', sd_title = ''content addressing'',
       sd_abstract = ''cid, ipfs, gateways e a garantia de imutabilidade do conte'' @ [CHR 0xFA] @ ''do na base l2.'',
       sd_sections = ''14 se'' @ [CHR 0xE7] @ [CHR 0xF5] @ ''es''\<rparr>,
      \<lparr>sd_n = 3, sd_slug = ''rfc-3'', sd_title = ''autentica'' @ [CHR 0xE7] @ [CHR 0xE3] @ ''o e assinatura'',
       sd_abstract = ''privy embedded wallet em base, eip-712, verifica'' @ [CHR 0xE7] @ [CHR 0xE3] @ ''o offline sem gas.'',
       sd_sections = ''14 se'' @ [CHR 0xE7] @ [CHR 0xF5] @ ''es''\<rparr>,
      \<lparr>sd_n = 4, sd_slug = ''rfc-4'', sd_title = ''acceptable use policy'',
       sd_abstract = ''o que a aevia n'' @ [CHR 0xE3] @ ''o amplifica, por que isso preserva section 230, procedimentos dmca.'',
       sd_sections = ''14 se'' @ [CHR 0xE7] @ [CHR 0xF5] @ ''es''\<rparr>,
      \<lparr>sd_n = 5, sd_slug = ''rfc-5'', sd_title = ''persistence pool'',
       sd_abstract = ''como cusdc flui para os n'' @ [CHR 0xF3] @ ''s que provam replica'' @ [CHR 0xE7] @ [CHR 0xE3] @ ''o, f'' @ [CHR 0xF3] @ ''rmula de pagamento e monitoramento.'',
       sd_sections = ''14 se'' @ [CHR 0xE7] @ [CHR 0xF5] @ ''es''\<rparr>,
      \<lparr>sd_n = 6, sd_slug = ''rfc-6'', sd_title = ''risk score'',
       sd_abstract = ''fun'' @ [CHR 0xE7] @ [CHR 0xE3] @ ''o p'' @ [CHR 0xFA] @ ''blica R(c) que determina elegibilidade de subs'' @ [CHR 0xED] @ ''dio e feed. f'' @ [CHR 0xF3] @ ''rmula, inputs, thresholds, apela'' @ [CHR 0xE7] @ [CHR 0xE3] @ ''o via jury.'',
       sd_sections = ''13 se'' @ [CHR 0xE7] @ [CHR 0xF5] @ ''es''\<rparr>,
      \<lparr>sd_n = 7, sd_slug = ''rfc-7'', sd_title = ''modera'' @ [CHR 0xE7] @ [CHR 0xE3] @ ''o e conselho ecum'' @ [CHR 0xEA] @ ''nico'',
       sd_abstract = ''conselho de 12 assentos, mandatos de 4 anos, veto per-term, trust ledger. governan'' @ [CHR 0xE7] @ ''a contest'' @ [CHR 0xE1] @ ''vel da camada editorial.'',
       sd_sections = ''13 se'' @ [CHR 0xE7] @ [CHR 0xF5] @ ''es''\<rparr>,
      \<lparr>sd_n = 8, sd_slug = ''rfc-8'', sd_title = ''arquitetura econ'' @ [CHR 0xF4] @ ''mica'',
       sd_abstract = ''4 tesourarias, boost router, credit pulse, fees do operador, invariantes de separa'' @ [CHR 0xE7] @ [CHR 0xE3] @ ''o llc/pool. onde cada cusdc vive.'',
       sd_sections = ''10 se'' @ [CHR 0xE7] @ [CHR 0xF5] @ ''es''\<rparr>]"

definition spec_rows_en :: "spec_row list" where
  "spec_rows_en =
     [\<lparr>sr_slug = ''rfc-0'', sr_title = ''protocol overview'', sr_status = ''published'', sr_updated = ''2026-04-14''\<rparr>,
      \<lparr>sr_slug = ''rfc-1'', sr_title = ''manifest schema'', sr_status = ''published'', sr_updated = ''2026-04-15''\<rparr>,
      \<lparr>sr_slug = ''rfc-2'', sr_title = ''content addressing'', sr_status = ''published'', sr_updated = ''2026-04-15''\<rparr>,
      \<lparr>sr_slug = ''rfc-3'', sr_title = ''authentication and signature'', sr_status = ''published'', sr_updated = ''2026-04-16''\<rparr>,
      \<lparr>sr_slug = ''rfc-4'', sr_title = ''acceptable use policy'', sr_status = ''published'', sr_updated = ''2026-04-16''\<rparr>,
      \<lparr>sr_slug = ''rfc-5'', sr_title = ''persistence pool'', sr_status = ''published'', sr_updated = ''2026-04-16''\<rparr>,
      \<lparr>sr_slug = ''rfc-6'', sr_title = ''risk score'', sr_status = ''published'', sr_updated = ''2026-04-18''\<rparr>,
      \<lparr>sr_slug = ''rfc-7'', sr_title = ''moderation & council'', sr_status = ''published'', sr_updated = ''2026-04-18''\<rparr>,
      \<lparr>sr_slug = ''rfc-8'', sr_title = ''economic architecture'', sr_status = ''published'', sr_updated = ''2026-04-18''\<rparr>]"

definition spec_cards_en :: "spec_card list" where
  "spec_cards_en =
     [\<lparr>sd_n = 0, sd_slug = ''rfc-0'', sd_title = ''overview'',
       sd_abstract = ''how the layers fit together. what the thesis is. what is in scope and what is not.'',
       sd_sections = ''14 sections''\<rparr>,
      \<lparr>sd_n = 1, sd_slug = ''rfc-1'', sd_title = ''manifest schema'',
       sd_abstract = ''signed json structure describing each piece of content: cid, creator, segments, metadata, signature.'',
       sd_sections = ''14 sections''\<rparr>,
      \<lparr>sd_n = 2, sd_slug = ''rfc-2'', sd_title = ''content addressing'',
       sd_abstract = ''cid, ipfs, gateways, and the immutability guarantee of content on base l2.'',
       sd_sections = ''14 sections''\<rparr>,
      \<lparr>sd_n = 3, sd_slug = ''rfc-3'', sd_title = ''authentication and signature'',
       sd_abstract = ''privy embedded wallet on base, eip-712, offline verification without gas.'',
       sd_sections = ''14 sections''\<rparr>,
      \<lparr>sd_n = 4, sd_slug = ''rfc-4'', sd_title = ''acceptable use policy'',
       sd_abstract = ''what aevia does not amplify, why that preserves section 230, dmca procedures.'',
       sd_sections = ''14 sections''\<rparr>,
      \<lparr>sd_n = 5, sd_slug = ''rfc-5'', sd_title = ''persistence pool'',
       sd_abstract = ''how cusdc flows to nodes that prove replication, payment formula, and monitoring.'',
       sd_sections = ''14 sections''\<rparr>,
      \<lparr>sd_n = 6, sd_slug = ''rfc-6'', sd_title = ''risk score'',
       sd_abstract = ''public function R(c) that gates subsidy and feed eligibility. formula, inputs, thresholds, jury appeal path.'',
       sd_sections = ''13 sections''\<rparr>,
      \<lparr>sd_n = 7, sd_slug = ''rfc-7'', sd_title = ''moderation & ecumenical council'',
       sd_abstract = ''12-seat council with 4-year terms, per-term veto, trust ledger. contestable governance of the editorial layer.'',
       sd_sections = ''13 sections''\<rparr>,
      \<lparr>sd_n = 8, sd_slug = ''rfc-8'', sd_title = ''economic architecture'',
       sd_abstract = ''4 treasuries, boost router, credit pulse, operator fees, llc/pool separation invariants. where every cusdc lives.'',
       sd_sections = ''10 sections''\<rparr>]"


definition spec_rows :: "site_locale \<Rightarrow> spec_row list" where
  "spec_rows l = (case l of Pt_BR \<Rightarrow> spec_rows_pt | En \<Rightarrow> spec_rows_en)"

definition spec_cards :: "site_locale \<Rightarrow> spec_card list" where
  "spec_cards l = (case l of Pt_BR \<Rightarrow> spec_cards_pt | En \<Rightarrow> spec_cards_en)"

definition spec_row_title :: "site_locale \<Rightarrow> string \<Rightarrow> string option" where
  \<comment> \<open>\<open>dict.spec.rows.find((x) => x.slug === slug)?.title\<close>\<close>
  "spec_row_title l slug = map_option sr_title (find (\<lambda>r. sr_slug r = slug) (spec_rows l))"

datatype pill = Pill_Published | Pill_Draft | Pill_Planned

definition StatusPill :: "string \<Rightarrow> pill" where
  "StatusPill status =
     (if status = ''published'' then Pill_Published
      else if status = ''draft'' then Pill_Draft else Pill_Planned)"

subsection \<open>The pages\<close>

record site_page =
  sp_nav :: nav_view
  sp_links :: "string list"
  sp_footer :: "string list"

definition localized :: "nav_slug option \<Rightarrow> string \<Rightarrow> (site_locale \<Rightarrow> string list) \<Rightarrow> string \<Rightarrow> site_page option" where
  \<comment> \<open>\<open>if (!isLocale(locale)) notFound()\<close>, then the page between navigation and footer\<close>
  "localized active path links l =
     map_option (\<lambda>loc. \<lparr>sp_nav = Nav active loc (''/'' @ locale_name loc @ path), sp_links = links loc, sp_footer = Footer loc\<rparr>)
       (find (\<lambda>loc. locale_name loc = l) locales)"

definition landing_portals :: "string list" where
  "landing_portals = [''/whitepaper'', ''/spec'', ''/manifesto'']"

definition Landing :: "string \<Rightarrow> site_page option" where
  "Landing = localized None [] (\<lambda>l. map (localePath l) landing_portals @ [localePath l ''/providers''])"

definition WhitepaperPage :: "string \<Rightarrow> site_page option" where
  "WhitepaperPage = localized (Some Nav_Whitepaper) ''/whitepaper'' (\<lambda>_. [])"

definition ManifestoPage :: "string \<Rightarrow> site_page option" where
  "ManifestoPage = localized (Some Nav_Manifesto) ''/manifesto'' (\<lambda>_. [])"

definition RoadmapPage :: "string \<Rightarrow> site_page option" where
  "RoadmapPage = localized (Some Nav_Roadmap) ''/roadmap'' (\<lambda>_. [])"

definition ProvidersPage :: "string \<Rightarrow> site_page option" where
  "ProvidersPage = localized None ''/providers'' (\<lambda>l. [localePath l ''/spec/rfc-5''])"

definition AupPage :: "string \<Rightarrow> site_page option" where
  "AupPage = localized (Some Nav_Aup) ''/aup'' (\<lambda>l. [''https://www.copyright.gov/dmca-directory/'', localePath l ''/privacy''])"

definition FaqPage :: "string \<Rightarrow> site_page option" where
  "FaqPage = localized (Some Nav_Faq) ''/faq'' (\<lambda>_. [source_url @ ''/issues/new'', contact_mail])"

definition NetworkPage_links :: "string \<Rightarrow> site_page option" where
  "NetworkPage_links = localized None ''/network'' (\<lambda>_. [])"

definition PrivacyPage :: "string \<Rightarrow> site_page option" where
  "PrivacyPage = localized None ''/privacy''
     (\<lambda>l. [contact_mail @ ''?subject=privacy request'', localePath l ''/aup'', localePath l ''/roadmap'',
        contact_mail @ ''?subject=privacy request''])"

definition TermsPage :: "string \<Rightarrow> site_page option" where
  "TermsPage = localized None ''/terms''
     (\<lambda>l. [localePath l ''/aup'', localePath l ''/privacy'', localePath l ''/aup'', localePath l ''/aup'',
        source_url @ ''/blob/main/LICENSES.md'', localePath l ''/aup'', contact_mail @ ''?subject=terms inquiry''])"

definition TransparencyPage :: "string \<Rightarrow> site_page option" where
  "TransparencyPage = localized None ''/transparency'' (\<lambda>_. [contact_mail @ ''?subject=transparency correction''])"

definition OperatorPage :: "string \<Rightarrow> site_page option" where
  "OperatorPage = localized None ''/operator'' (\<lambda>_. [contact_mail @ ''?subject=operator inquiry''])"

definition SpecIndex :: "string \<Rightarrow> (site_page \<times> (string \<times> string \<times> pill \<times> string) list) option" where
  \<comment> \<open>with the lines of the table\<close>
  "SpecIndex l =
     map_option (\<lambda>p. (p, map (\<lambda>r. (sr_slug r, sr_title r, StatusPill (sr_status r), sr_updated r))
          (spec_rows (if l = locale_name En then En else Pt_BR))))
       (localized (Some Nav_Spec) ''/spec'' (\<lambda>loc. map (\<lambda>c. localePath loc (''/spec/'' @ sd_slug c)) (spec_cards loc)) l)"

definition SpecDocument :: "string \<Rightarrow> string \<Rightarrow> (spec_view \<times> site_page) option" where
  "SpecDocument slug l =
     (case localized (Some Nav_Spec) (''/spec/'' @ slug) (\<lambda>loc. [localePath loc ''/spec'']) l of
        None \<Rightarrow> None
      | Some p \<Rightarrow> map_option (\<lambda>v. (v, p)) (SpecSlug (spec_row_title (if l = locale_name En then En else Pt_BR)) l slug))"

definition NotFoundPage :: site_page where
  \<comment> \<open>always in the default language\<close>
  "NotFoundPage =
     \<lparr>sp_nav = Nav None defaultLocale (''/'' @ locale_name defaultLocale),
      sp_links = [localePath defaultLocale ''/'', localePath defaultLocale ''/spec''], sp_footer = Footer defaultLocale\<rparr>"

subsection \<open>The file router\<close>

definition top_pages :: "(string \<times> (string \<Rightarrow> site_page option)) list" where
  \<comment> \<open>the directories of \<open>app/[locale]\<close> that hold a page\<close>
  "top_pages =
     [([], Landing), (''whitepaper'', WhitepaperPage), (''manifesto'', ManifestoPage), (''roadmap'', RoadmapPage),
      (''providers'', ProvidersPage), (''spec'', \<lambda>l. map_option fst (SpecIndex l)), (''aup'', AupPage), (''faq'', FaqPage),
      (''network'', NetworkPage_links), (''privacy'', PrivacyPage), (''terms'', TermsPage),
      (''transparency'', TransparencyPage), (''operator'', OperatorPage)]"

definition page_at :: "string \<Rightarrow> site_page option" where
  \<comment> \<open>of the path of an address; \<open>None\<close> is the page of the missing page\<close>
  "page_at path =
     (case path_segments path of
        [l] \<Rightarrow> Landing l
      | [l, d] \<Rightarrow> (case map_of (tl top_pages) d of None \<Rightarrow> None | Some p \<Rightarrow> p l)
      | [l, d, slug] \<Rightarrow> if d = ''spec'' then map_option snd (SpecDocument slug l) else None
      | _ \<Rightarrow> None)"

definition page_links :: "site_page \<Rightarrow> string list" where
  "page_links p =
     nv_home (sp_nav p) # map fst (nv_items (sp_nav p)) @ [fst (nv_en (sp_nav p)), fst (nv_pt (sp_nav p))] @
       map fst (mobile_links (sp_nav p)) @ sp_links p @ sp_footer p"

definition site_routes :: "string list" where
  \<comment> \<open>every page there is, in either language\<close>
  "site_routes = ''/'' # map (\<lambda>d. ''/'' @ fst d) (tl top_pages) @ map (\<lambda>slug. ''/spec/'' @ slug) rfc_slugs"

definition external :: "string \<Rightarrow> bool" where
  "external href = (starts_with ''https://'' href \<or> starts_with ''mailto:'' href)"

subsection \<open>Titles\<close>

definition site_suffix :: string where
  "site_suffix = '' '' @ [CHR 0xB7] @ '' aevia.network''"

definition layout_default_title :: string where
  "layout_default_title = ''aevia.network '' @ [em_dash] @ '' sovereign video protocol''"

definition document_title :: "meta_text option \<Rightarrow> string" where
  \<comment> \<open>\<open>title: { default, template: '%s ... aevia.network' }\<close> of the layout, for the title of a page\<close>
  "document_title title =
     (case title of Some (Meta_String t) \<Rightarrow> t @ site_suffix | _ \<Rightarrow> layout_default_title)"

definition rfc_meta_title :: "string \<Rightarrow> string" where
  "rfc_meta_title eyebrow = eyebrow @ site_suffix"

definition spec_title_meta :: "site_locale \<Rightarrow> string \<Rightarrow> string" where
  \<comment> \<open>\<open>generateMetadata\<close> of a document\<close>
  "spec_title_meta l slug =
     (case find (\<lambda>r. sr_slug r = slug) (spec_rows l) of
        None \<Rightarrow> ''spec'' @ site_suffix
      | Some row \<Rightarrow> rfc_meta_title (or_default (map_of rfc_eyebrows slug) (sr_slug row)))"

subsection \<open>Every link leads to a page\<close>

definition linked_routes :: "string list" where
  "linked_routes = filter (\<lambda>r. r \<notin> {''/transparency'', ''/operator''}) site_routes"

definition leads :: "string \<Rightarrow> string \<Rightarrow> bool" where
  \<comment> \<open>what the links of the page of a route may be\<close>
  "leads own href = (external href \<or> (\<exists>l. \<exists>r \<in> set (own # linked_routes). href = localePath l r))"

lemma linked_list:
  "linked_routes =
     [''/'', ''/whitepaper'', ''/manifesto'', ''/roadmap'', ''/providers'', ''/spec'', ''/aup'', ''/faq'', ''/network'',
      ''/privacy'', ''/terms'', ''/spec/rfc-0'', ''/spec/rfc-1'', ''/spec/rfc-2'', ''/spec/rfc-3'', ''/spec/rfc-4'',
      ''/spec/rfc-5'', ''/spec/rfc-6'', ''/spec/rfc-7'', ''/spec/rfc-8'']"
  by (simp add: linked_routes_def site_routes_def top_pages_def rfc_slugs_def)

lemma site_routes_clean: "list_all clean_path site_routes"
  by code_simp

lemma leads_route [intro]: "r \<in> set linked_routes \<Longrightarrow> leads own (localePath l r)"
  by (auto simp: leads_def)

lemma leads_own [intro]: "leads own (localePath l own)"
  by (auto simp: leads_def)

lemma leads_external [intro]: "external href \<Longrightarrow> leads own href"
  by (simp add: leads_def)

lemma externals [simp]:
  "external (source_url @ s)" "external (contact_mail @ s)" "external source_url" "external contact_mail"
  "external ''https://aevia.video''" "external ''https://www.copyright.gov/dmca-directory/''"
  by (simp_all add: external_def source_url_def contact_mail_def starts_with_def)

lemma card_slugs: "map sd_slug (spec_cards l) = rfc_slugs"
  by (cases l) (simp_all add: spec_cards_def spec_cards_pt_def spec_cards_en_def rfc_slugs_def)

lemma footer_leads: "href \<in> set (Footer l) \<Longrightarrow> leads own href"
  by (auto simp: Footer_def linked_list)

lemma nav_item_leads: "leads own (localePath l (''/'' @ nav_name s))"
  by (cases s) (auto simp: linked_list)

lemma localized_leads:
  assumes "localized active (if own = ''/'' then [] else own) links l = Some p" "clean_path own"
    and "\<And>loc href. href \<in> set (links loc) \<Longrightarrow> leads own href"
    and "href \<in> set (page_links p)"
  shows "leads own href"
proof -
  from assms(1) obtain loc where
    p: "p = \<lparr>sp_nav = Nav active loc (localePath loc own), sp_links = links loc, sp_footer = Footer loc\<rparr>"
    using localePath_clean [OF assms(2)] by (auto simp: localized_def)
  have "leads own (localePath l' ''/'')" for l' by (rule leads_route) (simp add: linked_list)
  with assms(3,4) show ?thesis
    unfolding p
    by (auto simp: page_links_def mobile_links_def Nav_def switch_locale [OF assms(2)] footer_leads nav_item_leads [simplified])
qed

definition page_form :: "string \<Rightarrow> (string \<Rightarrow> site_page option) \<Rightarrow> bool" where
  \<comment> \<open>a page of its own route, whose links lead somewhere\<close>
  "page_form own P = (\<exists>active links.
     (\<forall>l. P l = localized active (if own = ''/'' then [] else own) links l) \<and> (\<forall>loc. list_all (leads own) (links loc)))"

lemma page_formI:
  assumes "P = localized active path links" "path = (if own = ''/'' then [] else own)" "\<And>loc. list_all (leads own) (links loc)"
  shows "page_form own P"
  using assms by (auto simp: page_form_def)

lemma page_form_leads:
  assumes "page_form own P" "clean_path own" "P l = Some p" "href \<in> set (page_links p)"
  shows "leads own href"
  using assms localized_leads unfolding page_form_def list_all_iff by metis

lemma leads_linked: "r \<in> set linked_routes \<Longrightarrow> leads own (localePath l r) \<longleftrightarrow> True"
  by auto

lemma leads_externals: "external href \<Longrightarrow> leads own href \<longleftrightarrow> True"
  by auto

lemma spec_card_leads: "list_all (leads own) (map (\<lambda>c. localePath l (''/spec/'' @ sd_slug c)) (spec_cards l))"
proof -
  have "list_all (\<lambda>slug. leads own (localePath l (''/spec/'' @ slug))) (map sd_slug (spec_cards l))"
    unfolding card_slugs by (simp add: rfc_slugs_def linked_list leads_linked)
  then show ?thesis by (simp add: list.pred_map o_def)
qed

lemmas link_rules = landing_portals_def leads_linked leads_externals linked_list

lemma page_forms:
  "page_form ''/'' Landing"
  "page_form ''/whitepaper'' WhitepaperPage"
  "page_form ''/manifesto'' ManifestoPage"
  "page_form ''/roadmap'' RoadmapPage"
  "page_form ''/providers'' ProvidersPage"
  "page_form ''/aup'' AupPage"
  "page_form ''/faq'' FaqPage"
  "page_form ''/network'' NetworkPage_links"
  "page_form ''/privacy'' PrivacyPage"
  "page_form ''/terms'' TermsPage"
  "page_form ''/transparency'' TransparencyPage"
  "page_form ''/operator'' OperatorPage"
proof -
  show "page_form ''/'' Landing" by (rule page_formI [OF Landing_def]) (simp_all add: link_rules)
  show "page_form ''/whitepaper'' WhitepaperPage" by (rule page_formI [OF WhitepaperPage_def]) (simp_all add: link_rules)
  show "page_form ''/manifesto'' ManifestoPage" by (rule page_formI [OF ManifestoPage_def]) (simp_all add: link_rules)
  show "page_form ''/roadmap'' RoadmapPage" by (rule page_formI [OF RoadmapPage_def]) (simp_all add: link_rules)
  show "page_form ''/providers'' ProvidersPage" by (rule page_formI [OF ProvidersPage_def]) (simp_all add: link_rules)
  show "page_form ''/aup'' AupPage" by (rule page_formI [OF AupPage_def]) (simp_all add: link_rules)
  show "page_form ''/faq'' FaqPage" by (rule page_formI [OF FaqPage_def]) (simp_all add: link_rules)
  show "page_form ''/network'' NetworkPage_links" by (rule page_formI [OF NetworkPage_links_def]) (simp_all add: link_rules)
  show "page_form ''/privacy'' PrivacyPage" by (rule page_formI [OF PrivacyPage_def]) (simp_all add: link_rules)
  show "page_form ''/terms'' TermsPage" by (rule page_formI [OF TermsPage_def]) (simp_all add: link_rules)
  show "page_form ''/transparency'' TransparencyPage" by (rule page_formI [OF TransparencyPage_def]) (simp_all add: link_rules)
  show "page_form ''/operator'' OperatorPage" by (rule page_formI [OF OperatorPage_def]) (simp_all add: link_rules)
qed

lemma spec_index_form: "page_form ''/spec'' (\<lambda>l. map_option fst (SpecIndex l))"
  by (rule page_formI [where active = "Some Nav_Spec" and path = "''/spec''"
        and links = "\<lambda>loc. map (\<lambda>c. localePath loc (''/spec/'' @ sd_slug c)) (spec_cards loc)"])
    (simp_all add: SpecIndex_def option.map_comp o_def option.map_ident spec_card_leads [simplified])

lemma top_pages_form: "list_all (\<lambda>(d, P). page_form (''/'' @ d) P) top_pages"
  by (simp add: top_pages_def page_forms spec_index_form)

lemma localized_Some: "localized active path links l = Some p \<Longrightarrow> isLocale l"
  by (auto simp: localized_def isLocale_def find_Some_iff)

lemma spec_document_form:
  assumes "slug \<in> set rfc_slugs"
  shows "page_form (''/spec/'' @ slug) (\<lambda>l. map_option snd (SpecDocument slug l))"
proof (rule page_formI)
  show "(\<lambda>l. map_option snd (SpecDocument slug l)) =
      localized (Some Nav_Spec) (''/spec/'' @ slug) (\<lambda>loc. [localePath loc ''/spec''])"
    using assms localized_Some by (fastforce simp: SpecDocument_def SpecSlug_def split: option.splits)
qed (simp_all add: link_rules)

lemma top_names:
  "distinct (map fst (tl top_pages))" "list_all (\<lambda>d. d \<noteq> [] \<and> path_segments (''/'' @ d) = [d]) (map fst (tl top_pages))"
proof -
  have "map fst (tl top_pages) =
      [''whitepaper'', ''manifesto'', ''roadmap'', ''providers'', ''spec'', ''aup'', ''faq'', ''network'', ''privacy'', ''terms'',
       ''transparency'', ''operator'']"
    by (simp add: top_pages_def)
  then show "distinct (map fst (tl top_pages))" "list_all (\<lambda>d. d \<noteq> [] \<and> path_segments (''/'' @ d) = [d]) (map fst (tl top_pages))"
    by (simp_all only:) code_simp+
qed

lemma page_at_route:
  "page_at (localePath l ''/'') = Landing (locale_name l)"
  "(d, P) \<in> set (tl top_pages) \<Longrightarrow> page_at (localePath l (''/'' @ d)) = P (locale_name l)"
  "slug \<in> set rfc_slugs \<Longrightarrow> page_at (localePath l (''/spec/'' @ slug)) = map_option snd (SpecDocument slug (locale_name l))"
proof -
  have segs: "path_segments (localePath l p) = locale_name l # (if p = ''/'' then [] else path_segments p)"
    if "p \<in> set site_routes" for p
    using that site_routes_clean segments_locale by (auto simp: list_all_iff)
  show "page_at (localePath l ''/'') = Landing (locale_name l)"
    using segs [of "''/''"] by (simp add: page_at_def site_routes_def)
  show "page_at (localePath l (''/'' @ d)) = P (locale_name l)" if dP: "(d, P) \<in> set (tl top_pages)"
  proof -
    have "d \<in> set (map fst (tl top_pages))" using dP by force
    with top_names have "path_segments (''/'' @ d) = [d]" "d \<noteq> []" by (auto simp: list_all_iff)
    moreover have "map_of (tl top_pages) d = Some P" using dP top_names by (intro map_of_is_SomeI) simp_all
    moreover have "''/'' @ d \<in> set site_routes" using dP by (force simp: site_routes_def)
    ultimately show ?thesis using segs [of "''/'' @ d"] by (simp add: page_at_def)
  qed
  show "page_at (localePath l (''/spec/'' @ slug)) = map_option snd (SpecDocument slug (locale_name l))"
    if "slug \<in> set rfc_slugs"
  proof -
    have "path_segments (''/spec/'' @ slug) = [''spec'', slug]" using that by (auto simp: rfc_slugs_def path_segments_def)
    moreover have "''/spec/'' @ slug \<in> set site_routes" using that by (force simp: site_routes_def)
    ultimately show ?thesis using segs [of "''/spec/'' @ slug"] by (simp add: page_at_def)
  qed
qed

lemma route_form:
  assumes "r \<in> set site_routes"
  shows "\<exists>P. page_form r P \<and> (\<forall>l. page_at (localePath l r) = P (locale_name l))"
proof -
  from assms consider "r = ''/''" | d P where "(d, P) \<in> set (tl top_pages)" "r = ''/'' @ d"
    | slug where "slug \<in> set rfc_slugs" "r = ''/spec/'' @ slug"
    unfolding site_routes_def by fastforce
  then show ?thesis
  proof cases
    case 1
    then show ?thesis using page_forms(1) page_at_route(1) by blast
  next
    case (2 d P)
    then have "(d, P) \<in> set top_pages" by (simp add: top_pages_def)
    with 2 top_pages_form have "page_form r P" by (auto simp: list_all_iff)
    with 2 page_at_route(2) show ?thesis by blast
  next
    case (3 slug)
    then show ?thesis using page_at_route(3) spec_document_form by blast
  qed
qed

text \<open>
  No link of the site is dead. Every route has a page in both languages, and each link on it, in the
  navigation, the menu, the text, the footer and the switch of the language, goes to another site, to
  a mail address or to a page there is. Two pages are found by no link but their own switch of
  language: \<open>/transparency\<close> and \<open>/operator\<close>.
\<close>

lemma site_links:
  assumes "r \<in> set site_routes"
  shows "\<exists>p. page_at (localePath l r) = Some p \<and>
    (\<forall>href \<in> set (page_links p). external href \<or>
       (\<exists>l' t. href = localePath l' t \<and> page_at href \<noteq> None \<and> (t = r \<or> t \<in> set site_routes - {''/transparency'', ''/operator''})))"
proof -
  have found: "page_at (localePath l' t) \<noteq> None" if t: "t \<in> set site_routes" for l' t
  proof -
    obtain P where P: "page_form t P" "page_at (localePath l' t) = P (locale_name l')"
      using route_form [OF t] by blast
    then obtain active links where "P (locale_name l') = localized active (if t = ''/'' then [] else t) links (locale_name l')"
      by (auto simp: page_form_def)
    with P(2) show ?thesis by (cases l') (simp_all add: localized_def locales_def locale_name_def)
  qed
  obtain P where P: "page_form r P" "\<And>l. page_at (localePath l r) = P (locale_name l)"
    using route_form [OF assms] by blast
  obtain p where p: "page_at (localePath l r) = Some p" using found [OF assms] by blast
  have "clean_path r" using assms site_routes_clean by (auto simp: list_all_iff)
  with P p have "leads r href" if "href \<in> set (page_links p)" for href
    using page_form_leads that by metis
  with p found assms show ?thesis by (fastforce simp: leads_def linked_routes_def)
qed

text \<open>The item of the page on display is highlighted, but on the page of the network, which names none.\<close>

lemma network_never_highlighted:
  "list_all (\<lambda>(own, active). map snd (nv_items (Nav active l path)) = map (\<lambda>s. ''/'' @ nav_name s = own) nav_items)
     [(''/whitepaper'', Some Nav_Whitepaper), (''/spec'', Some Nav_Spec), (''/aup'', Some Nav_Aup), (''/roadmap'', Some Nav_Roadmap),
      (''/manifesto'', Some Nav_Manifesto), (''/faq'', Some Nav_Faq), (''/privacy'', None)] \<and>
   (\<forall>p. NetworkPage_links (locale_name l) = Some p \<longrightarrow> list_all (\<lambda>(_, highlighted). \<not> highlighted) (nv_items (sp_nav p)))"
  by (auto simp: Nav_def nav_items_def NetworkPage_links_def localized_def list_all_iff)

subsection \<open>The specification in two languages\<close>

text \<open>Both indexes list the nine documents there are, once each as line and card, published, with the date their page shows.\<close>

lemma spec_index_complete:
  "map sr_slug (spec_rows l) = rfc_slugs \<and> map sd_slug (spec_cards l) = rfc_slugs \<and> map sd_n (spec_cards l) = [0..<9] \<and>
   map (\<lambda>r. StatusPill (sr_status r)) (spec_rows l) = replicate 9 Pill_Published \<and>
   map (\<lambda>r. (sr_slug r, sr_updated r)) (spec_rows l) = rfc_updated"
proof -
  have "map sr_slug (spec_rows l) = rfc_slugs \<and> map (\<lambda>r. StatusPill (sr_status r)) (spec_rows l) = replicate 9 Pill_Published \<and>
      map (\<lambda>r. (sr_slug r, sr_updated r)) (spec_rows l) = rfc_updated"
    by (cases l) (simp_all add: spec_rows_def spec_rows_pt_def spec_rows_en_def rfc_slugs_def rfc_updated_def StatusPill_def
      numeral_eq_Suc)
  moreover have "map sd_n (spec_cards l) = [0..<9]"
    by (cases l) (simp_all add: spec_cards_def spec_cards_pt_def spec_cards_en_def upt_rec)
  ultimately show ?thesis by (simp add: card_slugs)
qed

lemma spec_document_title:
  assumes "SpecDocument slug (locale_name l) = Some (v, p)"
  shows "spec_row_title l slug = Some (sw_title v)"
proof -
  have l: "(if locale_name l = locale_name En then En else Pt_BR) = l" by (cases l) (simp_all add: locale_name_def)
  from assms have v: "SpecSlug (spec_row_title l) (locale_name l) slug = Some v"
    by (auto simp: SpecDocument_def l split: option.splits)
  then have "slug \<in> set (map sr_slug (spec_rows l))" using spec_index_complete [of l] by (auto simp: SpecSlug_def split: if_splits)
  then have "spec_row_title l slug \<noteq> None" by (auto simp: spec_row_title_def find_None_iff)
  with v show ?thesis by (auto simp: SpecSlug_def split: if_splits)
qed

text \<open>The layout appends the name of the site to titles that already end in it.\<close>

lemma site_named_twice:
  "document_title (Some (Meta_String (spec_title_meta l slug))) =
     (case find (\<lambda>r. sr_slug r = slug) (spec_rows l) of
        None \<Rightarrow> ''spec'' | Some row \<Rightarrow> or_default (map_of rfc_eyebrows slug) (sr_slug row)) @ site_suffix @ site_suffix"
  by (simp add: document_title_def spec_title_meta_def rfc_meta_title_def split: option.splits)

end
