(* ===== verification/Feed.thy ===== *)
theory Feed
  imports Widgets
begin

text \<open>
  The home feed (\<open>apps/video/src/app/feed/page.tsx\<close> and \<open>components/feed-screen.tsx\<close>): who is greeted,
  the strip of the lives on the air, the ranking pills, and the posts and creators the screen shows as
  samples until there are real ones. The strip of personas (\<open>packages/ui/src/components/personas-strip.tsx\<close>)
  says it repeats the front page of the protocol site; the last section checks that it does, and
  what of the screen comes from the service.
\<close>

subsection \<open>Personas\<close>

definition DEFAULT_PERSONAS :: "(string \<times> string) list" where
  \<comment> \<open>tag and line\<close>
  "DEFAULT_PERSONAS =
     [(''gamer'',
       ''streams, playthroughs, tutoriais, clipes. seu canal continua seu, n'' @ [CHR 0xE3] @ ''o do algoritmo.''),
      (''jornalista local'',
       ''cobertura de cidade, conselho municipal, desastre clim'' @ [CHR 0xE1] @ ''tico. sem depend'' @ [CHR 0xEA] @ ''ncia de cdn comercial que muda regra da noite pro dia.''),
      (''educador'',
       ''aulas, palestras, cursos. sua biblioteca persiste mesmo quando a plataforma muda pol'' @ [CHR 0xED] @ ''tica.''),
      (''documentarista'',
       ''longa dura'' @ [CHR 0xE7, CHR 0xE3] @ ''o, s'' @ [CHR 0xE9] @ ''ries, investiga'' @ [CHR 0xE7, CHR 0xF5] @ ''es. modera'' @ [CHR 0xE7, CHR 0xE3] @ ''o editorial p'' @ [CHR 0xFA] @ ''blica, n'' @ [CHR 0xE3] @ ''o opaca.''),
      (''maker / artes'' @ [CHR 0xE3] @ ''o'',
       ''tutoriais, workshops, produtos. audi'' @ [CHR 0xEA] @ ''ncia port'' @ [CHR 0xE1] @ ''vel por cid, n'' @ [CHR 0xE3] @ ''o por handle.''),
      (''m'' @ [CHR 0xFA] @ ''sico indie'',
       ''seu cat'' @ [CHR 0xE1] @ ''logo, suas regras. demonetiza'' @ [CHR 0xE7, CHR 0xE3] @ ''o arbitr'' @ [CHR 0xE1] @ ''ria n'' @ [CHR 0xE3] @ ''o existe aqui.''),
      (''minist'' @ [CHR 0xE9] @ ''rio / apologista'',
       ''ensino, testemunho, estudo b'' @ [CHR 0xED] @ ''blico. seu trabalho protegido pela aup, n'' @ [CHR 0xE3] @ ''o sujeito a vi'' @ [CHR 0xE9] @ ''s de modera'' @ [CHR 0xE7, CHR 0xE3] @ ''o.''),
      (''comunidade local'',
       ''ong, coletivo, cooperativa. ferramenta de m'' @ [CHR 0xED] @ ''dia sem depender de corporate cloud.'')]"

definition personas_heading :: string where
  "personas_heading = ''pra quem '' @ [CHR 0xE9] @ '' isso''"

definition personas_lead :: string where
  "personas_lead =
     ''aevia '' @ [CHR 0xE9] @ '' pra quem cria e quer persistir. a aup exclui o que comunidades saud'' @ [CHR 0xE1] @ ''veis j'' @ [CHR 0xE1] @ '' excluem (csam, ncii, apologia de viol'' @ [CHR 0xEA] @ ''ncia). o resto do mundo criador cabe aqui.''"

definition landing_personas :: "(string \<times> string) list" where
  \<comment> \<open>tag and line\<close>
  "landing_personas =
     [(''gamer'',
       ''streams, playthroughs, tutoriais, clipes. seu canal continua seu, n'' @ [CHR 0xE3] @ ''o do algoritmo.''),
      (''jornalista local'',
       ''cobertura de cidade, conselho municipal, desastre clim'' @ [CHR 0xE1] @ ''tico. sem depend'' @ [CHR 0xEA] @ ''ncia de cdn comercial que muda regra da noite pro dia.''),
      (''educador'',
       ''aulas, palestras, cursos. sua biblioteca persiste mesmo quando a plataforma muda pol'' @ [CHR 0xED] @ ''tica.''),
      (''documentarista'',
       ''longa dura'' @ [CHR 0xE7, CHR 0xE3] @ ''o, s'' @ [CHR 0xE9] @ ''ries, investiga'' @ [CHR 0xE7, CHR 0xF5] @ ''es. modera'' @ [CHR 0xE7, CHR 0xE3] @ ''o editorial p'' @ [CHR 0xFA] @ ''blica, n'' @ [CHR 0xE3] @ ''o opaca.''),
      (''maker / artes'' @ [CHR 0xE3] @ ''o'',
       ''tutoriais, workshops, produtos. audi'' @ [CHR 0xEA] @ ''ncia port'' @ [CHR 0xE1] @ ''vel por cid, n'' @ [CHR 0xE3] @ ''o por handle.''),
      (''m'' @ [CHR 0xFA] @ ''sico indie'',
       ''seu cat'' @ [CHR 0xE1] @ ''logo, suas regras. demonetiza'' @ [CHR 0xE7, CHR 0xE3] @ ''o arbitr'' @ [CHR 0xE1] @ ''ria n'' @ [CHR 0xE3] @ ''o existe aqui.''),
      (''minist'' @ [CHR 0xE9] @ ''rio / apologista'',
       ''ensino, testemunho, estudo b'' @ [CHR 0xED] @ ''blico. seu trabalho protegido pela aup, n'' @ [CHR 0xE3] @ ''o sujeito a vi'' @ [CHR 0xE9] @ ''s de modera'' @ [CHR 0xE7, CHR 0xE3] @ ''o.''),
      (''comunidade local'',
       ''ong, coletivo, cooperativa. ferramenta de m'' @ [CHR 0xED] @ ''dia sem depender de corporate cloud.'')]"

definition landing_personas_head :: "string \<times> string" where
  "landing_personas_head =
     (''pra quem '' @ [CHR 0xE9] @ '' isso'',
      ''aevia '' @ [CHR 0xE9] @ '' pra quem cria e quer persistir. a aup exclui o que comunidades saud'' @ [CHR 0xE1] @ ''veis j'' @ [CHR 0xE1] @ '' excluem (csam, ncii, apologia de viol'' @ [CHR 0xEA] @ ''ncia). o resto do mundo criador cabe aqui.'')"

definition PersonasStrip :: "string \<times> string \<times> (string \<times> string) list" where
  \<comment> \<open>heading, lead and cards, as the feed draws it, without properties\<close>
  "PersonasStrip = (personas_heading, personas_lead, DEFAULT_PERSONAS)"

subsection \<open>Samples\<close>

record feed_post =
  fp_id :: string
  fp_creatorName :: string
  fp_creatorHref :: string
  fp_avatarInitials :: string
  fp_timestamp :: string
  fp_title :: string
  fp_excerpt :: string
  fp_durationOrState :: string
  fp_viewsLabel :: string
  fp_peersLabel :: string
  fp_reactionCounts :: "reaction_kind \<Rightarrow> nat option"

fun reaction_counts :: "nat \<Rightarrow> nat \<Rightarrow> nat \<Rightarrow> reaction_kind \<Rightarrow> nat option" where
  "reaction_counts b s c Boost = Some b"
| "reaction_counts b s c Salvar = Some s"
| "reaction_counts b s c Compartilhar = Some c"

definition mock_posts :: "feed_post list" where
  "mock_posts =
     [\<lparr>fp_id = ''mock-1'',
        fp_creatorName = ''ag'' @ [CHR 0xEA] @ ''ncia paulista'',
        fp_creatorHref = ''/discover'',
        fp_avatarInitials = ''AP'',
        fp_timestamp = ''h'' @ [CHR 0xE1] @ '' 14 min'',
        fp_title = ''c'' @ [CHR 0xE2] @ ''mara de s'' @ [CHR 0xE3] @ ''o paulo '' @ [CHR 0xB7] @ '' sess'' @ [CHR 0xE3] @ ''o extraordin'' @ [CHR 0xE1] @ ''ria sobre or'' @ [CHR 0xE7] @ ''amento 2026'',
        fp_excerpt = ''cobertura ao vivo do plen'' @ [CHR 0xE1] @ ''rio. transmiss'' @ [CHR 0xE3] @ ''o ancorada em base l2; replay dispon'' @ [CHR 0xED] @ ''vel mesmo se a c'' @ [CHR 0xE2] @ ''mara remover o stream oficial.'',
        fp_durationOrState = ''ao vivo '' @ [CHR 0xB7] @ '' 18 min'',
        fp_viewsLabel = ''2.341 visualiza'' @ [CHR 0xE7, CHR 0xF5] @ ''es'',
        fp_peersLabel = ''47 peers compartilhando'',
        fp_reactionCounts = reaction_counts 34 18 7\<rparr>,
      \<lparr>fp_id = ''mock-2'',
        fp_creatorName = ''biblioteca aberta'',
        fp_creatorHref = ''/discover'',
        fp_avatarInitials = ''BA'',
        fp_timestamp = ''h'' @ [CHR 0xE1] @ '' 2 h'',
        fp_title = ''matem'' @ [CHR 0xE1] @ ''tica 9'' @ [CHR 0xBA] @ '' ano '' @ [CHR 0xB7] @ '' sistemas de equa'' @ [CHR 0xE7, CHR 0xF5] @ ''es em 12 minutos'',
        fp_excerpt = ''aula direta da biblioteca p'' @ [CHR 0xFA] @ ''blica de campinas. parte de uma s'' @ [CHR 0xE9] @ ''rie; persistente independente de mudan'' @ [CHR 0xE7] @ ''as de plataforma na escola.'',
        fp_durationOrState = ''12 min '' @ [CHR 0xB7] @ '' vod'',
        fp_viewsLabel = ''18 mil visualiza'' @ [CHR 0xE7, CHR 0xF5] @ ''es'',
        fp_peersLabel = ''112 peers'',
        fp_reactionCounts = reaction_counts 52 81 12\<rparr>]"

definition mock_post_viewers :: "presence_viewer list" where
  "mock_post_viewers =
     [\<lparr>pv_id = ''v1'', pv_avatarUrl = None, pv_name = ''Lucas Andrade''\<rparr>,
      \<lparr>pv_id = ''v2'', pv_avatarUrl = None, pv_name = ''Marina Pires''\<rparr>,
      \<lparr>pv_id = ''v3'', pv_avatarUrl = None, pv_name = ''Elias Ramos''\<rparr>,
      \<lparr>pv_id = ''v4'', pv_avatarUrl = None, pv_name = ''Ana Teixeira''\<rparr>]"

definition mock_creators :: "(string \<times> string \<times> string) list" where
  \<comment> \<open>id, name, region\<close>
  "mock_creators =
     [(''c1'', ''ant'' @ [CHR 0xF4] @ ''nia mendes'', ''jornalismo '' @ [CHR 0xB7] @ '' campinas''),
      (''c2'', ''marcelo rocha'', ''aulas '' @ [CHR 0xB7] @ '' 9'' @ [CHR 0xBA] @ '' ano''),
      (''c3'', ''iara veloso'', ''document'' @ [CHR 0xE1] @ ''rio '' @ [CHR 0xB7] @ '' rural'')]"

record feed_card =
  fc_href :: string
  fc_initials :: string
  fc_creator :: string
  fc_when :: string
  fc_state :: string
  fc_title :: string
  fc_excerpt :: string
  fc_strip :: "string list"
  fc_reach :: string
  fc_presence :: "(avatar list \<times> nat option) option"
  fc_reactions :: "(reaction_kind \<times> bool \<times> string option) list"

definition FeedPostCard :: "feed_post \<Rightarrow> feed_card" where
  "FeedPostCard post =
     \<lparr>fc_href = fp_creatorHref post, fc_initials = fp_avatarInitials post, fc_creator = fp_creatorName post,
      fc_when = fp_timestamp post, fc_state = fp_durationOrState post, fc_title = fp_title post,
      fc_excerpt = fp_excerpt post, fc_strip = PermanenceStrip [Edge_Layer, Providers_Layer],
      fc_reach = fp_viewsLabel post @ '' '' @ [middle_dot] @ '' '' @ fp_peersLabel post,
      fc_presence = PresenceRow mock_post_viewers None (Some 24),
      fc_reactions = ReactionStrip [] (fp_reactionCounts post)\<rparr>"

definition creator_letters :: "string \<Rightarrow> string" where
  \<comment> \<open>\<open>name.split(' ').map((p) => p[0]).join('').slice(0, 2).toUpperCase()\<close>\<close>
  "creator_letters name = to_upper (take 2 (concat (map (take 1) (split_on CHR '' '' name))))"

definition CreatorsGrid :: "(string \<times> string \<times> string) list" where
  "CreatorsGrid = map (\<lambda>(_, name, region). (creator_letters name, name, region)) mock_creators"

subsection \<open>The screen\<close>

record feed_viewer =
  fv_address :: string
  fv_shortAddress :: string
  fv_displayName :: string

definition soon :: string where
  "soon = '' '' @ [middle_dot] @ '' em breve''"

definition FeedChrome :: "feed_viewer option \<Rightarrow> string \<times> string \<times> string" where
  \<comment> \<open>the peers' figure, and target and text of the button at the right\<close>
  "FeedChrome viewer =
     (''21 peers'' @ soon,
      case viewer of
        Some _ \<Rightarrow> (''/wallet'', ''20 cr'' @ [CHR 0xE9] @ ''ditos'' @ soon)
      | None \<Rightarrow> (''/'', ''entrar''))"

record live_slot =
  ls_href :: string
  ls_tile :: live_tile
  ls_slotTitle :: string
  ls_creator :: string

definition live_slot_of :: "live_card \<Rightarrow> live_slot" where
  "live_slot_of live =
     \<lparr>ls_href = ''/live/'' @ lc_uid live, ls_tile = LiveTile (lc_thumbnailUrl live) True None None None,
      ls_slotTitle = lc_title live, ls_creator = lc_creatorDisplayName live\<rparr>"

definition nobody_live :: string where
  "nobody_live = ''ningu'' @ [CHR 0xE9] @ ''m no ar agora. volte em breve, ou inicie sua transmiss'' @ [CHR 0xE3] @ ''o.''"

definition LiveNowStrip :: "live_card list \<Rightarrow> string + live_slot list" where
  "LiveNowStrip lives = (if length lives = 0 then Inl nobody_live else Inr (map live_slot_of lives))"

record feed_view =
  fw_chrome :: "string \<times> string \<times> string"
  fw_ranking :: "(ranking_template \<times> bool) list"
  fw_lives :: "string + live_slot list"
  fw_personas :: "string \<times> string \<times> (string \<times> string) list"
  fw_posts :: "feed_card list"
  fw_creators :: "(string \<times> string \<times> string) list"

definition FeedScreen :: "feed_viewer option \<Rightarrow> live_card list \<Rightarrow> ranking_template list \<Rightarrow> feed_view" where
  \<comment> \<open>after the pills pressed so far; the first state is \<open>padrao\<close>\<close>
  "FeedScreen viewer lives pressed =
     \<lparr>fw_chrome = FeedChrome viewer, fw_ranking = RankingSwitcher (fold (\<lambda>t _. t) pressed Padrao),
      fw_lives = LiveNowStrip lives, fw_personas = PersonasStrip, fw_posts = map FeedPostCard mock_posts,
      fw_creators = CreatorsGrid\<rparr>"

definition feed_viewer_of :: "aevia_session \<Rightarrow> feed_viewer" where
  "feed_viewer_of s =
     \<lparr>fv_address = as_address s, fv_shortAddress = shortAddress (as_address s) 6 4, fv_displayName = as_displayName s\<rparr>"

definition FeedPage ::
  "client_env \<Rightarrow> aevia_session option result \<Rightarrow> live_item list result \<Rightarrow> ranking_template list \<Rightarrow> feed_view" where
  "FeedPage env session liveInputs pressed =
     FeedScreen
       (case session of Inr (Some s) \<Rightarrow> Some (feed_viewer_of s) | _ \<Rightarrow> None)
       (feed_lives env (case liveInputs of Inl _ \<Rightarrow> [] | Inr all \<Rightarrow> all)) pressed"

subsection \<open>What the feed shows\<close>

text \<open>The strip says what the front page of the protocol site says, word for word.\<close>

lemma personas_agree:
  "PersonasStrip = (fst landing_personas_head, snd landing_personas_head, landing_personas) \<and> length DEFAULT_PERSONAS = 8"
  by (simp add: PersonasStrip_def personas_heading_def personas_lead_def landing_personas_head_def DEFAULT_PERSONAS_def
      landing_personas_def)

text \<open>
  Only the lives and the two chips depend on the service and the session: the strip shows the newest
  eight lives on the air, newest first, under their addresses, and a failed service looks like a
  quiet hour.
\<close>

lemma feed_shows_lives:
  "fw_lives (FeedPage env session (Inr all) pressed) =
     (if connected_lives all = [] then Inl nobody_live
      else Inr (map live_slot_of (feed_lives env all))) \<and>
   map (\<lambda>s. ls_href s) (map live_slot_of (feed_lives env all)) = map (\<lambda>l. ''/live/'' @ lv_uid l) (take 8 (connected_lives all)) \<and>
   length (feed_lives env all) \<le> 8 \<and>
   fw_lives (FeedPage env session (Inl e) pressed) = Inl nobody_live"
  by (auto simp: FeedPage_def FeedScreen_def LiveNowStrip_def feed_lives_def live_card_of_def live_slot_of_def Let_def
      connected_lives_def min_def split: if_splits)

lemma feed_pills:
  "pressed \<noteq> [] \<Longrightarrow> filter snd (fw_ranking (FeedPage env session all pressed)) = [(last pressed, True)]"
proof (induction pressed rule: rev_induct)
  case (snoc t ts)
  then show ?case by (cases t) (simp_all add: FeedPage_def FeedScreen_def RankingSwitcher_def)
qed simp

text \<open>The sample posts claim 24 viewers and show four of them and nineteen more.\<close>

lemma sample_presence:
  "\<exists>avatars. fc_presence (FeedPostCard post) = Some (avatars, Some 19) \<and> length avatars = 4"
  by (simp add: FeedPostCard_def PresenceRow_def mock_post_viewers_def Let_def)

lemma sample_creators: "map fst CreatorsGrid = [''AM'', ''MR'', ''IV'']"
  by code_simp

end
