(* ===== verification/GoLiveView.thy ===== *)
theory GoLiveView
  imports GoLive Widgets
begin

text \<open>
  What the broadcaster's screen draws of the state of theory \<open>GoLive\<close>
  (\<open>apps/video/src/components/go-live-screen.tsx\<close>): the preview, the fields, the signature block, the
  choice of the backend, the link to share and the button at the bottom, with the state only the
  view has (description, ranking pill, the copied mark). The texts are the source's; the fixed sample
  of network figures and the icons are left out.
\<close>

subsection \<open>Preview\<close>

datatype preview_overlay = No_Overlay | Tap_To_Start | Asking_Devices

record camera_preview =
  cp_badge :: bool
  cp_overlay :: preview_overlay
  cp_spec :: string
  cp_handle :: string

definition CameraPreview :: "connection_status \<Rightarrow> string \<Rightarrow> camera_preview" where
  "CameraPreview status displayName =
     \<lparr>cp_badge = (status = Cs_Live),
      cp_overlay = (if status = Cs_Idle then Tap_To_Start else if status = Cs_Requesting then Asking_Devices else No_Overlay),
      cp_spec =
        (if status = Cs_Live \<or> status = Cs_Connecting \<or> status = Cs_Ready
         then (''c'' @ [CHR 0xE2] @ ''mera frontal '' @ [CHR 0xB7] @ '' 720p '' @ [CHR 0xB7] @ '' 30fps '' @ [CHR 0xB7] @ '' aac + opus'') else (''preview inativo '' @ [CHR 0xB7] @ '' toque para habilitar'')),
      cp_handle = ''@'' @ displayName\<rparr>"

subsection \<open>Fields\<close>

record go_live_local =
  gv_description :: string
  gv_template :: ranking_template
  gv_copied :: bool

definition go_live_local_init :: go_live_local where
  "go_live_local_init = \<lparr>gv_description = [], gv_template = Padrao, gv_copied = False\<rparr>"

datatype local_event = Edit_Description string | Choose_Template ranking_template | Copied | Copy_Timeout

fun local_step :: "go_live \<Rightarrow> local_event \<Rightarrow> go_live_local \<Rightarrow> go_live_local" where
  \<comment> \<open>the pills are dimmed while live but not disabled; a copy is reported when the clipboard took it\<close>
  "local_step s (Edit_Description d) v = (if fields_locked s then v else v\<lparr>gv_description := d\<rparr>)"
| "local_step s (Choose_Template t) v = v\<lparr>gv_template := t\<rparr>"
| "local_step s Copied v = (if gl_created s = None then v else v\<lparr>gv_copied := True\<rparr>)"
| "local_step s Copy_Timeout v = v\<lparr>gv_copied := False\<rparr>"

fun template_label :: "ranking_template \<Rightarrow> string" where
  "template_label Comunidade = ''comunidade''"
| "template_label Padrao = (''padr'' @ [CHR 0xE3] @ ''o'')"
| "template_label Foco = ''foco''"

definition CurationSection :: "ranking_template \<Rightarrow> bool \<Rightarrow> (string \<times> bool) list \<times> bool" where
  \<comment> \<open>the options, which is checked, and whether they are dimmed\<close>
  "CurationSection template disabled =
     (map (\<lambda>t. (template_label t, template = t)) [Comunidade, Padrao, Foco], disabled)"

subsection \<open>Signature\<close>

record signature_view =
  sg_registering :: bool
  sg_strip :: "string list"
  sg_layers :: string
  sg_signedAs :: string
  sg_recording :: string

definition SignatureSection :: "string \<Rightarrow> string \<Rightarrow> bool \<Rightarrow> signature_view" where
  "SignatureSection did address isLive =
     \<lparr>sg_registering = isLive, sg_strip = PermanenceStrip (if isLive then [Providers_Layer, Edge_Layer] else [Edge_Layer]),
      sg_layers = (if isLive then ''edge + provider nodes'' else ''edge gateway (preview)''),
      sg_signedAs = take 24 did @ [ellipsis] @ slice_end 4 address, sg_recording = (''vod persistente '' @ [CHR 0xB7] @ '' ligado'')\<rparr>"

subsection \<open>Backends\<close>

record backend_option =
  bo_backend :: live_backend
  bo_title :: string
  bo_tag :: string
  bo_description :: string
  bo_active :: bool
  bo_disabled :: bool

definition BackendPicker :: "go_env \<Rightarrow> live_backend \<Rightarrow> bool \<Rightarrow> backend_option list \<times> bool" where
  \<comment> \<open>the options, and whether they are dimmed and deaf to the pointer\<close>
  "BackendPicker env backend disabled =
     ([\<lparr>bo_backend = Cloudflare, bo_title = ''via cloudflare'', bo_tag = (''padr'' @ [CHR 0xE3] @ ''o '' @ [CHR 0xB7] @ '' robusto''),
        bo_description = (''WebRTC ingest + WHEP via Cloudflare Stream. Escala global, lat'' @ [CHR 0xEA] @ ''ncia baixa, VOD autom'' @ [CHR 0xE1] @ ''tico. Cobran'' @ [CHR 0xE7] @ ''a por minuto assistido.''),
        bo_active = (backend = Cloudflare), bo_disabled = False\<rparr>,
       \<lparr>bo_backend = Livepeer, bo_title = ''via livepeer'', bo_tag = (''descentralizado '' @ [CHR 0xB7] @ '' econ'' @ [CHR 0xF4] @ ''mico''),
        bo_description = (''WebRTC via rede p'' @ [CHR 0xFA] @ ''blica Livepeer. Cobran'' @ [CHR 0xE7] @ ''a por minuto codificado (n'' @ [CHR 0xE3] @ ''o por viewer) '' @ [em_dash] @ '' escala melhor para alto fan-out. Replay autom'' @ [CHR 0xE1] @ ''tico no playback id.''),
        bo_active = (backend = Livepeer), bo_disabled = (\<not> ge_livepeer env)\<rparr>,
       \<lparr>bo_backend = Aevia_Mesh, bo_title = ''via rede aevia'', bo_tag = (''experimental '' @ [CHR 0xB7] @ '' soberano''),
        bo_description = (''Ingest direto no provider-node aevia. Zero intermedi'' @ [CHR 0xE1] @ ''rio; cada segmento '' @ [CHR 0xE9] @ '' pinado na rede. HLS ~10s de lat'' @ [CHR 0xEA] @ ''ncia.''),
        bo_active = (backend = Aevia_Mesh), bo_disabled = (\<not> ge_mesh env)\<rparr>],
      disabled)"

subsection \<open>The link and the button\<close>

definition ShareBlock :: "string \<Rightarrow> bool \<Rightarrow> string \<times> string" where
  "ShareBlock url copied = (url, if copied then ''copiado'' else ''copiar'')"

datatype cta_variant = Primary | Destructive | Muted

record cta_view =
  cv_label :: string
  cv_action :: cta \<comment> \<open>what a press does, when the button is not disabled\<close>
  cv_variant :: cta_variant
  cv_disabled :: bool

fun StickyCta :: "connection_status \<Rightarrow> bool \<Rightarrow> cta_view" where
  "StickyCta Cs_Idle can = \<lparr>cv_label = (''habilitar c'' @ [CHR 0xE2] @ ''mera''), cv_action = Cta_Start, cv_variant = Primary, cv_disabled = False\<rparr>"
| "StickyCta Cs_Requesting can =
     \<lparr>cv_label = (''solicitando acesso'' @ [ellipsis]), cv_action = Cta_Start, cv_variant = Muted, cv_disabled = True\<rparr>"
| "StickyCta Cs_Ready can =
     \<lparr>cv_label = (if can then ''ir ao vivo'' else ''aceite a aup para transmitir''), cv_action = Cta_Go_Live,
      cv_variant = Primary, cv_disabled = (\<not> can)\<rparr>"
| "StickyCta Cs_Connecting can = \<lparr>cv_label = (''conectando'' @ [ellipsis]), cv_action = Cta_Start, cv_variant = Muted, cv_disabled = True\<rparr>"
| "StickyCta Cs_Live can =
     \<lparr>cv_label = (''parar transmiss'' @ [CHR 0xE3] @ ''o''), cv_action = Cta_Stop, cv_variant = Destructive, cv_disabled = False\<rparr>"
| "StickyCta Cs_Error can = \<lparr>cv_label = ''tentar novamente'', cv_action = Cta_Start, cv_variant = Primary, cv_disabled = False\<rparr>"

subsection \<open>The screen\<close>

record go_live_view =
  gw_preview :: camera_preview
  gw_title :: "string \<times> bool" \<comment> \<open>with whether it is disabled, as the others\<close>
  gw_description :: "string \<times> bool"
  gw_curation :: "(string \<times> bool) list \<times> bool"
  gw_signature :: signature_view
  gw_backends :: "backend_option list \<times> bool"
  gw_aup :: "bool \<times> bool"
  gw_alert :: "string option"
  gw_share :: "(string \<times> string) option"
  gw_cta :: cta_view

definition GoLiveScreen ::
  "go_env \<Rightarrow> string \<Rightarrow> string \<Rightarrow> string \<Rightarrow> string \<Rightarrow> go_live \<Rightarrow> go_live_local \<Rightarrow> go_live_view" where
  "GoLiveScreen env origin displayName address did s v =
     (let isLive = (gl_status s = Cs_Live) in
      \<lparr>gw_preview = CameraPreview (gl_status s) displayName, gw_title = (gl_title s, isLive),
       gw_description = (gv_description v, isLive), gw_curation = CurationSection (gv_template v) isLive,
       gw_signature = SignatureSection did address isLive, gw_backends = BackendPicker env (gl_backend s) isLive,
       gw_aup = (gl_aupAccepted s, isLive),
       gw_alert = (if truthy (gl_error s) then Some (''erro: '' @ the (gl_error s)) else None),
       gw_share = (if truthy (shareUrl origin s) then Some (ShareBlock (the (shareUrl origin s)) (gv_copied v)) else None),
       gw_cta = StickyCta (gl_status s) (canGoLive s)\<rparr>)"

subsection \<open>What the screen offers\<close>

text \<open>The button on display does what the model of the screen does on a press, and nothing while it is disabled.\<close>

lemma cta_agrees:
  "sticky_cta st can = (if cv_disabled (StickyCta st can) then Cta_Disabled else cv_action (StickyCta st can))"
  by (cases st) simp_all

lemma press_as_shown:
  assumes "cv_disabled (gw_cta (GoLiveScreen env origin n a d s v))"
  shows "press s = s"
  using assms by (simp add: GoLiveScreen_def Let_def press_def cta_agrees)

text \<open>An option that is not disabled is one the environment offers, and the checked one is the backend the next live uses.\<close>

lemma backends_offered:
  "list_all (\<lambda>b. bo_disabled b = (\<not> offered env (bo_backend b)) \<and> bo_active b = (bo_backend b = backend))
     (fst (BackendPicker env backend locked)) \<and>
   map bo_backend (filter bo_active (fst (BackendPicker env backend locked))) = [backend]"
  by (cases backend) (simp_all add: BackendPicker_def offered_def)

text \<open>
  While live the options are deaf to the pointer only: from the keyboard another backend is checked.
  The running live, its link and its button keep theirs.
\<close>

lemma backend_changes_while_live:
  assumes "offered env b"
  shows "gl_backend (go_step env resolve (Choose_Backend b) s) = b \<and>
    shareUrl origin (go_step env resolve (Choose_Backend b) s) = shareUrl origin s \<and>
    gl_created (go_step env resolve (Choose_Backend b) s) = gl_created s \<and>
    gl_status (go_step env resolve (Choose_Backend b) s) = gl_status s"
  using assms by (simp add: shareUrl_def)

text \<open>After an error the preview asks for a tap it no longer takes: only the button at the bottom starts again.\<close>

lemma error_offers_no_tap:
  "cp_spec (CameraPreview Cs_Error n) = cp_spec (CameraPreview Cs_Idle n) \<and> cp_overlay (CameraPreview Cs_Error n) = No_Overlay \<and>
   cv_action (StickyCta Cs_Error can) = Cta_Start"
  by (simp add: CameraPreview_def)

text \<open>The link appears with the live and leads to the page of its backend.\<close>

lemma share_shown:
  "gw_share (GoLiveScreen env origin n a d s v) =
     map_option (\<lambda>c. ShareBlock (origin @ liveRouteForBackend (cl_backend c) @ GoLive.cl_uid c) (gv_copied v)) (gl_created s)"
  by (cases "gl_created s"; cases "cl_backend (the (gl_created s))")
    (simp_all add: GoLiveScreen_def Let_def shareUrl_def liveRouteForBackend_def)

end
