(* ===== verification/Manifest.thy ===== *)
theory Manifest
  imports Did Http
begin

text \<open>
  The manifest of a recording as \<open>packages/protocol/src/manifest.ts\<close> describes it so far: the object
  a parse accepts. What the schema library does with the combinators the file uses (an object that
  is no array, a literal, an enumeration, a pattern, a prefix, an integer with a lower bound) is
  written out.
\<close>

definition manifest_context :: string where
  "manifest_context = ''https://aevia.network/schema/v1''"

definition manifest_types :: "string list" where
  "manifest_types = [''VideoLive'', ''VideoVOD'', ''VideoClip'']"

definition manifest_creator :: "string \<Rightarrow> bool" where
  \<comment> \<open>\<open>/^did:pkh:eip155:8453:0x[0-9a-fA-F]{40}$/\<close>\<close>
  "manifest_creator s =
     (let p = ''did:pkh:eip155:8453:'' in starts_with p s \<and> hex0x 40 (drop (length p) s))"

definition int_at_least_one :: "json option \<Rightarrow> bool" where
  "int_at_least_one v = (case v of Some (JNum (Fin x)) \<Rightarrow> x = of_int \<lfloor>x\<rfloor> \<and> 1 \<le> x | _ \<Rightarrow> False)"

definition text_that :: "(string \<Rightarrow> bool) \<Rightarrow> json option \<Rightarrow> bool" where
  "text_that P v = (case as_str v of None \<Rightarrow> False | Some s \<Rightarrow> P s)"

definition manifestSchemaV0Stub :: "json \<Rightarrow> bool" where
  "manifestSchemaV0Stub v =
     (case v of
        JObj kvs \<Rightarrow>
          text_that (\<lambda>s. s = manifest_context) (jget v ''@context'') \<and>
          text_that (\<lambda>s. s \<in> set manifest_types) (jget v ''type'') \<and>
          text_that manifest_creator (jget v ''creator'') \<and>
          text_that (starts_with ''ipfs://'') (jget v ''contentUrl'') \<and>
          text_that (\<lambda>_. True) (jget v ''mime'') \<and>
          int_at_least_one (jget v ''aupVersion'')
      | _ \<Rightarrow> False)"

lemma pad_digits: "show_nat 8453 = ''8453''"
  by (simp add: show_nat.simps [of 8453] show_nat.simps [of 845] show_nat.simps [of 84] show_nat.simps [of 8])

text \<open>
  A manifest names its creator by the DID of the main network: of the identifiers the application
  derives from an address, exactly those for chain 8453 are accepted, so a manifest of a session
  outside production never parses.
\<close>

lemma manifest_creator_chain:
  assumes "addressToDid a c = Inr did"
  shows "manifest_creator did = (c = 8453)"
proof -
  have a: "address_ok a" and did: "did = did_prefix @ show_nat c @ '':'' @ to_lower a"
    using assms by (auto simp: addressToDid_def split: if_splits)
  have low: "address_ok (to_lower a)" using address_lower [OF a] by (rule lower_address_ok)
  have p: "''did:pkh:eip155:8453:'' = did_prefix @ show_nat 8453 @ '':''"
    by (simp add: did_prefix_def pad_digits)
  show ?thesis
  proof (cases "c = 8453")
    case True
    then have "did = ''did:pkh:eip155:8453:'' @ to_lower a" by (simp add: did p)
    with low True show ?thesis
      by (simp add: manifest_creator_def Let_def starts_with_def address_ok_def)
  next
    case False
    have "\<not> starts_with ''did:pkh:eip155:8453:'' did"
    proof
      assume "starts_with ''did:pkh:eip155:8453:'' did"
      then obtain r where "did = (did_prefix @ show_nat 8453 @ '':'') @ r"
        unfolding p [symmetric] starts_with_def by (metis append_take_drop_id)
      then have eq: "show_nat c @ CHR '':'' # to_lower a = show_nat 8453 @ CHR '':'' # r" by (simp add: did)
      have dig: "takeWhile is_digit (show_nat n @ CHR '':'' # t) = show_nat n" for n t
        using show_nat_digits [of n] by (simp add: takeWhile_append list_all_iff is_digit_def code_def)
      have "show_nat c = show_nat 8453" using dig [of c "to_lower a"] dig [of 8453 r] eq by metis
      with False show False by (simp add: show_nat_inj)
    qed
    with False show ?thesis by (simp add: manifest_creator_def Let_def)
  qed
qed

end
