(* ===== verification/Spec2Isabelle.thy ===== *)
theory Spec2Isabelle
  imports MeshProbe MeshResolve MeshVod MeshP2p ChunkRelay Whep Whip WhepFailover Recorder LiveRoutes Relayer UploadQueue Catalog PlayerScreen GoLive RegisterFlow LivePages NetworkStatus WireTypes Locales Panels PlayerView Entry Widgets RowPanel SitePages Feed GoLiveView Manifest
begin

text \<open>
  Aevia: live video that creators own. This development models the TypeScript of the repository:
  the creator application \<open>apps/video\<close>, the authentication package \<open>packages/auth\<close>, the widgets of
  \<open>packages/ui\<close>, the manifest schema of \<open>packages/protocol\<close> and the protocol site \<open>apps/network\<close>.

  \<^bold>\<open>The program.\<close> A creator signs in through an identity provider (Privy), goes live from the
  browser and gets a link. The stream is published over WHIP to one of three backends: Cloudflare
  Stream, Livepeer or a provider node of Aevia's own mesh. A viewer's page looks the live up, finds
  the providers that serve it (relays answer for a session; providers are probed and ranked), and
  plays it over WHEP with failover, or over HLS with rotation. The broadcast is recorded in the
  browser and uploaded when it ends; the recording can be registered on chain by the creator's
  wallet, or by a relayer that pays for it under a cap. The other pages list lives and creators and
  show the state of the mesh.

  \<^bold>\<open>How it is modelled.\<close> Code that computes is a HOL function of the same name. Code that waits
  (promises, timers, callbacks, React effects) is a state with a step per event: what a peer, a
  server, a device, a clock or the user does is an event, its handler is a function or an inductive
  step, and properties hold for every sequence of events. A background task is an entry of a list,
  numbered by the order in which it was begun, so that it may outlive the call that replaced it, as
  a promise does. Errors are values: \<open>'a result\<close> is the thrown error or the value. \<open>None\<close> is
  \<open>undefined\<close> or \<open>null\<close>, as the comment at the place says. No definition uses fuel: loops over
  lists are structural, \<open>MeshLatency.probe_loop\<close> has a measure, and what may go on for ever (a
  player, a broadcast, a menu) is a run of any length.

  \<^bold>\<open>What every theory uses.\<close>
    \<^item> \<open>Prelude\<close>: results, JSON, numbers (\<open>jsnum\<close>: reals and the three non-finite values), the string
      functions of the language; \<open>JsText\<close>: printing and reading of numbers, hexadecimal, URI encoding
      with their round trips; \<open>JsSort\<close>: \<open>Array.prototype.sort\<close> as a stable sort, and the locale
      \<open>js_comparator\<close> for what a comparison function must satisfy, interpreted on the comparisons of
      \<open>rank.ts\<close>, \<open>probe.ts\<close> and on numbers; \<open>Http\<close>: requests, responses, \<open>fetch\<close> as a function of the
      outside world, and JSON values as objects.

  \<^bold>\<open>The mesh\<close> (\<open>apps/video/src/lib/mesh\<close>, \<open>lib/p2p\<close>, \<open>components/mesh-boot.tsx\<close>).
    \<^item> \<open>MeshRank\<close> (\<open>rank.ts\<close>): regions, distances, the ranking; it returns a permutation, sorted by its
      keys. \<open>MeshLatency\<close> (\<open>latency.ts\<close>): probes and percentiles. \<open>MeshHealth\<close> (\<open>health.ts\<close>): what a
      health check says. \<open>MeshProbe\<close> (\<open>probe.ts\<close>): the fastest reachable provider. \<open>MeshResolve\<close>
      (\<open>resolve.ts\<close>): relays, registry, de-duplication. \<open>MeshVod\<close> (\<open>vod.ts\<close>): manifests of closed
      sessions.
    \<^item> \<open>MeshP2p\<close> (\<open>p2p.ts\<close>): one libp2p node, its topic, heartbeat and handlers. \<open>MeshBoot\<close>: the
      component that owns it; every node is stopped once. \<open>ChunkRelay\<close> (\<open>chunk-relay.ts\<close>): swarm and
      counters.

  \<^bold>\<open>WebRTC\<close> (\<open>apps/video/src/lib/webrtc\<close>).
    \<^item> \<open>WebrtcIce\<close> (\<open>ice.ts\<close>), with the locale \<open>resource_session\<close>: what the end of a session owes its
      peer connection and its server resource; interpreted by \<open>Whep\<close> and \<open>Whip\<close>.
    \<^item> \<open>Whep\<close> (\<open>whep.ts\<close>): a viewer's session with its metrics; \<open>Whip\<close> (\<open>whip.ts\<close>): publishing, with
      simulcast and its fallback; \<open>WhepFailover\<close> (\<open>whep-failover.ts\<close>): walking the candidates, as a
      loop that waits, its invariant and its stop; \<open>Recorder\<close> (\<open>recorder.ts\<close>): chunks to one blob.

  \<^bold>\<open>Who is asking\<close> (\<open>packages/auth/src\<close>, \<open>middleware.ts\<close>, \<open>lib\<close>).
    \<^item> \<open>Did\<close> (\<open>did.ts\<close>, \<open>chains.ts\<close>, \<open>lib/chain.ts\<close>), \<open>AuthSession\<close> (\<open>server.ts\<close>, \<open>verify-edge.ts\<close>),
      \<open>PublisherToken\<close>, \<open>RegisterContent\<close> (typed data and its hash), \<open>AppShell\<close> (\<open>env.ts\<close>,
      \<open>middleware.ts\<close>, \<open>safe-next.ts\<close>).
    \<^item> \<open>Entry\<close>: front page, sign-in, providers; who is turned away comes back to the page.

  \<^bold>\<open>The server\<close> (\<open>apps/video/src/app/api\<close>, \<open>lib/cloudflare\<close>, \<open>lib/livepeer\<close>).
    \<^item> \<open>StreamClient\<close>: both video services, and the upload metadata; \<open>RegisterMeta\<close>: ownership and
      registration metadata; \<open>LiveRoutes\<close>: the routes of a live, the WHIP proxy and TURN credentials;
      \<open>Relayer\<close>: sponsored registration and its daily cap, with the locale \<open>owner_counter\<close>,
      interpreted on the counter the isolate keeps.
    \<^item> \<open>WireTypes\<close>: the routes answer with the types their callers assert. \<open>Manifest\<close>
      (\<open>packages/protocol\<close>): what the schema of manifests accepts so far.

  \<^bold>\<open>The screens\<close> (\<open>apps/video/src/components\<close>, \<open>app\<close>).
    \<^item> \<open>GoLive\<close> (\<open>go-live-screen.tsx\<close>) over \<open>Whip\<close>, \<open>Recorder\<close> and \<open>UploadQueue\<close>
      (\<open>upload-context.tsx\<close>), which refines the life cycle of an upload; \<open>Panels\<close>: upload banner and OBS
      panel; \<open>RegisterFlow\<close> (\<open>live-row.tsx\<close>): both registration flows, and their agreement with
      \<open>Relayer\<close>; \<open>RowPanel\<close>: the row of the dashboard around them, with renaming and deleting, as guarded
      events over its reachable states; \<open>GoLiveView\<close>: what the broadcaster's screen draws.
    \<^item> \<open>PlayerHls\<close> and \<open>PlayerScreen\<close> (\<open>player-screen.tsx\<close>): the engines, the orchestrated WHEP path over
      \<open>WhepFailover\<close> and \<open>Whep\<close>, clean-up, and the change to the replay; \<open>PlayerView\<close>: what is drawn of
      that state, and the mesh component it mounts; \<open>LivePages\<close>: the pages that open the player and the
      dashboard's server actions.
    \<^item> \<open>Catalog\<close>: feed, discovery, creators, channels, dashboard lists; \<open>Screens\<close>: transparency page over
      \<open>MeshResolve\<close>, \<open>MeshHealth\<close> and \<open>MeshLatency\<close>, wallet, studio, channel, navigation; \<open>Widgets\<close>: counts,
      presence, layers, and the menu of the site; \<open>Feed\<close>: the home feed over both.

  \<^bold>\<open>The protocol site\<close> (\<open>apps/network/src\<close>). \<open>NetworkStatus\<close>: the status route and the map of the
  providers; \<open>Locales\<close>: the addresses of the two-language site; \<open>SitePages\<close>: its pages as a web of links,
  none of them dead, and the index of the specification in both languages.

  \<^bold>\<open>What the properties show\<close>, each after a numbered text in the theory of its component: ranking,
  probing, resolving and the status route answer what their inputs say, each provider once and in its
  place; failover, metrics, the end of a session, publishing and recording
  keep their contracts over every order of events; nodes and relays stay within their session and
  are stopped; sessions, identifiers, tokens and upload metadata are what they claim and read back;
  the relayer spends only on checked requests and under its cap; the routes refuse strangers, limit
  what a token opens and answer with the declared types; uploads refine their life cycle, the index
  of creators equals its reference, rotation over playlists ends, a stopped player plays nothing and
  a recording is handed over once; a registration ends where the creator sees it, a row of the dashboard
  registers its live once, and both sides of a sponsored registration agree; who is turned
  away at the gate comes back after signing in; a page keeps its
  address in both languages. The lemmas before a property are the facts it rests on; those after a
  text of their own show behaviour worth knowing, also where the code does not do what a comment or
  a label of it says.

  \<^bold>\<open>What is outside\<close>, and enters as a parameter or as events: \<open>fetch\<close> and the services behind it,
  the identity provider and its verification of tokens, \<open>jose\<close>, viem's chain metadata and its
  contract calls, \<open>keccak256\<close>, wallets, the KV store, tus, hls.js, p2p-media-loader, libp2p, the
  browser's peer connections, media devices, recorder, clipboard, timers and URL parser, \<open>Date.parse\<close>,
  the collation of \<open>localeCompare\<close>, the text of a double that is no integer, the map projection.

  \<^bold>\<open>What is not modelled.\<close> Rounding of doubles: numbers are reals, so results hold up to it. Code units
  above 255, for which the few texts that need them have stand-ins. Markup, style and icons: a screen
  is modelled by what it computes, shows and calls. Static text (policies, the white paper, the
  specification documents, most of the dictionaries), image and manifest files, error reporting and its
  example pages, build and test configuration, which hold no logic of their own. The Go services and
  the Solidity contracts of the repository: the browser and the server only call them, and their
  answers are events here.
\<close>

end
